(* ===== verification/Prelude.thy ===== *)
theory Prelude
  imports Main "HOL-Library.Char_ord" "HOL-Library.List_Lexorder"
begin

text \<open>
  What every component shares: the model's basic types, the Python string and list operations
  the source uses, the rows of a table and the two statements the code runs on them (a keyed or
  filtered \<open>SELECT ... LIMIT 1\<close>, an \<open>UPDATE ... WHERE\<close>), and the collections of hints.
  Strings are ASCII: \<open>casefold\<close> and \<open>lower\<close> are the ASCII case mapping, white space is
  ASCII white space.
\<close>

named_theorems row_simps \<open>rows: lookup and update\<close>
named_theorems str_simps \<open>Python string operations\<close>

type_synonym uuid = nat
type_synonym datetime = int \<comment> \<open>an instant, in microseconds since the epoch, UTC\<close>
type_synonym duration = int \<comment> \<open>a \<open>timedelta\<close>, in microseconds\<close>

definition seconds :: "int \<Rightarrow> duration" where "seconds n = n * 1000000"
definition minutes :: "int \<Rightarrow> duration" where "minutes n = seconds (60 * n)"
definition hours :: "int \<Rightarrow> duration" where "hours n = minutes (60 * n)"
definition days :: "int \<Rightarrow> duration" where "days n = hours (24 * n)"

text \<open>\<open>timedelta.days\<close>: floor division by one day.\<close>

definition td_days :: "duration \<Rightarrow> int" where
  "td_days d = d div days 1"

lemmas time_defs = seconds_def minutes_def hours_def days_def

lemma td_days_nonneg: "0 \<le> d \<Longrightarrow> 0 \<le> td_days d"
  by (simp add: td_days_def time_defs pos_imp_zdiv_nonneg_iff)

section \<open>Strings\<close>

definition lower_char :: "char \<Rightarrow> char" where
  "lower_char c = (if CHR ''A'' \<le> c \<and> c \<le> CHR ''Z'' then char_of (of_char c + 32 :: nat) else c)"

definition casefold :: "string \<Rightarrow> string" where
  "casefold = map lower_char"

definition is_space :: "char \<Rightarrow> bool" where
  "is_space c \<longleftrightarrow>
     (let n = (of_char c :: nat) in n = 32 \<or> (9 \<le> n \<and> n \<le> 13) \<or> (28 \<le> n \<and> n \<le> 31))"

definition is_digit :: "char \<Rightarrow> bool" where
  "is_digit c \<longleftrightarrow> CHR ''0'' \<le> c \<and> c \<le> CHR ''9''"

text \<open>\<open>s.strip()\<close> and \<open>s.strip(chars)\<close>.\<close>

definition strip_by :: "(char \<Rightarrow> bool) \<Rightarrow> string \<Rightarrow> string" where
  "strip_by P s = rev (dropWhile P (rev (dropWhile P s)))"

definition strip :: "string \<Rightarrow> string" where
  "strip = strip_by is_space"

text \<open>\<open>s.split()\<close>: the maximal runs of non-space characters. The accumulator is reversed.\<close>

fun split_acc :: "(char \<Rightarrow> bool) \<Rightarrow> string \<Rightarrow> string \<Rightarrow> string list" where
  "split_acc P acc [] = (if acc = [] then [] else [rev acc])"
| "split_acc P acc (c # cs) =
     (if P c then (if acc = [] then split_acc P [] cs else rev acc # split_acc P [] cs)
      else split_acc P (c # acc) cs)"

definition split_ws :: "string \<Rightarrow> string list" where
  "split_ws = split_acc is_space []"

fun join :: "string \<Rightarrow> string list \<Rightarrow> string" where
  "join sep [] = []"
| "join sep [x] = x"
| "join sep (x # y # ys) = x @ sep @ join sep (y # ys)"

fun starts_with :: "string \<Rightarrow> string \<Rightarrow> bool" where
  "starts_with [] s = True"
| "starts_with (p # ps) [] = False"
| "starts_with (p # ps) (c # cs) = (p = c \<and> starts_with ps cs)"

text \<open>\<open>p in s\<close>.\<close>

fun contains :: "string \<Rightarrow> string \<Rightarrow> bool" where
  "contains p [] = (p = [])"
| "contains p (c # cs) = (starts_with p (c # cs) \<or> contains p cs)"

text \<open>\<open>s.replace(old, new)\<close> for a non-empty \<open>old\<close>; the fuel is the length of \<open>s\<close>.\<close>

fun replace_fuel :: "nat \<Rightarrow> string \<Rightarrow> string \<Rightarrow> string \<Rightarrow> string" where
  "replace_fuel 0 old new s = s"
| "replace_fuel (Suc n) old new [] = []"
| "replace_fuel (Suc n) old new (c # cs) =
     (if starts_with old (c # cs) then new @ replace_fuel n old new (drop (length old) (c # cs))
      else c # replace_fuel n old new cs)"

definition replace :: "string \<Rightarrow> string \<Rightarrow> string \<Rightarrow> string" where
  "replace old new s = replace_fuel (length s) old new s"

text \<open>The decimal digits of a number, \<open>str(n)\<close>.\<close>

fun str_nat :: "nat \<Rightarrow> string" where
  "str_nat n =
     (if n < 10 then [char_of (48 + n)] else str_nat (n div 10) @ [char_of (48 + n mod 10)])"

declare str_nat.simps [simp del]

definition truthy :: "string option \<Rightarrow> bool" where
  "truthy s \<longleftrightarrow> (case s of None \<Rightarrow> False | Some t \<Rightarrow> t \<noteq> [])"

lemma starts_with_append [str_simps]: "starts_with p s \<longleftrightarrow> (\<exists>t. s = p @ t)"
  by (induction p s rule: starts_with.induct) auto

lemma contains_append [str_simps]: "contains p s \<longleftrightarrow> (\<exists>a b. s = a @ p @ b)"
proof (induction s)
  case (Cons c cs)
  have "(\<exists>a b. c # cs = a @ p @ b) \<longleftrightarrow> (\<exists>b. c # cs = p @ b) \<or> (\<exists>a b. cs = a @ p @ b)"
  proof
    assume "\<exists>a b. c # cs = a @ p @ b"
    then obtain a b where "c # cs = a @ p @ b" by blast
    then show "(\<exists>b. c # cs = p @ b) \<or> (\<exists>a b. cs = a @ p @ b)" by (cases a) auto
  next
    assume "(\<exists>b. c # cs = p @ b) \<or> (\<exists>a b. cs = a @ p @ b)"
    then show "\<exists>a b. c # cs = a @ p @ b" by (metis append_Cons append_Nil)
  qed
  then show ?case by (simp add: Cons.IH starts_with_append)
qed auto

lemma length_casefold [simp]: "length (casefold s) = length s"
  by (simp add: casefold_def)

lemma casefold_append [simp]: "casefold (s @ t) = casefold s @ casefold t"
  by (simp add: casefold_def)

lemma lower_char_idem [simp]: "lower_char (lower_char c) = lower_char c"
proof -
  have "lower_char (char_of n) = char_of n" if "97 \<le> n" "n < 123" for n :: nat
    using that by (simp add: lower_char_def less_eq_char_def)
  moreover have "65 \<le> (of_char c :: nat) \<and> (of_char c :: nat) \<le> 90"
    if "CHR ''A'' \<le> c \<and> c \<le> CHR ''Z''"
    using that by (simp add: less_eq_char_def)
  ultimately show ?thesis by (auto simp: lower_char_def [of c])
qed

lemma casefold_idem [simp]: "casefold (casefold s) = casefold s"
  by (simp add: casefold_def)

lemma str_nat_digits: "c \<in> set (str_nat n) \<Longrightarrow> is_digit c"
proof (induction n rule: str_nat.induct)
  case (1 n)
  have d: "is_digit (char_of (48 + k))" if "k < 10" for k :: nat
    using that by (simp add: is_digit_def less_eq_char_def)
  show ?case using 1 d [of n] d [of "n mod 10"] by (auto simp: str_nat.simps [of n] split: if_splits)
qed

lemma str_nat_inj: "str_nat m = str_nat n \<Longrightarrow> m = n"
proof (induction m arbitrary: n rule: str_nat.induct)
  case (1 m)
  have inj: "char_of (48 + j) = char_of (48 + k) \<Longrightarrow> j < 10 \<Longrightarrow> k < 10 \<Longrightarrow> j = k" for j k :: nat
    by (auto dest: arg_cong [where f = "of_char :: char \<Rightarrow> nat"])
  have ne: "str_nat k \<noteq> []" for k by (subst str_nat.simps) simp
  show ?case
  proof (cases "m < 10"; cases "n < 10")
    assume "m < 10" "n < 10"
    then show ?thesis using "1.prems" inj by (simp add: str_nat.simps [of m] str_nat.simps [of n])
  next
    assume a: "\<not> m < 10" "\<not> n < 10"
    then have "str_nat (m div 10) = str_nat (n div 10)" "m mod 10 = n mod 10"
      using "1.prems" inj [of "m mod 10" "n mod 10"]
      by (simp_all add: str_nat.simps [of m] str_nat.simps [of n])
    moreover from this(1) have "m div 10 = n div 10" using "1.IH" a(1) by blast
    ultimately show ?thesis by (metis mult_div_mod_eq)
  qed (use "1.prems" ne in \<open>auto simp: str_nat.simps [of m] str_nat.simps [of n] Cons_eq_append_conv append_eq_Cons_conv\<close>)
qed

section \<open>Rows\<close>

text \<open>\<open>session.get\<close> and \<open>session.scalar(select(T).where(...))\<close>: the first row that matches.\<close>

definition get_row :: "('r \<Rightarrow> 'k) \<Rightarrow> 'k \<Rightarrow> 'r list \<Rightarrow> 'r option" where
  "get_row pk k rs = find (\<lambda>r. pk r = k) rs"

definition first_row :: "('r \<Rightarrow> bool) \<Rightarrow> 'r list \<Rightarrow> 'r option" where
  "first_row P rs = find P rs"

text \<open>\<open>UPDATE T SET ... WHERE P\<close>, and the flush of one changed object.\<close>

definition upd_where :: "('r \<Rightarrow> bool) \<Rightarrow> ('r \<Rightarrow> 'r) \<Rightarrow> 'r list \<Rightarrow> 'r list" where
  "upd_where P f rs = map (\<lambda>r. if P r then f r else r) rs"

definition upd_row :: "('r \<Rightarrow> 'k) \<Rightarrow> 'k \<Rightarrow> ('r \<Rightarrow> 'r) \<Rightarrow> 'r list \<Rightarrow> 'r list" where
  "upd_row pk k f rs = upd_where (\<lambda>r. pk r = k) f rs"

lemma get_row_Nil [row_simps]: "get_row pk k [] = None"
  by (simp add: get_row_def)

lemma get_row_append [row_simps]:
  "get_row pk k (rs @ qs) = (case get_row pk k rs of None \<Rightarrow> get_row pk k qs | Some r \<Rightarrow> Some r)"
  by (induction rs) (auto simp: get_row_def)

lemma get_row_Cons [row_simps]:
  "get_row pk k (r # rs) = (if pk r = k then Some r else get_row pk k rs)"
  by (simp add: get_row_def)

lemma get_row_Some: "get_row pk k rs = Some r \<Longrightarrow> r \<in> set rs \<and> pk r = k"
  by (auto simp: get_row_def find_Some_iff)

lemma get_row_None: "get_row pk k rs = None \<longleftrightarrow> k \<notin> pk ` set rs"
  by (auto simp: get_row_def find_None_iff)

lemma get_row_unique:
  "distinct (map pk rs) \<Longrightarrow> r \<in> set rs \<Longrightarrow> get_row pk (pk r) rs = Some r"
  by (induction rs) (auto simp: get_row_def)

lemma first_row_Some: "first_row P rs = Some r \<Longrightarrow> r \<in> set rs \<and> P r"
  by (auto simp: first_row_def find_Some_iff)

lemma first_row_None: "first_row P rs = None \<longleftrightarrow> (\<forall>r \<in> set rs. \<not> P r)"
  by (auto simp: first_row_def find_None_iff)

lemma get_upd_row [row_simps]:
  assumes "\<And>r. pk (f r) = pk r"
  shows "get_row pk k (upd_row pk j f rs) =
    (if k = j then map_option f (get_row pk k rs) else get_row pk k rs)"
  by (induction rs) (auto simp: get_row_def upd_row_def upd_where_def assms)

lemma map_pk_upd_where [row_simps]:
  "(\<And>r. pk (f r) = pk r) \<Longrightarrow> map pk (upd_where P f rs) = map pk rs"
  by (simp add: upd_where_def)

lemma map_pk_upd_row [row_simps]:
  "(\<And>r. pk (f r) = pk r) \<Longrightarrow> map pk (upd_row j k f rs) = map pk rs"
  by (simp add: upd_row_def map_pk_upd_where)

lemma set_upd_where: "set (upd_where P f rs) = {if P r then f r else r |r. r \<in> set rs}"
  by (auto simp: upd_where_def)

lemma in_upd_whereE:
  assumes "r' \<in> set (upd_where P f rs)"
  obtains r where "r \<in> set rs" and "r' = (if P r then f r else r)"
  using assms by (auto simp: upd_where_def)

lemma in_upd_row: "r \<in> set rs \<Longrightarrow> f r \<in> set (upd_row pk (pk r) f rs)"
  by (force simp: upd_row_def upd_where_def)

lemma bex_upd_row: "r \<in> set rs \<Longrightarrow> Q (f r) \<Longrightarrow> \<exists>b \<in> set (upd_row pk (pk r) f rs). Q b"
  by (rule bexI [OF _ in_upd_row])

lemma first_row_append [row_simps]:
  "first_row P (rs @ qs) = (case first_row P rs of None \<Rightarrow> first_row P qs | Some r \<Rightarrow> Some r)"
  by (induction rs) (auto simp: first_row_def)

lemma first_row_upd [row_simps]:
  assumes "\<And>r. Q (f r) = Q r"
  shows "first_row Q (upd_where P f rs) = map_option (\<lambda>r. if P r then f r else r) (first_row Q rs)"
  by (induction rs) (auto simp: first_row_def upd_where_def assms)

lemma length_upd_where [simp]: "length (upd_where P f rs) = length rs"
  by (simp add: upd_where_def)

lemma length_upd_row [simp]: "length (upd_row pk k f rs) = length rs"
  by (simp add: upd_row_def)

lemma upd_row_absent: "k \<notin> pk ` set rs \<Longrightarrow> upd_row pk k f rs = rs"
  by (auto simp: upd_row_def upd_where_def intro!: map_idI)

end
