(* ===== verification/Types.thy ===== *)
theory Types
  imports Prelude
begin

text \<open>
  \<open>app/types.py\<close> and \<open>app/errors.py\<close>: the enumerations as datatypes with the source's members,
  their string values, the role table, and the application errors as values. \<open>exn\<close> adds the
  other Python exceptions the code lets escape or catches, by class name and message.
\<close>

section \<open>Enumerations\<close>

datatype UserRole = OWNER | PARTNER | ANALYST | VIEWER | SERVICE
datatype OrgPlan = DEMO | STANDARD
datatype SourceTier = PRIMARY | VERIFIED_THIRD_PARTY | AGGREGATOR | SELF_REPORTED | INFERRED
datatype SourceStatus = ACTIVE | DEGRADED | DISABLED | NO_CREDENTIALS

datatype SignalKind =
    REPO_ACTIVITY | RELEASE | PACKAGE_PUBLISH | PAPER | PATENT | HACKATHON_RESULT
  | ACCELERATOR_COHORT | LAUNCH_POST | FORUM_POST | SOCIAL_POST | PRESS | JOB_POST
  | FUNDING_FILING | COMPANY_REGISTRY | DOMAIN_REGISTRATION | TLS_CERTIFICATE | WEBSITE_CHANGE
  | DECK_SLIDE | INTERVIEW | APP_RELEASE | DATASET_MODEL_PUBLISH | SIGNAL_OTHER

datatype OpportunityStage =
  SOURCED | SCREENING | SCREENED | DILIGENCE | DECISION | DECIDED | ARCHIVED
datatype OpportunityOrigin = INBOUND | OUTBOUND | MANUAL
datatype DecisionKind = INVEST | PASS | WATCHLIST | NEEDS_HUMAN
datatype AxisKind = FOUNDER | MARKET | IDEA_VS_MARKET
datatype TrendKind = IMPROVING | STABLE | DECLINING | INSUFFICIENT_DATA
datatype MarketStance = BULLISH | NEUTRAL | BEAR
datatype ClaimStatus =
  VERIFIED | CORROBORATED | CLAIMED | CONTRADICTED | NOT_DISCLOSED | UNVERIFIABLE
datatype ClaimCategory =
    C_TRACTION | C_REVENUE | C_TEAM | C_MARKET | C_PRODUCT | C_TECHNOLOGY | C_FUNDING | C_LEGAL
  | C_OTHER
datatype JobStatus = QUEUED | RUNNING | SUCCEEDED | FAILED | CANCELLED | PARTIAL
datatype OutreachStatus =
  SUGGESTED | APPROVED | SENT | REPLIED | APPLIED | DECLINED | BOUNCED
datatype ApplicationStatus =
    RECEIVED | PARSING | APP_SCREENING | NEEDS_INFO | IN_DILIGENCE | APP_DECIDED
  | REJECTED_PRESCREEN | APP_ERROR

section \<open>Their values\<close>

fun stage_value :: "OpportunityStage \<Rightarrow> string" where
  "stage_value SOURCED = ''sourced''"
| "stage_value SCREENING = ''screening''"
| "stage_value SCREENED = ''screened''"
| "stage_value DILIGENCE = ''diligence''"
| "stage_value DECISION = ''decision''"
| "stage_value DECIDED = ''decided''"
| "stage_value ARCHIVED = ''archived''"

fun origin_value :: "OpportunityOrigin \<Rightarrow> string" where
  "origin_value INBOUND = ''inbound''"
| "origin_value OUTBOUND = ''outbound''"
| "origin_value MANUAL = ''manual''"

fun decision_value :: "DecisionKind \<Rightarrow> string" where
  "decision_value INVEST = ''invest''"
| "decision_value PASS = ''pass''"
| "decision_value WATCHLIST = ''watchlist''"
| "decision_value NEEDS_HUMAN = ''needs_human''"

fun axis_value :: "AxisKind \<Rightarrow> string" where
  "axis_value FOUNDER = ''founder''"
| "axis_value MARKET = ''market''"
| "axis_value IDEA_VS_MARKET = ''idea_vs_market''"

fun claim_status_value :: "ClaimStatus \<Rightarrow> string" where
  "claim_status_value VERIFIED = ''verified''"
| "claim_status_value CORROBORATED = ''corroborated''"
| "claim_status_value CLAIMED = ''claimed''"
| "claim_status_value CONTRADICTED = ''contradicted''"
| "claim_status_value NOT_DISCLOSED = ''not_disclosed''"
| "claim_status_value UNVERIFIABLE = ''unverifiable''"

definition all_claim_status :: "ClaimStatus list" where
  "all_claim_status =
     [VERIFIED, CORROBORATED, CLAIMED, CONTRADICTED, NOT_DISCLOSED, UNVERIFIABLE]"

fun category_value :: "ClaimCategory \<Rightarrow> string" where
  "category_value C_TRACTION = ''traction''"
| "category_value C_REVENUE = ''revenue''"
| "category_value C_TEAM = ''team''"
| "category_value C_MARKET = ''market''"
| "category_value C_PRODUCT = ''product''"
| "category_value C_TECHNOLOGY = ''technology''"
| "category_value C_FUNDING = ''funding''"
| "category_value C_LEGAL = ''legal''"
| "category_value C_OTHER = ''other''"

fun job_status_value :: "JobStatus \<Rightarrow> string" where
  "job_status_value QUEUED = ''queued''"
| "job_status_value RUNNING = ''running''"
| "job_status_value SUCCEEDED = ''succeeded''"
| "job_status_value FAILED = ''failed''"
| "job_status_value CANCELLED = ''cancelled''"
| "job_status_value PARTIAL = ''partial''"

fun role_value :: "UserRole \<Rightarrow> string" where
  "role_value OWNER = ''owner''"
| "role_value PARTNER = ''partner''"
| "role_value ANALYST = ''analyst''"
| "role_value VIEWER = ''viewer''"
| "role_value SERVICE = ''service''"

section \<open>Permissions\<close>

datatype Permission = READ | SCREEN | DECIDE | THESIS_WRITE | ORG_ADMIN | ADMIN

fun permission_value :: "Permission \<Rightarrow> string" where
  "permission_value READ = ''read''"
| "permission_value SCREEN = ''opportunities:screen''"
| "permission_value DECIDE = ''opportunities:decide''"
| "permission_value THESIS_WRITE = ''theses:write''"
| "permission_value ORG_ADMIN = ''org:admin''"
| "permission_value ADMIN = ''admin''"

definition all_permissions :: "Permission list" where
  "all_permissions = [READ, SCREEN, DECIDE, THESIS_WRITE, ORG_ADMIN, ADMIN]"

fun ROLE_PERMISSIONS :: "UserRole \<Rightarrow> Permission list" where
  "ROLE_PERMISSIONS OWNER = all_permissions"
| "ROLE_PERMISSIONS PARTNER = [READ, SCREEN, DECIDE, THESIS_WRITE]"
| "ROLE_PERMISSIONS ANALYST = [READ, SCREEN]"
| "ROLE_PERMISSIONS VIEWER = [READ]"
| "ROLE_PERMISSIONS SERVICE = [READ, SCREEN, ADMIN]"

lemma permission_value_inj [simp]: "permission_value p = permission_value q \<longleftrightarrow> p = q"
  by (cases p; cases q) simp_all

lemma claim_status_value_inj [simp]: "claim_status_value s = claim_status_value t \<longleftrightarrow> s = t"
  by (cases s; cases t) simp_all

lemma category_value_inj [simp]: "category_value s = category_value t \<longleftrightarrow> s = t"
  by (cases s; cases t) simp_all

lemma axis_value_inj [simp]: "axis_value s = axis_value t \<longleftrightarrow> s = t"
  by (cases s; cases t) simp_all

lemma stage_value_inj [simp]: "stage_value s = stage_value t \<longleftrightarrow> s = t"
  by (cases s; cases t) simp_all

lemma all_permissions_complete: "p \<in> set all_permissions"
  by (cases p) (simp_all add: all_permissions_def)

lemma all_claim_status_complete: "s \<in> set all_claim_status"
  by (cases s) (simp_all add: all_claim_status_def)

section \<open>Errors\<close>

record app_error =
  err_code :: string
  err_message :: string
  err_status :: nat
  err_details :: "(string \<times> string) list"
  err_fields :: "(string \<times> string \<times> string) list" \<comment> \<open>field, code, message\<close>
  err_retryable :: bool
  err_retry_after_s :: "nat option"

text \<open>\<open>AppError(code, message, status_code=...)\<close> with the other keyword arguments defaulted.\<close>

definition AppError :: "string \<Rightarrow> string \<Rightarrow> nat \<Rightarrow> app_error" where
  "AppError code msg status =
     \<lparr>err_code = code, err_message = msg, err_status = status, err_details = [], err_fields = [],
      err_retryable = False, err_retry_after_s = None\<rparr>"

definition NotFoundError :: "string \<Rightarrow> app_error" where
  "NotFoundError resource = AppError ''NOT_FOUND'' (resource @ '' was not found.'') 404"

definition ConflictError :: "string \<Rightarrow> string \<Rightarrow> app_error" where
  "ConflictError msg code = AppError code msg 409"

definition ForbiddenError :: app_error where
  "ForbiddenError =
     AppError ''FORBIDDEN'' ''You do not have permission to perform this action.'' 403"

definition UnauthenticatedError :: "string \<Rightarrow> string \<Rightarrow> app_error" where
  "UnauthenticatedError code msg = AppError code msg 401"

definition Unauthenticated :: app_error where
  "Unauthenticated = UnauthenticatedError ''UNAUTHENTICATED'' ''Authentication required.''"

definition ValidationError :: "string \<Rightarrow> app_error" where
  "ValidationError msg = AppError ''VALIDATION_ERROR'' msg 400"

lemmas error_defs = AppError_def NotFoundError_def ConflictError_def ForbiddenError_def
  UnauthenticatedError_def Unauthenticated_def ValidationError_def

text \<open>The body of an error response, \<open>error_payload\<close>, without the request object.\<close>

record error_body =
  eb_code :: string
  eb_message :: string
  eb_field_errors :: "(string \<times> string \<times> string) list"
  eb_details :: "(string \<times> string) list"
  eb_retryable :: bool
  eb_retry_after_s :: "nat option"
  eb_request_id :: string
  eb_docs :: string

definition error_payload :: "string option \<Rightarrow> app_error \<Rightarrow> error_body" where
  "error_payload request_id e =
     \<lparr>eb_code = err_code e, eb_message = err_message e, eb_field_errors = err_fields e,
      eb_details = err_details e, eb_retryable = err_retryable e,
      eb_retry_after_s = err_retry_after_s e,
      eb_request_id = (case request_id of None \<Rightarrow> ''unknown'' | Some r \<Rightarrow> r),
      eb_docs = ''https://docs.vcbrain.local/errors#'' @ err_code e\<rparr>"

text \<open>The handler of \<open>AppError\<close>: status, body and the \<open>Retry-After\<close> header.\<close>

definition handle_app_error ::
  "string option \<Rightarrow> app_error \<Rightarrow> nat \<times> error_body \<times> (string \<times> string) list" where
  "handle_app_error request_id e =
     (err_status e, error_payload request_id e,
      case err_retry_after_s e of None \<Rightarrow> [] | Some s \<Rightarrow> [(''Retry-After'', str_nat s)])"

datatype exn =
    App app_error
  | IntegrityError
  | PyExn string string \<comment> \<open>class name, message\<close>

text \<open>
  What the installed handlers answer: an application error with its own body, an integrity error
  as a 409 conflict. Any other exception has no handler (the server's plain 500).
\<close>

fun handled_error :: "exn \<Rightarrow> app_error option" where
  "handled_error (App e) = Some e"
| "handled_error IntegrityError =
     Some (ConflictError ''The request conflicts with an existing resource.'' ''CONFLICT'')"
| "handled_error (PyExn c m) = None"

end
