(* ===== verification/Models.thy ===== *)
theory Models
  imports Types Complex_Main
begin

text \<open>
  \<open>app/db/models.py\<close> and \<open>app/db/session.py\<close>: one record per table, with the source's columns
  (the column prefix names the table), the database as the lists of its rows in insertion order,
  and a session: the state this transaction sees and the state last committed. Leaving a session
  without a commit drops what was not committed. The time stamps that the database maintains
  (\<open>created_at\<close>, \<open>updated_at\<close>, \<open>ingested_at\<close>, \<open>retrieved_at\<close> and the like) are kept where the code reads them. A \<open>Numeric\<close> column is a \<open>rat\<close>, a JSON
  column a \<open>json\<close> value or the list it always holds, a UUID a number that the database never
  hands out twice; the identifiers of pages, steps, calls, edges and audit rows, which nothing
  refers to, are left out. A JSON string that holds the text of a UUID is \<open>JUuid\<close>.
\<close>

section \<open>JSON values\<close>

datatype json =
    JNull
  | JBool bool
  | JNum rat
  | JStr string
  | JUuid uuid
  | JList "json list"
  | JObj "(string \<times> json) list"

text \<open>\<open>d.get(key)\<close> on a dict; the later of two entries wins when \<open>{**d, ...}\<close> overrides one.\<close>

fun jget :: "string \<Rightarrow> json \<Rightarrow> json option" where
  "jget k (JObj kvs) = map_of kvs k"
| "jget k _ = None"

fun jset :: "string \<Rightarrow> json \<Rightarrow> json \<Rightarrow> json" where
  "jset k v (JObj kvs) = JObj ((k, v) # filter (\<lambda>kv. fst kv \<noteq> k) kvs)"
| "jset k v j = j"

text \<open>Python truth of a value, and of a missing one.\<close>

fun jtruthy :: "json \<Rightarrow> bool" where
  "jtruthy JNull = False"
| "jtruthy (JBool b) = b"
| "jtruthy (JNum q) = (q \<noteq> 0)"
| "jtruthy (JStr s) = (s \<noteq> [])"
| "jtruthy (JUuid u) = True"
| "jtruthy (JList xs) = (xs \<noteq> [])"
| "jtruthy (JObj kvs) = (kvs \<noteq> [])"

definition jget_truthy :: "string \<Rightarrow> json \<Rightarrow> json option" where
  "jget_truthy k j = (case jget k j of None \<Rightarrow> None | Some v \<Rightarrow> if jtruthy v then Some v else None)"

lemma jget_jset: "jget k (jset j v (JObj kvs)) = (if k = j then Some v else jget k (JObj kvs))"
  by (induction kvs) (auto split: if_splits)

section \<open>Tables\<close>

record Org =
  org_id :: uuid
  org_name :: string
  org_slug :: string
  org_plan :: OrgPlan
  org_settings :: json

record User =
  usr_id :: uuid
  usr_org_id :: uuid
  usr_email :: string
  usr_password_hash :: "string option"
  usr_full_name :: string
  usr_role :: UserRole
  usr_is_active :: bool
  usr_email_verified_at :: "datetime option"
  usr_last_login_at :: "datetime option"
  usr_failed_logins :: int
  usr_locked_until :: "datetime option"
  usr_mfa_secret :: "string option"

record RefreshToken =
  rt_id :: uuid
  rt_user_id :: uuid
  rt_token_hash :: string
  rt_family_id :: uuid
  rt_parent_id :: "uuid option"
  rt_user_agent :: "string option"
  rt_ip :: "string option"
  rt_expires_at :: datetime
  rt_revoked_at :: "datetime option"
  rt_revoked_reason :: "string option"
  rt_created_at :: datetime

record ApiKey =
  ak_id :: uuid
  ak_org_id :: uuid
  ak_name :: string
  ak_key_prefix :: string
  ak_key_hash :: string
  ak_scopes :: "string list"
  ak_created_by :: "uuid option"
  ak_last_used_at :: "datetime option"
  ak_expires_at :: "datetime option"
  ak_revoked_at :: "datetime option"

record AuditLog =
  al_org_id :: "uuid option"
  al_actor_user_id :: "uuid option"
  al_actor_kind :: string
  al_action :: string
  al_target_type :: "string option"
  al_target_id :: "uuid option"
  al_meta :: json
  al_ip :: "string option"
  al_request_id :: "string option"

record Source =
  src_id :: uuid
  src_key :: string
  src_display_name :: string
  src_tier :: SourceTier
  src_base_url :: "string option"
  src_status :: SourceStatus
  src_reliability :: rat
  src_rate_limit :: json
  src_requires_key :: bool
  src_tos_note :: "string option"
  src_last_ok_at :: "datetime option"
  src_last_error_at :: "datetime option"
  src_last_error :: "string option"

record Person =
  per_id :: uuid
  per_display_name :: string
  per_normalized_name :: string
  per_headline :: "string option"
  per_bio :: "string option"
  per_location_text :: "string option"
  per_country_code :: "string option"
  per_city :: "string option"
  per_emails :: "string list"
  per_links :: json
  per_education :: "json list"
  per_employment :: "json list"
  per_skills :: "string list"
  per_first_seen_at :: datetime
  per_last_signal_at :: "datetime option"
  per_signal_count :: int
  per_source_count :: int
  per_is_stub :: bool
  per_merged_into_id :: "uuid option"

record Company =
  co_id :: uuid
  co_name :: string
  co_normalized_name :: string
  co_legal_name :: "string option"
  co_domain :: "string option"
  co_one_liner :: "string option"
  co_description :: "string option"
  co_sectors :: "string list"
  co_stage :: "string option"
  co_hq_country :: "string option"
  co_hq_city :: "string option"
  co_founded_on :: "int option"
  co_founded_precision :: "string option"
  co_employee_estimate :: "int option"
  co_status :: string
  co_links :: json
  co_first_seen_at :: datetime
  co_last_signal_at :: "datetime option"
  co_is_stub :: bool
  co_merged_into_id :: "uuid option"

record Affiliation =
  af_id :: uuid
  af_person_id :: uuid
  af_company_id :: uuid
  af_role :: string
  af_is_founder :: bool
  af_started_on :: "int option"
  af_ended_on :: "int option"
  af_confidence :: rat

record Signal =
  sig_id :: uuid
  sig_org_id :: "uuid option"
  sig_source_id :: uuid
  sig_kind :: SignalKind
  sig_external_id :: "string option"
  sig_url :: "string option"
  sig_title :: "string option"
  sig_body :: "string option"
  sig_payload :: json
  sig_raw_ref :: "string option"
  sig_content_hash :: string
  sig_person_id :: "uuid option"
  sig_company_id :: "uuid option"
  sig_strength :: "rat option"
  sig_observed_at :: datetime

record Thesis =
  th_id :: uuid
  th_org_id :: uuid
  th_name :: string
  th_is_default :: bool
  th_sectors :: "string list"
  th_anti_sectors :: "string list"
  th_stages :: "string list"
  th_geos :: "string list"
  th_check_size_min :: "rat option"
  th_check_size_max :: "rat option"
  th_currency :: string
  th_ownership_target_pct :: "rat option"
  th_risk_appetite :: rat
  th_weights :: "(string \<times> rat) list"
  th_must_haves :: "string list"
  th_deal_breakers :: "string list"
  th_notes :: "string option"
  th_version :: int
  th_deleted_at :: "datetime option"

text \<open>One entry of a founder score's \<open>components\<close>.\<close>

record component_value =
  cv_value :: "rat option"
  cv_prior :: "rat option"
  cv_weight :: rat
  cv_evidence_sources :: nat

record FounderScore =
  fs_person_id :: uuid
  fs_score :: int
  fs_ci_low :: int
  fs_ci_high :: int
  fs_confidence :: rat
  fs_components :: "(string \<times> component_value) list"
  fs_cold_start :: bool
  fs_percentile :: "rat option"
  fs_trend_30d :: int
  fs_trend :: TrendKind
  fs_version :: int
  fs_computed_at :: datetime

record FounderScoreEvent =
  fse_id :: uuid
  fse_person_id :: uuid
  fse_component :: string
  fse_delta :: rat
  fse_reason :: string
  fse_signal_id :: "uuid option"
  fse_evidence_id :: "uuid option"
  fse_weight :: rat
  fse_occurred_at :: datetime
  fse_supersedes_id :: "uuid option"

record FounderScoreSnapshot =
  fss_person_id :: uuid
  fss_day :: int
  fss_score :: int
  fss_confidence :: rat

record Document =
  doc_id :: uuid
  doc_org_id :: "uuid option"
  doc_company_id :: "uuid option"
  doc_kind :: string
  doc_filename :: "string option"
  doc_mime :: "string option"
  doc_size_bytes :: "nat option"
  doc_sha256 :: string
  doc_s3_key :: string
  doc_page_count :: "nat option"
  doc_parse_status :: string
  doc_parse_error :: "string option"
  doc_parser :: "string option"
  doc_uploaded_by :: "uuid option"
  doc_created_at :: datetime

record DocumentPage =
  dp_document_id :: uuid
  dp_page_no :: nat
  dp_text :: "string option"
  dp_ocr_used :: bool
  dp_image_s3_key :: "string option"
  dp_layout :: "json option"

record Application =
  app_id :: uuid
  app_org_id :: uuid
  app_company_name :: string
  app_deck_document_id :: "uuid option"
  app_contact_email :: "string option"
  app_contact_name :: "string option"
  app_website :: "string option"
  app_extra :: json
  app_status :: ApplicationStatus
  app_submitted_ip :: "string option"
  app_opportunity_id :: "uuid option"
  app_source_channel :: "string option"
  app_outreach_id :: "uuid option"
  app_received_at :: datetime
  app_deleted_at :: "datetime option"
  app_tracking_token_hash :: "string option"

record Opportunity =
  op_id :: uuid
  op_org_id :: uuid
  op_company_id :: uuid
  op_thesis_id :: "uuid option"
  op_origin :: OpportunityOrigin
  op_stage :: OpportunityStage
  op_title :: "string option"
  op_thesis_fit :: "rat option"
  op_conviction :: "rat option"
  op_priority_rank :: "rat option"
  op_first_signal_at :: datetime
  op_sourced_at :: datetime
  op_screened_at :: "datetime option"
  op_diligence_started_at :: "datetime option"
  op_memo_ready_at :: "datetime option"
  op_decided_at :: "datetime option"
  op_sla_deadline_at :: datetime
  op_decision :: "DecisionKind option"
  op_decision_by :: "uuid option"
  op_decision_rationale :: "string option"
  op_assigned_to :: "uuid option"
  op_dedupe_key :: "string option"
  op_version :: int
  op_updated_at :: datetime

record OpportunityScore =
  os_id :: uuid
  os_opportunity_id :: uuid
  os_axis :: AxisKind
  os_score :: rat
  os_confidence :: rat
  os_trend :: TrendKind
  os_stance :: "MarketStance option"
  os_rationale :: string
  os_drivers :: "json list"
  os_model_version :: string
  os_version :: int

record PrescreenResult =
  ps_opportunity_id :: uuid
  ps_passed :: bool
  ps_rules_fired :: "json list"
  ps_latency_ms :: nat
  ps_cost_usd :: rat

record trust_inputs =
  ti_base :: rat
  ti_corroboration :: rat
  ti_independent_sources :: nat
  ti_recency :: rat
  ti_extraction :: rat
  ti_contradicted :: bool
  ti_independently_verified :: bool

record Claim =
  cl_id :: uuid
  cl_org_id :: uuid
  cl_opportunity_id :: "uuid option"
  cl_company_id :: "uuid option"
  cl_person_id :: "uuid option"
  cl_category :: ClaimCategory
  cl_predicate :: string
  cl_text :: string
  cl_value_num :: "rat option"
  cl_value_unit :: "string option"
  cl_value_text :: "string option"
  cl_as_of :: "int option"
  cl_status :: ClaimStatus
  cl_trust_score :: rat
  cl_trust_inputs :: json
  cl_contradiction_of :: "uuid option"
  cl_verification_note :: "string option"
  cl_extracted_by :: "string option"

text \<open>Where a claim was read: \<open>{"type": "deck", "page": ..., "snippet": ...}\<close>.\<close>

record locator =
  loc_type :: string
  loc_page :: nat
  loc_snippet :: string

text \<open>Both as the dicts that the JSON columns hold.\<close>

definition inputs_json :: "trust_inputs \<Rightarrow> json" where
  "inputs_json t =
     JObj [(''base'', JNum (ti_base t)), (''corroboration'', JNum (ti_corroboration t)),
           (''independent_sources'', JNum (of_nat (ti_independent_sources t))), (''recency'', JNum (ti_recency t)),
           (''extraction'', JNum (ti_extraction t)), (''contradicted'', JBool (ti_contradicted t)),
           (''independently_verified'', JBool (ti_independently_verified t))]"

definition locator_json :: "locator \<Rightarrow> json" where
  "locator_json l =
     JObj [(''type'', JStr (loc_type l)), (''page'', JNum (of_nat (loc_page l))), (''snippet'', JStr (loc_snippet l))]"

record Evidence =
  ev_id :: uuid
  ev_claim_id :: uuid
  ev_signal_id :: "uuid option"
  ev_document_id :: "uuid option"
  ev_source_id :: uuid
  ev_locator :: json
  ev_snippet :: string
  ev_supports :: bool
  ev_independence_group :: "string option"
  ev_observed_at :: "datetime option"

record memo_section =
  sec_key :: string
  sec_title :: string
  sec_markdown :: string
  sec_claim_ids :: "uuid list"
  sec_gaps :: "string list"
  sec_edited_by :: "uuid option option"
  sec_edited_at :: "datetime option"

record memo_gap =
  gap_field :: string
  gap_reason :: string
  gap_how_to_resolve :: string

record Memo =
  memo_id :: uuid
  memo_org_id :: uuid
  memo_opportunity_id :: uuid
  memo_version :: int
  memo_status :: string
  memo_sections :: "memo_section list"
  memo_recommendation :: "DecisionKind option"
  memo_recommendation_rationale :: "string option"
  memo_adversarial :: json
  memo_gaps :: "memo_gap list"
  memo_trust_summary :: "(string \<times> nat) list"
  memo_word_count :: "nat option"
  memo_generated_ms :: "int option"
  memo_cost_usd :: "rat option"
  memo_model_version :: "string option"
  memo_created_by :: "uuid option"

record KBChunk =
  kb_id :: uuid
  kb_org_id :: "uuid option"
  kb_scope :: string
  kb_person_id :: "uuid option"
  kb_company_id :: "uuid option"
  kb_signal_id :: "uuid option"
  kb_document_id :: "uuid option"
  kb_page_no :: "nat option"
  kb_chunk_index :: nat
  kb_title :: "string option"
  kb_content :: string
  kb_content_hash :: string
  kb_token_count :: nat
  kb_source_id :: "uuid option"
  kb_source_url :: "string option"
  kb_observed_at :: "datetime option"
  kb_embedding :: "rat list option"
  kb_embedding_model :: "string option"

record Job =
  job_id :: uuid
  job_org_id :: "uuid option"
  job_kind :: string
  job_status :: JobStatus
  job_target_type :: "string option"
  job_target_id :: "uuid option"
  job_idempotency_key :: "string option"
  job_progress :: rat
  job_current_step :: "string option"
  job_input :: json
  job_result :: json
  job_error_code :: "string option"
  job_error_message :: "string option"
  job_attempts :: int
  job_max_attempts :: int
  job_started_at :: "datetime option"
  job_finished_at :: "datetime option"
  job_heartbeat_at :: "datetime option"
  job_created_at :: datetime

record AgentStep =
  st_job_id :: uuid
  st_seq :: nat
  st_agent :: string
  st_action :: string
  st_status :: string
  st_progress :: rat
  st_message :: "string option"
  st_input_summary :: json
  st_output_summary :: json
  st_evidence_ids :: "string list"
  st_cost_usd :: rat
  st_duration_ms :: "int option"
  st_error :: "string option"

record LLMCall =
  llm_org_id :: "uuid option"
  llm_job_id :: "uuid option"
  llm_provider :: string
  llm_model :: string
  llm_purpose :: string
  llm_status :: string
  llm_prompt_tokens :: int
  llm_completion_tokens :: int
  llm_cost_usd :: rat
  llm_latency_ms :: int
  llm_cached :: bool
  llm_error :: "string option"

record SourcingChannel =
  ch_id :: uuid
  ch_key :: string
  ch_label :: string
  ch_kind :: string
  ch_parent_id :: "uuid option"
  ch_discovered_count :: int
  ch_advanced_count :: int

record ChannelEdge =
  ce_channel_id :: uuid
  ce_person_id :: "uuid option"
  ce_company_id :: "uuid option"
  ce_weight :: rat
  ce_outcome :: "string option"

record Outreach =
  out_id :: uuid
  out_org_id :: uuid
  out_person_id :: uuid
  out_opportunity_id :: "uuid option"
  out_status :: OutreachStatus
  out_subject :: string
  out_body :: string
  out_cited_signal_ids :: "uuid list"
  out_approved_by :: "uuid option"
  out_sent_at :: "datetime option"
  out_rejection_reason :: "string option"

record EmailToken =
  et_id :: uuid
  et_user_id :: uuid
  et_purpose :: string
  et_token_hash :: string
  et_expires_at :: datetime
  et_used_at :: "datetime option"

record OrgInvite =
  inv_id :: uuid
  inv_org_id :: uuid
  inv_email :: string
  inv_role :: UserRole
  inv_token_hash :: string
  inv_created_by :: "uuid option"
  inv_expires_at :: datetime
  inv_accepted_at :: "datetime option"

section \<open>The database\<close>

record db =
  orgs :: "Org list"
  users :: "User list"
  refresh_tokens :: "RefreshToken list"
  api_keys :: "ApiKey list"
  audit_log :: "AuditLog list"
  sources :: "Source list"
  persons :: "Person list"
  companies :: "Company list"
  affiliations :: "Affiliation list"
  signals :: "Signal list"
  theses :: "Thesis list"
  founder_scores :: "FounderScore list"
  founder_score_events :: "FounderScoreEvent list"
  founder_score_snapshots :: "FounderScoreSnapshot list"
  documents :: "Document list"
  document_pages :: "DocumentPage list"
  applications :: "Application list"
  opportunities :: "Opportunity list"
  opportunity_scores :: "OpportunityScore list"
  prescreen_results :: "PrescreenResult list"
  claims :: "Claim list"
  evidence :: "Evidence list"
  memos :: "Memo list"
  kb_chunks :: "KBChunk list"
  jobs :: "Job list"
  agent_steps :: "AgentStep list"
  llm_calls :: "LLMCall list"
  sourcing_channels :: "SourcingChannel list"
  channel_edges :: "ChannelEdge list"
  outreach :: "Outreach list"
  email_tokens :: "EmailToken list"
  org_invites :: "OrgInvite list"
  next_uuid :: uuid

definition empty_db :: db where
  "empty_db =
     \<lparr>orgs = [], users = [], refresh_tokens = [], api_keys = [], audit_log = [], sources = [],
      persons = [], companies = [], affiliations = [], signals = [], theses = [],
      founder_scores = [], founder_score_events = [], founder_score_snapshots = [],
      documents = [], document_pages = [], applications = [], opportunities = [],
      opportunity_scores = [], prescreen_results = [], claims = [], evidence = [], memos = [],
      kb_chunks = [], jobs = [], agent_steps = [], llm_calls = [], sourcing_channels = [],
      channel_edges = [], outreach = [], email_tokens = [], org_invites = [], next_uuid = 0\<rparr>"

text \<open>\<open>new_uuid\<close>: the next identifier and the database that will not hand it out again.\<close>

definition new_uuid :: "db \<Rightarrow> uuid \<times> db" where
  "new_uuid d = (next_uuid d, d\<lparr>next_uuid := Suc (next_uuid d)\<rparr>)"

section \<open>Sessions\<close>

text \<open>
  \<open>queue\<close> are the jobs handed to the worker so far (a Redis entry, or a background task when
  \<open>queue_eager\<close> is set); it is outside the transaction.
\<close>

record session =
  s_db :: db
  s_committed :: db
  s_queue :: "uuid list"

definition open_session :: "db \<Rightarrow> uuid list \<Rightarrow> session" where
  "open_session d q = \<lparr>s_db = d, s_committed = d, s_queue = q\<rparr>"

definition commit :: "session \<Rightarrow> session" where
  "commit s = s\<lparr>s_committed := s_db s\<rparr>"

text \<open>A request or a worker runs in a session of its own; what it did not commit is lost.\<close>

definition in_session :: "(session \<Rightarrow> 'a \<times> session) \<Rightarrow> db \<Rightarrow> 'a \<times> db" where
  "in_session h d = (let (r, s) = h (open_session d []) in (r, s_committed s))"

lemma commit_simps [simp]:
  "s_db (commit s) = s_db s" "s_committed (commit s) = s_db s" "s_queue (commit s) = s_queue s"
  by (simp_all add: commit_def)

end
