(* ===== verification/Text.thy ===== *)
theory Text
  imports Prelude
begin

text \<open>
  The text functions of \<open>app/services/utils.py\<close> and \<open>app/services/security.py\<close>: normal names,
  slugs, the prompt injection heuristic. On ASCII text NFKD changes nothing and there are no
  combining characters, so a normal name is the case folded text with every run of other characters
  turned into one space.
\<close>

definition is_alnum :: "char \<Rightarrow> bool" where
  "is_alnum c \<longleftrightarrow> (CHR ''a'' \<le> c \<and> c \<le> CHR ''z'') \<or> is_digit c"

text \<open>\<open>re.sub(r"[^a-z0-9]+", " ", s)\<close>: the flag says that the last character was in a run.\<close>

fun sub_runs :: "bool \<Rightarrow> string \<Rightarrow> string" where
  "sub_runs b [] = []"
| "sub_runs b (c # cs) =
     (if is_alnum c then c # sub_runs False cs
      else if b then sub_runs True cs
      else CHR '' '' # sub_runs True cs)"

definition normalize_name :: "string \<Rightarrow> string" where
  "normalize_name value = strip (sub_runs False (casefold value))"

definition slugify :: "string \<Rightarrow> string" where
  "slugify value =
     (let s = take 80 (map (\<lambda>c. if c = CHR '' '' then CHR ''-'' else c) (normalize_name value))
      in if s = [] then ''organization'' else s)"

definition injection_patterns :: "string list" where
  "injection_patterns =
     [''ignore previous'', ''ignore all prior'', ''system prompt'', ''you are now'',
      ''override your instructions'']"

definition looks_like_prompt_injection :: "string \<Rightarrow> bool" where
  "looks_like_prompt_injection text =
     (\<exists>p \<in> set injection_patterns. contains p (casefold text))"

text \<open>\<open>int(text)\<close>: white space around, a sign, digits with single underscores between them. None is
  \<open>ValueError\<close>.\<close>

fun int_digits :: "nat \<Rightarrow> bool \<Rightarrow> string \<Rightarrow> nat option" where
  "int_digits n digit [] = (if digit then Some n else None)"
| "int_digits n digit (c # cs) =
     (if is_digit c then int_digits (n * 10 + (of_char c - 48)) True cs
      else if c = CHR ''_'' \<and> digit then int_digits n False cs else None)"

definition py_int :: "string \<Rightarrow> int option" where
  "py_int s =
     (case strip s of
        [] \<Rightarrow> None
      | c # cs \<Rightarrow> if c = CHR ''-'' then map_option (\<lambda>n. - int n) (int_digits 0 False cs)
                  else if c = CHR ''+'' then map_option int (int_digits 0 False cs)
                  else map_option int (int_digits 0 False (c # cs)))"

section \<open>Normal form\<close>

text \<open>Words of lower case letters and digits, one space between two words, none at the ends.\<close>

fun name_tail :: "string \<Rightarrow> bool" where
  "name_tail [] = True"
| "name_tail [c] = is_alnum c"
| "name_tail (c # d # cs) = ((is_alnum c \<or> c = CHR '' '' \<and> is_alnum d) \<and> name_tail (d # cs))"

definition normal_name :: "string \<Rightarrow> bool" where
  "normal_name s \<longleftrightarrow> name_tail s \<and> (s = [] \<or> is_alnum (hd s))"

lemma not_alnum_space [simp]: "\<not> is_alnum CHR '' ''"
  by (simp add: is_alnum_def is_digit_def less_eq_char_def)

lemma alnum_not_space: "is_alnum c \<Longrightarrow> \<not> is_space c"
  by (auto simp: is_alnum_def is_digit_def is_space_def less_eq_char_def Let_def)

lemma space_is_space [simp]: "is_space CHR '' ''"
  by (simp add: is_space_def)

lemma alnum_lower: "is_alnum c \<Longrightarrow> lower_char c = c"
  by (auto simp: is_alnum_def is_digit_def lower_char_def less_eq_char_def)

text \<open>Single spaces only, possibly at the ends.\<close>

fun spaced :: "bool \<Rightarrow> string \<Rightarrow> bool" where
  "spaced b [] = True"
| "spaced b (c # cs) = ((is_alnum c \<and> spaced False cs) \<or> (c = CHR '' '' \<and> \<not> b \<and> spaced True cs))"

lemma spaced_mono: "spaced True s \<Longrightarrow> spaced False s"
  by (cases s) auto

lemma spaced_sub_runs: "spaced b (sub_runs b s)"
  by (induction s arbitrary: b) auto

lemma spaced_strip_front:
  "spaced False s \<Longrightarrow> spaced True (dropWhile is_space s)"
proof (cases s)
  case (Cons c cs)
  assume "spaced False s"
  then consider "is_alnum c" "spaced False cs" | "c = CHR '' ''" "spaced True cs"
    using Cons by auto
  then show ?thesis
  proof cases
    case 2
    then have "dropWhile is_space cs = cs" by (cases cs) (auto dest: alnum_not_space)
    then show ?thesis using 2 Cons by simp
  qed (use Cons in \<open>simp add: alnum_not_space\<close>)
qed simp

lemma spaced_butlast_space:
  "spaced True (s @ [c]) \<Longrightarrow> spaced True s \<and> (is_alnum c \<or> c = CHR '' '' \<and> (s = [] \<or> is_alnum (last s)))"
proof -
  have "spaced b (s @ [c]) \<Longrightarrow> spaced b s \<and> (is_alnum c \<or> c = CHR '' '' \<and> (s = [] \<or> is_alnum (last s)))"
    for b by (induction s arbitrary: b) (auto split: if_splits)
  then show "spaced True (s @ [c]) \<Longrightarrow> ?thesis" by blast
qed

lemma spaced_name_tail:
  "spaced b s \<Longrightarrow> s = [] \<or> is_alnum (last s) \<Longrightarrow> name_tail s"
proof (induction s arbitrary: b rule: name_tail.induct)
  case (3 c d cs)
  then show ?case by fastforce
qed auto

lemma spaced_strip: assumes "spaced True s"
  shows "normal_name (rev (dropWhile is_space (rev s)))"
proof -
  have n: "normal_name t" if "spaced True t" "t = [] \<or> is_alnum (last t)" for t
    using that spaced_name_tail [of True t] by (cases t) (auto simp: normal_name_def)
  show ?thesis
  proof (cases s rule: rev_cases)
    case (snoc t c)
    then have t: "spaced True t" "is_alnum c \<or> c = CHR '' '' \<and> (t = [] \<or> is_alnum (last t))"
      using spaced_butlast_space assms by blast+
    show ?thesis
    proof (cases "is_alnum c")
      case True
      then show ?thesis using n [OF assms] snoc by (simp add: alnum_not_space)
    next
      case False
      then have c: "c = CHR '' ''" "t = [] \<or> is_alnum (last t)" using t by auto
      then have "dropWhile is_space (rev t) = rev t"
        by (cases t rule: rev_cases) (auto simp: alnum_not_space)
      then show ?thesis using c n [OF t(1) c(2)] snoc by simp
    qed
  qed (simp add: normal_name_def)
qed

lemma normalize_normal: "normal_name (normalize_name s)"
  unfolding normalize_name_def strip_def strip_by_def
  by (intro spaced_strip spaced_strip_front spaced_sub_runs)

lemma normal_fixpoint: assumes "normal_name s" shows "normalize_name s = s"
proof -
  have lc: "lower_char CHR '' '' = CHR '' ''" by (simp add: lower_char_def less_eq_char_def)
  have cf: "casefold s = s" if "name_tail s" for s
    using that by (induction s rule: name_tail.induct) (auto simp: casefold_def alnum_lower lc)
  have sr: "sub_runs False s = s" if "name_tail s" for s
    using that by (induction s rule: name_tail.induct) auto
  have last: "s = [] \<or> is_alnum (last s)" if "name_tail s" for s
    using that by (induction s rule: name_tail.induct) auto
  have nt: "name_tail s" and hd: "s = [] \<or> is_alnum (hd s)"
    using assms by (auto simp: normal_name_def)
  have "dropWhile is_space s = s" using hd by (cases s) (auto simp: alnum_not_space)
  moreover have "dropWhile is_space (rev s) = rev s"
    using last [OF nt] by (cases s rule: rev_cases) (auto simp: alnum_not_space)
  ultimately show ?thesis
    by (simp add: normalize_name_def cf [OF nt] sr [OF nt] strip_def strip_by_def)
qed

text \<open>\<open>normalize_name\<close> is a normal form. What it returns consists of words of lower case letters
  and digits with one space between two words and none at the ends, and normalizing again changes
  nothing, so two names are stored under the same key exactly when they normalize alike.\<close>

theorem normalize_name_normal_form:
  "normal_name (normalize_name s) \<and> normalize_name (normalize_name s) = normalize_name s"
  using normalize_normal normal_fixpoint by blast

lemma slugify_bounds: "slugify s \<noteq> [] \<and> length (slugify s) \<le> 80"
  by (auto simp: slugify_def Let_def)

end
