(* ===== verification/PyFloat.thy ===== *)
theory PyFloat
  imports Complex_Main
begin

text \<open>
  Python's numbers as the scoring code uses them. A \<open>float\<close> is the rational number it denotes;
  every arithmetic operation is the exact operation followed by \<open>fl\<close>, the IEEE-754 rounding to
  a 53-bit significand (nearest, ties to even, gradual underflow at \<open>2 ^ (-1074)\<close>). Infinities
  and NaN are not modelled: no intermediate value of the scoring code leaves the finite range.
  \<open>py_round\<close> is the built-in \<open>round(x, n)\<close>, \<open>dec_str\<close> the value of \<open>Decimal(str(x))\<close>.
  The C library functions behind \<open>math.exp\<close>, \<open>math.erf\<close>, \<open>math.sqrt\<close>, \<open>math.log\<close> and the
  power operator are parameters (record \<open>libm\<close>), with their documented ranges in \<open>libm_ok\<close>.
\<close>

section \<open>Rounding\<close>

text \<open>Round half to even, the built-in \<open>round(x)\<close>.\<close>

definition round_half_even :: "rat \<Rightarrow> int" where
  "round_half_even q =
     (let f = \<lfloor>q\<rfloor>; r = q - of_int f in
      if r < 1 / 2 then f else if 1 / 2 < r then f + 1 else if even f then f else f + 1)"

fun nlog2 :: "nat \<Rightarrow> nat" where
  "nlog2 n = (if n \<le> 1 then 0 else Suc (nlog2 (n div 2)))"

declare nlog2.simps [simp del]

definition ilog2 :: "rat \<Rightarrow> int" where
  "ilog2 q =
     (if 1 \<le> q then int (nlog2 (nat \<lfloor>q\<rfloor>))
      else let n = nat \<lceil>1 / q\<rceil> in - int (if n \<le> 1 then 0 else Suc (nlog2 (n - 1))))"

definition float_exp :: "rat \<Rightarrow> int" where
  "float_exp x = max (ilog2 \<bar>x\<bar> - 52) (- 1074)"

definition fl :: "rat \<Rightarrow> rat" where
  "fl x =
     (if x = 0 then 0
      else let u = 2 powi float_exp x in of_int (round_half_even (x / u)) * u)"

definition fadd :: "rat \<Rightarrow> rat \<Rightarrow> rat" where "fadd x y = fl (x + y)"
definition fsub :: "rat \<Rightarrow> rat \<Rightarrow> rat" where "fsub x y = fl (x - y)"
definition fmul :: "rat \<Rightarrow> rat \<Rightarrow> rat" where "fmul x y = fl (x * y)"
definition fdiv :: "rat \<Rightarrow> rat \<Rightarrow> rat" where "fdiv x y = fl (x / y)"

definition is_float :: "rat \<Rightarrow> bool" where
  "is_float x \<longleftrightarrow> fl x = x"

text \<open>\<open>round(x, n)\<close> is correctly rounded: the nearest \<open>n\<close>-digit decimal of the exact value, as a
  double again.\<close>

definition py_round :: "nat \<Rightarrow> rat \<Rightarrow> rat" where
  "py_round n x = fl (of_int (round_half_even (x * 10 ^ n)) / 10 ^ n)"

section \<open>Properties of the integer rounding\<close>

lemma round_half_even_of_int [simp]: "round_half_even (of_int k) = k"
  by (simp add: round_half_even_def)

lemma round_half_even_numeral [simp]: "round_half_even (numeral n) = numeral n"
  using round_half_even_of_int [of "numeral n"] by simp

lemma round_half_even_01 [simp]: "round_half_even 0 = 0" "round_half_even 1 = 1"
  using round_half_even_of_int [of 0] round_half_even_of_int [of 1] by simp_all

lemma round_half_even_ge: "of_int k \<le> q \<Longrightarrow> k \<le> round_half_even q"
proof -
  assume "of_int k \<le> q"
  then have "k \<le> \<lfloor>q\<rfloor>" by (simp add: le_floor_iff)
  then show ?thesis by (simp add: round_half_even_def Let_def)
qed

lemma round_half_even_le: "q \<le> of_int k \<Longrightarrow> round_half_even q \<le> k"
proof -
  assume le: "q \<le> of_int k"
  show ?thesis
  proof (cases "\<lfloor>q\<rfloor> < k")
    case True
    then show ?thesis by (auto simp: round_half_even_def Let_def)
  next
    case False
    then have "q = of_int k"
      using le by (metis floor_less_iff linorder_le_less_linear nle_le)
    then show ?thesis by simp
  qed
qed

lemma round_half_even_mono:
  assumes "p \<le> q"
  shows "round_half_even p \<le> round_half_even q"
proof (cases "\<lfloor>p\<rfloor> = \<lfloor>q\<rfloor>")
  case True
  then show ?thesis using assms by (auto simp: round_half_even_def Let_def)
next
  case False
  then have "\<lfloor>p\<rfloor> + 1 \<le> \<lfloor>q\<rfloor>" using floor_mono [OF assms] by simp
  moreover have "round_half_even p \<le> \<lfloor>p\<rfloor> + 1" by (auto simp: round_half_even_def Let_def)
  moreover have "\<lfloor>q\<rfloor> \<le> round_half_even q" by (auto simp: round_half_even_def Let_def)
  ultimately show ?thesis by simp
qed

section \<open>The binary exponent\<close>

lemma nlog2_bounds: "1 \<le> n \<Longrightarrow> 2 ^ nlog2 n \<le> n \<and> n < 2 ^ Suc (nlog2 n)"
proof (induction n rule: nlog2.induct)
  case (1 n)
  show ?case
  proof (cases "n \<le> 1")
    case True
    with "1.prems" have "n = 1" by simp
    then show ?thesis by (simp add: nlog2.simps [of 1] nlog2.simps [of "Suc 0"])
  next
    case False
    then have "1 \<le> n div 2" by simp
    with "1.IH" False have "2 ^ nlog2 (n div 2) \<le> n div 2 \<and> n div 2 < 2 ^ Suc (nlog2 (n div 2))"
      by simp
    with False show ?thesis by (auto simp: nlog2.simps [of n])
  qed
qed

lemma ilog2_bounds:
  assumes "0 < q"
  shows "2 powi ilog2 q \<le> q" and "q < 2 powi (ilog2 q + 1)"
proof -
  have "2 powi ilog2 q \<le> q \<and> q < 2 powi (ilog2 q + 1)"
  proof (cases "1 \<le> q")
    case True
    define n where "n = nat \<lfloor>q\<rfloor>"
    have n1: "1 \<le> n" using True by (simp add: n_def le_nat_iff)
    have nq: "of_nat n \<le> q" "q < of_nat n + 1"
      using True by (simp_all add: n_def) linarith
    have b: "2 ^ nlog2 n \<le> n" "n < 2 ^ Suc (nlog2 n)" using nlog2_bounds [OF n1] by auto
    have "(2::rat) ^ nlog2 n \<le> of_nat n" using b(1) by (metis of_nat_le_iff of_nat_numeral of_nat_power)
    then have "(2::rat) ^ nlog2 n \<le> q" using nq(1) by (rule order_trans)
    moreover have "of_nat n + 1 \<le> (2::rat) ^ Suc (nlog2 n)"
      using b(2) by (metis of_nat_Suc add.commute Suc_leI of_nat_le_iff of_nat_numeral of_nat_power)
    ultimately show ?thesis
      using True nq by (simp add: ilog2_def n_def [symmetric] power_int_add)
  next
    case False
    define n where "n = nat \<lceil>1 / q\<rceil>"
    have gt: "1 < 1 / q" using False assms by simp
    then have "1 < \<lceil>1 / q\<rceil>" by (simp only: less_ceiling_iff of_int_1)
    then have n2: "2 \<le> n" unfolding n_def by linarith
    have nq: "1 / q \<le> of_nat n" "of_nat n - 1 < 1 / q"
      using gt by (auto simp: n_def of_nat_nat) linarith+
    define k where "k = nlog2 (n - 1)"
    have b: "2 ^ k \<le> n - 1" "n - 1 < 2 ^ Suc k" using nlog2_bounds [of "n - 1"] n2 by (auto simp: k_def)
    have "of_nat (2 ^ k) \<le> (of_nat (n - 1) :: rat)" using b(1) by (simp only: of_nat_le_iff)
    then have "(2::rat) ^ k \<le> of_nat n - 1" using n2 by simp
    then have "(2::rat) ^ k < 1 / q" using nq by simp
    then have up: "q < 1 / 2 ^ k" using assms by (simp add: field_simps)
    have "n \<le> 2 ^ Suc k" using b(2) n2 by linarith
    then have "of_nat n \<le> (of_nat (2 ^ Suc k) :: rat)" by (simp only: of_nat_le_iff)
    then have "of_nat n \<le> (2::rat) ^ Suc k" by simp
    then have "1 / q \<le> (2::rat) ^ Suc k" using nq by simp
    then have "1 / 2 ^ Suc k \<le> q" using assms by (simp add: field_simps)
    moreover have e: "ilog2 q = - int (Suc k)" using False n2 by (simp add: ilog2_def n_def k_def Let_def)
    moreover have "(2::rat) powi - int (Suc k) = 1 / 2 ^ Suc k" "(2::rat) powi (- int (Suc k) + 1) = 1 / 2 ^ k"
      using power_int_minus [of "2::rat" "int k"] power_int_minus [of "2::rat" "int (Suc k)"]
      by (simp_all only: power_int_of_nat) (simp_all add: field_simps)
    ultimately show ?thesis using up by simp
  qed
  then show "2 powi ilog2 q \<le> q" and "q < 2 powi (ilog2 q + 1)" by auto
qed

lemma ilog2_less: "0 < q \<Longrightarrow> q < 2 powi k \<Longrightarrow> ilog2 q < k"
  using ilog2_bounds(1) [of q] power_int_increasing [of k "ilog2 q" "2::rat"]
  by fastforce

lemma ilog2_mono: "0 < p \<Longrightarrow> p \<le> q \<Longrightarrow> ilog2 p \<le> ilog2 q"
  using ilog2_less [of p "ilog2 q + 1"] ilog2_bounds(2) [of q] by auto

lemma float_exp_mono: "0 < x \<Longrightarrow> x \<le> y \<Longrightarrow> float_exp x \<le> float_exp y"
  using ilog2_mono [of x y] by (auto simp: float_exp_def)

section \<open>Properties of the float rounding\<close>

lemma fl_0 [simp]: "fl 0 = 0"
  by (simp add: fl_def)

lemma round_half_even_minus [simp]: "round_half_even (- q) = - round_half_even q"
proof (cases "q = of_int \<lfloor>q\<rfloor>")
  case True
  then show ?thesis by (metis of_int_minus round_half_even_of_int)
next
  case False
  then have "\<lfloor>- q\<rfloor> = - \<lfloor>q\<rfloor> - 1"
    by (intro floor_unique) (auto simp: less_le, linarith)
  then show ?thesis using False
    by (auto simp: round_half_even_def Let_def)
qed

lemma fl_minus [simp]: "fl (- x) = - fl x"
  by (simp add: fl_def float_exp_def Let_def)

lemma fl_nonneg: "0 \<le> x \<Longrightarrow> 0 \<le> fl x"
  using round_half_even_ge [of 0] by (auto simp: fl_def Let_def)

text \<open>Every dyadic number with a 53-bit significand is a float.\<close>

lemma fl_dyadic:
  assumes "\<bar>m\<bar> \<le> 2 ^ 53" and "- 1074 \<le> e"
  shows "fl (of_int m * 2 powi e) = of_int m * 2 powi e"
proof (cases "m = 0")
  case False
  let ?x = "of_int m * (2::rat) powi e"
  have "float_exp ?x \<le> e \<or> float_exp ?x \<le> e + 1 \<and> even m"
  proof (cases "\<bar>m\<bar> = 2 ^ 53")
    case True
    have "\<bar>?x\<bar> = 2 powi (e + 53)" using True by (simp add: abs_mult power_int_add)
    moreover have "(2::rat) powi (e + 53) < 2 powi (e + 54)" by (simp add: power_int_strict_increasing)
    ultimately have "ilog2 \<bar>?x\<bar> < e + 54" by (intro ilog2_less) simp_all
    moreover have "even m" using True by (metis even_abs_add_iff even_numeral even_power odd_add zero_less_numeral dvd_abs_iff)
    ultimately show ?thesis using assms(2) by (auto simp: float_exp_def)
  next
    case neq: False
    have "\<bar>of_int m :: rat\<bar> < 2 ^ 53"
      using neq assms(1) by (metis of_int_abs of_int_less_iff of_int_numeral of_int_power order_less_le)
    then have "\<bar>?x\<bar> < 2 powi (e + 53)" by (simp add: abs_mult power_int_add)
    then have "ilog2 \<bar>?x\<bar> < e + 53" using False by (intro ilog2_less) simp_all
    then show ?thesis using assms(2) by (auto simp: float_exp_def)
  qed
  then have "\<exists>k. ?x / 2 powi float_exp ?x = of_int k"
  proof
    assume le: "float_exp ?x \<le> e"
    have "?x / 2 powi float_exp ?x = of_int m * 2 powi (e - float_exp ?x)"
      by (simp add: power_int_diff)
    also have "\<dots> = of_int (m * 2 ^ nat (e - float_exp ?x))"
      using le by (simp add: power_int_def)
    finally show ?thesis by blast
  next
    assume a: "float_exp ?x \<le> e + 1 \<and> even m"
    then obtain m' where m': "m = 2 * m'" by (auto elim: evenE)
    have "?x / 2 powi float_exp ?x = of_int m' * 2 powi (e + 1 - float_exp ?x)"
      using m' by (simp add: power_int_diff power_int_add)
    also have "\<dots> = of_int (m' * 2 ^ nat (e + 1 - float_exp ?x))"
      using a by (simp add: power_int_def)
    finally show ?thesis by blast
  qed
  then obtain k where k: "?x / 2 powi float_exp ?x = of_int k" by blast
  then have "of_int k * 2 powi float_exp ?x = ?x" by (simp add: field_simps)
  then show ?thesis using False by (simp only: fl_def Let_def k round_half_even_of_int) simp
qed simp

lemma fl_of_int [simp]: "\<bar>m\<bar> \<le> 2 ^ 53 \<Longrightarrow> fl (of_int m) = of_int m"
  using fl_dyadic [of m 0] by simp

lemma fl_numeral [simp]: "numeral n \<le> (2 ^ 53 :: int) \<Longrightarrow> fl (numeral n) = numeral n"
  using fl_of_int [of "numeral n"] by simp

lemma fl_1 [simp]: "fl 1 = 1"
  using fl_of_int [of 1] by simp

lemma fl_half [simp]: "fl (1 / 2) = 1 / 2"
  using fl_dyadic [of 1 "- 1"] by (simp add: power_int_def)

text \<open>The significand never exceeds \<open>2 ^ 53\<close>, and reaches \<open>2 ^ 52\<close> above the subnormal range.\<close>

lemma significand_le:
  assumes "x \<noteq> 0"
  shows "\<bar>round_half_even (x / 2 powi float_exp x)\<bar> \<le> 2 ^ 53"
proof -
  let ?e = "float_exp x"
  have "\<bar>x\<bar> < 2 powi (ilog2 \<bar>x\<bar> + 1)" using assms by (intro ilog2_bounds) simp
  also have "\<dots> \<le> 2 powi (?e + 53)"
    by (intro power_int_increasing) (auto simp: float_exp_def)
  finally have "\<bar>x / 2 powi ?e\<bar> \<le> of_int (2 ^ 53)"
    by (simp add: power_int_add field_simps)
  then have "x / 2 powi ?e \<le> of_int (2 ^ 53)" "of_int (- (2 ^ 53)) \<le> x / 2 powi ?e"
    by (simp_all only: abs_le_iff of_int_minus minus_le_iff)
  then show ?thesis
    using round_half_even_le [of "x / 2 powi ?e" "2 ^ 53"]
      round_half_even_ge [of "- (2 ^ 53)" "x / 2 powi ?e"]
    by (simp only: abs_le_iff minus_le_iff)
qed

theorem fl_idem [simp]: "fl (fl x) = fl x"
proof (cases "x = 0")
  case False
  have "- 1074 \<le> float_exp x" by (simp add: float_exp_def)
  then show ?thesis
    using fl_dyadic [OF significand_le [OF False]] False
    by (simp add: fl_def [of x] Let_def)
qed simp

lemma fl_mono_pos:
  assumes "0 < x" "x \<le> y"
  shows "fl x \<le> fl y"
proof (cases "float_exp x = float_exp y")
  case True
  have "x / 2 powi float_exp y \<le> y / 2 powi float_exp y"
    using assms by (simp add: divide_right_mono)
  then show ?thesis using assms True
    by (simp add: fl_def Let_def round_half_even_mono)
next
  case False
  then have lt: "float_exp x + 1 \<le> float_exp y" using float_exp_mono [OF assms] by simp
  then have ey: "float_exp y = ilog2 y - 52" using assms by (auto simp: float_exp_def)
  have "2 powi (float_exp y + 52) \<le> y" using ey ilog2_bounds(1) [of y] assms by simp
  then have "of_int (2 ^ 52) \<le> y / 2 powi float_exp y" by (simp add: power_int_add field_simps)
  then have b: "2 ^ 52 \<le> round_half_even (y / 2 powi float_exp y)" by (rule round_half_even_ge)
  have a: "round_half_even (x / 2 powi float_exp x) \<le> 2 ^ 53"
    using significand_le [of x] assms by simp
  have "of_int (round_half_even (x / 2 powi float_exp x)) \<le> (of_int (2 ^ 53) :: rat)"
    using a by (simp only: of_int_le_iff)
  then have "fl x \<le> 2 ^ 53 * 2 powi float_exp x"
    using assms(1) by (simp add: fl_def Let_def mult_right_mono)
  also have "\<dots> = 2 ^ 52 * 2 powi (float_exp x + 1)" by (simp add: power_int_add)
  also have "\<dots> \<le> 2 ^ 52 * 2 powi float_exp y"
    using lt by (simp add: power_int_increasing)
  also have "\<dots> \<le> fl y"
  proof -
    have "(of_int (2 ^ 52) :: rat) \<le> of_int (round_half_even (y / 2 powi float_exp y))"
      using b by (simp only: of_int_le_iff)
    then show ?thesis using assms by (simp add: fl_def Let_def mult_right_mono)
  qed
  finally show ?thesis .
qed

theorem fl_mono: "x \<le> y \<Longrightarrow> fl x \<le> fl y"
proof -
  assume le: "x \<le> y"
  consider "0 < x" | "x \<le> 0" "0 \<le> y" | "y < 0" by linarith
  then show ?thesis
  proof cases
    case 1
    then show ?thesis using le by (rule fl_mono_pos)
  next
    case 2
    then have "fl x \<le> 0" using fl_nonneg [of "- x"] by simp
    then show ?thesis using fl_nonneg [OF 2(2)] by simp
  next
    case 3
    then show ?thesis using fl_mono_pos [of "- y" "- x"] le by simp
  qed
qed


section \<open>Rounding as an interface\<close>

text \<open>
  What the scoring code relies on: a rounding is monotone, so a bound that the rounding leaves
  alone survives it. The three roundings of the code provide it.
\<close>

locale monotone_rounding =
  fixes rnd :: "rat \<Rightarrow> rat"
  assumes rnd_mono: "x \<le> y \<Longrightarrow> rnd x \<le> rnd y"
begin

lemma rnd_ge: "rnd a = a \<Longrightarrow> a \<le> x \<Longrightarrow> a \<le> rnd x"
  using rnd_mono [of a x] by simp

lemma rnd_le: "rnd b = b \<Longrightarrow> x \<le> b \<Longrightarrow> rnd x \<le> b"
  using rnd_mono [of x b] by simp

lemma rnd_clamp: "lo \<le> hi \<Longrightarrow> rnd lo \<le> rnd (max lo (min hi x)) \<and> rnd (max lo (min hi x)) \<le> rnd hi"
  by (intro conjI rnd_mono) auto

end

locale float_rounding = monotone_rounding +
  assumes rnd_idem: "rnd (rnd x) = rnd x"
begin

lemma rnd_le_rnd: "x \<le> rnd b \<Longrightarrow> rnd x \<le> rnd b"
  by (rule rnd_le) (simp_all add: rnd_idem)

lemma rnd_ge_rnd: "rnd a \<le> x \<Longrightarrow> rnd a \<le> rnd x"
  by (rule rnd_ge) (simp_all add: rnd_idem)

end

interpretation flr: float_rounding fl
  by unfold_locales (simp_all add: fl_mono)

lemma py_round_mono: "x \<le> y \<Longrightarrow> py_round n x \<le> py_round n y"
  by (simp add: py_round_def fl_mono divide_right_mono round_half_even_mono mult_right_mono)

interpretation pyr: monotone_rounding "py_round n" for n
  by unfold_locales (rule py_round_mono)

lemma is_float_fl [simp]: "is_float (fl x)"
  by (simp add: is_float_def)

lemma is_float_py_round [simp]: "is_float (py_round n x)"
  by (simp add: py_round_def)

lemma py_round_0 [simp]: "py_round n 0 = 0"
  by (simp add: py_round_def)

lemma py_round_1 [simp]: "py_round n 1 = 1"
  using round_half_even_of_int [of "10 ^ n"] by (simp add: py_round_def)

text \<open>Bounds of products and sums of non-negative floats.\<close>

lemma fmul_bounds: "0 \<le> x \<Longrightarrow> x \<le> a \<Longrightarrow> 0 \<le> y \<Longrightarrow> y \<le> b \<Longrightarrow> 0 \<le> fmul x y \<and> fmul x y \<le> fmul a b"
  by (auto simp: fmul_def intro!: fl_nonneg fl_mono mult_mono)

lemma fmul_mono:
  "0 \<le> x \<Longrightarrow> x \<le> x' \<Longrightarrow> 0 \<le> y \<Longrightarrow> y \<le> y' \<Longrightarrow> 0 \<le> fmul x y"
  "0 \<le> x \<Longrightarrow> x \<le> x' \<Longrightarrow> 0 \<le> y \<Longrightarrow> y \<le> y' \<Longrightarrow> fmul x y \<le> fmul x' y'"
  using fmul_bounds [of x x' y y'] by auto

lemma fadd_mono:
  "0 \<le> x \<Longrightarrow> 0 \<le> y \<Longrightarrow> 0 \<le> fadd x y"
  "x \<le> x' \<Longrightarrow> y \<le> y' \<Longrightarrow> fadd x y \<le> fadd x' y'"
  by (simp_all add: fadd_def fl_nonneg fl_mono)

lemma fadd_bounds: "a \<le> x \<Longrightarrow> x \<le> b \<Longrightarrow> c \<le> y \<Longrightarrow> y \<le> d \<Longrightarrow> fadd a c \<le> fadd x y \<and> fadd x y \<le> fadd b d"
  by (auto simp: fadd_def intro!: fl_mono)

lemma fmul_01: "0 \<le> x \<Longrightarrow> x \<le> 1 \<Longrightarrow> 0 \<le> y \<Longrightarrow> y \<le> 1 \<Longrightarrow> 0 \<le> fmul x y \<and> fmul x y \<le> 1"
  using fmul_bounds [of x 1 y 1] by (simp add: fmul_def)

lemma fsub_one_01: "0 \<le> x \<Longrightarrow> x \<le> 1 \<Longrightarrow> 0 \<le> fsub 1 x \<and> fsub 1 x \<le> 1"
  using fl_mono [of "1 - x" 1] by (simp add: fsub_def fl_nonneg)

section \<open>Decimal(str(x))\<close>

text \<open>
  \<open>str\<close> of a float prints the shortest decimal that reads back as the same float; \<open>Decimal\<close>
  keeps that decimal exactly. For \<open>\<bar>x\<bar> < 2 ^ 53\<close> the shortest one is the one with the fewest
  decimals; 345 decimals reach the smallest subnormal.
\<close>

definition dec_round :: "nat \<Rightarrow> rat \<Rightarrow> rat" where
  "dec_round d x = of_int (round_half_even (x * 10 ^ d)) / 10 ^ d"

fun dec_search :: "rat \<Rightarrow> nat \<Rightarrow> nat \<Rightarrow> rat" where
  "dec_search x d 0 = x"
| "dec_search x d (Suc fuel) =
     (if fl (dec_round d x) = x then dec_round d x else dec_search x (Suc d) fuel)"

definition dec_str :: "rat \<Rightarrow> rat" where
  "dec_str x = dec_search x 0 345"

lemma fl_dec_search: "is_float x \<Longrightarrow> fl (dec_search x d fuel) = x"
  by (induction x d fuel rule: dec_search.induct) (auto simp: is_float_def)

theorem fl_dec_str: "is_float x \<Longrightarrow> fl (dec_str x) = x"
  by (simp add: dec_str_def fl_dec_search)

section \<open>The C mathematics library\<close>

record libm =
  lm_exp :: "rat \<Rightarrow> rat"
  lm_erf :: "rat \<Rightarrow> rat"
  lm_sqrt :: "rat \<Rightarrow> rat"
  lm_log :: "rat \<Rightarrow> rat"
  lm_pow :: "rat \<Rightarrow> rat \<Rightarrow> rat"

text \<open>The documented facts the code relies on: ranges and exact values at 0, nothing else.\<close>

definition libm_ok :: "libm \<Rightarrow> bool" where
  "libm_ok L \<longleftrightarrow>
     (\<forall>x. x \<le> 0 \<longrightarrow> 0 \<le> lm_exp L x \<and> lm_exp L x \<le> 1) \<and> lm_exp L 0 = 1 \<and>
     (\<forall>x. - 1 \<le> lm_erf L x \<and> lm_erf L x \<le> 1) \<and> lm_erf L 0 = 0 \<and>
     (\<forall>b t. 0 \<le> b \<longrightarrow> b \<le> 1 \<longrightarrow> 0 \<le> t \<longrightarrow> 0 \<le> lm_pow L b t \<and> lm_pow L b t \<le> 1) \<and>
     (\<forall>x. 0 \<le> x \<longrightarrow> 0 \<le> lm_sqrt L x) \<and> (\<forall>x. 1 \<le> x \<longrightarrow> 0 \<le> lm_log L x)"

text \<open>
  A concrete library that satisfies them, for witnesses: \<open>exp x = 1 / (1 - x)\<close> for \<open>x \<le> 0\<close>,
  \<open>erf x = x / (1 + \<bar>x\<bar>)\<close> and a power that decays hyperbolically, each correctly rounded.
\<close>

definition demo_exp :: "rat \<Rightarrow> rat" where
  "demo_exp x = (if x \<le> 0 then fl (1 / (1 - x)) else fl (1 + x))"

definition demo_erf :: "rat \<Rightarrow> rat" where "demo_erf x = fl (x / (1 + \<bar>x\<bar>))"
definition demo_sqrt :: "rat \<Rightarrow> rat" where "demo_sqrt x = fl ((1 + x) / 2)"
definition demo_log :: "rat \<Rightarrow> rat" where "demo_log x = fl (x - 1)"
definition demo_pow :: "rat \<Rightarrow> rat \<Rightarrow> rat" where "demo_pow b t = fl (1 / (1 + t))"

definition libm_demo :: libm where
  "libm_demo =
     \<lparr>lm_exp = demo_exp, lm_erf = demo_erf, lm_sqrt = demo_sqrt, lm_log = demo_log,
      lm_pow = demo_pow\<rparr>"

lemmas libm_demo_defs =
  libm_demo_def demo_exp_def demo_erf_def demo_sqrt_def demo_log_def demo_pow_def

lemma libm_demo_ok: "libm_ok libm_demo"
proof -
  have "- 1 \<le> fl (x / (1 + \<bar>x\<bar>)) \<and> fl (x / (1 + \<bar>x\<bar>)) \<le> 1" for x
  proof -
    have "- 1 \<le> x / (1 + \<bar>x\<bar>)" "x / (1 + \<bar>x\<bar>) \<le> 1"
      by (auto simp: field_simps abs_if)
    then show ?thesis using flr.rnd_ge [of "- 1"] flr.rnd_le [of 1] by simp
  qed
  moreover have "0 \<le> fl (1 / y) \<and> fl (1 / y) \<le> 1" if "1 \<le> y" for y
    using that flr.rnd_le [of 1 "1 / y"] by (simp add: fl_nonneg)
  ultimately show ?thesis
    by (auto simp: libm_ok_def libm_demo_defs fl_nonneg)
qed

lemma libm_okD:
  assumes "libm_ok L"
  shows "x \<le> 0 \<Longrightarrow> 0 \<le> lm_exp L x" and "x \<le> 0 \<Longrightarrow> lm_exp L x \<le> 1" and "lm_exp L 0 = 1"
    and "- 1 \<le> lm_erf L x" and "lm_erf L x \<le> 1" and "lm_erf L 0 = 0"
    and "0 \<le> b \<Longrightarrow> b \<le> 1 \<Longrightarrow> 0 \<le> t \<Longrightarrow> 0 \<le> lm_pow L b t"
    and "0 \<le> b \<Longrightarrow> b \<le> 1 \<Longrightarrow> 0 \<le> t \<Longrightarrow> lm_pow L b t \<le> 1"
    and "0 \<le> x \<Longrightarrow> 0 \<le> lm_sqrt L x" and "1 \<le> x \<Longrightarrow> 0 \<le> lm_log L x"
  using assms by (simp_all add: libm_ok_def)

end
