(* ===== verification/Runtime.thy ===== *)
theory Runtime
  imports Models Text PyFloat
begin

text \<open>
  What the services run in: the settings they read, the code outside the repository they call (the
  object store's backend, the deck parsers, the hash, the URL splitter, the connectors' network), and
  computations in a session. A computation returns a value or an exception together with the
  session it leaves: an exception keeps what was written so far, as the session does, and only
  leaving the session without a commit (or a database error) drops it. Every computation takes the
  time \<open>now\<close> it runs at: \<open>utcnow()\<close> is read once per computation.
\<close>

record settings =
  set_env :: string
  set_demo_mode :: bool
  set_queue_eager :: bool
  set_decision_sla_hours :: int
  set_max_upload_mb :: nat
  set_tavily_api_key :: string
  set_service_token :: string
  set_access_ttl_min :: int
  set_refresh_ttl_days :: int

definition default_settings :: settings where
  "default_settings =
     \<lparr>set_env = ''dev'', set_demo_mode = False, set_queue_eager = False, set_decision_sla_hours = 24,
      set_max_upload_mb = 40, set_tavily_api_key = [], set_service_token = [],
      set_access_ttl_min = 15, set_refresh_ttl_days = 14\<rparr>"

text \<open>\<open>decision_sla_hours\<close> is validated to lie between 1 and 168.\<close>

definition settings_ok :: "settings \<Rightarrow> bool" where
  "settings_ok S \<longleftrightarrow> 1 \<le> set_decision_sla_hours S \<and> set_decision_sla_hours S \<le> 168"

text \<open>
  The code outside the repository: \<open>libm\<close>, SHA-256, the hash of a JSON value, the object store's
  backend (read a key; write and return the fresh key), the PDF and PPTX readers (a PDF is
  encrypted or has pages, whose text may be missing; a slide has the texts of its shapes), the
  connectors' network requests (the raw records for a query), \<open>datetime.fromisoformat\<close>, the random
  token generator and whether Redis answers. \<open>env_now\<close> is the time of the computation.
\<close>

record env =
  env_settings :: settings
  env_now :: datetime
  env_libm :: libm
  env_sha256 :: "string \<Rightarrow> string"
  env_stable_hash :: "json \<Rightarrow> string"
  env_store_get :: "string \<Rightarrow> exn + string"
  env_store_put :: "string \<Rightarrow> string \<Rightarrow> exn + string"
  env_pdf :: "string \<Rightarrow> exn + bool \<times> string option list"
  env_pptx :: "string \<Rightarrow> exn + string list list"
  env_fetch :: "string \<Rightarrow> string \<Rightarrow> int \<Rightarrow> exn + json list"
  env_fromiso :: "string \<Rightarrow> exn + datetime"
  env_token :: "nat \<Rightarrow> string"
  env_redis_up :: bool

text \<open>A concrete environment for examples: toy versions of the foreign functions.\<close>

definition demo_env :: env where
  "demo_env =
     \<lparr>env_settings = default_settings, env_now = 0, env_libm = libm_demo, env_sha256 = rev,
      env_stable_hash = (\<lambda>_. ''hash''), env_store_get = (\<lambda>_. Inr []),
      env_store_put = (\<lambda>_ _. Inr ''key''), env_pdf = (\<lambda>_. Inr (False, [])), env_pptx = (\<lambda>_. Inr []),
      env_fetch = (\<lambda>_ _ _. Inr []), env_fromiso = (\<lambda>_. Inr 0), env_token = (\<lambda>n. ''token'' @ str_nat n), env_redis_up = True\<rparr>"

section \<open>Computations\<close>

type_synonym 'a run = "session \<Rightarrow> (exn + 'a) \<times> session"

definition ret :: "'a \<Rightarrow> 'a run" where "ret x s = (Inr x, s)"

definition throw :: "exn \<Rightarrow> 'a run" where "throw e s = (Inl e, s)"

definition andThen :: "'a run \<Rightarrow> ('a \<Rightarrow> 'b run) \<Rightarrow> 'b run" where
  "andThen m f s = (case m s of (Inl e, s') \<Rightarrow> (Inl e, s') | (Inr x, s') \<Rightarrow> f x s')"

definition query :: "(db \<Rightarrow> 'a) \<Rightarrow> 'a run" where "query f s = (Inr (f (s_db s)), s)"

definition change :: "(db \<Rightarrow> db) \<Rightarrow> unit run" where
  "change f s = (Inr (), s\<lparr>s_db := f (s_db s)\<rparr>)"

definition on_db :: "(db \<Rightarrow> 'a \<times> db) \<Rightarrow> 'a run" where
  "on_db f s = (let (x, d) = f (s_db s) in (Inr x, s\<lparr>s_db := d\<rparr>))"

text \<open>A result of pure code: an exception or a value.\<close>

definition lift :: "exn + 'a \<Rightarrow> 'a run" where
  "lift r = (case r of Inl e \<Rightarrow> throw e | Inr x \<Rightarrow> ret x)"

text \<open>\<open>session.add\<close> and \<open>flush\<close> of a row with a fresh identifier: the row and what it returns.\<close>

definition insert_new :: "(uuid \<Rightarrow> 'r) \<Rightarrow> ('r \<Rightarrow> db \<Rightarrow> db) \<Rightarrow> 'r run" where
  "insert_new mk put s =
     (let (u, d) = new_uuid (s_db s) in (Inr (mk u), s\<lparr>s_db := put (mk u) d\<rparr>))"

definition commit_run :: "unit run" where "commit_run s = (Inr (), commit s)"

text \<open>\<open>dispatch_job\<close> hands the job to the worker, outside the transaction.\<close>

definition enqueue :: "uuid \<Rightarrow> unit run" where
  "enqueue j s = (Inr (), s\<lparr>s_queue := s_queue s @ [j]\<rparr>)"

definition when_some :: "'a option \<Rightarrow> ('a \<Rightarrow> unit run) \<Rightarrow> unit run" where
  "when_some x f = (case x of None \<Rightarrow> ret () | Some a \<Rightarrow> f a)"

fun each :: "'a list \<Rightarrow> ('a \<Rightarrow> unit run) \<Rightarrow> unit run" where
  "each [] f = ret ()"
| "each (x # xs) f = andThen (f x) (\<lambda>_. each xs f)"

fun map_run :: "('a \<Rightarrow> 'b run) \<Rightarrow> 'a list \<Rightarrow> 'b list run" where
  "map_run f [] = ret []"
| "map_run f (x # xs) = andThen (f x) (\<lambda>y. andThen (map_run f xs) (\<lambda>ys. ret (y # ys)))"

text \<open>A request handler: a session of its own, closed at the end. The result is the response, the
  database afterwards and the jobs handed to the worker.\<close>

definition request :: "'a run \<Rightarrow> db \<Rightarrow> (exn + 'a) \<times> db \<times> uuid list" where
  "request m d = (let (r, s) = m (open_session d []) in (r, s_committed s, s_queue s))"

named_theorems run_simps \<open>evaluation of computations\<close>

lemma ret_run [run_simps]: "ret x s = (Inr x, s)" by (simp add: ret_def)
lemma throw_run [run_simps]: "throw e s = (Inl e, s)" by (simp add: throw_def)
lemma query_run [run_simps]: "query f s = (Inr (f (s_db s)), s)" by (simp add: query_def)
lemma change_run [run_simps]: "change f s = (Inr (), s\<lparr>s_db := f (s_db s)\<rparr>)"
  by (simp add: change_def)
lemma commit_run_run [run_simps]: "commit_run s = (Inr (), commit s)" by (simp add: commit_run_def)
lemma enqueue_run [run_simps]: "enqueue j s = (Inr (), s\<lparr>s_queue := s_queue s @ [j]\<rparr>)"
  by (simp add: enqueue_def)

lemma andThen_ret [run_simps]: "andThen (ret x) f s = f x s"
  by (simp add: andThen_def ret_def)
lemma andThen_throw [run_simps]: "andThen (throw e) f s = (Inl e, s)"
  by (simp add: andThen_def throw_def)
lemma andThen_query [run_simps]: "andThen (query q) f s = f (q (s_db s)) s"
  by (simp add: andThen_def query_def)
lemma andThen_change [run_simps]: "andThen (change g) f s = f () (s\<lparr>s_db := g (s_db s)\<rparr>)"
  by (simp add: andThen_def change_def)
lemma andThen_commit [run_simps]: "andThen commit_run f s = f () (commit s)"
  by (simp add: andThen_def commit_run_def)
lemma andThen_on_db [run_simps]:
  "andThen (on_db g) f s = (case g (s_db s) of (x, d) \<Rightarrow> f x (s\<lparr>s_db := d\<rparr>))"
  by (simp add: andThen_def on_db_def split: prod.split)
lemma lift_run [run_simps]: "lift r s = (r, s)"
  by (simp add: lift_def throw_def ret_def split: sum.split)
lemma andThen_lift [run_simps]:
  "andThen (lift r) f s = (case r of Inl e \<Rightarrow> (Inl e, s) | Inr x \<Rightarrow> f x s)"
  by (simp add: lift_def andThen_ret andThen_throw split: sum.split)
lemma andThen_enqueue [run_simps]:
  "andThen (enqueue j) f s = f () (s\<lparr>s_queue := s_queue s @ [j]\<rparr>)"
  by (simp add: andThen_def enqueue_def)
lemma insert_new_run [run_simps]:
  "insert_new mk put s =
     (Inr (mk (next_uuid (s_db s))),
      s\<lparr>s_db := put (mk (next_uuid (s_db s))) ((s_db s)\<lparr>next_uuid := Suc (next_uuid (s_db s))\<rparr>)\<rparr>)"
  by (simp add: insert_new_def new_uuid_def)
lemma andThen_insert_new [run_simps]:
  "andThen (insert_new mk put) f s = f (mk (next_uuid (s_db s)))
     (s\<lparr>s_db := put (mk (next_uuid (s_db s))) ((s_db s)\<lparr>next_uuid := Suc (next_uuid (s_db s))\<rparr>)\<rparr>)"
  by (simp add: andThen_def insert_new_run)
lemma andThen_assoc [run_simps]:
  "andThen (andThen m f) g s = andThen m (\<lambda>x. andThen (f x) g) s"
  by (simp add: andThen_def split: prod.splits sum.splits)

text \<open>The monad laws, without the session.\<close>

lemma andThen_assoc_fun: "andThen (andThen m f) g = andThen m (\<lambda>x. andThen (f x) g)"
  by (rule ext) (rule andThen_assoc)

lemma andThen_ret_fun: "andThen (ret x) f = f x"
  by (rule ext) (rule andThen_ret)

lemma andThen_Inr:
  "andThen m f s = (Inr y, s') \<longleftrightarrow> (\<exists>x s1. m s = (Inr x, s1) \<and> f x s1 = (Inr y, s'))"
  by (auto simp: andThen_def split: prod.split sum.split)

lemma andThen_stops: "m s = (Inl e, s1) \<Longrightarrow> andThen m f s = (Inl e, s1)"
  by (simp add: andThen_def)

lemma andThen_goes: "m s = (Inr x, s1) \<Longrightarrow> andThen m f s = f x s1"
  by (simp add: andThen_def)

lemma request_run: "m (open_session d []) = (r, s) \<Longrightarrow> request m d = (r, s_committed s, s_queue s)"
  by (simp add: request_def)

section \<open>What every computation keeps\<close>

text \<open>
  A relation between the database before and after that a computation respects at every point: the
  state it leaves, and every state it commits on the way, is related to the one it started from.
\<close>

locale db_order =
  fixes R :: "db \<Rightarrow> db \<Rightarrow> bool"
  assumes order_refl: "R d d"
    and order_trans: "R a b \<Longrightarrow> R b c \<Longrightarrow> R a c"
begin

definition keeps :: "'a run \<Rightarrow> bool" where
  "keeps m \<longleftrightarrow> (\<forall>s. R (s_db s) (s_db (snd (m s)))
     \<and> (s_committed (snd (m s)) = s_committed s \<or> R (s_db s) (s_committed (snd (m s)))))"

lemma keepsD:
  "keeps m \<Longrightarrow> m s = (r, s') \<Longrightarrow>
     R (s_db s) (s_db s') \<and> (s_committed s' = s_committed s \<or> R (s_db s) (s_committed s'))"
  unfolding keeps_def by (metis snd_conv)

lemma keeps_ret [intro, simp]: "keeps (ret x)"
  by (simp add: keeps_def ret_def order_refl)

lemma keeps_throw [intro, simp]: "keeps (throw e)"
  by (simp add: keeps_def throw_def order_refl)

lemma keeps_query [intro, simp]: "keeps (query q)"
  by (simp add: keeps_def query_def order_refl)

lemma keeps_enqueue [intro, simp]: "keeps (enqueue j)"
  by (simp add: keeps_def enqueue_def order_refl)

lemma keeps_commit [intro, simp]: "keeps commit_run"
  by (simp add: keeps_def commit_run_def order_refl)

lemma keeps_change: "(\<And>d. R d (f d)) \<Longrightarrow> keeps (change f)"
  by (simp add: keeps_def change_def)

lemma keeps_on_db: "(\<And>d. R d (snd (f d))) \<Longrightarrow> keeps (on_db f)"
  by (simp add: keeps_def on_db_def Let_def split_beta)

lemma keeps_lift [intro, simp]: "keeps (lift r)"
  by (simp add: lift_def split: sum.split)

lemma keeps_insert_new:
  assumes "\<And>d. R d (put (mk (next_uuid d)) (d\<lparr>next_uuid := Suc (next_uuid d)\<rparr>))"
  shows "keeps (insert_new mk put)"
  using assms by (simp add: keeps_def insert_new_def new_uuid_def Let_def)

lemma keeps_andThen [intro]:
  assumes "keeps m" and "\<And>x. keeps (f x)"
  shows "keeps (andThen m f)"
  unfolding keeps_def
proof
  fix s
  obtain r s' where m: "m s = (r, s')" by fastforce
  note 1 = keepsD [OF assms(1) m]
  show "R (s_db s) (s_db (snd (andThen m f s)))
      \<and> (s_committed (snd (andThen m f s)) = s_committed s
         \<or> R (s_db s) (s_committed (snd (andThen m f s))))"
  proof (cases r)
    case (Inl e)
    then show ?thesis using 1 m by (simp add: andThen_def)
  next
    case (Inr x)
    obtain r2 s2 where f: "f x s' = (r2, s2)" by fastforce
    note 2 = keepsD [OF assms(2) f]
    show ?thesis using 1 2 m f Inr order_trans by (auto simp: andThen_def)
  qed
qed

lemma keeps_when_some [intro]: "(\<And>a. x = Some a \<Longrightarrow> keeps (f a)) \<Longrightarrow> keeps (when_some x f)"
  by (cases x) (simp_all add: when_some_def)

lemma keeps_each [intro]: "(\<And>x. keeps (f x)) \<Longrightarrow> keeps (each xs f)"
  by (induction xs) auto

lemma keeps_map_run [intro]: "(\<And>x. keeps (f x)) \<Longrightarrow> keeps (map_run f xs)"
  by (induction xs) auto

lemma keeps_if [intro]: "keeps a \<Longrightarrow> keeps b \<Longrightarrow> keeps (if c then a else b)"
  by simp

lemma keeps_request:
  assumes "keeps m" shows "R d (fst (snd (request m d)))"
proof -
  obtain r s where m: "m (open_session d []) = (r, s)" by fastforce
  from keepsD [OF assms m] show ?thesis
    unfolding request_def m by (auto simp: open_session_def order_refl)
qed

end

section \<open>Answers\<close>

text \<open>\<open>raise e\<close>, \<open>raise NotFoundError(...)\<close> when a lookup finds nothing.\<close>

definition found :: "string \<Rightarrow> 'a option \<Rightarrow> 'a run" where
  "found resource x = (case x of None \<Rightarrow> throw (App (NotFoundError resource)) | Some a \<Rightarrow> ret a)"

definition check :: "bool \<Rightarrow> app_error \<Rightarrow> unit run" where
  "check c e = (if c then ret () else throw (App e))"

lemma check_run [run_simps]: "check c e s = (if c then Inr () else Inl (App e), s)"
  by (simp add: check_def ret_def throw_def)

lemma andThen_check [run_simps]:
  "andThen (check c e) f s = (if c then f () s else (Inl (App e), s))"
  by (simp add: check_def andThen_ret andThen_throw)

lemma andThen_found [run_simps]:
  "andThen (found r x) f s =
     (case x of None \<Rightarrow> (Inl (App (NotFoundError r)), s) | Some a \<Rightarrow> f a s)"
  by (simp add: found_def andThen_ret andThen_throw split: option.split)

lemma found_run [run_simps]:
  "found r x s = (case x of None \<Rightarrow> (Inl (App (NotFoundError r)), s) | Some a \<Rightarrow> (Inr a, s))"
  by (simp add: found_def ret_def throw_def split: option.split)

context db_order
begin

lemma keeps_found [intro, simp]: "keeps (found r x)"
  by (simp add: found_def split: option.split)

lemma keeps_check [intro, simp]: "keeps (check c e)"
  by (simp add: check_def)

end

end
