(* ===== verification/Histories.thy ===== *)
theory Histories
  imports Runtime "HOL-Library.Sublist"
begin

text \<open>
  Two relations between the database before and after a computation that the services respect:
  history is kept (an opportunity's identity and its SLA clock never change, the ledgers only
  grow), and a computation for one fund leaves the rows of all others alone. Both are
  instances of \<open>db_order\<close>.
\<close>

named_theorems kept \<open>computations that keep history and the other tenants\<close>

section \<open>History\<close>

definition clock_kept :: "Opportunity list \<Rightarrow> Opportunity list \<Rightarrow> bool" where
  "clock_kept os os' \<longleftrightarrow>
     (\<forall>i o1. get_row op_id i os = Some o1 \<longrightarrow>
        (\<exists>o2. get_row op_id i os' = Some o2 \<and> op_first_signal_at o2 = op_first_signal_at o1
              \<and> op_sla_deadline_at o2 = op_sla_deadline_at o1
              \<and> op_org_id o2 = op_org_id o1 \<and> op_company_id o2 = op_company_id o1))"

definition history_kept :: "db \<Rightarrow> db \<Rightarrow> bool" where
  "history_kept d d' \<longleftrightarrow>
     clock_kept (opportunities d) (opportunities d')
     \<and> prefix (founder_score_events d) (founder_score_events d')
     \<and> prefix (opportunity_scores d) (opportunity_scores d')
     \<and> prefix (evidence d) (evidence d') \<and> prefix (audit_log d) (audit_log d')
     \<and> next_uuid d \<le> next_uuid d'"

lemma clock_kept_refl [simp, intro]: "clock_kept os os"
  by (auto simp: clock_kept_def)

lemma clock_kept_trans:
  assumes "clock_kept a b" "clock_kept b c" shows "clock_kept a c"
  unfolding clock_kept_def
proof (intro allI impI)
  fix i o1 assume "get_row op_id i a = Some o1"
  then obtain o2 where 2: "get_row op_id i b = Some o2" "op_first_signal_at o2 = op_first_signal_at o1"
      "op_sla_deadline_at o2 = op_sla_deadline_at o1" "op_org_id o2 = op_org_id o1"
      "op_company_id o2 = op_company_id o1"
    using assms(1) by (auto simp: clock_kept_def)
  then show "\<exists>o2. get_row op_id i c = Some o2 \<and> op_first_signal_at o2 = op_first_signal_at o1
      \<and> op_sla_deadline_at o2 = op_sla_deadline_at o1 \<and> op_org_id o2 = op_org_id o1
      \<and> op_company_id o2 = op_company_id o1"
    using assms(2) by (fastforce simp: clock_kept_def)
qed

lemma clock_kept_append [simp, intro]: "clock_kept os (os @ ps)"
  by (auto simp: clock_kept_def row_simps)

lemma clock_kept_upd [intro]:
  assumes "\<And>x. op_id (f x) = op_id x" "\<And>x. op_first_signal_at (f x) = op_first_signal_at x"
    "\<And>x. op_sla_deadline_at (f x) = op_sla_deadline_at x" "\<And>x. op_org_id (f x) = op_org_id x"
    "\<And>x. op_company_id (f x) = op_company_id x"
  shows "clock_kept os (upd_row op_id i f os)"
  using assms by (auto simp: clock_kept_def row_simps)

interpretation hist: db_order history_kept
proof
  fix a b c assume "history_kept a b" "history_kept b c"
  then show "history_kept a c"
    unfolding history_kept_def using clock_kept_trans prefix_order.trans le_trans by meson
qed (simp add: history_kept_def)

section \<open>The other tenants\<close>

text \<open>The rows of a table that do not belong to \<open>org\<close>.\<close>

definition foreign :: "('r \<Rightarrow> 'o) \<Rightarrow> 'o \<Rightarrow> 'r list \<Rightarrow> 'r list" where
  "foreign f x rs = filter (\<lambda>r. f r \<noteq> x) rs"

definition others_kept :: "uuid \<Rightarrow> db \<Rightarrow> db \<Rightarrow> bool" where
  "others_kept x d d' \<longleftrightarrow>
     foreign op_org_id x (opportunities d') = foreign op_org_id x (opportunities d)
     \<and> foreign app_org_id x (applications d') = foreign app_org_id x (applications d)
     \<and> foreign cl_org_id x (claims d') = foreign cl_org_id x (claims d)
     \<and> foreign memo_org_id x (memos d') = foreign memo_org_id x (memos d)
     \<and> foreign job_org_id (Some x) (jobs d') = foreign job_org_id (Some x) (jobs d)
     \<and> foreign th_org_id x (theses d') = foreign th_org_id x (theses d)
     \<and> foreign out_org_id x (outreach d') = foreign out_org_id x (outreach d)
     \<and> foreign usr_org_id x (users d') = foreign usr_org_id x (users d)
     \<and> foreign org_id x (orgs d') = foreign org_id x (orgs d)
     \<and> foreign inv_org_id x (org_invites d') = foreign inv_org_id x (org_invites d)"

text \<open>A computation for the fund \<open>x\<close> is safe when it keeps history and leaves the others alone.\<close>

definition safe :: "uuid \<Rightarrow> db \<Rightarrow> db \<Rightarrow> bool" where
  "safe x d d' \<longleftrightarrow> history_kept d d' \<and> others_kept x d d'"

lemma others_kept_trans: "others_kept x a b \<Longrightarrow> others_kept x b c \<Longrightarrow> others_kept x a c"
  by (simp add: others_kept_def)

interpretation fund: db_order "safe x" for x
proof
  fix a b c assume "safe x a b" "safe x b c"
  then show "safe x a c"
    unfolding safe_def using hist.order_trans others_kept_trans by blast
qed (simp add: safe_def history_kept_def others_kept_def)

text \<open>The strongest frame: only people, companies, signals, scores, memory and channels change.\<close>

definition entities_only :: "db \<Rightarrow> db \<Rightarrow> bool" where
  "entities_only d d' \<longleftrightarrow>
     opportunities d' = opportunities d \<and> applications d' = applications d \<and> claims d' = claims d
     \<and> memos d' = memos d \<and> jobs d' = jobs d \<and> theses d' = theses d \<and> outreach d' = outreach d
     \<and> users d' = users d \<and> orgs d' = orgs d \<and> org_invites d' = org_invites d
     \<and> opportunity_scores d' = opportunity_scores d \<and> evidence d' = evidence d
     \<and> audit_log d' = audit_log d \<and> documents d' = documents d \<and> agent_steps d' = agent_steps d
     \<and> prefix (founder_score_events d) (founder_score_events d') \<and> next_uuid d \<le> next_uuid d'"

interpretation frame: db_order entities_only
  by unfold_locales (auto simp: entities_only_def)

lemma entities_only_safe: "entities_only d d' \<Longrightarrow> safe x d d'"
  by (simp add: entities_only_def safe_def history_kept_def others_kept_def)

lemma frame_fund: "frame.keeps m \<Longrightarrow> fund.keeps x m"
  using entities_only_safe unfolding frame.keeps_def fund.keeps_def by blast

lemma fund_hist: "fund.keeps x m \<Longrightarrow> hist.keeps m"
  unfolding hist.keeps_def fund.keeps_def safe_def by blast

lemmas safe_defs = safe_def history_kept_def others_kept_def
lemmas fund_intros = fund.keeps_andThen fund.keeps_change fund.keeps_insert_new fund.keeps_on_db
  fund.keeps_when_some fund.keeps_each fund.keeps_map_run fund.keeps_if
lemmas frame_intros = frame.keeps_andThen frame.keeps_change frame.keeps_insert_new
  frame.keeps_on_db frame.keeps_when_some frame.keeps_each frame.keeps_map_run frame.keeps_if
lemmas hist_intros = hist.keeps_andThen hist.keeps_change hist.keeps_insert_new hist.keeps_on_db
  hist.keeps_when_some hist.keeps_each hist.keeps_map_run hist.keeps_if

lemma foreign_append [simp]: "foreign f x (rs @ qs) = foreign f x rs @ foreign f x qs"
  by (simp add: foreign_def)

lemma foreign_own [simp]: "f r = x \<Longrightarrow> foreign f x [r] = []"
  by (simp add: foreign_def)

lemma foreign_upd:
  assumes "\<And>r. f (g r) = f r" and "\<And>r. r \<in> set rs \<Longrightarrow> P r \<Longrightarrow> f r = x"
  shows "foreign f x (upd_where P g rs) = foreign f x rs"
  using assms(2) by (induction rs) (auto simp: foreign_def upd_where_def assms(1))

end
