(* ===== verification/Principals.thy ===== *)
theory Principals
  imports Histories
begin

text \<open>
  Who makes a request: \<open>Principal\<close> of \<open>app/services/auth.py\<close> and the dependencies of \<open>app/deps.py\<close> that
  authenticate a bearer token (the service token, an API key, an access token) and check a
  permission. The JWT and password libraries are parameters.
\<close>

record jwt_payload =
  pl_sub :: "uuid option" \<comment> \<open>None: missing or not a UUID\<close>
  pl_org :: "uuid option"
  pl_scopes :: "string list"
  pl_jti :: "string option"
  pl_typ :: string
  pl_exp :: datetime

datatype jwt_result = JwtOk jwt_payload | JwtExpired | JwtInvalid

text \<open>\<open>jwt.encode\<close>, \<open>jwt.decode\<close> (at a time, with the 30 seconds leeway), Argon2's hash and verify.\<close>

record auth_env =
  ae_encode :: "jwt_payload \<Rightarrow> string"
  ae_decode :: "datetime \<Rightarrow> string \<Rightarrow> jwt_result"
  ae_hash :: "string \<Rightarrow> string"
  ae_verify :: "string \<Rightarrow> string \<Rightarrow> bool"

record Principal =
  pr_org_id :: uuid
  pr_user_id :: "uuid option"
  pr_role :: UserRole
  pr_scopes :: "string list"
  pr_token_jti :: "string option"
  pr_kind :: string

definition has_permission :: "Principal \<Rightarrow> Permission \<Rightarrow> bool" where
  "has_permission pr p \<longleftrightarrow>
     p \<in> set (ROLE_PERMISSIONS (pr_role pr)) \<or> permission_value p \<in> set (pr_scopes pr)"

text \<open>\<open>Depends(require(permission))\<close>.\<close>

definition require :: "Permission \<Rightarrow> Principal \<Rightarrow> unit run" where
  "require p pr = check (has_permission pr p) ForbiddenError"

definition decode_access_token :: "auth_env \<Rightarrow> datetime \<Rightarrow> string \<Rightarrow> app_error + jwt_payload" where
  "decode_access_token A now token =
     (case ae_decode A now token of
        JwtExpired \<Rightarrow> Inl (UnauthenticatedError ''TOKEN_EXPIRED'' ''The access token has expired.'')
      | JwtInvalid \<Rightarrow> Inl Unauthenticated
      | JwtOk p \<Rightarrow> if pl_typ p \<noteq> ''access'' then Inl Unauthenticated else Inr p)"

definition service_principal :: "uuid \<Rightarrow> Principal" where
  "service_principal org =
     \<lparr>pr_org_id = org, pr_user_id = None, pr_role = SERVICE,
      pr_scopes = map permission_value [READ, SCREEN, ADMIN], pr_token_jti = None, pr_kind = ''service''\<rparr>"

definition api_key_principal :: "ApiKey \<Rightarrow> Principal" where
  "api_key_principal key =
     \<lparr>pr_org_id = ak_org_id key, pr_user_id = None, pr_role = SERVICE, pr_scopes = ak_scopes key,
      pr_token_jti = None, pr_kind = ''api_key''\<rparr>"

definition user_principal :: "User \<Rightarrow> jwt_payload \<Rightarrow> Principal" where
  "user_principal u p =
     \<lparr>pr_org_id = usr_org_id u, pr_user_id = Some (usr_id u), pr_role = usr_role u,
      pr_scopes = pl_scopes p, pr_token_jti = pl_jti p, pr_kind = ''user''\<rparr>"

text \<open>\<open>credentials\<close> are the scheme and the token of the Authorization header; \<open>x_org_id\<close> is None when the
  header is missing or not a UUID.\<close>

definition service_login :: "uuid option \<Rightarrow> db \<Rightarrow> app_error + Principal" where
  "service_login x_org_id d =
     (case x_org_id of
        None \<Rightarrow> Inl (UnauthenticatedError ''UNAUTHENTICATED''
                       ''Service token requests require a valid X-Org-Id header.'')
      | Some org \<Rightarrow> (case get_row org_id org (orgs d) of
                       None \<Rightarrow> Inl Unauthenticated | Some _ \<Rightarrow> Inr (service_principal org)))"

definition api_key_login :: "env \<Rightarrow> string \<Rightarrow> db \<Rightarrow> app_error + Principal" where
  "api_key_login E token d =
     (case first_row (\<lambda>k. ak_key_hash k = env_sha256 E token \<and> ak_revoked_at k = None) (api_keys d) of
        None \<Rightarrow> Inl Unauthenticated | Some key \<Rightarrow> Inr (api_key_principal key))"

definition user_login :: "env \<Rightarrow> auth_env \<Rightarrow> string \<Rightarrow> db \<Rightarrow> app_error + Principal" where
  "user_login E A token d =
     (case decode_access_token A (env_now E) token of
        Inl e \<Rightarrow> Inl e
      | Inr p \<Rightarrow>
          (case (pl_sub p, pl_org p) of
             (Some uid, Some org) \<Rightarrow>
               (case first_row (\<lambda>u. usr_id u = uid \<and> usr_org_id u = org) (users d) of
                  None \<Rightarrow> Inl (UnauthenticatedError ''TOKEN_REVOKED'' ''Account is unavailable.'')
                | Some u \<Rightarrow>
                    if \<not> usr_is_active u
                    then Inl (UnauthenticatedError ''TOKEN_REVOKED'' ''Account is unavailable.'')
                    else Inr (user_principal u p))
           | _ \<Rightarrow> Inl Unauthenticated))"

definition get_current_principal ::
  "env \<Rightarrow> auth_env \<Rightarrow> (string \<times> string) option \<Rightarrow> uuid option \<Rightarrow> db \<Rightarrow> app_error + Principal" where
  "get_current_principal E A credentials x_org_id d =
     (case credentials of
        None \<Rightarrow> Inl Unauthenticated
      | Some (scheme, token) \<Rightarrow>
          if casefold scheme \<noteq> ''bearer'' then Inl Unauthenticated
          else if set_service_token (env_settings E) \<noteq> [] \<and> token = set_service_token (env_settings E)
          then service_login x_org_id d
          else if starts_with ''vcb_live_'' token then api_key_login E token d
          else user_login E A token d)"

lemma has_permission_role [simp]:
  "p \<in> set (ROLE_PERMISSIONS (pr_role pr)) \<Longrightarrow> has_permission pr p"
  by (simp add: has_permission_def)

lemma andThen_require [run_simps]:
  "andThen (require p pr) f s =
     (if has_permission pr p then f () s else (Inl (App ForbiddenError), s))"
  by (simp add: require_def andThen_check)

lemma keeps_require [kept]: "fund.keeps x (require p pr)"
  by (simp add: require_def)

text \<open>C22: what a request may claim to be. A principal belongs to an existing fund of the token it
  presented: the active user named by a valid access token (and then to that user's own fund), the
  fund of an unrevoked API key, or, for the service token, the fund of the header.\<close>

theorem principal_is_authentic:
  assumes "get_current_principal E A credentials x_org_id d = Inr pr"
  shows "\<exists>scheme token. credentials = Some (scheme, token) \<and> casefold scheme = ''bearer''
    \<and> ((\<exists>u \<in> set (users d). usr_is_active u \<and> pr_user_id pr = Some (usr_id u)
            \<and> pr_org_id pr = usr_org_id u \<and> pr_role pr = usr_role u
            \<and> (\<exists>p. ae_decode A (env_now E) token = JwtOk p \<and> pl_typ p = ''access''
                 \<and> pl_sub p = Some (usr_id u) \<and> pl_org p = Some (usr_org_id u)
                 \<and> pr_scopes pr = pl_scopes p))
       \<or> (pr_user_id pr = None \<and> pr_role pr = SERVICE
            \<and> (\<exists>k \<in> set (api_keys d). ak_key_hash k = env_sha256 E token \<and> ak_revoked_at k = None
                 \<and> pr_org_id pr = ak_org_id k \<and> pr_scopes pr = ak_scopes k))
       \<or> (pr_user_id pr = None \<and> pr_role pr = SERVICE \<and> token = set_service_token (env_settings E)
            \<and> token \<noteq> [] \<and> x_org_id = Some (pr_org_id pr) \<and> (\<exists>g \<in> set (orgs d). org_id g = pr_org_id pr)))"
proof -
  obtain scheme token where c: "credentials = Some (scheme, token)" "casefold scheme = ''bearer''"
    using assms by (auto simp: get_current_principal_def split: option.splits if_splits)
  consider "service_login x_org_id d = Inr pr" "token = set_service_token (env_settings E)" "token \<noteq> []"
    | "api_key_login E token d = Inr pr" | "user_login E A token d = Inr pr"
    using assms c by (auto simp: get_current_principal_def split: if_splits)
  then show ?thesis
  proof cases
    case 1
    then show ?thesis using c get_row_Some
      by (fastforce simp: service_login_def service_principal_def split: option.splits)
  next
    case 2
    then obtain k where "first_row (\<lambda>k. ak_key_hash k = env_sha256 E token \<and> ak_revoked_at k = None)
        (api_keys d) = Some k" "pr = api_key_principal k"
      by (auto simp: api_key_login_def split: option.splits)
    then show ?thesis using c first_row_Some
      by (fastforce simp: api_key_principal_def)
  next
    case 3
    then obtain p uid org u where p: "decode_access_token A (env_now E) token = Inr p"
        "pl_sub p = Some uid" "pl_org p = Some org"
      and u: "first_row (\<lambda>u. usr_id u = uid \<and> usr_org_id u = org) (users d) = Some u"
        "usr_is_active u" "pr = user_principal u p"
      by (auto simp: user_login_def split: sum.splits option.splits if_splits)
    have "ae_decode A (env_now E) token = JwtOk p" "pl_typ p = ''access''"
      using p(1) by (auto simp: decode_access_token_def split: jwt_result.splits if_splits)
    moreover have "u \<in> set (users d)" "usr_id u = uid" "usr_org_id u = org"
      using first_row_Some [OF u(1)] by auto
    ultimately show ?thesis using c p(2,3) u(2,3) by (intro exI conjI disjI1) (auto simp: user_principal_def)
  qed
qed

definition demo_auth :: auth_env where
  "demo_auth =
     \<lparr>ae_encode = (\<lambda>p. ''jwt''),
      ae_decode = (\<lambda>now t. if t = ''jwt'' then JwtOk \<lparr>pl_sub = Some 3, pl_org = Some 1, pl_scopes = [''read''],
         pl_jti = None, pl_typ = ''access'', pl_exp = 900\<rparr> else JwtInvalid),
      ae_hash = (\<lambda>p. ''#'' @ p), ae_verify = (\<lambda>h p. h = ''#'' @ p)\<rparr>"

definition demo_key :: ApiKey where
  "demo_key =
     \<lparr>ak_id = 8, ak_org_id = 1, ak_name = ''ci'', ak_key_prefix = ''vcb_live_'',
      ak_key_hash = env_sha256 demo_env ''vcb_live_x'', ak_scopes = [], ak_created_by = None,
      ak_last_used_at = None, ak_expires_at = Some (- 1), ak_revoked_at = None\<rparr>"

theorem principal_is_authentic_witness:
  "get_current_principal demo_env demo_auth (Some (''Bearer'', ''vcb_live_x'')) None
       (empty_db\<lparr>api_keys := [demo_key]\<rparr>) = Inr (api_key_principal demo_key)
   \<and> (\<exists>k \<in> set (api_keys (empty_db\<lparr>api_keys := [demo_key]\<rparr>)). ak_org_id k = 1)"
proof -
  have r: "get_current_principal demo_env demo_auth (Some (''Bearer'', ''vcb_live_x'')) None
       (empty_db\<lparr>api_keys := [demo_key]\<rparr>) = Inr (api_key_principal demo_key)" by code_simp
  have "pr_org_id (api_key_principal demo_key) = 1" by (simp add: api_key_principal_def demo_key_def)
  with principal_is_authentic [OF r] r show ?thesis by (auto simp: empty_db_def)
qed

text \<open>The limits on an API key do not limit it. A key past its expiry date still authenticates, and
  with no scopes at all it may read, screen and administer, because the principal gets the role of
  the service and the scopes only add to the role.\<close>

theorem expired_unscoped_key_is_service:
  assumes "key \<in> set (api_keys d)" and "\<forall>k \<in> set (api_keys d). ak_key_hash k = env_sha256 E token \<longrightarrow> k = key"
    and "ak_key_hash key = env_sha256 E token" and "ak_revoked_at key = None"
    and "ak_expires_at key = Some t" and "t < env_now E" and "ak_scopes key = []"
    and "starts_with ''vcb_live_'' token" and "token \<noteq> set_service_token (env_settings E)"
  shows "get_current_principal E A (Some (''Bearer'', token)) x_org_id d = Inr (api_key_principal key)
    \<and> has_permission (api_key_principal key) READ \<and> has_permission (api_key_principal key) SCREEN
    \<and> has_permission (api_key_principal key) ADMIN"
proof -
  have "first_row (\<lambda>k. ak_key_hash k = env_sha256 E token \<and> ak_revoked_at k = None) (api_keys d) = Some key"
  proof (cases "first_row (\<lambda>k. ak_key_hash k = env_sha256 E token \<and> ak_revoked_at k = None) (api_keys d)")
    case None
    then show ?thesis using assms(1,3,4) by (auto simp: first_row_None)
  next
    case (Some k)
    then show ?thesis using first_row_Some [OF Some] assms(2) by blast
  qed
  moreover have "casefold ''Bearer'' = ''bearer''" by code_simp
  ultimately show ?thesis using assms(8,9)
    by (simp add: get_current_principal_def api_key_login_def api_key_principal_def)
qed

theorem expired_unscoped_key_is_service_witness:
  "has_permission (api_key_principal demo_key) ADMIN \<and> ak_expires_at demo_key = Some (- 1)"
proof -
  let ?d = "empty_db\<lparr>api_keys := [demo_key]\<rparr>"
  have "has_permission (api_key_principal demo_key) ADMIN"
    using expired_unscoped_key_is_service [of demo_key ?d demo_env "''vcb_live_x''" "- 1"]
    by (simp add: demo_key_def demo_env_def default_settings_def)
  then show ?thesis by (simp add: demo_key_def)
qed

end
