(* ===== verification/Jobs.thy ===== *)
theory Jobs
  imports Principals
begin

text \<open>
  \<open>app/services/jobs.py\<close> and \<open>app/routers/jobs.py\<close>: creating a job once per idempotency key, handing it to the
  worker, the reaper, and the requests on a job (read, list, follow, cancel, retry). The worker
  itself is \<open>Pipeline\<close>.
\<close>

definition add_job :: "Job \<Rightarrow> db \<Rightarrow> db" where
  "add_job j d = d\<lparr>jobs := jobs d @ [j]\<rparr>"

definition set_job :: "uuid \<Rightarrow> (Job \<Rightarrow> Job) \<Rightarrow> db \<Rightarrow> db" where
  "set_job i f d = d\<lparr>jobs := upd_row job_id i f (jobs d)\<rparr>"

text \<open>A new job row; the columns not named have their defaults.\<close>

definition new_job ::
  "uuid option \<Rightarrow> string \<Rightarrow> string \<Rightarrow> uuid \<Rightarrow> string option \<Rightarrow> json \<Rightarrow> datetime \<Rightarrow> uuid \<Rightarrow> Job" where
  "new_job org kind target_type target key inp now u =
     \<lparr>job_id = u, job_org_id = org, job_kind = kind, job_status = QUEUED,
      job_target_type = Some target_type, job_target_id = Some target, job_idempotency_key = key,
      job_progress = 0, job_current_step = None, job_input = inp, job_result = JObj [],
      job_error_code = None, job_error_message = None, job_attempts = 0, job_max_attempts = 2,
      job_started_at = None, job_finished_at = None, job_heartbeat_at = None, job_created_at = now\<rparr>"

definition same_request :: "env \<Rightarrow> uuid \<Rightarrow> string \<Rightarrow> uuid \<Rightarrow> string \<Rightarrow> Job \<Rightarrow> bool" where
  "same_request E org kind target key j \<longleftrightarrow>
     job_org_id j = Some org \<and> job_kind j = kind \<and> job_target_id j = Some target
     \<and> job_idempotency_key j = Some key \<and> env_now E - hours 24 \<le> job_created_at j"

definition create_job ::
  "env \<Rightarrow> uuid \<Rightarrow> string \<Rightarrow> string \<Rightarrow> uuid \<Rightarrow> string \<Rightarrow> json \<Rightarrow> (Job \<times> bool) run" where
  "create_job E org kind target_type target key inp =
     andThen (query (\<lambda>d. first_row (same_request E org kind target key) (jobs d)))
       (\<lambda>existing. case existing of
          Some j \<Rightarrow> ret (j, True)
        | None \<Rightarrow>
            andThen (insert_new (new_job (Some org) kind target_type target (Some key) inp (env_now E)) add_job)
              (\<lambda>j. ret (j, False)))"

text \<open>With an eager queue the job runs in this process; otherwise it goes to Redis, and if Redis fails
  nothing happens.\<close>

definition dispatch_job :: "env \<Rightarrow> uuid \<Rightarrow> unit run" where
  "dispatch_job E j =
     (if set_queue_eager (env_settings E) \<or> env_redis_up E then enqueue j else ret ())"

record queue_counts =
  qs_queued :: nat
  qs_running :: nat
  qs_failed_24h :: nat
  qs_oldest_queued_s :: rat

definition count_status :: "JobStatus \<Rightarrow> db \<Rightarrow> nat" where
  "count_status st d = length (filter (\<lambda>j. job_status j = st) (jobs d))"

definition queue_summary :: "env \<Rightarrow> db \<Rightarrow> queue_counts" where
  "queue_summary E d =
     (let queued = map job_created_at (filter (\<lambda>j. job_status j = QUEUED) (jobs d));
          oldest = (case queued of [] \<Rightarrow> 0
                    | t # ts \<Rightarrow> fdiv (of_int (env_now E - fold min ts t)) 1000000)
      in \<lparr>qs_queued = count_status QUEUED d, qs_running = count_status RUNNING d,
          qs_failed_24h = count_status FAILED d, qs_oldest_queued_s = py_round 1 oldest\<rparr>)"

definition is_stale :: "datetime \<Rightarrow> Job \<Rightarrow> bool" where
  "is_stale now j \<longleftrightarrow>
     job_status j = RUNNING
     \<and> (case job_heartbeat_at j of None \<Rightarrow> False | Some h \<Rightarrow> h < now - seconds 90)"

definition worker_lost :: "datetime \<Rightarrow> Job \<Rightarrow> Job" where
  "worker_lost now j =
     j\<lparr>job_status := FAILED, job_error_code := Some ''WORKER_LOST'',
       job_error_message := Some ''Worker heartbeat was lost. The job can be retried.'',
       job_finished_at := Some now\<rparr>"

definition reap_stale_jobs :: "env \<Rightarrow> nat run" where
  "reap_stale_jobs E =
     andThen (query (\<lambda>d. length (filter (is_stale (env_now E)) (jobs d)))) (\<lambda>n.
     andThen (change (\<lambda>d. d\<lparr>jobs := upd_where (is_stale (env_now E)) (worker_lost (env_now E)) (jobs d)\<rparr>)) (\<lambda>_.
     andThen commit_run (\<lambda>_. ret n)))"

section \<open>The requests\<close>

definition find_job :: "uuid \<Rightarrow> uuid \<Rightarrow> db \<Rightarrow> Job option" where
  "find_job org i d = first_row (\<lambda>j. job_id j = i \<and> job_org_id j = Some org) (jobs d)"

definition get_job :: "Principal \<Rightarrow> uuid \<Rightarrow> Job run" where
  "get_job pr i =
     andThen (require READ pr) (\<lambda>_. andThen (query (find_job (pr_org_id pr) i)) (found ''Job''))"

definition matches :: "'a option \<Rightarrow> 'a \<Rightarrow> bool" where
  "matches wanted x \<longleftrightarrow> (case wanted of None \<Rightarrow> True | Some w \<Rightarrow> x = w)"

definition list_jobs ::
  "Principal \<Rightarrow> string option \<Rightarrow> uuid option \<Rightarrow> JobStatus option \<Rightarrow> Job list run" where
  "list_jobs pr target_type target status =
     andThen (require READ pr) (\<lambda>_.
     query (\<lambda>d. take 100 (sort_key (\<lambda>j. - job_created_at j)
       (filter (\<lambda>j. job_org_id j = Some (pr_org_id pr)
           \<and> (truthy target_type \<longrightarrow> job_target_type j = target_type)
           \<and> (target \<noteq> None \<longrightarrow> job_target_id j = target) \<and> matches status (job_status j)) (jobs d)))))"

definition finished :: "JobStatus \<Rightarrow> bool" where
  "finished st \<longleftrightarrow> st \<in> {SUCCEEDED, FAILED, CANCELLED, PARTIAL}"

definition cancel_job :: "env \<Rightarrow> Principal \<Rightarrow> uuid \<Rightarrow> string run" where
  "cancel_job E pr i =
     andThen (require SCREEN pr) (\<lambda>_.
     andThen (query (find_job (pr_org_id pr) i)) (\<lambda>r. andThen (found ''Job'' r) (\<lambda>j.
     andThen (check (job_status j \<notin> {SUCCEEDED, FAILED, CANCELLED})
               (AppError ''UNPROCESSABLE'' ''Completed jobs cannot be cancelled.'' 422)) (\<lambda>_.
     andThen (change (set_job (job_id j)
               (\<lambda>j. j\<lparr>job_status := CANCELLED, job_finished_at := Some (env_now E)\<rparr>))) (\<lambda>_.
     andThen commit_run (\<lambda>_. ret ''cancelled''))))))"

definition retry_key :: "Job \<Rightarrow> string" where
  "retry_key j =
     ''retry:'' @ str_nat (job_id j) @ '':'' @
     (if job_attempts j < 0 then ''-'' @ str_nat (nat (- job_attempts j)) else str_nat (nat (job_attempts j)))"

text \<open>A job without a target gets a fresh identifier as its target.\<close>

definition retry_target :: "Job \<Rightarrow> uuid run" where
  "retry_target j =
     (case job_target_id j of Some t \<Rightarrow> ret t | None \<Rightarrow> on_db new_uuid)"

definition retry_job :: "env \<Rightarrow> Principal \<Rightarrow> uuid \<Rightarrow> uuid run" where
  "retry_job E pr i =
     andThen (require SCREEN pr) (\<lambda>_.
     andThen (query (find_job (pr_org_id pr) i)) (\<lambda>r. andThen (found ''Job'' r) (\<lambda>j.
     andThen (check (job_status j \<in> {FAILED, PARTIAL})
               (AppError ''UNPROCESSABLE'' ''Only failed or partial jobs can be retried.'' 422)) (\<lambda>_.
     andThen (retry_target j) (\<lambda>target.
     andThen (create_job E (pr_org_id pr) (job_kind j)
               (if truthy (job_target_type j) then the (job_target_type j) else ''unknown'') target
               (retry_key j) (jset ''retry_of'' (JUuid (job_id j)) (job_input j))) (\<lambda>(new, replayed).
     andThen commit_run (\<lambda>_. andThen (dispatch_job E (job_id new)) (\<lambda>_. ret (job_id new)))))))))"

text \<open>\<open>POST /admin/harvest\<close>: a job without an idempotency key.\<close>

definition harvest_request :: "env \<Rightarrow> Principal \<Rightarrow> json \<Rightarrow> uuid run" where
  "harvest_request E pr body =
     andThen (require ADMIN pr) (\<lambda>_.
     andThen (insert_new (new_job (Some (pr_org_id pr)) ''ingest.harvest'' ''organization'' (pr_org_id pr)
               None body (env_now E)) add_job) (\<lambda>j.
     andThen commit_run (\<lambda>_. andThen (dispatch_job E (job_id j)) (\<lambda>_. ret (job_id j)))))"

section \<open>Following a job\<close>

text \<open>One tick of the event stream: the steps after the last one sent, then, when the job is finished,
  the final event. The two are read by two statements, so they may see two states of the database.\<close>

datatype frame = StepFrame AgentStep | DoneFrame JobStatus json "string option" | Heartbeat

definition new_steps :: "uuid \<Rightarrow> int \<Rightarrow> db \<Rightarrow> AgentStep list" where
  "new_steps i seq d =
     sort_key st_seq (filter (\<lambda>st. st_job_id st = i \<and> seq < int (st_seq st)) (agent_steps d))"

definition last_seq :: "int \<Rightarrow> AgentStep list \<Rightarrow> int" where
  "last_seq seq sts = (if sts = [] then seq else int (st_seq (last sts)))"

definition done_frame :: "uuid \<Rightarrow> db \<Rightarrow> frame option" where
  "done_frame i d =
     (case get_row job_id i (jobs d) of
        None \<Rightarrow> None
      | Some j \<Rightarrow> if finished (job_status j)
          then Some (DoneFrame (job_status j) (job_result j) (job_error_code j)) else None)"

text \<open>The stream over the pairs of states that successive polls see, with the heartbeat counter; it ends
  at the final event or when the client is gone (the list of polls ends).\<close>

fun stream :: "uuid \<Rightarrow> int \<Rightarrow> nat \<Rightarrow> (db \<times> db) list \<Rightarrow> frame list" where
  "stream i seq ticks [] = []"
| "stream i seq ticks ((d1, d2) # ds) =
     (let sts = new_steps i seq d1; seq' = last_seq seq sts
      in map StepFrame sts @
         (case done_frame i d2 of
            Some f \<Rightarrow> [f]
          | None \<Rightarrow> if 15 \<le> Suc ticks then Heartbeat # stream i seq' 0 ds
                    else stream i seq' (Suc ticks) ds))"

definition job_events :: "Principal \<Rightarrow> uuid \<Rightarrow> int \<Rightarrow> (db \<times> db) list \<Rightarrow> db \<Rightarrow> exn + frame list" where
  "job_events pr i last_event_id polls d =
     (if \<not> has_permission pr READ then Inl (App ForbiddenError)
      else case find_job (pr_org_id pr) i d of
             None \<Rightarrow> Inl (App (NotFoundError ''Job''))
           | Some _ \<Rightarrow> Inr (stream i last_event_id 0 polls))"

section \<open>Idempotent creation\<close>

lemma create_job_fresh:
  assumes "first_row (same_request E org kind target key) (jobs (s_db s)) = None"
  shows "create_job E org kind tt target key inp s =
    (let j = new_job (Some org) kind tt target (Some key) inp (env_now E) (next_uuid (s_db s))
     in (Inr (j, False), s\<lparr>s_db := add_job j ((s_db s)\<lparr>next_uuid := Suc (next_uuid (s_db s))\<rparr>)\<rparr>))"
  by (simp add: create_job_def run_simps assms Let_def)

lemma create_job_replay:
  "first_row (same_request E org kind target key) (jobs (s_db s)) = Some j \<Longrightarrow>
     create_job E org kind tt target key inp s = (Inr (j, True), s)"
  by (simp add: create_job_def run_simps)

text \<open>A job is created once per idempotency key and day. The first request adds one queued job for
  the fund; the same request (fund, kind, target, key) made up to 24 hours later gets that job back,
  marked as a replay, whatever its input, and changes nothing.\<close>

theorem create_job_once:
  assumes "create_job E org kind tt target key inp s = (Inr (j, False), s1)"
    and "env_now E \<le> env_now E'" and "env_now E' - hours 24 \<le> env_now E"
  shows "jobs (s_db s1) = jobs (s_db s) @ [j] \<and> job_status j = QUEUED \<and> job_org_id j = Some org
    \<and> job_target_id j = Some target \<and> job_kind j = kind
    \<and> (\<exists>j'. create_job E' org kind tt' target key inp' s1 = (Inr (j', True), s1)
          \<and> j' \<in> set (jobs (s_db s1)) \<and> same_request E' org kind target key j')"
proof -
  have fresh: "first_row (same_request E org kind target key) (jobs (s_db s)) = None"
    using assms(1) create_job_replay [of E org kind target key s] by (cases "first_row (same_request E org kind target key) (jobs (s_db s))") auto
  let ?j = "new_job (Some org) kind tt target (Some key) inp (env_now E) (next_uuid (s_db s))"
  have j: "j = ?j" "jobs (s_db s1) = jobs (s_db s) @ [?j]"
    using assms(1) by (auto simp: create_job_fresh [OF fresh] Let_def add_job_def)
  have same: "same_request E' org kind target key ?j"
    using assms(3) by (simp add: same_request_def new_job_def)
  then have "first_row (same_request E' org kind target key) (jobs (s_db s1)) \<noteq> None"
    using j(2) by (auto simp: first_row_None)
  then obtain j' where j': "first_row (same_request E' org kind target key) (jobs (s_db s1)) = Some j'" by blast
  show ?thesis using create_job_replay [OF j'] first_row_Some [OF j'] j
    by (auto simp: new_job_def)
qed

theorem create_job_once_witness:
  "\<exists>s1 j. create_job demo_env 1 ''screen'' ''opportunity'' 5 ''k'' (JObj []) (open_session empty_db []) = (Inr (j, False), s1)
     \<and> jobs (s_db s1) = [j]"
proof -
  have c: "create_job demo_env 1 ''screen'' ''opportunity'' 5 ''k'' (JObj []) (open_session empty_db [])
      = (Inr (new_job (Some 1) ''screen'' ''opportunity'' 5 (Some ''k'') (JObj []) 0 0, False),
         (open_session empty_db [])\<lparr>s_db := add_job (new_job (Some 1) ''screen'' ''opportunity'' 5 (Some ''k'') (JObj []) 0 0)
            (empty_db\<lparr>next_uuid := 1\<rparr>)\<rparr>)"
    by (simp add: create_job_def run_simps open_session_def empty_db_def demo_env_def first_row_def)
  have h: "0 \<le> hours 24" by (simp add: time_defs)
  from create_job_once [OF c, of demo_env] h show ?thesis using c by (auto simp: open_session_def empty_db_def)
qed

section \<open>The event stream delivers every step once\<close>

lemma new_steps_rest:
  assumes "new_steps i start d = sent @ rest" and "sent \<noteq> [] \<or> seq = start"
    and "distinct (map st_seq (new_steps i start d))" and "seq = last_seq start sent"
  shows "new_steps i seq d = rest"
proof (cases "sent = []")
  case True
  then show ?thesis using assms by (simp add: last_seq_def)
next
  case False
  let ?P = "\<lambda>st. st_job_id st = i \<and> start < int (st_seq st)"
  have srt: "sorted (map st_seq (sent @ rest))" "distinct (map st_seq (sent @ rest))"
    using assms(1,3) by (simp_all add: new_steps_def flip: assms(1))
  have seq: "seq = int (st_seq (last sent))" using assms(4) False by (simp add: last_seq_def)
  have "start < seq"
  proof -
    have "last sent \<in> set (new_steps i start d)" using assms(1) False by simp
    then show ?thesis unfolding seq by (simp add: new_steps_def)
  qed
  then have "new_steps i seq d = filter (\<lambda>st. seq < int (st_seq st)) (new_steps i start d)"
    by (auto simp: new_steps_def filter_sort intro!: arg_cong [where f = "sort_key st_seq"] filter_cong)
  also have "\<dots> = filter (\<lambda>st. seq < int (st_seq st)) sent @ filter (\<lambda>st. seq < int (st_seq st)) rest"
    by (simp add: assms(1))
  also have "filter (\<lambda>st. seq < int (st_seq st)) sent = []"
  proof -
    have "st_seq x \<le> st_seq (last sent)" if "x \<in> set sent" for x
    proof -
      obtain pre y where pre: "sent = pre @ [y]" using False by (cases sent rule: rev_cases) auto
      then show ?thesis using that srt(1) by (auto simp: sorted_append)
    qed
    then show ?thesis unfolding seq by (auto simp: filter_empty_conv not_less)
  qed
  also have "filter (\<lambda>st. seq < int (st_seq st)) rest = rest"
  proof -
    have "st_seq (last sent) < st_seq x" if "x \<in> set rest" for x
    proof -
      have "st_seq (last sent) \<le> st_seq x" using that srt(1) False by (auto simp: sorted_append)
      moreover have "st_seq (last sent) \<noteq> st_seq x"
        using that srt(2) False by (auto simp: image_iff) (metis last_in_set IntI empty_iff imageI)
      ultimately show ?thesis by simp
    qed
    then show ?thesis unfolding seq by (auto simp: filter_id_conv)
  qed
  finally show ?thesis by simp
qed

fun step_frames :: "frame list \<Rightarrow> AgentStep list" where
  "step_frames [] = []"
| "step_frames (StepFrame st # fs) = st # step_frames fs"
| "step_frames (_ # fs) = step_frames fs"

lemma step_frames_append [simp]: "step_frames (fs @ gs) = step_frames fs @ step_frames gs"
  by (induction fs rule: step_frames.induct) auto

lemma step_frames_map [simp]: "step_frames (map StepFrame sts) = sts"
  by (induction sts) auto

text \<open>The states polled: each poll sees one state, and the job's steps only grow at the end.\<close>

fun growing :: "uuid \<Rightarrow> int \<Rightarrow> AgentStep list \<Rightarrow> db list \<Rightarrow> bool" where
  "growing i start sent [] = True"
| "growing i start sent (d # ds) =
     (prefix sent (new_steps i start d) \<and> distinct (map st_seq (new_steps i start d))
      \<and> growing i start (new_steps i start d) ds)"

lemma last_seq_steps: "last_seq (last_seq start sent) rest = last_seq start (sent @ rest)"
  by (simp add: last_seq_def)

lemma done_frame_steps: "done_frame i d = Some f \<Longrightarrow> step_frames [f] = []"
  by (auto simp: done_frame_def split: option.splits if_splits)

text \<open>The polls up to the first that sees the job finished.\<close>

fun until_done :: "uuid \<Rightarrow> db list \<Rightarrow> db list" where
  "until_done i [] = []"
| "until_done i (d # ds) = (if done_frame i d \<noteq> None then [d] else d # until_done i ds)"

lemma stream_steps:
  "growing i start sent ds \<Longrightarrow> ds \<noteq> [] \<Longrightarrow> seq = last_seq start sent \<Longrightarrow>
     sent @ step_frames (stream i seq ticks (map (\<lambda>d. (d, d)) ds))
       = new_steps i start (last (until_done i ds))"
proof (induction ds arbitrary: sent seq ticks)
  case (Cons d ds)
  obtain rest where rest: "new_steps i start d = sent @ rest"
    using Cons.prems(1) by (auto simp: prefix_def)
  have new: "new_steps i seq d = rest"
    using new_steps_rest [OF rest] Cons.prems by (auto simp: last_seq_def)
  show ?case
  proof (cases "done_frame i d")
    case (Some f)
    then show ?thesis using rest new done_frame_steps [OF Some] by (simp add: Let_def)
  next
    case None
    show ?thesis
    proof (cases "ds = []")
      case True
      then show ?thesis using rest new None by (simp add: Let_def)
    next
      case False
      have u: "until_done i ds \<noteq> []" using False by (cases ds) auto
      have seq': "last_seq seq rest = last_seq start (new_steps i start d)"
        using Cons.prems(3) rest by (simp add: last_seq_steps)
      have "sent @ rest @ step_frames (stream i (last_seq seq rest) t (map (\<lambda>d. (d, d)) ds))
          = new_steps i start (last (until_done i ds))" for t
        using Cons.IH [of "new_steps i start d" "last_seq seq rest" t] Cons.prems(1) False seq' rest
        by simp
      then show ?thesis using None new u by (simp add: Let_def)
    qed
  qed
qed simp


definition demo_step :: "nat \<Rightarrow> AgentStep" where
  "demo_step n = \<lparr>st_job_id = 9, st_seq = n, st_agent = ''pipeline'', st_action = ''a'',
     st_status = ''succeeded'', st_progress = 8, st_message = None, st_input_summary = JObj [],
     st_output_summary = JObj [], st_evidence_ids = [], st_cost_usd = 0, st_duration_ms = None, st_error = None\<rparr>"

definition demo_job :: "JobStatus \<Rightarrow> Job" where
  "demo_job st = (new_job (Some 1) ''screen'' ''opportunity'' 5 None (JObj []) 0 9)\<lparr>job_status := st\<rparr>"

definition demo_poll :: "JobStatus \<Rightarrow> nat list \<Rightarrow> db" where
  "demo_poll st seqs = empty_db\<lparr>jobs := [demo_job st], agent_steps := map demo_step seqs\<rparr>"


text \<open>The stream can drop the last steps. When the worker finishes between the two statements of a
  poll (it commits its last step and the final status together), the final event is sent and the
  stream ends without the step.\<close>

theorem stream_can_miss_the_last_step:
  assumes "agent_steps d2 = agent_steps d1 @ [st]" and "st_job_id st = i" and "seq < int (st_seq st)"
    and "new_steps i seq d1 = []" and "get_row job_id i (jobs d2) = Some j" and "finished (job_status j)"
  shows "step_frames (stream i seq ticks ((d1, d2) # rest)) = [] \<and> new_steps i seq d2 = [st]"
proof -
  have "filter (\<lambda>st. st_job_id st = i \<and> seq < int (st_seq st)) (agent_steps d1) = []"
    using assms(4) by (simp add: new_steps_def) (metis length_0_conv length_sort)
  then have "new_steps i seq d2 = [st]" using assms(1-3) by (simp add: new_steps_def)
  then show ?thesis using assms(4-6) by (simp add: done_frame_def)
qed

theorem stream_can_miss_the_last_step_witness:
  "step_frames (stream 9 2 0 [(demo_poll RUNNING [1, 2], demo_poll SUCCEEDED [1, 2, 3])]) = []"
proof -
  have n: "new_steps 9 2 (demo_poll RUNNING [1, 2]) = []" by code_simp
  show ?thesis
    using stream_can_miss_the_last_step [of "demo_poll SUCCEEDED [1, 2, 3]" "demo_poll RUNNING [1, 2]"
        "demo_step 3" 9 2 "demo_job SUCCEEDED" 0 "[]"] n
    by (simp add: demo_poll_def demo_step_def demo_job_def new_job_def get_row_Cons finished_def)
qed

section \<open>The reaper\<close>

text \<open>What the reaper does. It fails exactly the running jobs whose heartbeat is older than 90
  seconds and reports their number; every other job, a queued one that never reached the worker
  included, is left as it is, and nothing is handed to the worker.\<close>

theorem reaper_only_fails_stale_jobs:
  "request (reap_stale_jobs E) d =
     (Inr (length (filter (is_stale (env_now E)) (jobs d))),
      d\<lparr>jobs := map (\<lambda>j. if job_status j = RUNNING
            \<and> (\<exists>h. job_heartbeat_at j = Some h \<and> h < env_now E - 90 * 1000000)
          then worker_lost (env_now E) j else j) (jobs d)\<rparr>, [])"
proof -
  have "is_stale (env_now E) j \<longleftrightarrow> job_status j = RUNNING
      \<and> (\<exists>h. job_heartbeat_at j = Some h \<and> h < env_now E - 90 * 1000000)" for j
    by (simp add: is_stale_def seconds_def split: option.split)
  then show ?thesis
    by (simp add: request_def reap_stale_jobs_def run_simps open_session_def upd_where_def)
qed

end
