(* ===== verification/FounderRating.thy ===== *)
theory FounderRating
  imports PyFloat Models
begin

text \<open>
  \<open>services/score/founder.py\<close> (the Bayesian founder score over dated, weighted events) and
  \<open>services/founders.py\<close> (its persistence: one score row per person, one snapshot per person and
  day, versions that only grow).
\<close>

section \<open>compute_founder_score\<close>

definition COMPONENT_WEIGHTS :: "(string \<times> rat) list" where
  "COMPONENT_WEIGHTS =
     [(''execution'', fl (26 / 100)), (''technical_depth'', fl (18 / 100)),
      (''domain_expertise'', fl (14 / 100)), (''outcomes'', fl (14 / 100)),
      (''velocity'', fl (12 / 100)), (''validation'', fl (10 / 100)),
      (''communication'', fl (6 / 100))]"

definition HALF_LIFE_DAYS :: "string \<Rightarrow> rat" where
  "HALF_LIFE_DAYS c =
     (if c = ''execution'' then 540 else if c = ''technical_depth'' then 720
      else if c = ''domain_expertise'' then 900 else if c = ''outcomes'' then 1460
      else if c = ''velocity'' then 120 else if c = ''validation'' then 720 else 365)"

record ScoreEvent =
  se_component :: string
  se_delta :: rat
  se_occurred_at :: datetime
  se_weight :: rat
  se_source_key :: string

record FounderScoreResult =
  fr_score :: int
  fr_ci_low :: int
  fr_ci_high :: int
  fr_confidence :: rat
  fr_components :: "(string \<times> component_value) list"
  fr_cold_start :: bool

definition normal_cdf :: "libm \<Rightarrow> rat \<Rightarrow> rat" where
  "normal_cdf L v = fmul (1 / 2) (fadd 1 (lm_erf L (fdiv v (lm_sqrt L 2))))"

text \<open>The weight of one event after decay, and the loop over the events of one component.\<close>

definition effective_weight :: "libm \<Rightarrow> string \<Rightarrow> datetime \<Rightarrow> ScoreEvent \<Rightarrow> rat" where
  "effective_weight L component now e =
     fmul (max 0 (se_weight e))
       (lm_pow L (1 / 2) (fdiv (of_int (max 0 (td_days (now - se_occurred_at e))))
         (HALF_LIFE_DAYS component)))"

fun component_loop ::
  "libm \<Rightarrow> string \<Rightarrow> datetime \<Rightarrow> ScoreEvent list \<Rightarrow> rat \<Rightarrow> rat \<Rightarrow> string list
   \<Rightarrow> rat \<times> rat \<times> string list" where
  "component_loop L c now [] num den srcs = (num, den, srcs)"
| "component_loop L c now (e # es) num den srcs =
     component_loop L c now es
       (fadd num (fmul (max 0 (min 100 (se_delta e))) (effective_weight L c now e)))
       (fadd den (effective_weight L c now e))
       (List.insert (se_source_key e) srcs)"

definition component_totals ::
  "libm \<Rightarrow> ScoreEvent list \<Rightarrow> datetime \<Rightarrow> string \<Rightarrow> rat \<times> rat \<times> string list" where
  "component_totals L events now c =
     component_loop L c now (filter (\<lambda>e. se_component e = c) events) 0 0 []"

fun component_raw :: "rat \<times> rat \<times> string list \<Rightarrow> rat option" where
  "component_raw (num, den, srcs) = (if den \<noteq> 0 then Some (fdiv num den) else None)"

definition component_entry :: "rat \<Rightarrow> rat \<Rightarrow> rat \<times> rat \<times> string list \<Rightarrow> component_value" where
  "component_entry cohort_mean weight t =
     \<lparr>cv_value = map_option (py_round 2) (component_raw t),
      cv_prior = (if component_raw t = None then Some cohort_mean else None),
      cv_weight = weight, cv_evidence_sources = length (snd (snd t))\<rparr>"

text \<open>The loop over the components: weighted mean, independent sources, observation weight.\<close>

fun weigh_components ::
  "(string \<Rightarrow> rat \<times> rat \<times> string list) \<Rightarrow> rat \<Rightarrow> (string \<times> rat) list \<Rightarrow> rat \<Rightarrow> string list \<Rightarrow> rat
   \<Rightarrow> rat \<times> string list \<times> rat" where
  "weigh_components T cohort_mean [] wm srcs obs = (wm, srcs, obs)"
| "weigh_components T cohort_mean ((c, w) # cs) wm srcs obs =
     weigh_components T cohort_mean cs
       (fadd wm (fmul (case component_raw (T c) of None \<Rightarrow> cohort_mean | Some r \<Rightarrow> r) w))
       (List.union srcs (snd (snd (T c))))
       (fadd obs (min (fl (21 / 10)) (of_nat (length (snd (snd (T c)))))))"

definition posterior :: "rat \<Rightarrow> rat \<Rightarrow> rat \<Rightarrow> rat" where
  "posterior cohort_mean wm obs =
     fdiv (fadd (fmul 4 cohort_mean) (fmul obs wm)) (fadd 4 obs)"

definition score_of :: "libm \<Rightarrow> rat \<Rightarrow> rat \<Rightarrow> rat \<Rightarrow> int" where
  "score_of L cohort_mean cohort_sd post =
     round_half_even (fadd 300 (fmul 600
       (normal_cdf L (fdiv (fsub post cohort_mean) (max cohort_sd 1)))))"

definition confidence_of :: "libm \<Rightarrow> rat \<Rightarrow> rat" where
  "confidence_of L obs = fsub 1 (lm_exp L (fdiv (- obs) 6))"

definition width_of :: "rat \<Rightarrow> int" where
  "width_of confidence = round_half_even (fadd 45 (fmul 125 (fsub 1 confidence)))"

definition compute_founder_score ::
  "libm \<Rightarrow> ScoreEvent list \<Rightarrow> datetime \<Rightarrow> rat \<Rightarrow> rat \<Rightarrow> FounderScoreResult" where
  "compute_founder_score L events now cohort_mean cohort_sd =
     (let T = component_totals L events now;
          (weighted_mean, independent_sources, observation_weight) =
             weigh_components T cohort_mean COMPONENT_WEIGHTS 0 [] 0;
          score = score_of L cohort_mean cohort_sd
             (posterior cohort_mean weighted_mean observation_weight);
          confidence = confidence_of L observation_weight;
          width = width_of confidence
      in \<lparr>fr_score = score, fr_ci_low = max 300 (score - width), fr_ci_high = min 900 (score + width),
          fr_confidence = py_round 3 confidence,
          fr_components = map (\<lambda>(c, w). (c, component_entry cohort_mean w (T c))) COMPONENT_WEIGHTS,
          fr_cold_start = (length independent_sources < 3)\<rparr>)"

section \<open>Bounds\<close>

lemma normal_cdf_01:
  assumes "libm_ok L" shows "0 \<le> normal_cdf L v \<and> normal_cdf L v \<le> 1"
proof -
  let ?e = "lm_erf L (fdiv v (lm_sqrt L 2))"
  have "0 \<le> fadd 1 ?e" "fadd 1 ?e \<le> 2"
    using libm_okD(4,5) [OF assms] flr.rnd_le [of 2 "1 + ?e"] fl_nonneg [of "1 + ?e"]
    by (simp_all add: fadd_def) (metis add.commute add_le_cancel_left neg_le_iff_le minus_add_cancel minus_minus add.right_inverse)
  moreover have "fmul (1 / 2) 2 = 1" by (simp add: fmul_def)
  ultimately show ?thesis
    unfolding normal_cdf_def using fmul_bounds [of "1 / 2" "1 / 2" "fadd 1 ?e" 2] by simp
qed

lemma score_of_bounds:
  assumes "libm_ok L"
  shows "300 \<le> score_of L m sd p \<and> score_of L m sd p \<le> 900"
proof -
  let ?c = "normal_cdf L (fdiv (fsub p m) (max sd 1))"
  have "0 \<le> fmul 600 ?c" "fmul 600 ?c \<le> 600"
    using fmul_bounds [of 600 600 ?c 1] normal_cdf_01 [OF assms] by (auto simp: fmul_def)
  then have "300 \<le> fadd 300 (fmul 600 ?c)" "fadd 300 (fmul 600 ?c) \<le> 900"
    using flr.rnd_ge [of 300] flr.rnd_le [of 900] by (simp_all add: fadd_def)
  then show ?thesis
    using round_half_even_ge [of 300] round_half_even_le [of _ 900] by (simp add: score_of_def)
qed

lemma weigh_components_obs:
  "0 \<le> obs \<Longrightarrow> 0 \<le> snd (snd (weigh_components T m cs wm srcs obs))"
proof (induction T m cs wm srcs obs rule: weigh_components.induct)
  case (2 T m c w cs wm srcs obs)
  have "0 \<le> fl (21 / 10)" by (rule fl_nonneg) simp
  then have "0 \<le> fadd obs (min (fl (21 / 10)) (of_nat (length (snd (snd (T c))))))"
    using "2.prems" by (intro fadd_mono(1)) simp_all
  then show ?case using "2.IH" by simp
qed simp

lemma confidence_of_01:
  assumes "libm_ok L" "0 \<le> obs"
  shows "0 \<le> confidence_of L obs \<and> confidence_of L obs \<le> 1"
proof -
  have "fdiv (- obs) 6 \<le> 0"
    unfolding fdiv_def using assms(2) by (intro flr.rnd_le) simp_all
  then show ?thesis
    unfolding confidence_of_def using libm_okD(1,2) [OF assms(1)] by (intro fsub_one_01) auto
qed

lemma width_of_bounds:
  assumes "0 \<le> c" "c \<le> 1" shows "45 \<le> width_of c \<and> width_of c \<le> 170"
proof -
  have f: "0 \<le> fsub 1 c" "fsub 1 c \<le> 1" using fsub_one_01 [OF assms] by auto
  have "0 \<le> fmul 125 (fsub 1 c)" "fmul 125 (fsub 1 c) \<le> 125"
    using fmul_bounds [of 125 125 "fsub 1 c" 1] f by (auto simp: fmul_def)
  then have "45 \<le> fadd 45 (fmul 125 (fsub 1 c))" "fadd 45 (fmul 125 (fsub 1 c)) \<le> 170"
    using flr.rnd_ge [of 45] flr.rnd_le [of 170] by (simp_all add: fadd_def)
  then show ?thesis
    using round_half_even_ge [of 45] round_half_even_le [of _ 170] by (simp add: width_of_def)
qed

lemma compute_founder_score_sel:
  fixes L ev now m sd
  defines "w \<equiv> weigh_components (component_totals L ev now) m COMPONENT_WEIGHTS 0 [] 0"
    and "r \<equiv> compute_founder_score L ev now m sd"
  shows "fr_score r = score_of L m sd (posterior m (fst w) (snd (snd w)))"
    and "fr_confidence r = py_round 3 (confidence_of L (snd (snd w)))"
    and "fr_ci_low r = max 300 (fr_score r - width_of (confidence_of L (snd (snd w))))"
    and "fr_ci_high r = min 900 (fr_score r + width_of (confidence_of L (snd (snd w))))"
    and "fr_cold_start r \<longleftrightarrow> length (fst (snd w)) < 3"
  unfolding w_def r_def compute_founder_score_def Let_def split_beta FounderScoreResult.simps
  by (rule refl)+

text \<open>C25: every founder score lies in 300 to 900, inside its own interval, which never leaves
  that range and is between 45 points (at the clip) and 340 points wide; the confidence is in
  [0, 1]. This holds for any events, any clock and any prior.\<close>

theorem founder_score_bounds:
  fixes L ev now m sd
  defines "r \<equiv> compute_founder_score L ev now m sd"
  assumes "libm_ok L"
  shows "300 \<le> fr_ci_low r \<and> fr_ci_low r \<le> fr_score r \<and> fr_score r \<le> fr_ci_high r
    \<and> fr_ci_high r \<le> 900 \<and> 45 \<le> fr_ci_high r - fr_ci_low r \<and> fr_ci_high r - fr_ci_low r \<le> 340
    \<and> 0 \<le> fr_confidence r \<and> fr_confidence r \<le> 1"
proof -
  note sel = compute_founder_score_sel [of L ev now m sd, folded r_def]
  let ?obs = "snd (snd (weigh_components (component_totals L ev now) m COMPONENT_WEIGHTS 0 [] 0))"
  have c: "0 \<le> confidence_of L ?obs" "confidence_of L ?obs \<le> 1"
    using confidence_of_01 [OF assms(2)] weigh_components_obs by auto
  have s: "300 \<le> fr_score r" "fr_score r \<le> 900"
    unfolding sel(1) using score_of_bounds [OF assms(2)] by auto
  have "0 \<le> fr_confidence r" "fr_confidence r \<le> 1"
    unfolding sel(2) using c pyr.rnd_ge [of 3 0] pyr.rnd_le [of 3 1] by auto
  then show ?thesis using s width_of_bounds [OF c] sel(3,4) by auto
qed

theorem founder_score_bounds_witness:
  "300 \<le> fr_ci_low (compute_founder_score libm_demo [] 0 50 15)
   \<and> fr_ci_high (compute_founder_score libm_demo [] 0 50 15) \<le> 900"
  using founder_score_bounds [OF libm_demo_ok, of "[]" 0 50 15] by blast

text \<open>Cold start. A founder without any event sits at the cohort mean (600 of 900), with
  confidence 0 and the widest interval, 430 to 770: missing evidence widens the interval and does
  not lower the point estimate.\<close>

theorem founder_cold_start:
  fixes L now
  defines "r \<equiv> compute_founder_score L [] now 50 15"
  assumes "libm_ok L"
  shows "fr_score r = 600 \<and> fr_ci_low r = 430 \<and> fr_ci_high r = 770 \<and> fr_confidence r = 0
    \<and> fr_cold_start r"
proof -
  note sel = compute_founder_score_sel [of L "[]" now 50 15, folded r_def]
  have T: "component_totals L [] now c = (0, 0, [])" for c
    by (simp add: component_totals_def)
  have z: "min (fl (21 / 10)) (0 :: rat) = 0"
  proof -
    have "0 \<le> fl (21 / 10)" by (rule fl_nonneg) simp
    then show ?thesis by simp
  qed
  have w: "snd (weigh_components (component_totals L [] now) m cs wm [] 0) = ([], 0)" for m cs wm
  proof (induction cs arbitrary: wm)
    case (Cons x cs)
    obtain c v where x: "x = (c, v)" by fastforce
    show ?case using Cons [of "fadd wm (fmul m v)"]
      by (simp add: x T z [simplified] fadd_def [of 0] List.union_def)
  qed simp
  have post: "posterior 50 wm 0 = 50" for wm
    by (simp add: posterior_def fdiv_def fadd_def fmul_def)
  have "score_of L 50 15 50 = 600"
    by (simp add: score_of_def normal_cdf_def fsub_def fdiv_def libm_okD(6) [OF assms(2)] fadd_def fmul_def)
  moreover have "confidence_of L 0 = 0"
    by (simp add: confidence_of_def fdiv_def fsub_def libm_okD(3) [OF assms(2)])
  moreover have "width_of 0 = 170"
    by (simp add: width_of_def fsub_def fadd_def fmul_def)
  ultimately show ?thesis unfolding sel(3,4,5) sel(1,2) by (simp add: w post)
qed

theorem founder_cold_start_witness:
  "fr_score (compute_founder_score libm_demo [] 0 50 15) = 600
   \<and> fr_ci_low (compute_founder_score libm_demo [] 0 50 15) = 430"
  using founder_cold_start [OF libm_demo_ok, of 0] by blast

section \<open>recompute_founder_score\<close>

text \<open>\<open>str(row.signal_id or f"event:{row.id}")\<close> is the source key of an event.\<close>

definition score_event_of :: "FounderScoreEvent \<Rightarrow> ScoreEvent" where
  "score_event_of row =
     \<lparr>se_component = fse_component row, se_delta = fl (fse_delta row),
      se_occurred_at = fse_occurred_at row, se_weight = fl (fse_weight row),
      se_source_key = (case fse_signal_id row of Some s \<Rightarrow> str_nat s
                       | None \<Rightarrow> ''event:'' @ str_nat (fse_id row))\<rparr>"

definition person_events :: "uuid \<Rightarrow> FounderScoreEvent list \<Rightarrow> ScoreEvent list" where
  "person_events p rows =
     map score_event_of (sort_key fse_occurred_at (filter (\<lambda>r. fse_person_id r = p) rows))"

definition trend_of_delta :: "int \<Rightarrow> TrendKind" where
  "trend_of_delta delta =
     (if \<bar>delta\<bar> < 3 then STABLE else if 0 < delta then IMPROVING else DECLINING)"

definition new_founder_score :: "uuid \<Rightarrow> FounderScoreResult \<Rightarrow> datetime \<Rightarrow> FounderScore" where
  "new_founder_score p r now =
     \<lparr>fs_person_id = p, fs_score = fr_score r, fs_ci_low = fr_ci_low r, fs_ci_high = fr_ci_high r,
      fs_confidence = dec_str (fr_confidence r), fs_components = fr_components r,
      fs_cold_start = fr_cold_start r, fs_percentile = None, fs_trend_30d = 0,
      fs_trend = INSUFFICIENT_DATA, fs_version = 1, fs_computed_at = now\<rparr>"

definition refresh_founder_score :: "FounderScoreResult \<Rightarrow> datetime \<Rightarrow> FounderScore \<Rightarrow> FounderScore" where
  "refresh_founder_score r now cur =
     cur\<lparr>fs_score := fr_score r, fs_ci_low := fr_ci_low r, fs_ci_high := fr_ci_high r,
        fs_confidence := dec_str (fr_confidence r), fs_components := fr_components r,
        fs_cold_start := fr_cold_start r, fs_trend_30d := fr_score r - fs_score cur,
        fs_trend := trend_of_delta (fr_score r - fs_score cur),
        fs_version := fs_version cur + 1, fs_computed_at := now\<rparr>"

definition snapshot_key :: "FounderScoreSnapshot \<Rightarrow> uuid \<times> int" where
  "snapshot_key s = (fss_person_id s, fss_day s)"

definition save_snapshot ::
  "uuid \<Rightarrow> FounderScoreResult \<Rightarrow> datetime \<Rightarrow> FounderScoreSnapshot list \<Rightarrow> FounderScoreSnapshot list" where
  "save_snapshot p r now rows =
     (case get_row snapshot_key (p, td_days now) rows of
        None \<Rightarrow> rows @ [\<lparr>fss_person_id = p, fss_day = td_days now, fss_score = fr_score r,
                          fss_confidence = dec_str (fr_confidence r)\<rparr>]
      | Some _ \<Rightarrow> upd_row snapshot_key (p, td_days now)
          (\<lambda>s. s\<lparr>fss_score := fr_score r, fss_confidence := dec_str (fr_confidence r)\<rparr>) rows)"

definition recompute_founder_score :: "libm \<Rightarrow> datetime \<Rightarrow> uuid \<Rightarrow> db \<Rightarrow> FounderScore \<times> db" where
  "recompute_founder_score L now p d =
     (let r = compute_founder_score L (person_events p (founder_score_events d)) now 50 15;
          (cur, rows) =
            (case get_row fs_person_id p (founder_scores d) of
               None \<Rightarrow> (new_founder_score p r now, founder_scores d @ [new_founder_score p r now])
             | Some old \<Rightarrow> (refresh_founder_score r now old,
                 upd_row fs_person_id p (refresh_founder_score r now) (founder_scores d)))
      in (cur, d\<lparr>founder_scores := rows,
               founder_score_snapshots := save_snapshot p r now (founder_score_snapshots d)\<rparr>))"

text \<open>The primary keys of the two tables.\<close>

definition founder_keys_ok :: "db \<Rightarrow> bool" where
  "founder_keys_ok d \<longleftrightarrow> distinct (map fs_person_id (founder_scores d))
     \<and> distinct (map snapshot_key (founder_score_snapshots d))"

lemma refresh_simps [simp]:
  "fs_person_id (refresh_founder_score r now cur) = fs_person_id cur"
  "fs_score (refresh_founder_score r now cur) = fr_score r"
  "fs_version (refresh_founder_score r now cur) = fs_version cur + 1"
  by (simp_all add: refresh_founder_score_def)

lemma new_score_simps [simp]:
  "fs_person_id (new_founder_score p r now) = p"
  "fs_score (new_founder_score p r now) = fr_score r"
  "fs_version (new_founder_score p r now) = 1"
  by (simp_all add: new_founder_score_def)

lemma save_snapshot_keys:
  "distinct (map snapshot_key rows) \<Longrightarrow> distinct (map snapshot_key (save_snapshot p r now rows))"
  by (auto simp: save_snapshot_def get_row_None snapshot_key_def map_pk_upd_row split: option.split)

lemma save_snapshot_get:
  "get_row snapshot_key k (save_snapshot p r now rows) =
     (if k = (p, td_days now)
      then Some \<lparr>fss_person_id = p, fss_day = td_days now, fss_score = fr_score r,
                  fss_confidence = dec_str (fr_confidence r)\<rparr>
      else get_row snapshot_key k rows)"
proof (cases "get_row snapshot_key (p, td_days now) rows")
  case None
  then show ?thesis
    by (auto simp: save_snapshot_def row_simps snapshot_key_def split: option.split)
next
  case (Some s)
  then have "snapshot_key s = (p, td_days now)" by (rule get_row_Some [THEN conjunct2])
  then show ?thesis using Some
    by (simp add: save_snapshot_def row_simps snapshot_key_def)
qed

text \<open>Recomputing never resets a founder's history. The events and every other person's score
  are untouched, the keys stay unique, the person has exactly one score row whose version is one
  more than before (1 on the first run), and the day's snapshot holds the new score while the
  snapshots of other days are kept.\<close>

theorem recompute_keeps_history:
  fixes L now p d
  defines "d' \<equiv> snd (recompute_founder_score L now p d)"
    and "cur \<equiv> fst (recompute_founder_score L now p d)"
  assumes "founder_keys_ok d"
  shows "founder_keys_ok d' \<and> founder_score_events d' = founder_score_events d
    \<and> get_row fs_person_id p (founder_scores d') = Some cur
    \<and> fs_version cur = (case get_row fs_person_id p (founder_scores d) of
                          None \<Rightarrow> 1 | Some old \<Rightarrow> fs_version old + 1)
    \<and> (\<forall>q. q \<noteq> p \<longrightarrow> get_row fs_person_id q (founder_scores d') = get_row fs_person_id q (founder_scores d))
    \<and> map_option fss_score (get_row snapshot_key (p, td_days now) (founder_score_snapshots d'))
        = Some (fs_score cur)
    \<and> (\<forall>k. k \<noteq> (p, td_days now) \<longrightarrow>
         get_row snapshot_key k (founder_score_snapshots d') = get_row snapshot_key k (founder_score_snapshots d))"
proof (cases "get_row fs_person_id p (founder_scores d)")
  case None
  moreover from None have "p \<notin> fs_person_id ` set (founder_scores d)" by (simp add: get_row_None)
  ultimately show ?thesis using assms(3) save_snapshot_keys
    by (auto simp: d'_def cur_def recompute_founder_score_def Let_def founder_keys_ok_def row_simps
        save_snapshot_get split: option.split)
next
  case (Some old)
  then show ?thesis using assms(3) save_snapshot_keys
    by (simp add: d'_def cur_def recompute_founder_score_def Let_def founder_keys_ok_def row_simps
        save_snapshot_get)
qed

theorem recompute_keeps_history_witness:
  "founder_keys_ok empty_db
   \<and> fs_version (fst (recompute_founder_score libm_demo 0 7 empty_db)) = 1"
proof -
  have k: "founder_keys_ok empty_db" by (simp add: founder_keys_ok_def empty_db_def)
  show ?thesis using k recompute_keeps_history [OF k, of libm_demo 0 7]
    by (simp add: empty_db_def row_simps)
qed

lemma sort_key_map:
  assumes "\<And>x. k (g x) = k x"
  shows "sort_key k (map g xs) = map g (sort_key k xs)"
proof -
  have i: "insort_key k (g x) (map g ys) = map g (insort_key k x ys)" for x ys
    by (induction ys) (auto simp: assms)
  show ?thesis by (induction xs) (auto simp: i)
qed

text \<open>A superseding event does not take the place of the event it corrects. Whatever the
  \<open>supersedes_id\<close> links say, the recomputed score is the same: the corrected event keeps its full
  weight beside its correction.\<close>

theorem superseded_events_still_count:
  "fst (recompute_founder_score L now p
      (d\<lparr>founder_score_events := map (\<lambda>e. e\<lparr>fse_supersedes_id := link e\<rparr>) (founder_score_events d)\<rparr>))
   = fst (recompute_founder_score L now p d)"
proof -
  let ?g = "\<lambda>e. e\<lparr>fse_supersedes_id := link e\<rparr> :: FounderScoreEvent"
  have "filter (\<lambda>r. fse_person_id r = p) (map ?g rows)
      = map ?g (filter (\<lambda>r. fse_person_id r = p) rows)" for rows
    by (induction rows) auto
  moreover have "score_event_of (?g e) = score_event_of e" for e
    by (cases e) (simp add: score_event_of_def split: option.split)
  ultimately have "person_events p (map ?g rows) = person_events p rows" for rows
    by (simp add: person_events_def sort_key_map o_def)
  then show ?thesis
    by (simp add: recompute_founder_score_def Let_def split_beta split: option.split)
qed

end
