(* ===== verification/Security.thy ===== *)
theory Security
  imports Types Text "HOL-Library.Word"
begin

unbundle bit_operations_syntax

text \<open>
  \<open>app/services/security.py\<close>: the guard on URLs a founder submits. Addresses are words (32 bits for
  IPv4, 128 for IPv6) and the classes of \<open>ipaddress\<close> (Python 3.12) are lists of networks.
  \<open>urlsplit\<close> is written out for what the code reads of it: scheme, user information, host, port.
  The operating system's resolver is a parameter.
\<close>

section \<open>Addresses\<close>

datatype address = V4 "32 word" | V6 "128 word"

definition in_net :: "'w::len word \<Rightarrow> 'w word \<times> nat \<Rightarrow> bool" where
  "in_net a n \<longleftrightarrow>
     drop_bit (LENGTH('w) - snd n) a = drop_bit (LENGTH('w) - snd n) (fst n)"

definition private_v4 :: "(32 word \<times> nat) list" where
  "private_v4 =
     [(0x00000000, 8), (0x0A000000, 8), (0x7F000000, 8), (0xA9FE0000, 16), (0xAC100000, 12),
      (0xC0000000, 24), (0xC00000AA, 31), (0xC0000200, 24), (0xC0A80000, 16), (0xC6120000, 15),
      (0xC6336400, 24), (0xCB007100, 24), (0xF0000000, 4), (0xFFFFFFFF, 32)]"

definition private_v4_exceptions :: "(32 word \<times> nat) list" where
  "private_v4_exceptions = [(0xC0000009, 32), (0xC000000A, 32)]"

definition private_v6 :: "(128 word \<times> nat) list" where
  "private_v6 =
     [(1, 128), (0, 128), (0xFFFF00000000, 96), (push_bit 80 0x0064FF9B0001, 48), (push_bit 112 0x0100, 64),
      (push_bit 112 0x2001, 23), (push_bit 96 0x20010DB8, 32), (push_bit 112 0x2002, 16), (push_bit 112 0x3FFF, 20),
      (push_bit 112 0xFC00, 7), (push_bit 112 0xFE80, 10)]"

definition private_v6_exceptions :: "(128 word \<times> nat) list" where
  "private_v6_exceptions =
     [(push_bit 96 0x20010001 + 1, 128), (push_bit 96 0x20010001 + 2, 128), (push_bit 96 0x20010003, 32),
      (push_bit 80 0x200100040112, 48), (push_bit 96 0x20010020, 28), (push_bit 96 0x20010030, 28)]"

definition reserved_v6 :: "(128 word \<times> nat) list" where
  "reserved_v6 =
     [(0, 8), (push_bit 112 0x0100, 8), (push_bit 112 0x0200, 7), (push_bit 112 0x0400, 6), (push_bit 112 0x0800, 5),
      (push_bit 112 0x1000, 4), (push_bit 112 0x4000, 3), (push_bit 112 0x6000, 3), (push_bit 112 0x8000, 3),
      (push_bit 112 0xA000, 3), (push_bit 112 0xC000, 3), (push_bit 112 0xE000, 4), (push_bit 112 0xF000, 5),
      (push_bit 112 0xF800, 6), (push_bit 112 0xFE00, 9)]"

definition is_private_v4 :: "32 word \<Rightarrow> bool" where
  "is_private_v4 a \<longleftrightarrow> list_ex (in_net a) private_v4 \<and> \<not> list_ex (in_net a) private_v4_exceptions"

text \<open>An IPv4 address inside an IPv6 one is judged as the IPv4 address.\<close>

definition is_private_v6 :: "128 word \<Rightarrow> bool" where
  "is_private_v6 a =
     (if drop_bit 32 a = 0xFFFF then is_private_v4 (ucast a)
      else list_ex (in_net a) private_v6 \<and> \<not> list_ex (in_net a) private_v6_exceptions)"

fun address_is_public :: "address \<Rightarrow> bool" where
  "address_is_public (V4 a) =
     (\<not> (is_private_v4 a \<or> in_net a (0x7F000000, 8) \<or> in_net a (0xA9FE0000, 16)
        \<or> in_net a (0xE0000000, 4) \<or> in_net a (0xF0000000, 4) \<or> a = 0))"
| "address_is_public (V6 a) =
     (\<not> (is_private_v6 a \<or> a = 1 \<or> in_net a (push_bit 112 0xFE80, 10)
        \<or> in_net a (push_bit 112 0xFF00, 8) \<or> list_ex (in_net a) reserved_v6 \<or> a = 0))"

section \<open>URLs\<close>

record url_parts =
  url_scheme :: string
  url_netloc :: string

definition scheme_char :: "char \<Rightarrow> bool" where
  "scheme_char c \<longleftrightarrow> is_alnum (lower_char c) \<or> c \<in> set ''+-.''"

text \<open>\<open>s.partition(c)\<close>: the text before the first \<open>c\<close> and, when there is one, the text after it;
  \<open>s.rpartition(c)\<close> cuts at the last one.\<close>

definition before :: "char \<Rightarrow> string \<Rightarrow> string" where
  "before c s = takeWhile (\<lambda>x. x \<noteq> c) s"

definition after :: "char \<Rightarrow> string \<Rightarrow> string option" where
  "after c s = (case dropWhile (\<lambda>x. x \<noteq> c) s of [] \<Rightarrow> None | x # t \<Rightarrow> Some t)"

definition before_last :: "char \<Rightarrow> string \<Rightarrow> string option" where
  "before_last c s = map_option rev (after c (rev s))"

definition after_last :: "char \<Rightarrow> string \<Rightarrow> string" where
  "after_last c s = rev (before c (rev s))"

definition valid_scheme :: "string \<Rightarrow> bool" where
  "valid_scheme s \<longleftrightarrow>
     (case s of [] \<Rightarrow> False
      | c # cs \<Rightarrow> is_alnum (lower_char c) \<and> \<not> is_digit c \<and> list_all scheme_char s)"

definition urlsplit :: "string \<Rightarrow> exn + url_parts" where
  "urlsplit raw =
     (let url = filter (\<lambda>c. c \<notin> set (map char_of [9, 10, 13 :: nat]))
                  (dropWhile (\<lambda>c. (of_char c :: nat) \<le> 32) raw);
          (scheme, rest) =
            (case after (CHR '':'') url of
               Some r \<Rightarrow> if valid_scheme (before (CHR '':'') url)
                         then (casefold (before (CHR '':'') url), r) else ([], url)
             | None \<Rightarrow> ([], url));
          netloc = (if starts_with ''//'' rest
                    then takeWhile (\<lambda>c. c \<notin> set ''/?#'') (drop 2 rest) else [])
      in if (CHR ''['' \<in> set netloc) \<noteq> (CHR '']'' \<in> set netloc)
         then Inl (PyExn ''ValueError'' ''Invalid IPv6 URL'')
         else Inr \<lparr>url_scheme = scheme, url_netloc = netloc\<rparr>)"

definition hostinfo :: "url_parts \<Rightarrow> string" where
  "hostinfo p = after_last (CHR ''@'') (url_netloc p)"

definition hostname :: "url_parts \<Rightarrow> string option" where
  "hostname p =
     (let h = (case after (CHR ''['') (hostinfo p) of
                 Some b \<Rightarrow> before (CHR '']'') b | None \<Rightarrow> before (CHR '':'') (hostinfo p))
      in if h = [] then None
         else Some (casefold (before (CHR ''%'') h) @
                    (case after (CHR ''%'') h of None \<Rightarrow> [] | Some z \<Rightarrow> CHR ''%'' # z)))"

definition username :: "url_parts \<Rightarrow> string option" where
  "username p = map_option (before (CHR '':'')) (before_last (CHR ''@'') (url_netloc p))"

definition password :: "url_parts \<Rightarrow> string option" where
  "password p =
     (case before_last (CHR ''@'') (url_netloc p) of None \<Rightarrow> None | Some u \<Rightarrow> after (CHR '':'') u)"

fun nat_of_digits :: "nat \<Rightarrow> string \<Rightarrow> nat" where
  "nat_of_digits n [] = n"
| "nat_of_digits n (c # cs) = nat_of_digits (10 * n + (of_char c - 48)) cs"

definition port :: "url_parts \<Rightarrow> exn + nat option" where
  "port p =
     (let t = (case after (CHR ''['') (hostinfo p) of
                 Some b \<Rightarrow> (case after (CHR '']'') b of None \<Rightarrow> None | Some r \<Rightarrow> after (CHR '':'') r)
               | None \<Rightarrow> after (CHR '':'') (hostinfo p))
      in case t of
           None \<Rightarrow> Inr None
         | Some d \<Rightarrow>
             if d = [] then Inr None
             else if \<not> list_all is_digit d then Inl (PyExn ''ValueError'' ''Port could not be cast to integer value'')
             else if nat_of_digits 0 d > 65535 then Inl (PyExn ''ValueError'' ''Port out of range 0-65535'')
             else Inr (Some (nat_of_digits 0 d)))"

section \<open>validate_public_url\<close>

definition BLOCKED_HOSTNAMES :: "string list" where
  "BLOCKED_HOSTNAMES = [''localhost'', ''metadata.google.internal'']"

text \<open>\<open>getaddrinfo\<close> with a timeout: the addresses of a host, None when it fails or takes too long.\<close>

type_synonym resolver = "string \<Rightarrow> nat \<Rightarrow> address list option"

definition rstrip_dots :: "string \<Rightarrow> string" where
  "rstrip_dots s = rev (dropWhile (\<lambda>c. c = CHR ''.'') (rev s))"

definition connect_port :: "url_parts \<Rightarrow> nat option \<Rightarrow> nat" where
  "connect_port p prt =
     (case prt of Some n \<Rightarrow> if n = 0 then (if url_scheme p = ''https'' then 443 else 80) else n
      | None \<Rightarrow> if url_scheme p = ''https'' then 443 else 80)"

definition validate_public_url :: "resolver \<Rightarrow> string \<Rightarrow> exn + string" where
  "validate_public_url resolve url =
     (case urlsplit url of Inl e \<Rightarrow> Inl e
      | Inr p \<Rightarrow>
        (case hostname p of
           None \<Rightarrow> Inl (App (ValidationError ''Only absolute HTTP(S) URLs are accepted.''))
         | Some h \<Rightarrow>
           if url_scheme p \<notin> {''http'', ''https''} then
             Inl (App (ValidationError ''Only absolute HTTP(S) URLs are accepted.''))
           else if truthy (username p) \<or> truthy (password p) then
             Inl (App (ValidationError ''URLs containing credentials are not accepted.''))
           else
             let host = rstrip_dots (casefold h)
             in if host \<in> set BLOCKED_HOSTNAMES then
                  Inl (App (ValidationError ''The URL points to a blocked host.''))
                else
                  (case port p of Inl e \<Rightarrow> Inl e
                   | Inr prt \<Rightarrow>
                     (case resolve host (connect_port p prt) of
                        None \<Rightarrow> Inl (App (ValidationError ''The URL host cannot be resolved.''))
                      | Some addresses \<Rightarrow>
                          if addresses = [] \<or> list_ex (\<lambda>a. \<not> address_is_public a) addresses then
                            Inl (App (ValidationError ''The URL resolves to a private or unsafe network.''))
                          else Inr url))))"

section \<open>Ranges\<close>

lemma in_net_v4: "in_net (a :: 32 word) (b, p) \<longleftrightarrow> uint a div 2 ^ (32 - p) = uint b div 2 ^ (32 - p)"
proof -
  have "take_bit 32 (uint x) = uint x" for x :: "32 word"
    using uint_bounded [of x] by (simp add: take_bit_int_eq_self)
  then show ?thesis
    unfolding in_net_def word_uint_eq_iff unsigned_drop_bit_eq by (simp add: drop_bit_eq_div)
qed

lemma in_net_range:
  assumes "uint b = k * 2 ^ (32 - p)" and "k * 2 ^ (32 - p) \<le> uint a" and "uint a < (k + 1) * 2 ^ (32 - p)"
  shows "in_net (a :: 32 word) (b, p)"
proof -
  have "uint a div 2 ^ (32 - p) = k" using assms(2,3) by (intro int_div_pos_eq [of _ _ _ "uint a - k * 2 ^ (32 - p)"]) (auto simp: algebra_simps)
  then show ?thesis by (simp add: in_net_v4 assms(1))
qed

text \<open>The ranges of IPv4 addresses that reach the host itself, its private networks, its link (the cloud
  metadata service among them), or no single host.\<close>

definition internal_v4 :: "32 word \<Rightarrow> bool" where
  "internal_v4 a \<longleftrightarrow>
     a \<le> 0x00FFFFFF \<or> (0x0A000000 \<le> a \<and> a \<le> 0x0AFFFFFF) \<or> (0x7F000000 \<le> a \<and> a \<le> 0x7FFFFFFF)
     \<or> (0xA9FE0000 \<le> a \<and> a \<le> 0xA9FEFFFF) \<or> (0xAC100000 \<le> a \<and> a \<le> 0xAC1FFFFF)
     \<or> (0xC0A80000 \<le> a \<and> a \<le> 0xC0A8FFFF) \<or> 0xE0000000 \<le> a"

lemma list_ex_mem: "x \<in> set xs \<Longrightarrow> P x \<Longrightarrow> list_ex P xs"
  by (auto simp: list_ex_iff)

lemma internal_not_public: "internal_v4 a \<Longrightarrow> \<not> address_is_public (V4 a)"
proof -
  assume "internal_v4 a"
  then consider "uint a \<le> 0xFFFFFF" | "0xA000000 \<le> uint a \<and> uint a \<le> 0xAFFFFFF"
    | "0x7F000000 \<le> uint a \<and> uint a \<le> 0x7FFFFFFF" | "0xA9FE0000 \<le> uint a \<and> uint a \<le> 0xA9FEFFFF"
    | "0xAC100000 \<le> uint a \<and> uint a \<le> 0xAC1FFFFF" | "0xC0A80000 \<le> uint a \<and> uint a \<le> 0xC0A8FFFF"
    | "0xE0000000 \<le> uint a"
    by (auto simp: internal_v4_def word_le_def)
  moreover have "uint a < 4294967296" using uint_bounded [of a] by simp
  moreover have exc: "\<not> list_ex (in_net a) private_v4_exceptions"
    if "uint a < 0xC0000000 \<or> 0xC0010000 \<le> uint a"
  proof
    assume "list_ex (in_net a) private_v4_exceptions"
    then have "uint a = 0xC0000009 \<or> uint a = 0xC000000A"
      by (auto simp: private_v4_exceptions_def in_net_v4)
    then show False using that by auto
  qed
  ultimately show ?thesis
  proof cases
    case 1
    then have "in_net a (0, 8)" by (intro in_net_range [of _ 0]) auto
    then show ?thesis using exc 1 by (auto simp: is_private_v4_def private_v4_def)
  next
    case 2
    then have "in_net a (0x0A000000, 8)" by (intro in_net_range [of _ "0xA"]) auto
    then show ?thesis using exc 2 by (auto simp: is_private_v4_def private_v4_def)
  next
    case 3
    then have "in_net a (0x7F000000, 8)" by (intro in_net_range [of _ "0x7F"]) auto
    then show ?thesis by simp
  next
    case 4
    then have "in_net a (0xA9FE0000, 16)" by (intro in_net_range [of _ "0xA9FE"]) auto
    then show ?thesis by simp
  next
    case 5
    then have "in_net a (0xAC100000, 12)" by (intro in_net_range [of _ "0xAC1"]) auto
    then show ?thesis using exc 5 by (auto simp: is_private_v4_def private_v4_def)
  next
    case 6
    then have "in_net a (0xC0A80000, 16)" by (intro in_net_range [of _ "0xC0A8"]) auto
    then show ?thesis using exc 6 by (auto simp: is_private_v4_def private_v4_def)
  next
    case 7
    show ?thesis
    proof (cases "uint a < 0xF0000000")
      case True
      then have "in_net a (0xE0000000, 4)" using 7 by (intro in_net_range [of _ "0xE"]) auto
      then show ?thesis by simp
    next
      case False
      then have "in_net a (0xF0000000, 4)" using uint_bounded [of a] by (intro in_net_range [of _ "0xF"]) auto
      then show ?thesis by simp
    qed
  qed
qed



text \<open>Shared address space (100.64.0.0/10, carrier grade NAT and some cloud providers' internal
  networks) passes the guard: \<open>ipaddress\<close> counts it neither as private nor as reserved.\<close>

theorem shared_address_space_accepted:
  "0x64400000 \<le> a \<Longrightarrow> a \<le> 0x647FFFFF \<Longrightarrow> address_is_public (V4 a)"
proof -
  assume "0x64400000 \<le> a" "a \<le> 0x647FFFFF"
  then have u: "0x64400000 \<le> uint a" "uint a \<le> 0x647FFFFF" by (simp_all add: word_le_def)
  have "\<not> in_net a (b, p)" if "p \<le> 32" "4 \<le> p" "uint b div 2 ^ 28 \<noteq> 6" for b :: "32 word" and p
  proof
    assume "in_net a (b, p)"
    then have "uint a div 2 ^ (32 - p) div 2 ^ (p - 4) = uint b div 2 ^ (32 - p) div 2 ^ (p - 4)"
      by (simp add: in_net_v4)
    moreover have "2 ^ (32 - p) * 2 ^ (p - 4) = (2 ^ 28 :: int)" using that(1,2) by (simp flip: power_add)
    ultimately have "uint a div 2 ^ 28 = uint b div 2 ^ 28"
      by (metis div_mult2_eq zdiv_zmult2_eq zero_le_numeral zero_le_power)
    moreover have "uint a div 2 ^ 28 = 6" using u by simp
    ultimately show False using that(3) by simp
  qed
  then show "address_is_public (V4 a)"
    using u by (auto simp: is_private_v4_def private_v4_def)
qed

theorem shared_address_space_accepted_witness:
  "address_is_public (V4 0x64400001)"
  using shared_address_space_accepted [of "0x64400001"] by simp

end
