(* ===== verification/Ingestion.thy ===== *)
theory Ingestion
  imports Histories FounderRating Security
begin

text \<open>
  \<open>app/services/ingestion.py\<close>: how a harvested signal or a submitted application becomes a company, a
  founder, an affiliation, founder score events, memory and an opportunity. A person's links and a
  signal's payload are JSON objects; the providers of identity hints (github, hackernews,
  author_name) are never keys under which a list or a dict is stored, so \<open>str()\<close> is only needed of
  strings and of the null value.
\<close>

record ResolvedSignal =
  rs_person :: "uuid option"
  rs_company :: uuid
  rs_opportunity :: uuid
  rs_opportunity_created :: bool

definition or_empty :: "string option \<Rightarrow> string" where
  "or_empty s = (case s of None \<Rightarrow> [] | Some t \<Rightarrow> t)"

definition clean_name :: "string option \<Rightarrow> string \<Rightarrow> string" where
  "clean_name value fallback =
     (let cleaned = strip (join '' '' (split_ws (or_empty value)))
      in if cleaned \<noteq> [] then take 200 cleaned else take 200 fallback)"

fun json_items :: "json \<Rightarrow> json list" where
  "json_items (JList xs) = xs" | "json_items _ = []"

fun is_obj :: "json \<Rightarrow> bool" where
  "is_obj (JObj kvs) = True" | "is_obj _ = False"

definition int_str :: "int \<Rightarrow> string" where
  "int_str n = (if n < 0 then ''-'' @ str_nat (nat (- n)) else str_nat (nat n))"

text \<open>\<open>str()\<close> of a JSON value; numbers that are converted are integers.\<close>

fun json_str :: "json \<Rightarrow> string" where
  "json_str (JStr s) = s"
| "json_str (JUuid u) = str_nat u"
| "json_str JNull = ''None''"
| "json_str (JBool b) = (if b then ''True'' else ''False'')"
| "json_str (JNum q) = int_str \<lfloor>q\<rfloor>"
| "json_str _ = []"

fun json_num :: "json \<Rightarrow> rat" where
  "json_num (JNum q) = q" | "json_num _ = 0"

definition jget_or :: "json \<Rightarrow> string \<Rightarrow> json \<Rightarrow> json" where
  "jget_or dflt k j = (case jget k j of None \<Rightarrow> dflt | Some v \<Rightarrow> v)"

definition identity_hints :: "Signal \<Rightarrow> json list" where
  "identity_hints signal =
     filter (\<lambda>h. is_obj h \<and> jget_truthy ''value'' h \<noteq> None)
       (json_items (jget_or (JList []) ''identity_hints'' (sig_payload signal)))"

definition identity_link :: "string \<Rightarrow> string \<Rightarrow> string option" where
  "identity_link provider value =
     (if provider = ''github'' then Some (''https://github.com/'' @ value)
      else if provider = ''hackernews'' then Some (''https://news.ycombinator.com/user?id='' @ value)
      else None)"

definition links_name :: "string \<Rightarrow> string \<Rightarrow> json \<Rightarrow> bool" where
  "links_name provider value links \<longleftrightarrow>
     casefold (json_str (jget_or (JStr []) provider links)) = casefold value"

definition has_identity :: "string \<Rightarrow> string \<Rightarrow> Person \<Rightarrow> bool" where
  "has_identity provider value p \<longleftrightarrow>
     links_name provider value (per_links p)
     \<or> (let ids = jget_or (JObj []) ''identities'' (per_links p)
        in is_obj ids \<and> links_name provider value ids)"

definition person_by_identity :: "string \<Rightarrow> string \<Rightarrow> db \<Rightarrow> Person option" where
  "person_by_identity provider value d =
     (case first_row (\<lambda>p. per_merged_into_id p = None \<and> has_identity provider value p) (persons d) of
        Some p \<Rightarrow> Some p
      | None \<Rightarrow>
          if normalize_name value \<noteq> [] then
            first_row (\<lambda>p. per_normalized_name p = normalize_name value \<and> per_merged_into_id p = None)
              (persons d)
          else None)"

definition ensure_affiliation :: "uuid \<Rightarrow> uuid \<Rightarrow> rat \<Rightarrow> unit run" where
  "ensure_affiliation person company confidence =
     andThen (query (\<lambda>d. first_row (\<lambda>a. af_person_id a = person \<and> af_company_id a = company
                               \<and> af_role a = ''founder'') (affiliations d)))
       (\<lambda>existing. case existing of
          None \<Rightarrow>
            andThen (insert_new
              (\<lambda>u. \<lparr>af_id = u, af_person_id = person, af_company_id = company, af_role = ''founder'',
                    af_is_founder = True, af_started_on = None, af_ended_on = None, af_confidence = confidence\<rparr>)
              (\<lambda>a d. d\<lparr>affiliations := affiliations d @ [a]\<rparr>)) (\<lambda>_. ret ())
        | Some a \<Rightarrow>
            change (\<lambda>d. d\<lparr>affiliations := upd_row af_id (af_id a)
              (\<lambda>a. a\<lparr>af_is_founder := True, af_confidence := max (af_confidence a) confidence\<rparr>)
              (affiliations d)\<rparr>))"

definition new_person :: "string \<Rightarrow> string list \<Rightarrow> json \<Rightarrow> bool \<Rightarrow> datetime \<Rightarrow> uuid \<Rightarrow> Person" where
  "new_person name emails links stub now u =
     \<lparr>per_id = u, per_display_name = name, per_normalized_name = normalize_name name,
      per_headline = None, per_bio = None, per_location_text = None, per_country_code = None,
      per_city = None, per_emails = emails, per_links = links, per_education = [],
      per_employment = [], per_skills = [], per_first_seen_at = now, per_last_signal_at = None,
      per_signal_count = 0, per_source_count = 0, per_is_stub = stub, per_merged_into_id = None\<rparr>"

definition add_person :: "Person \<Rightarrow> db \<Rightarrow> db" where
  "add_person p d = d\<lparr>persons := persons d @ [p]\<rparr>"

definition set_person :: "uuid \<Rightarrow> (Person \<Rightarrow> Person) \<Rightarrow> db \<Rightarrow> db" where
  "set_person i f d = d\<lparr>persons := upd_row per_id i f (persons d)\<rparr>"

definition new_event ::
  "uuid \<Rightarrow> string \<Rightarrow> rat \<Rightarrow> rat \<Rightarrow> string \<Rightarrow> uuid option \<Rightarrow> datetime \<Rightarrow> uuid \<Rightarrow> FounderScoreEvent" where
  "new_event person component delta weight reason signal occurred u =
     \<lparr>fse_id = u, fse_person_id = person, fse_component = component, fse_delta = delta,
      fse_reason = reason, fse_signal_id = signal, fse_evidence_id = None, fse_weight = weight,
      fse_occurred_at = occurred, fse_supersedes_id = None\<rparr>"

definition add_event :: "FounderScoreEvent \<Rightarrow> db \<Rightarrow> db" where
  "add_event e d = d\<lparr>founder_score_events := founder_score_events d @ [e]\<rparr>"

definition work_sample_reason :: string where
  "work_sample_reason = ''Founder supplied work samples pending verification.''"

section \<open>ensure_application_founder\<close>

definition email_known :: "string \<Rightarrow> Person \<Rightarrow> bool" where
  "email_known email p \<longleftrightarrow> email \<in> casefold ` set (per_emails p)"

text \<open>The three ways to a person, in the code's order: by e-mail, by name, a new row.\<close>

definition application_person ::
  "string option \<Rightarrow> string \<Rightarrow> db \<Rightarrow> Person option" where
  "application_person email display_name d =
     (case (case email of None \<Rightarrow> None
            | Some e \<Rightarrow> first_row (\<lambda>p. per_merged_into_id p = None \<and> email_known e p) (persons d)) of
        Some p \<Rightarrow> Some p
      | None \<Rightarrow> first_row (\<lambda>p. per_normalized_name p = normalize_name display_name
                              \<and> per_merged_into_id p = None) (persons d))"

definition application_links :: "string option \<Rightarrow> string list \<Rightarrow> json" where
  "application_links website artifacts =
     JObj ((if truthy website then [(''website'', JStr (or_empty website))] else [])
           @ (if artifacts \<noteq> [] then [(''work_samples'', JList (map JStr (take 10 artifacts)))] else []))"

text \<open>Submitted work samples are recorded as an event once, with little weight.\<close>

definition work_sample_event :: "env \<Rightarrow> string list \<Rightarrow> uuid \<Rightarrow> unit run" where
  "work_sample_event E artifacts pid =
     (if artifacts = [] then ret ()
      else andThen (query (\<lambda>d. first_row (\<lambda>e. fse_person_id e = pid
                             \<and> fse_reason e = work_sample_reason) (founder_score_events d)))
        (\<lambda>has_event. case has_event of Some _ \<Rightarrow> ret ()
         | None \<Rightarrow> andThen (insert_new
             (new_event pid ''execution'' 55 (15/100) work_sample_reason None (env_now E))
             add_event) (\<lambda>_. ret ())))"

definition complete_profile :: "env \<Rightarrow> Company \<Rightarrow> string list \<Rightarrow> uuid \<Rightarrow> uuid run" where
  "complete_profile E company artifacts pid =
     andThen (ensure_affiliation pid (co_id company) (35/100)) (\<lambda>_.
     andThen (work_sample_event E artifacts pid) (\<lambda>_.
     andThen (on_db (recompute_founder_score (env_libm E) (env_now E) pid)) (\<lambda>_. ret pid)))"

definition remember_email :: "string option \<Rightarrow> Person \<Rightarrow> unit run" where
  "remember_email email p =
     (case email of
        None \<Rightarrow> ret ()
      | Some e \<Rightarrow> if email_known e p then ret ()
          else change (set_person (per_id p) (\<lambda>p. p\<lparr>per_emails := per_emails p @ [e]\<rparr>)))"

definition ensure_application_founder ::
  "env \<Rightarrow> Company \<Rightarrow> string option \<Rightarrow> string option \<Rightarrow> string option \<Rightarrow> string list \<Rightarrow> uuid run" where
  "ensure_application_founder E company contact_name contact_email website artifacts =
     (let email = (if truthy contact_email then map_option casefold contact_email else None);
          display_name = clean_name contact_name (''Unresolved founder at '' @ co_name company)
      in andThen (query (application_person email display_name))
         (\<lambda>existing. case existing of
            None \<Rightarrow>
              andThen (insert_new (new_person display_name (case email of None \<Rightarrow> [] | Some e \<Rightarrow> [e])
                  (application_links website artifacts)
                  (\<not> (truthy contact_name \<or> truthy contact_email)) (env_now E)) add_person)
                (\<lambda>p. complete_profile E company artifacts (per_id p))
          | Some p \<Rightarrow>
              andThen (remember_email email p) (\<lambda>_. complete_profile E company artifacts (per_id p))))"

section \<open>The company of a signal\<close>

text \<open>\<open>signal.title.rsplit("/", 1)[-1]\<close>.\<close>

definition last_segment :: "string \<Rightarrow> string" where
  "last_segment s = rev (takeWhile (\<lambda>c. c \<noteq> CHR ''/'') (rev s))"

definition drop_prefix :: "string \<Rightarrow> string \<Rightarrow> string" where
  "drop_prefix p title =
     (if starts_with (casefold p) (casefold title) then strip (drop (length p) title) else title)"

definition title_name :: "string option \<Rightarrow> Signal \<Rightarrow> string" where
  "title_name host signal =
     (if sig_kind signal = REPO_ACTIVITY \<and> truthy (sig_title signal)
      then clean_name (Some (last_segment (or_empty (sig_title signal)))) ''Discovered repository''
      else let title = clean_name (sig_title signal) []
           in if title \<noteq> [] then drop_prefix ''Launch HN:'' (drop_prefix ''Show HN:'' title)
              else clean_name host ''Discovered company'')"

definition company_name_from_signal :: "string option \<Rightarrow> Signal \<Rightarrow> string" where
  "company_name_from_signal host signal =
     (case jget ''company_name'' (sig_payload signal) of
        Some (JStr explicit) \<Rightarrow>
          if strip explicit \<noteq> [] then clean_name (Some explicit) ''Discovered company''
          else title_name host signal
      | _ \<Rightarrow> title_name host signal)"

definition company_domain :: "string option \<Rightarrow> string option" where
  "company_domain host =
     (let h = casefold (or_empty host)
      in if h = [] \<or> h \<in> {''github.com'', ''arxiv.org'', ''news.ycombinator.com''} then None else Some h)"

definition new_company ::
  "string \<Rightarrow> string option \<Rightarrow> json \<Rightarrow> string option \<Rightarrow> bool \<Rightarrow> datetime \<Rightarrow> uuid \<Rightarrow> Company" where
  "new_company name domain links one_liner stub now u =
     \<lparr>co_id = u, co_name = name, co_normalized_name = normalize_name name, co_legal_name = None,
      co_domain = domain, co_one_liner = one_liner, co_description = None, co_sectors = [],
      co_stage = None, co_hq_country = None, co_hq_city = None,
      co_founded_on = None, co_founded_precision = None, co_employee_estimate = None, co_status = ''active'',
      co_links = links, co_first_seen_at = now, co_last_signal_at = None, co_is_stub = stub,
      co_merged_into_id = None\<rparr>"

definition add_company :: "Company \<Rightarrow> db \<Rightarrow> db" where
  "add_company c d = d\<lparr>companies := companies d @ [c]\<rparr>"

definition set_company :: "uuid \<Rightarrow> (Company \<Rightarrow> Company) \<Rightarrow> db \<Rightarrow> db" where
  "set_company i f d = d\<lparr>companies := upd_row co_id i f (companies d)\<rparr>"

definition none_if_empty :: "string \<Rightarrow> string option" where
  "none_if_empty s = (if s = [] then None else Some s)"

definition latest :: "datetime option \<Rightarrow> datetime \<Rightarrow> datetime" where
  "latest old t = (case old of None \<Rightarrow> t | Some o1 \<Rightarrow> max o1 t)"

definition find_company :: "string option \<Rightarrow> string \<Rightarrow> db \<Rightarrow> Company option" where
  "find_company domain name d =
     (case (case domain of None \<Rightarrow> None
            | Some h \<Rightarrow> first_row (\<lambda>c. co_domain c = Some h \<and> co_merged_into_id c = None) (companies d)) of
        Some c \<Rightarrow> Some c
      | None \<Rightarrow> first_row (\<lambda>c. co_normalized_name c = normalize_name name \<and> co_merged_into_id c = None)
                 (companies d))"

text \<open>\<open>host\<close> is \<open>urlsplit(signal.url or "").hostname\<close>.\<close>

definition ensure_company :: "env \<Rightarrow> string option \<Rightarrow> Signal \<Rightarrow> Company run" where
  "ensure_company E host signal =
     (let name = company_name_from_signal host signal; domain = company_domain host
      in andThen (query (find_company domain name))
         (\<lambda>existing. andThen
           (case existing of
              Some c \<Rightarrow> ret c
            | None \<Rightarrow> insert_new
                (new_company name domain
                  (JObj (if truthy (sig_url signal) then [(''source'', JStr (or_empty (sig_url signal)))] else []))
                  (none_if_empty (take 500
                    (if truthy (sig_body signal) then or_empty (sig_body signal) else or_empty (sig_title signal))))
                  False (env_now E))
                add_company)
           (\<lambda>c. andThen (change (set_company (co_id c)
                   (\<lambda>c. c\<lparr>co_last_signal_at := Some (latest (co_last_signal_at c) (sig_observed_at signal))\<rparr>)))
              (\<lambda>_. ret (c\<lparr>co_last_signal_at := Some (latest (co_last_signal_at c) (sig_observed_at signal))\<rparr>)))))"

section \<open>The person of a signal\<close>

text \<open>\<open>max(hints, key=...)\<close>: the first of the greatest.\<close>

fun max_hint :: "json \<Rightarrow> json list \<Rightarrow> json" where
  "max_hint best [] = best"
| "max_hint best (h # hs) =
     max_hint (if json_num (jget_or (JNum 0) ''confidence'' best)
                  < json_num (jget_or (JNum 0) ''confidence'' h) then h else best) hs"

definition ensure_signal_person :: "env \<Rightarrow> Signal \<Rightarrow> uuid option run" where
  "ensure_signal_person E signal =
     (case identity_hints signal of
        [] \<Rightarrow> ret None
      | h # hs \<Rightarrow>
          let hint = max_hint h hs;
              provider = json_str (jget_or (JStr ''unknown'') ''provider'' hint);
              value = clean_name (Some (json_str (jget_or JNull ''value'' hint))) ''Unknown founder''
          in andThen (query (person_by_identity provider value))
             (\<lambda>existing. andThen
               (case existing of
                  Some p \<Rightarrow> ret (per_id p)
                | None \<Rightarrow>
                    andThen (insert_new (new_person value []
                        (JObj ((''identities'', JObj [(provider, JStr value)])
                               # (case identity_link provider value of None \<Rightarrow> []
                                  | Some l \<Rightarrow> [(provider, JStr l)])))
                        (provider \<in> {''github'', ''hackernews''}) (env_now E)) add_person)
                      (\<lambda>p. ret (per_id p)))
               (\<lambda>pid. andThen
                 (if sig_person_id signal \<noteq> Some pid then
                    change (set_person pid (\<lambda>p. p\<lparr>
                      per_last_signal_at := Some (latest (per_last_signal_at p) (sig_observed_at signal)),
                      per_signal_count := per_signal_count p + 1,
                      per_source_count := per_source_count p + 1\<rparr>))
                  else ret ())
                 (\<lambda>_. ret (Some pid)))))"

text \<open>\<open>int(signal.payload.get("stars") or 0)\<close> truncates.\<close>

definition stars_of :: "Signal \<Rightarrow> int" where
  "stars_of signal =
     (let q = json_num (jget_or (JNum 0) ''stars'' (sig_payload signal))
      in if 0 \<le> q then \<lfloor>q\<rfloor> else \<lceil>q\<rceil>)"

definition score_events_for :: "Signal \<Rightarrow> (string \<times> rat \<times> rat \<times> string) list" where
  "score_events_for signal =
     (if sig_kind signal = REPO_ACTIVITY then
        [(''execution'', 62, 80/100, ''Public repository activity.''),
         (''technical_depth'', 68, 80/100, ''Public technical artifact.''),
         (''validation'', of_int (min 82 (42 + stars_of signal div 25)), 65/100,
          ''Repository adoption signal.'')]
      else if sig_kind signal = PAPER then
        [(''technical_depth'', 76, 85/100, ''Published research artifact.''),
         (''domain_expertise'', 70, 75/100, ''Research domain evidence.'')]
      else if sig_kind signal \<in> {LAUNCH_POST, PRESS} then
        [(''communication'', 58, 45/100, ''Public launch communication.''),
         (''execution'', 54, 45/100, ''Public product-launch evidence.'')]
      else [])"

definition record_one_event :: "Signal \<Rightarrow> uuid \<Rightarrow> string \<times> rat \<times> rat \<times> string \<Rightarrow> unit run" where
  "record_one_event signal pid ev =
     (case ev of (component, delta, weight, reason) \<Rightarrow>
      andThen (query (\<lambda>d. first_row (\<lambda>e. fse_person_id e = pid \<and> fse_signal_id e = Some (sig_id signal)
                             \<and> fse_component e = component) (founder_score_events d)))
        (\<lambda>existing. case existing of Some _ \<Rightarrow> ret ()
         | None \<Rightarrow> andThen (insert_new
             (new_event pid component delta weight reason (Some (sig_id signal)) (sig_observed_at signal))
             add_event) (\<lambda>_. ret ())))"

definition record_founder_events :: "env \<Rightarrow> uuid \<Rightarrow> Signal \<Rightarrow> unit run" where
  "record_founder_events E pid signal =
     andThen (each (score_events_for signal) (record_one_event signal pid))
       (\<lambda>_. andThen (on_db (recompute_founder_score (env_libm E) (env_now E) pid)) (\<lambda>_. ret ()))"

section \<open>Memory and channels\<close>

definition signal_content :: "Signal \<Rightarrow> string" where
  "signal_content signal =
     strip (join [char_of (10 :: nat)]
       (filter (\<lambda>s. s \<noteq> []) [or_empty (sig_title signal), or_empty (sig_body signal)]))"

definition memory_chunk :: "env \<Rightarrow> Signal \<Rightarrow> uuid \<Rightarrow> uuid option \<Rightarrow> uuid \<Rightarrow> uuid \<Rightarrow> KBChunk" where
  "memory_chunk E signal source person company u =
     \<lparr>kb_id = u, kb_org_id = sig_org_id signal, kb_scope = ''signal'', kb_person_id = person,
      kb_company_id = Some company, kb_signal_id = Some (sig_id signal), kb_document_id = None,
      kb_page_no = None, kb_chunk_index = 0, kb_title = sig_title signal,
      kb_content = signal_content signal,
      kb_content_hash = env_stable_hash E (JObj [(''signal_id'', JUuid (sig_id signal)),
                                                 (''content'', JStr (signal_content signal))]),
      kb_token_count = length (split_ws (signal_content signal)), kb_source_id = Some source,
      kb_source_url = sig_url signal, kb_observed_at = Some (sig_observed_at signal),
      kb_embedding = None, kb_embedding_model = None\<rparr>"

definition record_memory ::
  "env \<Rightarrow> Signal \<Rightarrow> uuid \<Rightarrow> uuid option \<Rightarrow> uuid \<Rightarrow> uuid option \<Rightarrow> unit run" where
  "record_memory E signal source person company channel =
     andThen
       (if signal_content signal = [] then ret ()
        else andThen (query (\<lambda>d. first_row (\<lambda>k. kb_signal_id k = Some (sig_id signal)) (kb_chunks d)))
          (\<lambda>exists. case exists of Some _ \<Rightarrow> ret ()
           | None \<Rightarrow> andThen (insert_new (memory_chunk E signal source person company)
               (\<lambda>k d. d\<lparr>kb_chunks := kb_chunks d @ [k]\<rparr>)) (\<lambda>_. ret ())))
       (\<lambda>_. when_some channel (\<lambda>ch.
          andThen (query (\<lambda>d. first_row (\<lambda>e. ce_channel_id e = ch \<and> ce_person_id e = person
                                 \<and> ce_company_id e = Some company) (channel_edges d)))
            (\<lambda>edge. case edge of Some _ \<Rightarrow> ret ()
             | None \<Rightarrow> change (\<lambda>d. d\<lparr>channel_edges := channel_edges d @
                 [\<lparr>ce_channel_id = ch, ce_person_id = person, ce_company_id = Some company,
                   ce_weight = (case sig_strength signal of None \<Rightarrow> 1/2
                                | Some w \<Rightarrow> if w = 0 then 1/2 else w),
                   ce_outcome = None\<rparr>]\<rparr>))))"

section \<open>resolve_outbound_signal\<close>

text \<open>A new opportunity, with the columns every creation site leaves at their defaults.\<close>

definition new_opportunity ::
  "uuid \<Rightarrow> Company \<Rightarrow> uuid option \<Rightarrow> OpportunityOrigin \<Rightarrow> datetime \<Rightarrow> datetime \<Rightarrow> int \<Rightarrow> uuid \<Rightarrow> Opportunity" where
  "new_opportunity org company thesis origin first_signal now sla_hours u =
     \<lparr>op_id = u, op_org_id = org, op_company_id = co_id company, op_thesis_id = thesis,
      op_origin = origin, op_stage = SOURCED, op_title = Some (co_name company), op_thesis_fit = None,
      op_conviction = None, op_priority_rank = None, op_first_signal_at = first_signal,
      op_sourced_at = now, op_screened_at = None, op_diligence_started_at = None,
      op_memo_ready_at = None, op_decided_at = None, op_sla_deadline_at = now + hours sla_hours,
      op_decision = None, op_decision_by = None, op_decision_rationale = None, op_assigned_to = None,
      op_dedupe_key = Some (str_nat org @ '':'' @ str_nat (co_id company)), op_version = 1,
      op_updated_at = now\<rparr>"

definition add_opportunity :: "Opportunity \<Rightarrow> db \<Rightarrow> db" where
  "add_opportunity p d = d\<lparr>opportunities := opportunities d @ [p]\<rparr>"

definition live_opportunity :: "uuid \<Rightarrow> uuid \<Rightarrow> db \<Rightarrow> Opportunity option" where
  "live_opportunity org company d =
     first_row (\<lambda>p. op_org_id p = org \<and> op_company_id p = company \<and> op_stage p \<noteq> ARCHIVED)
       (opportunities d)"

definition signal_hostname :: "Signal \<Rightarrow> exn + string option" where
  "signal_hostname signal =
     (case urlsplit (or_empty (sig_url signal)) of Inl e \<Rightarrow> Inl e | Inr p \<Rightarrow> Inr (hostname p))"

definition set_signal :: "uuid \<Rightarrow> (Signal \<Rightarrow> Signal) \<Rightarrow> db \<Rightarrow> db" where
  "set_signal i f d = d\<lparr>signals := upd_row sig_id i f (signals d)\<rparr>"

definition outbound_opportunity :: "env \<Rightarrow> Signal \<Rightarrow> Company \<Rightarrow> uuid option \<Rightarrow> (uuid \<times> bool) run" where
  "outbound_opportunity E signal company channel =
     (case sig_org_id signal of
        None \<Rightarrow> throw IntegrityError
      | Some org \<Rightarrow>
          andThen (query (live_opportunity org (co_id company)))
            (\<lambda>existing. case existing of
               Some p \<Rightarrow> ret (op_id p, False)
             | None \<Rightarrow>
                 andThen (insert_new (new_opportunity org company None OUTBOUND (sig_observed_at signal)
                     (env_now E) (set_decision_sla_hours (env_settings E))) add_opportunity)
                   (\<lambda>p. andThen (when_some channel (\<lambda>ch. change (\<lambda>d. d\<lparr>sourcing_channels :=
                          upd_row ch_id ch (\<lambda>c. c\<lparr>ch_advanced_count := ch_advanced_count c + 1\<rparr>)
                            (sourcing_channels d)\<rparr>)))
                      (\<lambda>_. ret (op_id p, True)))))"

text \<open>The entities of a signal: company, person, affiliation, events, memory.\<close>

definition resolve_entities ::
  "env \<Rightarrow> Signal \<Rightarrow> uuid \<Rightarrow> uuid option \<Rightarrow> (Company \<times> uuid option) run" where
  "resolve_entities E signal source channel =
     andThen (lift (signal_hostname signal)) (\<lambda>host.
     andThen (ensure_company E host signal) (\<lambda>company.
     andThen (ensure_signal_person E signal) (\<lambda>person.
     andThen (change (set_signal (sig_id signal)
               (\<lambda>s. s\<lparr>sig_company_id := Some (co_id company),
                      sig_person_id := (case person of None \<Rightarrow> sig_person_id s | Some pid \<Rightarrow> Some pid)\<rparr>))) (\<lambda>_.
     andThen (when_some person (\<lambda>pid.
               andThen (ensure_affiliation pid (co_id company) (65/100))
                 (\<lambda>_. record_founder_events E pid signal))) (\<lambda>_.
     andThen (record_memory E signal source person (co_id company) channel) (\<lambda>_.
     ret (company, person)))))))"

definition resolve_outbound_signal ::
  "env \<Rightarrow> Signal \<Rightarrow> uuid \<Rightarrow> uuid option \<Rightarrow> ResolvedSignal run" where
  "resolve_outbound_signal E signal source channel =
     andThen (resolve_entities E signal source channel) (\<lambda>(company, person).
     andThen (outbound_opportunity E signal company channel) (\<lambda>(opp, created).
     ret \<lparr>rs_person = person, rs_company = co_id company, rs_opportunity = opp,
          rs_opportunity_created = created\<rparr>))"

section \<open>What ingestion touches\<close>

lemma frame_recompute [kept]: "frame.keeps (on_db (recompute_founder_score L now p))"
  by (rule frame.keeps_on_db)
    (simp add: recompute_founder_score_def Let_def split_beta entities_only_def)

lemma frame_affiliation [kept]: "frame.keeps (ensure_affiliation p c w)"
  unfolding ensure_affiliation_def
  by (auto intro!: frame_intros simp: entities_only_def split: option.split)

lemma frame_changes [simp]:
  "entities_only d (add_person p (d\<lparr>next_uuid := Suc (next_uuid d)\<rparr>))"
  "entities_only d (set_person i f d)"
  "entities_only d (add_event e (d\<lparr>next_uuid := Suc (next_uuid d)\<rparr>))"
  "entities_only d (add_company c (d\<lparr>next_uuid := Suc (next_uuid d)\<rparr>))"
  "entities_only d (set_company i g d)" "entities_only d (set_signal i h d)"
  by (simp_all add: entities_only_def add_person_def set_person_def add_event_def add_company_def
      set_company_def set_signal_def)

lemma frame_application_founder [kept]: "frame.keeps (ensure_application_founder E c n e w a)"
  unfolding ensure_application_founder_def complete_profile_def work_sample_event_def
    remember_email_def Let_def
  by (auto intro!: frame_intros kept split: option.split)

lemma frame_ensure_company [kept]: "frame.keeps (ensure_company E h s)"
  unfolding ensure_company_def Let_def by (auto intro!: frame_intros split: option.split)

lemma frame_signal_person [kept]: "frame.keeps (ensure_signal_person E s)"
  unfolding ensure_signal_person_def Let_def
  by (auto intro!: frame_intros split: option.split list.split)

lemma frame_founder_events [kept]: "frame.keeps (record_founder_events E p s)"
  unfolding record_founder_events_def record_one_event_def
  by (auto intro!: frame_intros kept split: option.split prod.split)

lemma frame_memory [kept]: "frame.keeps (record_memory E s src p c ch)"
  unfolding record_memory_def
  by (auto intro!: frame_intros simp: entities_only_def split: option.split)

lemma safe_outbound_opportunity [kept]:
  "sig_org_id s = Some x \<or> sig_org_id s = None \<Longrightarrow> fund.keeps x (outbound_opportunity E s c ch)"
  unfolding outbound_opportunity_def
  by (auto intro!: fund_intros simp: safe_defs add_opportunity_def new_opportunity_def split: option.split)

lemma frame_resolve_entities [kept]: "frame.keeps (resolve_entities E s src ch)"
  unfolding resolve_entities_def by (auto intro!: frame_intros kept)

lemma safe_resolve [kept]:
  "sig_org_id s = Some x \<or> sig_org_id s = None \<Longrightarrow> fund.keeps x (resolve_outbound_signal E s src ch)"
  unfolding resolve_outbound_signal_def
  by (auto intro!: fund_intros kept frame_fund [OF frame_resolve_entities] split: prod.split)

text \<open>C31: resolving a harvested signal for a fund. It leaves every other fund's rows and all history as
  they are; it ends with a live opportunity of this fund for the resolved company, which is new
  exactly when the fund had none; a new one starts its clock at the time the signal was observed
  and gets the configured deadline, and an existing one is returned unchanged.\<close>

theorem resolve_finds_or_creates:
  assumes "sig_org_id signal = Some x"
    and "resolve_outbound_signal E signal source channel s = (Inr rs, s')"
  shows "safe x (s_db s) (s_db s')
    \<and> (rs_opportunity_created rs \<longleftrightarrow> live_opportunity x (rs_company rs) (s_db s) = None)
    \<and> (\<exists>p \<in> set (opportunities (s_db s')). op_id p = rs_opportunity rs \<and> op_org_id p = x
         \<and> op_company_id p = rs_company rs \<and> op_stage p \<noteq> ARCHIVED
         \<and> (rs_opportunity_created rs \<longrightarrow> op_first_signal_at p = sig_observed_at signal
              \<and> op_sla_deadline_at p = env_now E + hours (set_decision_sla_hours (env_settings E)))
         \<and> (\<not> rs_opportunity_created rs \<longrightarrow> p \<in> set (opportunities (s_db s))))"
proof -
  have safe: "safe x (s_db s) (s_db s')"
    using fund.keepsD [OF safe_resolve assms(2)] assms(1) by blast
  obtain company person s1 where 1: "resolve_entities E signal source channel s = (Inr (company, person), s1)"
    and 2: "andThen (outbound_opportunity E signal company channel) (\<lambda>(opp, created).
        ret \<lparr>rs_person = person, rs_company = co_id company, rs_opportunity = opp,
             rs_opportunity_created = created\<rparr>) s1 = (Inr rs, s')"
  proof -
    from assms(2) have "andThen (resolve_entities E signal source channel) (\<lambda>(company, person).
        andThen (outbound_opportunity E signal company channel) (\<lambda>(opp, created).
        ret \<lparr>rs_person = person, rs_company = co_id company, rs_opportunity = opp,
             rs_opportunity_created = created\<rparr>)) s = (Inr rs, s')"
      by (simp only: resolve_outbound_signal_def)
    then obtain cp s1 where "resolve_entities E signal source channel s = (Inr cp, s1)"
      and "(case cp of (company, person) \<Rightarrow>
        andThen (outbound_opportunity E signal company channel) (\<lambda>(opp, created).
        ret \<lparr>rs_person = person, rs_company = co_id company, rs_opportunity = opp,
             rs_opportunity_created = created\<rparr>)) s1 = (Inr rs, s')"
      by (subst (asm) andThen_Inr) blast
    then show thesis using that by (cases cp) simp
  qed
  have same: "opportunities (s_db s1) = opportunities (s_db s)"
    using frame.keepsD [OF frame_resolve_entities 1] by (simp add: entities_only_def)
  then have live: "live_opportunity x c (s_db s1) = live_opportunity x c (s_db s)" for c
    by (simp add: live_opportunity_def)
  show ?thesis
  proof (cases "live_opportunity x (co_id company) (s_db s1)")
    case (Some p)
    then have "p \<in> set (opportunities (s_db s)) \<and> op_org_id p = x \<and> op_company_id p = co_id company
        \<and> op_stage p \<noteq> ARCHIVED"
      using first_row_Some same by (fastforce simp: live_opportunity_def)
    moreover have "rs = \<lparr>rs_person = person, rs_company = co_id company, rs_opportunity = op_id p,
        rs_opportunity_created = False\<rparr>" "s' = s1"
      using 2 Some assms(1) by (auto simp: outbound_opportunity_def run_simps)
    ultimately show ?thesis using safe Some live same by auto
  next
    case None
    let ?p = "new_opportunity x company None OUTBOUND (sig_observed_at signal) (env_now E)
                (set_decision_sla_hours (env_settings E)) (next_uuid (s_db s1))"
    have "rs = \<lparr>rs_person = person, rs_company = co_id company, rs_opportunity = op_id ?p,
        rs_opportunity_created = True\<rparr>" "?p \<in> set (opportunities (s_db s'))"
      using 2 None assms(1)
      by (auto simp: outbound_opportunity_def run_simps when_some_def add_opportunity_def
          split: option.splits)
    moreover have "op_org_id ?p = x" "op_company_id ?p = co_id company" "op_stage ?p \<noteq> ARCHIVED"
        "op_first_signal_at ?p = sig_observed_at signal"
        "op_sla_deadline_at ?p = env_now E + hours (set_decision_sla_hours (env_settings E))"
      by (simp_all add: new_opportunity_def)
    ultimately show ?thesis using safe None live by (intro conjI bexI [of _ ?p]) auto
  qed
qed

definition demo_signal :: Signal where
  "demo_signal =
     \<lparr>sig_id = 90, sig_org_id = Some 1, sig_source_id = 91, sig_kind = PRESS, sig_external_id = None,
      sig_url = None, sig_title = Some ''Acme'', sig_body = None, sig_payload = JObj [],
      sig_raw_ref = None, sig_content_hash = [], sig_person_id = None, sig_company_id = None, sig_strength = None,
      sig_observed_at = 5\<rparr>"

theorem resolve_finds_or_creates_witness:
  "\<exists>s'. resolve_outbound_signal demo_env demo_signal 91 None (open_session empty_db [])
          = (Inr \<lparr>rs_person = None, rs_company = 0, rs_opportunity = 2, rs_opportunity_created = True\<rparr>, s')
        \<and> (\<exists>p \<in> set (opportunities (s_db s')). op_first_signal_at p = 5)"
proof -
  let ?rs = "\<lparr>rs_person = None, rs_company = 0, rs_opportunity = 2, rs_opportunity_created = True\<rparr>"
  have f: "fst (resolve_outbound_signal demo_env demo_signal 91 None (open_session empty_db [])) = Inr ?rs"
    by code_simp
  obtain s' where r: "resolve_outbound_signal demo_env demo_signal 91 None (open_session empty_db []) = (Inr ?rs, s')"
    using f by (metis prod.collapse)
  have o1: "sig_org_id demo_signal = Some 1" and t: "sig_observed_at demo_signal = 5"
    by (simp_all add: demo_signal_def)
  show ?thesis using resolve_finds_or_creates [OF o1 r] r t by auto
qed

section \<open>Founders\<close>

text \<open>An event of a signal is recorded once per component.\<close>

definition recorded :: "Signal \<Rightarrow> uuid \<Rightarrow> string \<Rightarrow> db \<Rightarrow> bool" where
  "recorded signal pid component d \<longleftrightarrow>
     (\<exists>e \<in> set (founder_score_events d). fse_person_id e = pid
        \<and> fse_signal_id e = Some (sig_id signal) \<and> fse_component e = component)"

lemma record_one_skips:
  "recorded signal pid (fst ev) (s_db s) \<Longrightarrow> record_one_event signal pid ev s = (Inr (), s)"
  by (cases ev)
    (auto simp: record_one_event_def run_simps recorded_def first_row_None split: option.split)

lemma record_one_records:
  "\<exists>s'. record_one_event signal pid ev s = (Inr (), s') \<and> recorded signal pid (fst ev) (s_db s')
     \<and> prefix (founder_score_events (s_db s)) (founder_score_events (s_db s'))"
  by (cases ev)
    (fastforce simp: record_one_event_def run_simps recorded_def add_event_def new_event_def
      dest: first_row_Some split: option.split)

lemma recorded_prefix:
  "recorded signal pid c d \<Longrightarrow> prefix (founder_score_events d) (founder_score_events d') \<Longrightarrow>
     recorded signal pid c d'"
  by (auto simp: recorded_def prefix_def)

lemma each_record:
  "\<exists>s'. each evs (record_one_event signal pid) s = (Inr (), s')
     \<and> (\<forall>ev \<in> set evs. recorded signal pid (fst ev) (s_db s'))
     \<and> prefix (founder_score_events (s_db s)) (founder_score_events (s_db s'))"
proof (induction evs arbitrary: s)
  case (Cons ev evs)
  obtain s1 where 1: "record_one_event signal pid ev s = (Inr (), s1)"
      "recorded signal pid (fst ev) (s_db s1)"
      "prefix (founder_score_events (s_db s)) (founder_score_events (s_db s1))"
    using record_one_records by blast
  obtain s2 where 2: "each evs (record_one_event signal pid) s1 = (Inr (), s2)"
      "\<forall>ev \<in> set evs. recorded signal pid (fst ev) (s_db s2)"
      "prefix (founder_score_events (s_db s1)) (founder_score_events (s_db s2))"
    using Cons.IH by blast
  show ?case using 1 2 recorded_prefix [OF 1(2) 2(3)] prefix_order.trans
    by (auto simp: andThen_def)
qed (simp add: ret_def)

lemma each_skips:
  "\<forall>ev \<in> set evs. recorded signal pid (fst ev) (s_db s) \<Longrightarrow>
     each evs (record_one_event signal pid) s = (Inr (), s)"
  by (induction evs) (simp_all add: ret_def andThen_def record_one_skips)

lemma recompute_events [simp]:
  "founder_score_events (snd (recompute_founder_score L now p d)) = founder_score_events d"
  by (simp add: recompute_founder_score_def Let_def split_beta)

text \<open>C32: recording a signal's founder events is idempotent and append-only. The first run keeps
  every event there was and records each component the signal speaks to; a second run of the same
  signal for the same person adds no event.\<close>

theorem founder_events_recorded_once:
  "\<exists>s1 s2. record_founder_events E pid signal s = (Inr (), s1)
     \<and> record_founder_events E pid signal s1 = (Inr (), s2)
     \<and> prefix (founder_score_events (s_db s)) (founder_score_events (s_db s1))
     \<and> (\<forall>ev \<in> set (score_events_for signal). recorded signal pid (fst ev) (s_db s1))
     \<and> founder_score_events (s_db s2) = founder_score_events (s_db s1)"
proof -
  obtain s' where 1: "each (score_events_for signal) (record_one_event signal pid) s = (Inr (), s')"
      "\<forall>ev \<in> set (score_events_for signal). recorded signal pid (fst ev) (s_db s')"
      "prefix (founder_score_events (s_db s)) (founder_score_events (s_db s'))"
    using each_record by blast
  define s1 where "s1 = s'\<lparr>s_db := snd (recompute_founder_score (env_libm E) (env_now E) pid (s_db s'))\<rparr>"
  have r1: "record_founder_events E pid signal s = (Inr (), s1)"
    unfolding record_founder_events_def
    by (simp add: andThen_def 1(1) on_db_def Let_def split_beta ret_def s1_def)
  have e1: "founder_score_events (s_db s1) = founder_score_events (s_db s')" by (simp add: s1_def)
  then have rec: "\<forall>ev \<in> set (score_events_for signal). recorded signal pid (fst ev) (s_db s1)"
    using 1(2) by (simp add: recorded_def)
  define s2 where "s2 = s1\<lparr>s_db := snd (recompute_founder_score (env_libm E) (env_now E) pid (s_db s1))\<rparr>"
  have r2: "record_founder_events E pid signal s1 = (Inr (), s2)"
    unfolding record_founder_events_def
    by (simp add: andThen_def each_skips [OF rec] on_db_def Let_def split_beta ret_def s2_def)
  show ?thesis using r1 r2 1(3) e1 rec by (intro exI [of _ s1] exI [of _ s2]) (auto simp: s2_def)
qed

theorem founder_events_recorded_once_witness:
  "recorded (demo_signal\<lparr>sig_kind := PAPER\<rparr>) 7 ''technical_depth''
     (s_db (snd (record_founder_events demo_env 7 (demo_signal\<lparr>sig_kind := PAPER\<rparr>) (open_session empty_db []))))"
proof -
  let ?s = "demo_signal\<lparr>sig_kind := PAPER\<rparr>"
  have ev: "(''technical_depth'', 76, 85/100, ''Published research artifact.'') \<in> set (score_events_for ?s)"
    by (simp add: score_events_for_def)
  obtain s1 where run: "record_founder_events demo_env 7 ?s (open_session empty_db []) = (Inr (), s1)"
    and all: "\<forall>ev \<in> set (score_events_for ?s). recorded ?s 7 (fst ev) (s_db s1)"
    using founder_events_recorded_once [of demo_env 7 ?s "open_session empty_db []"]
    by (elim exE conjE) (rule that)
  from bspec [OF all ev] show ?thesis unfolding run by simp
qed

lemma affiliation_after:
  "\<exists>s'. ensure_affiliation pid cid w s = (Inr (), s') \<and> persons (s_db s') = persons (s_db s)
     \<and> founder_score_events (s_db s') = founder_score_events (s_db s)
     \<and> (\<exists>a \<in> set (affiliations (s_db s')). af_person_id a = pid \<and> af_company_id a = cid
          \<and> af_is_founder a \<and> w \<le> af_confidence a)"
proof (cases "first_row (\<lambda>a. af_person_id a = pid \<and> af_company_id a = cid \<and> af_role a = ''founder'')
    (affiliations (s_db s))")
  case None
  then show ?thesis by (simp add: ensure_affiliation_def run_simps)
next
  case (Some a)
  then have a: "a \<in> set (affiliations (s_db s))" "af_person_id a = pid" "af_company_id a = cid"
    using first_row_Some [OF Some] by auto
  then have "\<exists>b \<in> set (upd_row af_id (af_id a)
      (\<lambda>a. a\<lparr>af_is_founder := True, af_confidence := max (af_confidence a) w\<rparr>) (affiliations (s_db s))).
      af_person_id b = pid \<and> af_company_id b = cid \<and> af_is_founder b \<and> w \<le> af_confidence b"
    by (intro bex_upd_row) simp_all
  then show ?thesis using Some by (simp add: ensure_affiliation_def run_simps)
qed

lemma recompute_tables:
  "persons (snd (recompute_founder_score L now p d)) = persons d"
  "affiliations (snd (recompute_founder_score L now p d)) = affiliations d"
  by (auto simp: recompute_founder_score_def Let_def split_beta)

lemma recompute_row:
  "\<exists>r. get_row fs_person_id p (founder_scores (snd (recompute_founder_score L now p d))) = Some r"
  by (auto simp: recompute_founder_score_def Let_def split_beta row_simps split: option.split)

definition has_profile :: "Company \<Rightarrow> uuid \<Rightarrow> db \<Rightarrow> bool" where
  "has_profile company pid d \<longleftrightarrow>
     (\<exists>p \<in> set (persons d). per_id p = pid)
     \<and> (\<exists>a \<in> set (affiliations d). af_person_id a = pid \<and> af_company_id a = co_id company
          \<and> af_is_founder a)
     \<and> (\<exists>r. get_row fs_person_id pid (founder_scores d) = Some r)"

lemma work_sample_after:
  "\<exists>s'. work_sample_event E artifacts pid s = (Inr (), s') \<and> persons (s_db s') = persons (s_db s)
     \<and> affiliations (s_db s') = affiliations (s_db s)"
  by (auto simp: work_sample_event_def run_simps add_event_def split: option.split)

lemma complete_profile_gives:
  assumes "\<exists>p \<in> set (persons (s_db s)). per_id p = pid"
  shows "\<exists>s'. complete_profile E company artifacts pid s = (Inr pid, s') \<and> has_profile company pid (s_db s')"
proof -
  obtain s1 where 1: "ensure_affiliation pid (co_id company) (35/100) s = (Inr (), s1)"
      "persons (s_db s1) = persons (s_db s)"
      "\<exists>a \<in> set (affiliations (s_db s1)). af_person_id a = pid \<and> af_company_id a = co_id company \<and> af_is_founder a"
    using affiliation_after by blast
  obtain s2 where 2: "work_sample_event E artifacts pid s1 = (Inr (), s2)"
      "persons (s_db s2) = persons (s_db s1)" "affiliations (s_db s2) = affiliations (s_db s1)"
    using work_sample_after by blast
  show ?thesis
    using assms 1 2 unfolding complete_profile_def
    by (simp add: andThen_def on_db_def Let_def split_beta ret_def has_profile_def
        recompute_tables recompute_row)
qed

lemma remember_email_keeps:
  assumes "p \<in> set (persons (s_db s))"
  shows "\<exists>s'. remember_email email p s = (Inr (), s')
    \<and> (\<exists>q \<in> set (persons (s_db s')). per_id q = per_id p)"
proof -
  have "\<exists>q \<in> set (upd_row per_id (per_id p) (\<lambda>p. p\<lparr>per_emails := per_emails p @ [e]\<rparr>) (persons (s_db s))).
      per_id q = per_id p" for e
    using assms by (intro bex_upd_row) simp_all
  then show ?thesis using assms
    by (auto simp: remember_email_def run_simps set_person_def split: option.split)
qed

lemma application_founder_profile:
  "\<exists>pid s'. ensure_application_founder E company contact_name contact_email website artifacts s
       = (Inr pid, s') \<and> has_profile company pid (s_db s')"
proof -
  define email where "email = (if truthy contact_email then map_option casefold contact_email else None)"
  define name where "name = clean_name contact_name (''Unresolved founder at '' @ co_name company)"
  note unfold = ensure_application_founder_def Let_def email_def [symmetric] name_def [symmetric]
  show ?thesis
  proof (cases "application_person email name (s_db s)")
    case None
    let ?p = "new_person name (case email of None \<Rightarrow> [] | Some e \<Rightarrow> [e]) (application_links website artifacts)
        (\<not> (truthy contact_name \<or> truthy contact_email)) (env_now E) (next_uuid (s_db s))"
    let ?s = "s\<lparr>s_db := add_person ?p ((s_db s)\<lparr>next_uuid := Suc (next_uuid (s_db s))\<rparr>)\<rparr>"
    have "\<exists>p \<in> set (persons (s_db ?s)). per_id p = per_id ?p" by (simp add: add_person_def)
    from complete_profile_gives [OF this, of E company artifacts] show ?thesis
      unfolding unfold andThen_query None option.case andThen_insert_new by blast
  next
    case (Some p)
    then have "p \<in> set (persons (s_db s))"
      by (auto simp: application_person_def split: option.splits dest!: first_row_Some)
    then obtain s1 where 1: "remember_email email p s = (Inr (), s1)"
        "\<exists>q \<in> set (persons (s_db s1)). per_id q = per_id p"
      using remember_email_keeps by blast
    have "ensure_application_founder E company contact_name contact_email website artifacts s
        = complete_profile E company artifacts (per_id p) s1"
      unfolding unfold andThen_query Some option.case by (simp add: andThen_def 1(1))
    with complete_profile_gives [OF 1(2), of E company artifacts] show ?thesis by auto
  qed
qed

text \<open>No inbound candidate is left without a founder. Whatever the application says, the
  computation succeeds and its founder is a person with a founder affiliation to the company and a
  founder score, cold-start or not.\<close>

theorem application_founder_has_profile:
  "\<exists>pid s'. ensure_application_founder E company contact_name contact_email website artifacts s
       = (Inr pid, s') \<and> has_profile company pid (s_db s')"
  by (rule application_founder_profile)

end
