(* ===== verification/Connectors.thy ===== *)
theory Connectors
  imports Ingestion
begin

text \<open>
  \<open>app/services/connectors/\<close>: the raw records of four services turned into signals of one shape. The
  network request is \<open>env_fetch\<close> (for arXiv with its XML already turned into the dicts the code
  builds; the requests are in \<open>Feeds\<close>). A field the service leaves out is null or missing; a text field holds text.
\<close>

record IdentityHint =
  ih_provider :: string
  ih_value :: string
  ih_confidence :: rat

record NormalizedSignal =
  ns_kind :: SignalKind
  ns_external_id :: "string option"
  ns_url :: "string option"
  ns_title :: "string option"
  ns_body :: "string option"
  ns_payload :: json
  ns_observed_at :: datetime
  ns_strength :: rat
  ns_identities :: "IdentityHint list"

definition opt_str :: "string option \<Rightarrow> json" where
  "opt_str s = (case s of None \<Rightarrow> JNull | Some t \<Rightarrow> JStr t)"

fun json_text :: "json \<Rightarrow> string option" where
  "json_text (JStr s) = Some s" | "json_text _ = None"

text \<open>\<open>raw.get(key)\<close> of a text field, and \<open>raw.get(a) or raw.get(b)\<close>.\<close>

definition text_at :: "string \<Rightarrow> json \<Rightarrow> string option" where
  "text_at k raw = (case jget k raw of None \<Rightarrow> None | Some v \<Rightarrow> json_text v)"

definition text_or :: "string \<Rightarrow> string \<Rightarrow> json \<Rightarrow> string option" where
  "text_or a b raw = (if truthy (text_at a raw) then text_at a raw else text_at b raw)"

definition at_or_null :: "string \<Rightarrow> json \<Rightarrow> json" where
  "at_or_null k raw = jget_or JNull k raw"

text \<open>\<open>raw.get(key) or 0\<close>, and its \<open>int\<close>.\<close>

definition num_at :: "string \<Rightarrow> json \<Rightarrow> rat" where
  "num_at k raw = (case jget_truthy k raw of None \<Rightarrow> 0 | Some v \<Rightarrow> json_num v)"

definition trunc :: "rat \<Rightarrow> int" where
  "trunc q = (if 0 \<le> q then \<lfloor>q\<rfloor> else \<lceil>q\<rceil>)"

text \<open>\<open>datetime.fromisoformat(str(x).replace("Z", "+00:00")) if x else now\<close>.\<close>

definition observed :: "env \<Rightarrow> json option \<Rightarrow> exn + datetime" where
  "observed E v =
     (case v of None \<Rightarrow> Inr (env_now E)
      | Some x \<Rightarrow> env_fromiso E (replace ''Z'' ''+00:00'' (json_str x)))"

definition stamp :: "(datetime \<Rightarrow> NormalizedSignal) \<Rightarrow> exn + datetime \<Rightarrow> exn + NormalizedSignal" where
  "stamp f r = (case r of Inl e \<Rightarrow> Inl e | Inr t \<Rightarrow> Inr (f t))"

fun signal_kind_value :: "SignalKind \<Rightarrow> string" where
  "signal_kind_value REPO_ACTIVITY = ''repo_activity''"
| "signal_kind_value RELEASE = ''release''"
| "signal_kind_value PACKAGE_PUBLISH = ''package_publish''"
| "signal_kind_value PAPER = ''paper''"
| "signal_kind_value PATENT = ''patent''"
| "signal_kind_value HACKATHON_RESULT = ''hackathon_result''"
| "signal_kind_value ACCELERATOR_COHORT = ''accelerator_cohort''"
| "signal_kind_value LAUNCH_POST = ''launch_post''"
| "signal_kind_value FORUM_POST = ''forum_post''"
| "signal_kind_value SOCIAL_POST = ''social_post''"
| "signal_kind_value PRESS = ''press''"
| "signal_kind_value JOB_POST = ''job_post''"
| "signal_kind_value FUNDING_FILING = ''funding_filing''"
| "signal_kind_value COMPANY_REGISTRY = ''company_registry''"
| "signal_kind_value DOMAIN_REGISTRATION = ''domain_registration''"
| "signal_kind_value TLS_CERTIFICATE = ''tls_certificate''"
| "signal_kind_value WEBSITE_CHANGE = ''website_change''"
| "signal_kind_value DECK_SLIDE = ''deck_slide''"
| "signal_kind_value INTERVIEW = ''interview''"
| "signal_kind_value APP_RELEASE = ''app_release''"
| "signal_kind_value DATASET_MODEL_PUBLISH = ''dataset_model_publish''"
| "signal_kind_value SIGNAL_OTHER = ''other''"

definition content_hash :: "env \<Rightarrow> NormalizedSignal \<Rightarrow> string" where
  "content_hash E n =
     env_stable_hash E (JObj [(''kind'', JStr (signal_kind_value (ns_kind n))), (''url'', opt_str (ns_url n)), (''title'', opt_str (ns_title n)),
       (''body'', opt_str (ns_body n)), (''payload'', ns_payload n)])"

section \<open>The four services\<close>

definition github_normalize :: "env \<Rightarrow> json \<Rightarrow> exn + NormalizedSignal" where
  "github_normalize E raw =
     (let owner = (case jget_truthy ''owner'' raw of None \<Rightarrow> JObj [] | Some v \<Rightarrow> v);
          pushed = (case jget_truthy ''pushed_at'' raw of
                      Some v \<Rightarrow> Some v | None \<Rightarrow> jget_truthy ''updated_at'' raw);
          stars = trunc (num_at ''stargazers_count'' raw)
      in stamp (\<lambda>t.
           \<lparr>ns_kind = REPO_ACTIVITY,
            ns_external_id = (case jget ''id'' raw of None \<Rightarrow> None
                              | Some v \<Rightarrow> if v = JNull then None else Some (json_str v)),
            ns_url = text_at ''html_url'' raw, ns_title = text_or ''full_name'' ''name'' raw,
            ns_body = text_at ''description'' raw,
            ns_payload = JObj [(''stars'', JNum (of_int stars)),
              (''forks'', JNum (of_int (trunc (num_at ''forks_count'' raw)))),
              (''language'', at_or_null ''language'' raw),
              (''topics'', case jget_truthy ''topics'' raw of None \<Rightarrow> JList [] | Some v \<Rightarrow> v),
              (''owner'', at_or_null ''login'' owner)],
            ns_observed_at = t,
            ns_strength = min 1 (fadd (1/4) (fdiv (of_int stars) 5000)),
            ns_identities = (if jget_truthy ''login'' owner = None then []
              else [\<lparr>ih_provider = ''github'', ih_value = or_empty (text_at ''login'' owner),
                     ih_confidence = 1\<rparr>])\<rparr>) (observed E pushed))"

definition hackernews_normalize :: "env \<Rightarrow> json \<Rightarrow> exn + NormalizedSignal" where
  "hackernews_normalize E raw =
     (let object_id = map_option json_str (jget_truthy ''objectID'' raw)
      in stamp (\<lambda>t.
           \<lparr>ns_kind = LAUNCH_POST, ns_external_id = object_id,
            ns_url = (if truthy (text_at ''url'' raw) then text_at ''url'' raw
                      else if truthy object_id
                      then Some (''https://news.ycombinator.com/item?id='' @ or_empty object_id) else None),
            ns_title = text_or ''title'' ''story_title'' raw,
            ns_body = text_or ''story_text'' ''comment_text'' raw,
            ns_payload = JObj [(''points'', JNum (num_at ''points'' raw)),
              (''comments'', JNum (num_at ''num_comments'' raw)), (''author'', at_or_null ''author'' raw)],
            ns_observed_at = t,
            ns_strength = min 1 (fadd (fl (3/10)) (fdiv (num_at ''points'' raw) 500)),
            ns_identities = (if jget_truthy ''author'' raw = None then []
              else [\<lparr>ih_provider = ''hackernews'', ih_value = or_empty (text_at ''author'' raw),
                     ih_confidence = fl (9/10)\<rparr>])\<rparr>) (observed E (jget_truthy ''created_at'' raw)))"

definition arxiv_normalize :: "env \<Rightarrow> json \<Rightarrow> exn + NormalizedSignal" where
  "arxiv_normalize E raw =
     (let authors = map json_str (json_items (jget_or (JList []) ''authors'' raw))
      in stamp (\<lambda>t.
           \<lparr>ns_kind = PAPER, ns_external_id = text_at ''id'' raw, ns_url = text_at ''url'' raw,
            ns_title = text_at ''title'' raw, ns_body = text_at ''summary'' raw,
            ns_payload = JObj [(''authors'', JList (map JStr authors)),
              (''categories'', jget_or (JList []) ''categories'' raw)],
            ns_observed_at = t, ns_strength = fl (65/100),
            ns_identities = map (\<lambda>a. \<lparr>ih_provider = ''author_name'', ih_value = a,
              ih_confidence = fl (45/100)\<rparr>) authors\<rparr>) (observed E (jget_truthy ''published'' raw)))"

definition tavily_normalize :: "env \<Rightarrow> json \<Rightarrow> exn + NormalizedSignal" where
  "tavily_normalize E raw =
     Inr \<lparr>ns_kind = PRESS, ns_external_id = None, ns_url = text_at ''url'' raw,
          ns_title = text_at ''title'' raw, ns_body = text_at ''content'' raw,
          ns_payload = JObj [(''score'', at_or_null ''score'' raw)], ns_observed_at = env_now E,
          ns_strength = (case jget_truthy ''score'' raw of None \<Rightarrow> 1/2 | Some v \<Rightarrow> json_num v),
          ns_identities = []\<rparr>"

section \<open>Harvesting\<close>

text \<open>\<open>enabled\<close>, \<open>normalize\<close> and the most records a connector asks for.\<close>

definition connector_keys :: "string list" where
  "connector_keys = [''github'', ''hackernews'', ''arxiv'', ''tavily'']"

definition connector_enabled :: "settings \<Rightarrow> string \<Rightarrow> bool" where
  "connector_enabled S key = (if key = ''tavily'' then set_tavily_api_key S \<noteq> [] else True)"

definition connector_normalize :: "string \<Rightarrow> env \<Rightarrow> json \<Rightarrow> exn + NormalizedSignal" where
  "connector_normalize key =
     (if key = ''github'' then github_normalize else if key = ''hackernews'' then hackernews_normalize
      else if key = ''arxiv'' then arxiv_normalize else tavily_normalize)"

definition connector_limit :: "string \<Rightarrow> int \<Rightarrow> int" where
  "connector_limit key limit = (if key = ''tavily'' then min limit 20 else min limit 100)"

fun normalize_all :: "(json \<Rightarrow> exn + NormalizedSignal) \<Rightarrow> json list \<Rightarrow> exn + NormalizedSignal list" where
  "normalize_all f [] = Inr []"
| "normalize_all f (r # rs) =
     (case f r of Inl e \<Rightarrow> Inl e
      | Inr n \<Rightarrow> (case normalize_all f rs of Inl e \<Rightarrow> Inl e | Inr ns \<Rightarrow> Inr (n # ns)))"

definition connector_harvest ::
  "env \<Rightarrow> string \<Rightarrow> string \<Rightarrow> int \<Rightarrow> exn + NormalizedSignal list" where
  "connector_harvest E key q limit =
     (if \<not> connector_enabled (env_settings E) key then Inr []
      else case env_fetch E key q (connector_limit key limit) of
             Inl e \<Rightarrow> Inl e
           | Inr raws \<Rightarrow> normalize_all (connector_normalize key E) raws)"

section \<open>The interface of a connector\<close>

text \<open>What the harvest relies on: a connector produces one kind of signal, names its identities by one
  provider, with a confidence between 0 and 1.\<close>

locale connector =
  fixes nrm :: "env \<Rightarrow> json \<Rightarrow> exn + NormalizedSignal"
    and kind :: SignalKind
    and provider :: string
  assumes kind_of: "nrm E raw = Inr n \<Longrightarrow> ns_kind n = kind"
    and hints_of: "nrm E raw = Inr n \<Longrightarrow> h \<in> set (ns_identities n) \<Longrightarrow>
                     ih_provider h = provider \<and> 0 < ih_confidence h \<and> ih_confidence h \<le> 1"
begin

lemma all_kind: "normalize_all (nrm E) raws = Inr ns \<Longrightarrow> n \<in> set ns \<Longrightarrow> ns_kind n = kind"
  by (induction raws arbitrary: ns) (auto split: sum.splits dest: kind_of)

lemma all_hints:
  "normalize_all (nrm E) raws = Inr ns \<Longrightarrow> n \<in> set ns \<Longrightarrow> h \<in> set (ns_identities n) \<Longrightarrow>
     ih_provider h = provider \<and> 0 < ih_confidence h \<and> ih_confidence h \<le> 1"
  by (induction raws arbitrary: ns) (auto split: sum.splits dest: hints_of)

end

lemma stamp_Inr: "stamp f r = Inr n \<longleftrightarrow> (\<exists>t. r = Inr t \<and> n = f t)"
  by (cases r) (auto simp: stamp_def)

interpretation github: connector github_normalize REPO_ACTIVITY "''github''"
  by unfold_locales (auto simp: github_normalize_def stamp_Inr Let_def split: if_splits)

lemma confidence_bounds: "0 < fl (9/10) \<and> fl (9/10) \<le> 1" "0 < fl (45/100) \<and> fl (45/100) \<le> 1"
  by code_simp+

interpretation hackernews: connector hackernews_normalize LAUNCH_POST "''hackernews''"
  by unfold_locales
    (auto simp: hackernews_normalize_def stamp_Inr Let_def confidence_bounds split: if_splits)

interpretation arxiv: connector arxiv_normalize PAPER "''author_name''"
  using confidence_bounds(2) by unfold_locales (auto simp: arxiv_normalize_def stamp_Inr Let_def)

interpretation tavily: connector tavily_normalize PRESS "''none''"
  by unfold_locales (auto simp: tavily_normalize_def)

end
