(* ===== verification/DeckClaims.thy ===== *)
theory DeckClaims
  imports Text PyFloat Models
begin

text \<open>
  \<open>app/services/extraction.py\<close>: the four patterns as terms of a small regular expression language,
  matched by backtracking in the order Python's \<open>re\<close> tries alternatives (greedy, lazy and bounded
  repetition, one capture group), \<open>_parse_compact_number\<close> and \<open>extract_claims\<close>. Text is ASCII and
  the two currency signs, which stand at their Windows-1252 codes (128 and 163).
\<close>

section \<open>Regular expressions\<close>

datatype regex =
    Sym "char \<Rightarrow> bool"
  | WordB \<comment> \<open>the word boundary\<close>
  | Seq regex regex
  | Alt regex regex
  | Rep nat "nat option" bool "char \<Rightarrow> bool" \<comment> \<open>least, most, lazy: repetition of one class\<close>
  | Opt regex
  | Group regex \<comment> \<open>the capture group\<close>

text \<open>A state of the matcher: the character before, the rest of the line, what the group captured.\<close>

record mstate =
  ms_prev :: "char option"
  ms_rest :: string
  ms_group :: "string option"

definition is_word :: "char \<Rightarrow> bool" where
  "is_word c \<longleftrightarrow> is_alnum (lower_char c) \<or> c = CHR ''_''"

definition word_boundary :: "mstate \<Rightarrow> bool" where
  "word_boundary st \<longleftrightarrow>
     (case ms_prev st of None \<Rightarrow> False | Some c \<Rightarrow> is_word c)
     \<noteq> (case ms_rest st of [] \<Rightarrow> False | c # _ \<Rightarrow> is_word c)"

fun step_char :: "(char \<Rightarrow> bool) \<Rightarrow> mstate \<Rightarrow> mstate list" where
  "step_char P st =
     (case ms_rest st of [] \<Rightarrow> []
      | c # cs \<Rightarrow> if P c then [st\<lparr>ms_prev := Some c, ms_rest := cs\<rparr>] else [])"

text \<open>\<open>rep lazy P least extra\<close>: at least \<open>least\<close>, at most \<open>extra\<close> more.\<close>

fun rep :: "bool \<Rightarrow> (char \<Rightarrow> bool) \<Rightarrow> nat \<Rightarrow> nat \<Rightarrow> mstate \<Rightarrow> mstate list" where
  "rep lazy P (Suc m) n st = concat (map (rep lazy P m n) (step_char P st))"
| "rep lazy P 0 0 st = [st]"
| "rep lazy P 0 (Suc n) st =
     (if lazy then st # concat (map (rep lazy P 0 n) (step_char P st))
      else concat (map (rep lazy P 0 n) (step_char P st)) @ [st])"

text \<open>All ways to match, the preferred one first. Each step of a repetition takes a character, so an
  unbounded one takes at most the length of the rest.\<close>

fun runs :: "regex \<Rightarrow> mstate \<Rightarrow> mstate list" where
  "runs (Sym P) st = step_char P st"
| "runs WordB st = (if word_boundary st then [st] else [])"
| "runs (Seq r1 r2) st = concat (map (runs r2) (runs r1 st))"
| "runs (Alt r1 r2) st = runs r1 st @ runs r2 st"
| "runs (Rep m hi lazy P) st =
     rep lazy P m (case hi of None \<Rightarrow> length (ms_rest st) | Some h \<Rightarrow> h - m) st"
| "runs (Opt r) st = runs r st @ [st]"
| "runs (Group r) st =
     map (\<lambda>st'. st'\<lparr>ms_group :=
           Some (take (length (ms_rest st) - length (ms_rest st')) (ms_rest st))\<rparr>) (runs r st)"

text \<open>\<open>pattern.search(line)\<close>: the first position with a match; \<open>group(0)\<close> and \<open>group(1)\<close>.\<close>

fun search_from :: "regex \<Rightarrow> char option \<Rightarrow> string \<Rightarrow> (string \<times> string option) option" where
  "search_from r prev s =
     (case runs r \<lparr>ms_prev = prev, ms_rest = s, ms_group = None\<rparr> of
        st # _ \<Rightarrow> Some (take (length s - length (ms_rest st)) s, ms_group st)
      | [] \<Rightarrow> (case s of [] \<Rightarrow> None | c # cs \<Rightarrow> search_from r (Some c) cs))"

declare search_from.simps [simp del]

section \<open>The patterns\<close>

definition EURO :: char where "EURO = CHR 0x80"
definition POUND :: char where "POUND = CHR 0xA3"

definition ci :: "char \<Rightarrow> regex" where "ci x = Sym (\<lambda>c. lower_char c = lower_char x)"

fun lit :: "string \<Rightarrow> regex \<Rightarrow> regex" where
  "lit [] r = r"
| "lit (c # cs) r = Seq (ci c) (lit cs r)"

definition currency_sign :: "char \<Rightarrow> bool" where
  "currency_sign c \<longleftrightarrow> c = CHR ''$'' \<or> c = EURO \<or> c = POUND"

definition opt_space :: regex where "opt_space = Rep 0 (Some 1) False is_space"
definition digits1 :: regex where "digits1 = Rep 1 None False is_digit"
definition any_of :: "string \<Rightarrow> char \<Rightarrow> bool" where
  "any_of cs c = (lower_char c \<in> set cs)"

text \<open>\<open>([$EP]?\s?\d+(?:[.,]\d+)?\s?[suffix]?)\<close>, \<open>E\<close> the euro and \<open>P\<close> the pound sign.\<close>

definition amount :: "string \<Rightarrow> regex" where
  "amount suffix =
     Group (Seq (Rep 0 (Some 1) False currency_sign) (Seq opt_space (Seq digits1
       (Seq (Opt (Seq (Sym (\<lambda>c. c = CHR ''.'' \<or> c = CHR '','')) digits1))
         (Seq opt_space (Rep 0 (Some 1) False (any_of suffix)))))))"

definition gap30 :: regex where
  "gap30 = Rep 0 (Some 30) True (\<lambda>c. c \<noteq> char_of (10 :: nat))"

definition ARR_PATTERN :: regex where
  "ARR_PATTERN = Seq WordB (lit ''ARR'' (Seq WordB (Seq gap30 (amount ''km''))))"

definition CUSTOMER_PATTERN :: regex where
  "CUSTOMER_PATTERN =
     Seq WordB (Seq (Group (Seq (Sym is_digit) (Rep 0 None False (\<lambda>c. is_digit c \<or> c = CHR '',''))))
       (Seq (Rep 1 None False is_space)
         (Seq (Opt (lit ''paying'' (Rep 1 None False is_space)))
           (lit ''customer'' (Seq (Opt (ci CHR ''s'')) WordB)))))"

definition TAM_PATTERN :: regex where
  "TAM_PATTERN = Seq WordB (lit ''TAM'' (Seq WordB (Seq gap30 (amount ''bm''))))"

definition GROWTH_PATTERN :: regex where
  "GROWTH_PATTERN =
     Seq WordB (Seq (Group (Seq digits1 (Opt (Seq (Sym (\<lambda>c. c = CHR ''.'')) digits1))))
       (Seq opt_space (Seq (Sym (\<lambda>c. c = CHR ''%''))
         (Seq (Rep 1 None False is_space)
           (Seq (Alt (lit ''mo'' (ci CHR ''m''))
             (Alt (lit ''month'' (Seq (Sym (any_of ''- ''))
                     (lit ''over'' (Seq (Sym (any_of ''- '')) (lit ''mont'' (ci CHR ''h''))))))
                  (lit ''growt'' (ci CHR ''h''))))
             WordB)))))"

definition PATTERNS :: "(ClaimCategory \<times> string \<times> regex \<times> string) list" where
  "PATTERNS =
     [(C_REVENUE, ''arr'', ARR_PATTERN, ''currency''),
      (C_TRACTION, ''customer_count'', CUSTOMER_PATTERN, ''count''),
      (C_MARKET, ''tam'', TAM_PATTERN, ''currency''),
      (C_TRACTION, ''growth_rate_pct'', GROWTH_PATTERN, ''percent'')]"

section \<open>Numbers\<close>

text \<open>\<open>Decimal(s)\<close> of an unsigned number without exponent (the only form a match can leave): the
  coefficient and the number of fractional digits; None where Decimal raises. Surrounding white
  space is ignored.\<close>

fun digits_value :: "nat \<Rightarrow> string \<Rightarrow> nat option" where
  "digits_value n [] = Some n"
| "digits_value n (c # cs) = (if is_digit c then digits_value (10 * n + (of_char c - 48)) cs else None)"

definition decimal_of :: "string \<Rightarrow> (nat \<times> nat) option" where
  "decimal_of s =
     (let t = strip s; whole = takeWhile (\<lambda>c. c \<noteq> CHR ''.'') t; rest = dropWhile (\<lambda>c. c \<noteq> CHR ''.'') t;
          frac = tl rest
      in if whole = [] \<and> frac = [] then None
         else map_option (\<lambda>n. (n, length frac)) (digits_value 0 (whole @ frac)))"

text \<open>A Decimal product is rounded to 28 significant digits, half to even.\<close>

definition fix28 :: "nat \<Rightarrow> rat" where
  "fix28 n =
     (if n < 10 ^ 28 then of_nat n
      else let k = length (str_nat n) - 28
           in of_int (round_half_even (of_nat n / 10 ^ k)) * 10 ^ k)"

definition decimal_times :: "nat \<times> nat \<Rightarrow> nat \<Rightarrow> rat" where
  "decimal_times d m = fix28 (fst d * m) / 10 ^ snd d"

definition remove_chars :: "char list \<Rightarrow> string \<Rightarrow> string" where
  "remove_chars cs s = filter (\<lambda>c. c \<notin> set cs) s"

definition parse_compact_number :: "string \<Rightarrow> rat option" where
  "parse_compact_number value =
     (let cleaned = strip (remove_chars [CHR ''$'', EURO, POUND, CHR '','' ] value);
          (m, body) =
            (if cleaned \<noteq> [] \<and> lower_char (last cleaned) = CHR ''k'' then (1000, butlast cleaned)
             else if cleaned \<noteq> [] \<and> lower_char (last cleaned) = CHR ''m'' then (1000000, butlast cleaned)
             else if cleaned \<noteq> [] \<and> lower_char (last cleaned) = CHR ''b'' then (1000000000, butlast cleaned)
             else (1, cleaned))
      in map_option (\<lambda>d. decimal_times d m) (decimal_of body))"

section \<open>extract_claims\<close>

record ParsedPage =
  pp_page_no :: nat
  pp_text :: string
  pp_ocr_used :: bool

record ExtractedClaim =
  ec_category :: ClaimCategory
  ec_predicate :: string
  ec_text :: string
  ec_value_num :: "rat option"
  ec_value_unit :: "string option"
  ec_locator :: locator
  ec_extraction_confidence :: rat
  ec_unverifiable :: bool

definition line_break :: "char \<Rightarrow> bool" where
  "line_break c \<longleftrightarrow> (let n = (of_char c :: nat) in (10 \<le> n \<and> n \<le> 13) \<or> (28 \<le> n \<and> n \<le> 30))"

text \<open>\<open>item.strip() for item in text.splitlines() if item.strip()\<close>.\<close>

definition lines_of :: "string \<Rightarrow> string list" where
  "lines_of text = filter (\<lambda>s. s \<noteq> []) (map strip (split_acc line_break [] text))"

definition unit_of :: "string \<Rightarrow> string \<Rightarrow> string option" where
  "unit_of unit_type raw_value =
     (if unit_type = ''currency'' then
        Some (if EURO \<in> set raw_value then ''EUR'' else if POUND \<in> set raw_value then ''GBP'' else ''USD'')
      else if unit_type = ''count'' then Some ''count''
      else if unit_type = ''percent'' then Some ''percent''
      else None)"

definition line_claim ::
  "nat \<Rightarrow> string \<Rightarrow> ClaimCategory \<times> string \<times> regex \<times> string \<Rightarrow> ExtractedClaim list" where
  "line_claim page_no line pat =
     (case pat of (category, predicate, pattern, unit_type) \<Rightarrow>
      (case search_from pattern None line of
         None \<Rightarrow> []
       | Some (snippet, grp) \<Rightarrow>
           if \<not> contains snippet line then []
           else let raw_value = (case grp of None \<Rightarrow> [] | Some g \<Rightarrow> g);
                    injected = looks_like_prompt_injection line
                in [\<lparr>ec_category = category, ec_predicate = predicate, ec_text = take 500 line,
                     ec_value_num = parse_compact_number raw_value,
                     ec_value_unit = unit_of unit_type raw_value,
                     ec_locator = \<lparr>loc_type = ''deck'', loc_page = page_no, loc_snippet = snippet\<rparr>,
                     ec_extraction_confidence = (if injected then fl (3/10) else fl (82/100)),
                     ec_unverifiable = injected\<rparr>]))"

definition extract_claims :: "ParsedPage list \<Rightarrow> ExtractedClaim list" where
  "extract_claims pages =
     concat (map (\<lambda>page. concat (map (\<lambda>line.
       concat (map (line_claim (pp_page_no page) line) PATTERNS)) (lines_of (pp_text page)))) pages)"

section \<open>What a match is\<close>

text \<open>The words of an expression, the expressions inside its groups, and whether a match always sets
  the group.\<close>

fun lang :: "regex \<Rightarrow> string \<Rightarrow> bool" where
  "lang (Sym P) w = (\<exists>c. w = [c] \<and> P c)"
| "lang WordB w = (w = [])"
| "lang (Seq r1 r2) w = (\<exists>u v. w = u @ v \<and> lang r1 u \<and> lang r2 v)"
| "lang (Alt r1 r2) w = (lang r1 w \<or> lang r2 w)"
| "lang (Rep m hi lazy P) w = (list_all P w \<and> m \<le> length w \<and> (\<forall>h. hi = Some h \<longrightarrow> length w \<le> max m h))"
| "lang (Opt r) w = (w = [] \<or> lang r w)"
| "lang (Group r) w = lang r w"

fun groups :: "regex \<Rightarrow> regex set" where
  "groups (Seq r1 r2) = groups r1 \<union> groups r2"
| "groups (Alt r1 r2) = groups r1 \<union> groups r2"
| "groups (Opt r) = groups r"
| "groups (Group r) = insert r (groups r)"
| "groups _ = {}"

fun captures :: "regex \<Rightarrow> bool" where
  "captures (Seq r1 r2) = (captures r1 \<or> captures r2)"
| "captures (Alt r1 r2) = (captures r1 \<and> captures r2)"
| "captures (Group r) = True"
| "captures _ = False"

lemma step_charD:
  "st' \<in> set (step_char P st) \<Longrightarrow>
     \<exists>c. ms_rest st = c # ms_rest st' \<and> P c \<and> ms_group st' = ms_group st"
  by (cases "ms_rest st") (auto split: if_splits)

lemma repD:
  "st' \<in> set (rep lazy P m n st) \<Longrightarrow>
     \<exists>w. ms_rest st = w @ ms_rest st' \<and> list_all P w \<and> m \<le> length w \<and> length w \<le> m + n
       \<and> ms_group st' = ms_group st"
proof (induction lazy P m n st rule: rep.induct)
  case (1 lazy P m n st)
  then obtain x where x: "x \<in> set (step_char P st)" "st' \<in> set (rep lazy P m n x)" by auto
  obtain c where "ms_rest st = c # ms_rest x" "P c" "ms_group x = ms_group st"
    using step_charD [OF x(1)] by blast
  moreover obtain w where "ms_rest x = w @ ms_rest st'" "list_all P w" "m \<le> length w"
      "length w \<le> m + n" "ms_group st' = ms_group x"
    using "1.IH" [OF x] by blast
  ultimately show ?case by (intro exI [of _ "c # w"]) simp
next
  case (3 lazy P n st)
  show ?case
  proof (cases "st' = st")
    case False
    then obtain x where x: "x \<in> set (step_char P st)" "st' \<in> set (rep lazy P 0 n x)"
      using "3.prems" by (auto split: if_splits)
    obtain c where "ms_rest st = c # ms_rest x" "P c" "ms_group x = ms_group st"
      using step_charD [OF x(1)] by blast
    moreover obtain w where "ms_rest x = w @ ms_rest st'" "list_all P w"
        "length w \<le> 0 + n" "ms_group st' = ms_group x"
      using "3.IH" x by (cases lazy) blast+
    ultimately show ?thesis by (intro exI [of _ "c # w"]) simp
  qed simp
qed simp

lemma runsD:
  "st' \<in> set (runs r st) \<Longrightarrow> \<exists>w. ms_rest st = w @ ms_rest st' \<and> lang r w"
proof (induction r arbitrary: st st')
  case (Sym P)
  then show ?case using step_charD [of st' P st] by fastforce
next
  case (Seq r1 r2)
  then obtain x where x: "x \<in> set (runs r1 st)" "st' \<in> set (runs r2 x)" by auto
  obtain u v where "ms_rest st = u @ ms_rest x" "lang r1 u" "ms_rest x = v @ ms_rest st'" "lang r2 v"
    using Seq.IH(1) [OF x(1)] Seq.IH(2) [OF x(2)] by blast
  then show ?case by (intro exI [of _ "u @ v"]) auto
next
  case (Rep m hi lazy P)
  then obtain w where w: "ms_rest st = w @ ms_rest st'" "list_all P w" "m \<le> length w"
      "length w \<le> m + (case hi of None \<Rightarrow> length (ms_rest st) | Some h \<Rightarrow> h - m)"
    using repD by (metis runs.simps(5))
  then have "\<forall>h. hi = Some h \<longrightarrow> length w \<le> max m h" by auto
  then show ?case using w by auto
next
  case (Group r)
  then show ?case by fastforce
qed (fastforce split: if_splits)+

lemma runs_group:
  "st' \<in> set (runs r st) \<Longrightarrow>
     ms_group st' = ms_group st \<or> (\<exists>q \<in> groups r. \<exists>g. ms_group st' = Some g \<and> lang q g)"
proof (induction r arbitrary: st st')
  case (Sym P)
  then show ?case using step_charD [of st' P st] by auto
next
  case (Seq r1 r2)
  then obtain x where "x \<in> set (runs r1 st)" "st' \<in> set (runs r2 x)" by auto
  then show ?case using Seq.IH by fastforce
next
  case (Rep m hi lazy P)
  then show ?case using repD by (metis runs.simps(5))
next
  case (Group r)
  then obtain x where x: "x \<in> set (runs r st)"
      "ms_group st' = Some (take (length (ms_rest st) - length (ms_rest x)) (ms_rest st))" by auto
  obtain w where "ms_rest st = w @ ms_rest x" "lang r w" using runsD [OF x(1)] by blast
  then show ?case using x(2) by simp
qed (fastforce split: if_splits)+

lemma runs_captures:
  "st' \<in> set (runs r st) \<Longrightarrow> captures r \<or> ms_group st \<noteq> None \<Longrightarrow> ms_group st' \<noteq> None"
proof (induction r arbitrary: st st')
  case (Sym P)
  then show ?case using step_charD [of st' P st] by auto
next
  case (Seq r1 r2)
  then obtain x where "x \<in> set (runs r1 st)" "st' \<in> set (runs r2 x)" by auto
  then show ?case using Seq.IH Seq.prems(2) by (metis captures.simps(1))
next
  case (Rep m hi lazy P)
  then show ?case using repD by (metis captures.simps(6) runs.simps(5))
qed (auto split: if_splits)

lemma search_fromD:
  assumes "search_from r prev s = Some (snippet, grp)"
  shows "\<exists>a b. s = a @ snippet @ b \<and> lang r snippet
    \<and> (captures r \<longrightarrow> (\<exists>q \<in> groups r. \<exists>g. grp = Some g \<and> lang q g))"
  using assms
proof (induction s arbitrary: prev)
  case Nil
  let ?st = "\<lparr>ms_prev = prev, ms_rest = [], ms_group = None\<rparr>"
  from Nil obtain st sts where st: "runs r ?st = st # sts" "snippet = []" "grp = ms_group st"
    by (auto simp: search_from.simps [of r prev "[]"] split: list.splits)
  then have "st \<in> set (runs r ?st)" by simp
  then show ?case using runsD runs_group runs_captures st by fastforce
next
  case (Cons c cs)
  note prems = Cons.prems
  let ?st = "\<lparr>ms_prev = prev, ms_rest = c # cs, ms_group = None\<rparr>"
  show ?case
  proof (cases "runs r ?st")
    case Nil
    then have "search_from r (Some c) cs = Some (snippet, grp)"
      using Cons.prems by (simp add: search_from.simps [of r prev "c # cs"])
    from Cons.IH [OF this] show ?thesis by (metis append_Cons)
  next
    case (Cons st sts)
    then have i: "st \<in> set (runs r ?st)" by simp
    obtain w where w: "c # cs = w @ ms_rest st" "lang r w" using runsD [OF i] by auto
    have "take (length (c # cs) - length (ms_rest st)) (c # cs) = w" unfolding w(1) by simp
    moreover have "search_from r prev (c # cs) =
        Some (take (length (c # cs) - length (ms_rest st)) (c # cs), ms_group st)"
      unfolding search_from.simps [of r prev "c # cs"] Cons by simp
    ultimately have s: "snippet = w" "grp = ms_group st" using prems by simp_all
    show ?thesis using s w runs_group [OF i] runs_captures [OF i] by fastforce
  qed
qed

section \<open>What is extracted\<close>

lemma PATTERNS_capture: "(c, p, r, u) \<in> set PATTERNS \<Longrightarrow> captures r"
  by (auto simp: PATTERNS_def ARR_PATTERN_def CUSTOMER_PATTERN_def TAM_PATTERN_def
      GROWTH_PATTERN_def amount_def)

lemma line_claimD:
  assumes "c \<in> set (line_claim n line (cat, p, r, u))"
  obtains snippet grp where "search_from r None line = Some (snippet, grp)"
    and "contains snippet line"
    and "c = \<lparr>ec_category = cat, ec_predicate = p, ec_text = take 500 line,
          ec_value_num = parse_compact_number (case grp of None \<Rightarrow> [] | Some g \<Rightarrow> g),
          ec_value_unit = unit_of u (case grp of None \<Rightarrow> [] | Some g \<Rightarrow> g),
          ec_locator = \<lparr>loc_type = ''deck'', loc_page = n, loc_snippet = snippet\<rparr>,
          ec_extraction_confidence = (if looks_like_prompt_injection line then fl (3/10) else fl (82/100)),
          ec_unverifiable = looks_like_prompt_injection line\<rparr>"
proof (cases "search_from r None line")
  case (Some m)
  then obtain snippet grp where m: "search_from r None line = Some (snippet, grp)" by fastforce
  then show ?thesis using assms that [OF m]
    by (simp add: line_claim_def Let_def split: if_splits)
qed (use assms in \<open>simp add: line_claim_def\<close>)

lemma extract_claimsD:
  assumes "c \<in> set (extract_claims pages)"
  obtains page line cat p r u where "page \<in> set pages" and "line \<in> set (lines_of (pp_text page))"
    and "(cat, p, r, u) \<in> set PATTERNS"
    and "c \<in> set (line_claim (pp_page_no page) line (cat, p, r, u))"
  using assms by (auto simp: extract_claims_def)

lemma strip_core:
  assumes "list_all is_space b" "list_all is_space e"
    and "t \<noteq> []" "\<not> is_space (hd t)" "\<not> is_space (last t)"
  shows "strip (b @ t @ e) = t"
proof -
  have d: "dropWhile is_space (u @ t') = dropWhile is_space t'" if "list_all is_space u" for u t'
    using that by (induction u) auto
  obtain x t' where t: "t = x # t'" "\<not> is_space x" using assms(3,4) by (cases t) auto
  have "dropWhile is_space (b @ t @ e) = t @ e" using d [OF assms(1), of "t @ e"] t by simp
  moreover have "dropWhile is_space (rev e @ rev t) = rev t"
  proof -
    obtain y t'' where "rev t = y # t''" "\<not> is_space y"
      using assms(3,5) by (cases t rule: rev_cases) auto
    then show ?thesis using d [of "rev e" "rev t"] assms(2) by simp
  qed
  ultimately show ?thesis by (simp add: strip_def strip_by_def)
qed

lemma digit_facts:
  assumes "is_digit c"
  shows "\<not> is_space c" and "c \<noteq> CHR ''.''" and "lower_char c = c"
    and "c \<noteq> CHR ''k''" and "c \<noteq> CHR ''m''" and "c \<noteq> CHR ''b''"
    and "c \<noteq> CHR ''$''" and "c \<noteq> CHR '',''" and "c \<noteq> EURO" and "c \<noteq> POUND"
  using assms
  by (auto simp: is_digit_def is_space_def lower_char_def less_eq_char_def Let_def EURO_def POUND_def)

lemma digits_value_Some: "list_all is_digit ds \<Longrightarrow> digits_value n ds \<noteq> None"
  by (induction ds arbitrary: n) auto

text \<open>A number as a match leaves it once signs and commas are gone.\<close>

definition number_text :: "string \<Rightarrow> bool" where
  "number_text t \<longleftrightarrow>
     (\<exists>d f. t = d @ f \<and> d \<noteq> [] \<and> list_all is_digit d
        \<and> (f = [] \<or> (\<exists>u. f = CHR ''.'' # u \<and> u \<noteq> [] \<and> list_all is_digit u)))"

lemma number_text_ends:
  assumes "number_text t" shows "t \<noteq> [] \<and> is_digit (hd t) \<and> is_digit (last t)"
proof -
  obtain d f where t: "t = d @ f" "d \<noteq> []" "list_all is_digit d"
      and f: "f = [] \<or> (\<exists>u. f = CHR ''.'' # u \<and> u \<noteq> [] \<and> list_all is_digit u)"
    using assms by (auto simp: number_text_def)
  have "is_digit (hd d)" "is_digit (last d)" using t by (auto simp: list_all_iff)
  moreover have "is_digit (last u)" if "u \<noteq> []" "list_all is_digit u" for u
    using that by (auto simp: list_all_iff)
  ultimately show ?thesis using t f by auto
qed

lemma decimal_of_number:
  assumes "number_text t" "list_all is_space e"
  shows "decimal_of (t @ e) \<noteq> None"
proof -
  have s: "strip (t @ e) = t"
    using strip_core [of "[]" e t] number_text_ends [OF assms(1)] assms(2) digit_facts(1) by simp
  obtain d f where t: "t = d @ f" "d \<noteq> []" "list_all is_digit d"
      and f: "f = [] \<or> (\<exists>u. f = CHR ''.'' # u \<and> u \<noteq> [] \<and> list_all is_digit u)"
    using assms(1) by (auto simp: number_text_def)
  have d: "takeWhile (\<lambda>c. c \<noteq> CHR ''.'') t = d" "dropWhile (\<lambda>c. c \<noteq> CHR ''.'') t = f"
  proof -
    have nd: "\<And>c. c \<in> set d \<Longrightarrow> c \<noteq> CHR ''.''" using t(3) digit_facts(2) by (auto simp: list_all_iff)
    have "takeWhile (\<lambda>c. c \<noteq> CHR ''.'') f = []" "dropWhile (\<lambda>c. c \<noteq> CHR ''.'') f = f" using f by auto
    then show "takeWhile (\<lambda>c. c \<noteq> CHR ''.'') t = d" "dropWhile (\<lambda>c. c \<noteq> CHR ''.'') t = f"
      unfolding t(1) using nd by (simp_all add: takeWhile_append2 dropWhile_append2)
  qed
  have "list_all is_digit (d @ tl f)" using t(3) f by auto
  then have "digits_value 0 (d @ tl f) \<noteq> None" by (rule digits_value_Some)
  then show ?thesis unfolding decimal_of_def s Let_def d by (simp add: t(2))
qed

lemma parse_compact_some:
  assumes v: "remove_chars [CHR ''$'', EURO, POUND, CHR '',''] value = b @ t @ e @ h"
    and b: "list_all is_space b" and e: "list_all is_space e" and t: "number_text t"
    and h: "h = [] \<or> (\<exists>x. h = [x] \<and> lower_char x \<in> {CHR ''k'', CHR ''m'', CHR ''b''})"
  shows "parse_compact_number value \<noteq> None"
proof -
  note ends = number_text_ends [OF t]
  show ?thesis
  proof (cases "h = []")
    case True
    then have "strip (b @ t @ e @ h) = t" using strip_core [OF b e] ends digit_facts(1) by simp
    moreover have "decimal_of t \<noteq> None" using decimal_of_number [OF t, of "[]"] by simp
    ultimately show ?thesis using ends digit_facts(3-6) [of "last t"]
      by (simp add: parse_compact_number_def v Let_def)
  next
    case False
    then obtain x where x: "h = [x]" "lower_char x \<in> {CHR ''k'', CHR ''m'', CHR ''b''}" using h by blast
    have "\<not> is_space x"
    proof
      assume "is_space x"
      then have "lower_char x = x" by (auto simp: is_space_def Let_def lower_char_def less_eq_char_def)
      with \<open>is_space x\<close> x(2) show False by (auto simp: is_space_def)
    qed
    then have "strip (b @ t @ e @ h) = t @ e @ [x]"
      using strip_core [OF b, of "[]" "t @ e @ [x]"] ends digit_facts(1) x(1) by simp
    moreover have "last (t @ e @ [x]) = x" "butlast (t @ e @ [x]) = t @ e" "t @ e @ [x] \<noteq> []"
      by (simp_all add: butlast_append)
    moreover have "decimal_of (t @ e) \<noteq> None" by (rule decimal_of_number [OF t e])
    ultimately show ?thesis using x(2) by (auto simp: parse_compact_number_def v Let_def)
  qed
qed

lemma lang_amount:
  assumes "lang (amount suffix) g" and "set suffix \<subseteq> {CHR ''k'', CHR ''m'', CHR ''b''}"
  shows "parse_compact_number g \<noteq> None"
proof -
  let ?rm = "remove_chars [CHR ''$'', EURO, POUND, CHR '','']"
  have rm: "?rm (u @ v) = ?rm u @ ?rm v" for u v by (simp add: remove_chars_def)
  have keep: "?rm u = u" if "list_all P u" "\<And>c. P c \<Longrightarrow> c \<notin> {CHR ''$'', EURO, POUND, CHR '',''}" for P u
    using that by (auto simp: remove_chars_def list_all_iff intro!: filter_True)
  have dig: "?rm u = u" if "list_all is_digit u" for u
    using keep [OF that] digit_facts by blast
  have sp: "?rm u = u" if "list_all is_space u" for u
    using that by (rule keep) (auto simp: is_space_def EURO_def POUND_def)
  from assms(1) obtain a b d f e h where g: "g = a @ b @ d @ f @ e @ h"
    and "lang (Rep 0 (Some 1) False currency_sign) a" "lang opt_space b" "lang digits1 d"
      "lang (Opt (Seq (Sym (\<lambda>c. c = CHR ''.'' \<or> c = CHR '','')) digits1)) f"
      "lang opt_space e" "lang (Rep 0 (Some 1) False (any_of suffix)) h"
    unfolding amount_def lang.simps(3,7) by blast
  then have a: "list_all currency_sign a" and b: "list_all is_space b"
    and d: "list_all is_digit d" "1 \<le> length d" and e: "list_all is_space e"
    and f: "f = [] \<or> (\<exists>x u. f = x # u \<and> (x = CHR ''.'' \<or> x = CHR '','') \<and> list_all is_digit u \<and> 1 \<le> length u)"
    and h: "list_all (any_of suffix) h" "length h \<le> 1"
    by (auto simp: opt_space_def digits1_def)
  have ra: "?rm a = []"
    using a by (auto simp: remove_chars_def list_all_iff currency_sign_def intro!: filter_False)
  have rh: "?rm h = h"
  proof (rule keep [OF h(1)])
    fix c assume "any_of suffix c"
    then have "lower_char c \<in> {CHR ''k'', CHR ''m'', CHR ''b''}" using assms(2) by (auto simp: any_of_def)
    then show "c \<notin> {CHR ''$'', EURO, POUND, CHR '',''}"
      by (auto simp: lower_char_def less_eq_char_def EURO_def POUND_def)
  qed
  have dn: "d \<noteq> []" using d(2) by auto
  have rd: "number_text (?rm (d @ f))"
    using f
  proof
    assume "f = []"
    then show ?thesis using d(1) dn by (auto simp: dig number_text_def)
  next
    assume "\<exists>x u. f = x # u \<and> (x = CHR ''.'' \<or> x = CHR '','') \<and> list_all is_digit u \<and> 1 \<le> length u"
    then obtain x u where f': "f = [x] @ u" "x = CHR ''.'' \<or> x = CHR '',''" "list_all is_digit u" "u \<noteq> []"
      by fastforce
    from f'(2) show ?thesis
    proof
      assume "x = CHR ''.''"
      then have "?rm (d @ f) = d @ CHR ''.'' # u"
        using rm [of "[x]" u] by (simp add: f'(1) rm dig [OF d(1)] dig [OF f'(3)])
          (simp add: remove_chars_def EURO_def POUND_def)
      then show ?thesis using d(1) dn f'(3,4) by (auto simp: number_text_def)
    next
      assume "x = CHR '',''"
      then have "?rm (d @ f) = d @ u"
        using rm [of "[x]" u] by (simp add: f'(1) rm dig [OF d(1)] dig [OF f'(3)])
          (simp add: remove_chars_def)
      then show ?thesis unfolding number_text_def using d(1) dn f'(3)
        by (intro exI [of _ "d @ u"] exI [of _ "[]"]) simp
    qed
  qed
  have "?rm g = b @ ?rm (d @ f) @ e @ h"
    by (simp add: g rm ra rh sp [OF b] sp [OF e])
  moreover have "h = [] \<or> (\<exists>x. h = [x] \<and> lower_char x \<in> {CHR ''k'', CHR ''m'', CHR ''b''})"
    using h assms(2) by (cases h) (auto simp: any_of_def)
  ultimately show ?thesis by (rule parse_compact_some [OF _ b e rd])
qed

lemma parse_number:
  assumes "number_text t" and "remove_chars [CHR ''$'', EURO, POUND, CHR '',''] g = t"
  shows "parse_compact_number g \<noteq> None"
  using parse_compact_some [of g "[]" t "[]" "[]"] assms by simp

lemma PATTERNS_value:
  assumes "(c, p, r, u) \<in> set PATTERNS" and "q \<in> groups r" and "lang q g"
  shows "parse_compact_number g \<noteq> None"
proof -
  let ?rm = "remove_chars [CHR ''$'', EURO, POUND, CHR '','']"
  have dig: "?rm v = v" if "list_all is_digit v" for v
    using that digit_facts by (fastforce simp: remove_chars_def list_all_iff intro!: filter_True)
  consider "r = ARR_PATTERN \<or> r = TAM_PATTERN" | "r = CUSTOMER_PATTERN" | "r = GROWTH_PATTERN"
    using assms(1) by (auto simp: PATTERNS_def)
  then show ?thesis
  proof cases
    case 1
    then have "lang (amount ''km'') g \<or> lang (amount ''bm'') g"
      using assms(2,3) by (auto simp: ARR_PATTERN_def TAM_PATTERN_def gap30_def ci_def
          amount_def opt_space_def digits1_def)
    then show ?thesis using lang_amount by (metis insert_subset list.set(1,2) empty_subsetI insert_iff)
  next
    case 2
    then obtain x w where g: "g = x # w" "is_digit x" "list_all (\<lambda>c. is_digit c \<or> c = CHR '','') w"
      using assms(2,3) by (auto simp: CUSTOMER_PATTERN_def ci_def)
    have "list_all is_digit (?rm w)"
      using g(3) by (auto simp: remove_chars_def list_all_iff)
    moreover have "?rm g = x # ?rm w" using digit_facts [OF g(2)] by (simp add: g(1) remove_chars_def)
    ultimately have "number_text (?rm g)" unfolding number_text_def using g(2)
      by (intro exI [of _ "?rm g"] exI [of _ "[]"]) simp
    then show ?thesis by (rule parse_number) simp
  next
    case 3
    then obtain d f where g: "g = d @ f" "d \<noteq> []" "list_all is_digit d"
      and f: "f = [] \<or> (\<exists>v. f = CHR ''.'' # v \<and> v \<noteq> [] \<and> list_all is_digit v)"
    proof -
      have "q = Seq digits1 (Opt (Seq (Sym (\<lambda>c. c = CHR ''.'')) digits1))"
        using assms(2) 3 by (simp add: GROWTH_PATTERN_def ci_def opt_space_def digits1_def)
      then obtain a b where a: "g = a @ b" "list_all is_digit a" "1 \<le> length a"
        and b: "b = [] \<or> (\<exists>v. b = CHR ''.'' # v \<and> list_all is_digit v \<and> 1 \<le> length v)"
        using assms(3) by (auto simp: digits1_def)
      have an: "a \<noteq> []" using a(3) by (cases a) simp_all
      have "v \<noteq> []" if "1 \<le> length v" for v :: string using that by (cases v) simp_all
      then have "b = [] \<or> (\<exists>v. b = CHR ''.'' # v \<and> v \<noteq> [] \<and> list_all is_digit v)"
        using b by blast
      then show thesis by (rule that [OF a(1) an a(2)])
    qed
    have "?rm g = g"
    proof -
      have "?rm (CHR ''.'' # v) = CHR ''.'' # ?rm v" for v
        by (simp add: remove_chars_def EURO_def POUND_def)
      moreover have "?rm (d @ f) = ?rm d @ ?rm f" by (simp add: remove_chars_def)
      ultimately show ?thesis using f g dig by (auto simp: remove_chars_def)
    qed
    moreover have "number_text g" using g f by (auto simp: number_text_def)
    ultimately show ?thesis using parse_number by blast
  qed
qed

text \<open>C26: every extracted claim has literal provenance. The snippet it cites is a contiguous part of
  a line of the page it names, that line is its text (its first 500 characters), and the claim is
  flagged unverifiable with confidence 0.30 exactly when the line looks like a prompt injection.\<close>

theorem extracted_claims_are_literal:
  "\<forall>c \<in> set (extract_claims pages). \<exists>page \<in> set pages. \<exists>line \<in> set (lines_of (pp_text page)).
     loc_page (ec_locator c) = pp_page_no page \<and> contains (loc_snippet (ec_locator c)) line
     \<and> ec_text c = take 500 line
     \<and> ec_unverifiable c = looks_like_prompt_injection line
     \<and> ec_extraction_confidence c = (if ec_unverifiable c then fl (3/10) else fl (82/100))"
proof
  fix c assume "c \<in> set (extract_claims pages)"
  then obtain page line cat p r u where pl: "page \<in> set pages" "line \<in> set (lines_of (pp_text page))"
    and c: "c \<in> set (line_claim (pp_page_no page) line (cat, p, r, u))"
    by (rule extract_claimsD)
  obtain snippet grp where "contains snippet line"
    and "c = \<lparr>ec_category = cat, ec_predicate = p, ec_text = take 500 line,
          ec_value_num = parse_compact_number (case grp of None \<Rightarrow> [] | Some g \<Rightarrow> g),
          ec_value_unit = unit_of u (case grp of None \<Rightarrow> [] | Some g \<Rightarrow> g),
          ec_locator = \<lparr>loc_type = ''deck'', loc_page = pp_page_no page, loc_snippet = snippet\<rparr>,
          ec_extraction_confidence = (if looks_like_prompt_injection line then fl (3/10) else fl (82/100)),
          ec_unverifiable = looks_like_prompt_injection line\<rparr>"
    using c by (rule line_claimD)
  with pl show "\<exists>page \<in> set pages. \<exists>line \<in> set (lines_of (pp_text page)).
     loc_page (ec_locator c) = pp_page_no page \<and> contains (loc_snippet (ec_locator c)) line
     \<and> ec_text c = take 500 line
     \<and> ec_unverifiable c = looks_like_prompt_injection line
     \<and> ec_extraction_confidence c = (if ec_unverifiable c then fl (3/10) else fl (82/100))"
    by (intro bexI [of _ page] bexI [of _ line]) simp_all
qed

theorem extracted_claims_are_literal_witness:
  "loc_snippet (ec_locator (hd (extract_claims
     [\<lparr>pp_page_no = 3, pp_text = ''We have 120 customers'', pp_ocr_used = False\<rparr>]))) = ''120 customers''
   \<and> contains ''120 customers'' ''We have 120 customers''"
proof -
  let ?pages = "[\<lparr>pp_page_no = 3, pp_text = ''We have 120 customers'', pp_ocr_used = False\<rparr>]"
  have s: "map (\<lambda>(c, p, r, u). search_from r None ''We have 120 customers'') PATTERNS
      = [None, Some (''120 customers'', Some ''120''), None, None]" by code_simp
  have l: "lines_of ''We have 120 customers'' = [''We have 120 customers'']" by code_simp
  have k: "contains ''120 customers'' ''We have 120 customers''" by code_simp
  have n: "extract_claims ?pages \<noteq> []" "loc_snippet (ec_locator (hd (extract_claims ?pages))) = ''120 customers''"
    using s by (simp_all add: extract_claims_def l line_claim_def PATTERNS_def k Let_def)
  from extracted_claims_are_literal [of ?pages] n(1)
  have "\<exists>page \<in> set ?pages. \<exists>line \<in> set (lines_of (pp_text page)).
      contains (loc_snippet (ec_locator (hd (extract_claims ?pages)))) line"
    by (meson hd_in_set)
  then show ?thesis using n(2) l by simp
qed

text \<open>Every extracted claim carries a number. Whatever the group of one of the four patterns can
  capture, \<open>_parse_compact_number\<close> reads it, so its \<open>None\<close> branch is never taken here.\<close>

theorem extracted_claims_have_values:
  "None \<notin> set (map ec_value_num (extract_claims pages))"
proof
  assume "None \<in> set (map ec_value_num (extract_claims pages))"
  then obtain c where mem: "c \<in> set (extract_claims pages)" and none: "ec_value_num c = None" by auto
  from mem obtain page line cat p r u where "page \<in> set pages" "line \<in> set (lines_of (pp_text page))"
    and pat: "(cat, p, r, u) \<in> set PATTERNS"
    and c: "c \<in> set (line_claim (pp_page_no page) line (cat, p, r, u))"
    by (rule extract_claimsD)
  from c obtain snippet grp where m: "search_from r None line = Some (snippet, grp)"
    and v: "ec_value_num c = parse_compact_number (case grp of None \<Rightarrow> [] | Some g \<Rightarrow> g)"
    by (rule line_claimD) simp
  obtain q g where "q \<in> groups r" "grp = Some g" "lang q g"
    using search_fromD [OF m] PATTERNS_capture [OF pat] by blast
  with PATTERNS_value [OF pat] v none show False by force
qed

end
