(* ===== verification/Documents.thy ===== *)
theory Documents
  imports DeckClaims Runtime
begin

text \<open>
  \<open>app/services/parse/deck.py\<close> and \<open>app/services/object_store.py\<close>: recognising, limiting, storing and
  parsing an uploaded deck. Bytes are characters 0 to 255. The PDF and PPTX readers and the
  storage backend are parameters of the environment (the local backend is in \<open>Storage\<close>).
\<close>

section \<open>Uploads\<close>

definition PDF_MIME :: string where "PDF_MIME = ''application/pdf''"

definition PPTX_MIME :: string where
  "PPTX_MIME = ''application/vnd.openxmlformats-officedocument.presentationml.presentation''"

definition ZIP_MAGIC :: string where
  "ZIP_MAGIC = ''PK'' @ [char_of (3 :: nat), char_of (4 :: nat)]"

definition UnsupportedMedia :: app_error where
  "UnsupportedMedia =
     AppError ''UNSUPPORTED_MEDIA_TYPE'' ''Only PDF and PPTX documents are accepted.'' 415"

definition sniff_document_mime :: "string \<Rightarrow> app_error + string" where
  "sniff_document_mime data =
     (if starts_with ''%PDF-'' data then Inr PDF_MIME
      else if starts_with ZIP_MAGIC data then Inr PPTX_MIME
      else Inl UnsupportedMedia)"

definition MaxBodyExceeded :: "nat \<Rightarrow> app_error" where
  "MaxBodyExceeded max_mb =
     (AppError ''MAX_BODY_EXCEEDED'' (''Upload exceeds the '' @ str_nat max_mb @ '' MB limit.'') 413)
       \<lparr>err_details := [(''max_mb'', str_nat max_mb)]\<rparr>"

text \<open>The loop over the chunks that \<open>upload.read\<close> returns; an empty chunk ends the file.\<close>

fun read_chunks :: "nat \<Rightarrow> nat \<Rightarrow> nat \<Rightarrow> string list \<Rightarrow> string list \<Rightarrow> app_error + string" where
  "read_chunks max_mb maximum so_far acc [] = Inr (concat (rev acc))"
| "read_chunks max_mb maximum so_far acc (c # cs) =
     (if c = [] then Inr (concat (rev acc))
      else if maximum < so_far + length c then Inl (MaxBodyExceeded max_mb)
      else read_chunks max_mb maximum (so_far + length c) (c # acc) cs)"

definition read_limited_upload :: "nat \<Rightarrow> string list \<Rightarrow> app_error + string" where
  "read_limited_upload max_mb reads = read_chunks max_mb (max_mb * 1024 * 1024) 0 [] reads"

text \<open>What the client sent: the chunks before the end of the file.\<close>

definition sent_bytes :: "string list \<Rightarrow> string" where
  "sent_bytes reads = concat (takeWhile (\<lambda>c. c \<noteq> []) reads)"

lemma read_chunks_result:
  "so_far \<le> maximum \<Longrightarrow> read_chunks max_mb maximum so_far acc reads =
     (if so_far + length (sent_bytes reads) \<le> maximum then Inr (concat (rev acc) @ sent_bytes reads)
      else Inl (MaxBodyExceeded max_mb))"
  by (induction max_mb maximum so_far acc reads rule: read_chunks.induct)
    (auto simp: sent_bytes_def)

text \<open>The upload limit is exact. An upload is read completely when it has at most the configured
  number of megabytes, and refused with 413 as soon as it has more, however it is cut into
  chunks.\<close>

theorem read_limited_upload_exact:
  "read_limited_upload max_mb reads =
     (if length (sent_bytes reads) \<le> max_mb * 1048576 then Inr (sent_bytes reads)
      else Inl (MaxBodyExceeded max_mb))"
  by (simp add: read_limited_upload_def read_chunks_result)

section \<open>The store\<close>

text \<open>\<open>put\<close>: the key is the first two digits of the digest and a fresh name (what the backend returns).\<close>

definition store_put :: "env \<Rightarrow> string \<Rightarrow> string \<Rightarrow> exn + string \<times> string" where
  "store_put E data suffix =
     (case env_store_put E data suffix of
        Inl e \<Rightarrow> Inl e
      | Inr name \<Rightarrow> Inr (take 2 (env_sha256 E data) @ ''/'' @ name @ suffix, env_sha256 E data))"

definition store_get :: "env \<Rightarrow> string \<Rightarrow> exn + string" where
  "store_get E key = env_store_get E key"

section \<open>Parsing\<close>

record ParsedDeck =
  pd_pages :: "ParsedPage list"
  pd_parser :: string
  pd_partial :: bool

fun number_pages :: "nat \<Rightarrow> string list \<Rightarrow> ParsedPage list" where
  "number_pages n [] = []"
| "number_pages n (t # ts) =
     \<lparr>pp_page_no = n, pp_text = t, pp_ocr_used = False\<rparr> # number_pages (Suc n) ts"

definition mk_deck :: "string \<Rightarrow> string list \<Rightarrow> ParsedDeck" where
  "mk_deck parser texts =
     \<lparr>pd_pages = number_pages 1 texts, pd_parser = parser, pd_partial = list_ex (\<lambda>t. t = []) texts\<rparr>"

definition pdf_error :: "exn \<Rightarrow> exn" where
  "pdf_error e =
     (case e of PyExn c m \<Rightarrow>
        if c \<in> {''PdfReadError'', ''FileNotDecryptedError''}
        then App (AppError ''DECK_UNPARSEABLE'' ''The PDF could not be parsed.'' 422) else e
      | _ \<Rightarrow> e)"

definition parse_pdf :: "env \<Rightarrow> string \<Rightarrow> exn + ParsedDeck" where
  "parse_pdf E data =
     (case env_pdf E data of
        Inl e \<Rightarrow> Inl (pdf_error e)
      | Inr (encrypted, texts) \<Rightarrow>
          if encrypted then
            Inl (App (AppError ''DOCUMENT_ENCRYPTED'' ''Encrypted PDFs are not supported.'' 415))
          else Inr (mk_deck ''pypdf'' (map (\<lambda>t. strip (case t of None \<Rightarrow> [] | Some x \<Rightarrow> x)) texts)))"

definition slide_text :: "string list \<Rightarrow> string" where
  "slide_text shapes = join [char_of (10 :: nat)] (filter (\<lambda>t. t \<noteq> []) (map strip shapes))"

definition parse_pptx :: "env \<Rightarrow> string \<Rightarrow> exn + ParsedDeck" where
  "parse_pptx E data =
     (case env_pptx E data of
        Inl e \<Rightarrow> Inl (App (AppError ''DECK_UNPARSEABLE'' ''The PPTX could not be parsed.'' 422))
      | Inr slides \<Rightarrow> Inr (mk_deck ''python-pptx'' (map slide_text slides)))"

definition parse_deck :: "env \<Rightarrow> string \<Rightarrow> string \<Rightarrow> exn + ParsedDeck" where
  "parse_deck E data mime =
     (if mime = PDF_MIME then parse_pdf E data
      else if mime = PPTX_MIME then parse_pptx E data
      else Inl (App UnsupportedMedia))"

lemma pages_numbered: "map pp_page_no (number_pages n ts) = [n..<n + length ts]"
proof (induction ts arbitrary: n)
  case (Cons t ts)
  then show ?case by (simp add: upt_rec [of n] Suc_le_eq)
qed simp

lemma pages_length [simp]: "length (number_pages n ts) = length ts"
  by (induction ts arbitrary: n) simp_all

lemma mk_deck_numbered:
  "map pp_page_no (pd_pages (mk_deck p ts)) = [1..<Suc (length (pd_pages (mk_deck p ts)))]"
  using pages_numbered [of 1 ts] by (simp add: mk_deck_def)

lemma parsed_pages_numbered:
  assumes "parse_deck E data mime = Inr deck"
  shows "map pp_page_no (pd_pages deck) = [1..<Suc (length (pd_pages deck))]"
proof -
  have "\<exists>p ts. deck = mk_deck p ts"
    using assms by (auto simp: parse_deck_def parse_pdf_def parse_pptx_def intro!: exI
        split: sum.splits if_splits)
  then show ?thesis using mk_deck_numbered by blast
qed

end
