(* ===== verification/Trust.thy ===== *)
theory Trust
  imports PyFloat Models
begin

text \<open>
  \<open>services/score/trust.py\<close>: the trust score of one claim from the tier of its source, the
  reliability and independence of its evidence, its age and the extraction confidence.
\<close>

fun TIER_BASE :: "SourceTier \<Rightarrow> rat" where
  "TIER_BASE PRIMARY = fl (92 / 100)"
| "TIER_BASE VERIFIED_THIRD_PARTY = fl (85 / 100)"
| "TIER_BASE AGGREGATOR = fl (65 / 100)"
| "TIER_BASE SELF_REPORTED = fl (40 / 100)"
| "TIER_BASE INFERRED = fl (25 / 100)"

fun HALF_LIFE :: "ClaimCategory \<Rightarrow> rat" where
  "HALF_LIFE C_TRACTION = 90"
| "HALF_LIFE C_REVENUE = 120"
| "HALF_LIFE C_TEAM = 365"
| "HALF_LIFE C_MARKET = 180"
| "HALF_LIFE C_PRODUCT = 180"
| "HALF_LIFE C_TECHNOLOGY = 365"
| "HALF_LIFE C_FUNDING = 540"
| "HALF_LIFE C_LEGAL = 540"
| "HALF_LIFE C_OTHER = 180"

record TrustEvidence =
  te_reliability :: rat
  te_independence_group :: string

record TrustResult =
  tr_score :: rat
  tr_status :: ClaimStatus
  tr_inputs :: trust_inputs

text \<open>The loop over the evidence: the groups seen and the product so far.\<close>

fun evidence_loop :: "TrustEvidence list \<Rightarrow> string list \<Rightarrow> rat \<Rightarrow> string list \<times> rat" where
  "evidence_loop [] groups prob = (groups, prob)"
| "evidence_loop (e # es) groups prob =
     evidence_loop es (List.insert (te_independence_group e) groups)
       (fmul prob (fsub 1 (fmul (max 0 (min 1 (te_reliability e)))
         (if te_independence_group e \<notin> set groups then 1 else 1 / 4))))"

definition trust_recency :: "libm \<Rightarrow> ClaimCategory \<Rightarrow> datetime option \<Rightarrow> datetime \<Rightarrow> rat" where
  "trust_recency L category observed_at now =
     (case observed_at of
        None \<Rightarrow> 1 / 2
      | Some t \<Rightarrow>
          let age_days = max 0 (td_days (now - t))
          in lm_exp L (fdiv (of_int (- age_days)) (HALF_LIFE category)))"

definition trust_status :: "bool \<Rightarrow> rat \<Rightarrow> ClaimStatus" where
  "trust_status contradicted score =
     (if contradicted then CONTRADICTED
      else if fl (80 / 100) \<le> score then VERIFIED
      else if fl (55 / 100) \<le> score then CORROBORATED
      else if fl (30 / 100) \<le> score then CLAIMED
      else UNVERIFIABLE)"

definition compute_trust ::
  "libm \<Rightarrow> SourceTier \<Rightarrow> ClaimCategory \<Rightarrow> TrustEvidence list \<Rightarrow> datetime option \<Rightarrow> rat \<Rightarrow> bool
   \<Rightarrow> bool \<Rightarrow> datetime \<Rightarrow> TrustResult" where
  "compute_trust L tier category evid observed_at extraction_confidence contradicted
     independently_verified now =
     (let (groups, prob) = evidence_loop evid [] 1;
          corroboration = fsub 1 prob;
          recency = trust_recency L category observed_at now;
          contradiction_multiplier = (if contradicted then fl (45 / 100) else 1);
          verified_multiplier = (if independently_verified then fl (115 / 100) else 1);
          base = TIER_BASE tier;
          score = fmul (fmul base (fadd (fl (35 / 100)) (fmul (fl (65 / 100)) corroboration)))
                    (fadd (fl (6 / 10)) (fmul (fl (4 / 10)) recency));
          score = fmul score (max 0 (min 1 extraction_confidence));
          score = fmul score (fmul contradiction_multiplier verified_multiplier);
          score = py_round 3 (max (fl (2 / 100)) (min (fl (99 / 100)) score))
      in \<lparr>tr_score = score, tr_status = trust_status contradicted score,
          tr_inputs =
            \<lparr>ti_base = base, ti_corroboration = py_round 4 corroboration,
             ti_independent_sources = length groups, ti_recency = py_round 4 recency,
             ti_extraction = extraction_confidence, ti_contradicted = contradicted,
             ti_independently_verified = independently_verified\<rparr>\<rparr>)"

section \<open>The stages of the computation\<close>

text \<open>The score before the final clamp, as a function of the evidence product.\<close>

definition raw_trust :: "rat \<Rightarrow> rat \<Rightarrow> rat \<Rightarrow> rat \<Rightarrow> rat \<Rightarrow> rat" where
  "raw_trust base prob recency extraction mult =
     fmul (fmul (fmul (fmul base (fadd (fl (35 / 100)) (fmul (fl (65 / 100)) (fsub 1 prob))))
       (fadd (fl (6 / 10)) (fmul (fl (4 / 10)) recency))) (max 0 (min 1 extraction))) mult"

definition trust_mult :: "bool \<Rightarrow> bool \<Rightarrow> rat" where
  "trust_mult contradicted verified =
     fmul (if contradicted then fl (45 / 100) else 1) (if verified then fl (115 / 100) else 1)"

lemma tr_score_eq:
  "tr_score (compute_trust L tier cat ev obs ex con ver now) =
     py_round 3 (max (fl (2 / 100)) (min (fl (99 / 100))
       (raw_trust (TIER_BASE tier) (snd (evidence_loop ev [] 1)) (trust_recency L cat obs now) ex
         (trust_mult con ver))))"
  unfolding compute_trust_def raw_trust_def trust_mult_def Let_def split_beta TrustResult.simps ..

lemma tr_status_eq:
  "tr_status (compute_trust L tier cat ev obs ex con ver now) =
     trust_status con (tr_score (compute_trust L tier cat ev obs ex con ver now))"
  unfolding compute_trust_def Let_def split_beta TrustResult.simps ..

lemma evidence_factor_01:
  "i = 1 \<or> i = 1 / 4 \<Longrightarrow>
     0 \<le> fsub 1 (fmul (max 0 (min 1 r)) i) \<and> fsub 1 (fmul (max 0 (min 1 r)) i) \<le> 1"
  using fmul_01 [of "max 0 (min 1 r)" i] by (intro fsub_one_01) auto

lemma evidence_loop_01:
  "0 \<le> p \<Longrightarrow> p \<le> 1 \<Longrightarrow> 0 \<le> snd (evidence_loop ev g p) \<and> snd (evidence_loop ev g p) \<le> 1"
proof (induction ev g p rule: evidence_loop.induct)
  case (2 e es groups prob)
  let ?i = "if te_independence_group e \<notin> set groups then 1 else 1 / 4 :: rat"
  have "0 \<le> fmul prob (fsub 1 (fmul (max 0 (min 1 (te_reliability e))) ?i))
     \<and> fmul prob (fsub 1 (fmul (max 0 (min 1 (te_reliability e))) ?i)) \<le> 1"
    using evidence_factor_01 [of ?i "te_reliability e"] "2.prems" by (intro fmul_01) auto
  then show ?case using "2.IH" by simp
qed simp

lemma evidence_loop_append:
  "evidence_loop (xs @ ys) g p =
     (let (g', p') = evidence_loop xs g p in evidence_loop ys g' p')"
  by (induction xs g p rule: evidence_loop.induct) (auto simp: Let_def)

lemma TIER_BASE_01: "0 \<le> TIER_BASE t \<and> TIER_BASE t \<le> 1"
  by (cases t) (auto intro!: fl_nonneg flr.rnd_le)

lemma HALF_LIFE_pos: "0 < HALF_LIFE c"
  by (cases c) simp_all

lemma trust_recency_01:
  assumes "libm_ok L"
  shows "0 \<le> trust_recency L cat obs now \<and> trust_recency L cat obs now \<le> 1"
proof (cases obs)
  case (Some t)
  have "fdiv (of_int (- max 0 (td_days (now - t)))) (HALF_LIFE cat) \<le> 0"
    unfolding fdiv_def using HALF_LIFE_pos [of cat]
    by (intro flr.rnd_le) (auto simp: divide_nonpos_pos)
  then show ?thesis
    using libm_okD(1,2) [OF assms] Some by (simp add: trust_recency_def Let_def)
qed (simp add: trust_recency_def)

lemma raw_trust_mono:
  assumes "0 \<le> b" "b \<le> b'" "0 \<le> p'" "p' \<le> p" "p \<le> 1" "0 \<le> r" "r \<le> r'" "ex \<le> ex'"
    and "0 \<le> m" "m \<le> m'"
  shows "0 \<le> raw_trust b p r ex m \<and> raw_trust b p r ex m \<le> raw_trust b' p' r' ex' m'"
proof -
  have c: "0 \<le> fsub 1 p" "fsub 1 p \<le> fsub 1 p'"
    using assms by (auto simp: fsub_def intro!: fl_nonneg fl_mono)
  have k: "0 \<le> fl (65 / 100)" "0 \<le> fl (35 / 100)" "0 \<le> fl (6 / 10)" "0 \<le> fl (4 / 10)"
    by (intro fl_nonneg; simp)+
  note d = fmul_mono [OF k(1) order_refl c]
  note e = fadd_mono(1) [OF k(2) d(1)] fadd_mono(2) [OF order_refl d(2)]
  note f = fmul_mono [OF k(4) order_refl assms(6,7)]
  note g = fadd_mono(1) [OF k(3) f(1)] fadd_mono(2) [OF order_refl f(2)]
  note s1 = fmul_mono [OF assms(1,2) e]
  note s2 = fmul_mono [OF s1 g]
  have x: "0 \<le> max 0 (min 1 ex)" "max 0 (min 1 ex) \<le> max 0 (min 1 ex')" using assms(8) by auto
  note s3 = fmul_mono [OF s2 x]
  note s4 = fmul_mono [OF s3 assms(9,10)]
  show ?thesis unfolding raw_trust_def using s4 by (rule conjI)
qed

lemma trust_mult_nonneg: "0 \<le> trust_mult c v"
  by (simp add: trust_mult_def fmul_def fl_nonneg)

lemma trust_mult_le: "trust_mult c v \<le> trust_mult False v"
proof -
  have "fl (45 / 100) \<le> 1" by (rule flr.rnd_le) simp_all
  then have "fmul (if c then fl (45 / 100) else 1) y \<le> fmul 1 y" if "0 \<le> y" for y
    using that fmul_bounds [of "if c then fl (45 / 100) else 1" 1 y y] by (simp add: fl_nonneg)
  then show ?thesis by (simp add: trust_mult_def fl_nonneg)
qed

lemma clamp_mono: "x \<le> y \<Longrightarrow> py_round 3 (max (fl (2 / 100)) (min (fl (99 / 100)) x))
    \<le> py_round 3 (max (fl (2 / 100)) (min (fl (99 / 100)) y))"
  by (intro pyr.rnd_mono) (auto simp: max_def min_def)

lemma clamp_ends:
  "py_round 3 (fl (2 / 100)) = fl (2 / 100)" "py_round 3 (fl (99 / 100)) = fl (99 / 100)"
  by code_simp+

text \<open>Everything at once: a bound on the score from bounds on its ingredients.\<close>

lemma tr_score_le:
  assumes "libm_ok L" "TIER_BASE tier \<le> b" "q \<le> snd (evidence_loop ev [] 1)" "0 \<le> q"
    and "ex \<le> x" "trust_mult con ver \<le> m"
  shows "tr_score (compute_trust L tier cat ev obs ex con ver now)
    \<le> py_round 3 (max (fl (2 / 100)) (min (fl (99 / 100)) (raw_trust b q 1 x m)))"
  unfolding tr_score_eq
proof (rule clamp_mono)
  show "raw_trust (TIER_BASE tier) (snd (evidence_loop ev [] 1)) (trust_recency L cat obs now) ex
      (trust_mult con ver) \<le> raw_trust b q 1 x m"
    using assms TIER_BASE_01 [of tier] evidence_loop_01 [of 1 ev "[]"]
      trust_recency_01 [OF assms(1), of cat obs now] trust_mult_nonneg
    by (intro raw_trust_mono [THEN conjunct2]) auto
qed

lemma tier_caps:
  "py_round 3 (max (fl (2 / 100)) (min (fl (99 / 100))
     (raw_trust (fl (65 / 100)) 0 1 1 (trust_mult False True)))) < fl (80 / 100)"
  "py_round 3 (max (fl (2 / 100)) (min (fl (99 / 100))
     (raw_trust (fl (40 / 100)) (fsub 1 (fl (40 / 100))) 1 (fl (82 / 100)) 1))) < fl (30 / 100)"
  by code_simp+

section \<open>Properties\<close>

text \<open>Whatever the source, the evidence, the dates and the C library, a trust score is never
  below 0.02 nor above 0.99, so no claim is ever certain and none is erased.\<close>

theorem trust_score_bounds:
  "fl (2 / 100) \<le> tr_score (compute_trust L tier cat ev obs ex con ver now)
   \<and> tr_score (compute_trust L tier cat ev obs ex con ver now) \<le> fl (99 / 100)"
proof -
  have "fl (2 / 100) \<le> fl (99 / 100)" by (intro fl_mono) simp
  then show ?thesis
    unfolding tr_score_eq using pyr.rnd_clamp [of "fl (2 / 100)" "fl (99 / 100)" 3]
    by (simp only: clamp_ends)
qed



text \<open>A contradiction always wins: the status is CONTRADICTED, and the score is at most what
  the same evidence scores without the contradiction.\<close>

theorem contradiction_lowers_trust:
  assumes "libm_ok L"
  shows "tr_status (compute_trust L tier cat ev obs ex True ver now) = CONTRADICTED
    \<and> tr_score (compute_trust L tier cat ev obs ex True ver now)
        \<le> tr_score (compute_trust L tier cat ev obs ex False ver now)"
proof
  show "tr_status (compute_trust L tier cat ev obs ex True ver now) = CONTRADICTED"
    unfolding tr_status_eq by (simp add: trust_status_def)
  show "tr_score (compute_trust L tier cat ev obs ex True ver now)
        \<le> tr_score (compute_trust L tier cat ev obs ex False ver now)"
    unfolding tr_score_eq
    using TIER_BASE_01 [of tier] evidence_loop_01 [of 1 ev "[]"]
      trust_recency_01 [OF assms, of cat obs now] trust_mult_nonneg [of True ver]
      trust_mult_le [of True ver]
    by (intro clamp_mono raw_trust_mono [THEN conjunct2]) auto
qed

theorem contradiction_lowers_trust_witness:
  "tr_status (compute_trust libm_demo AGGREGATOR C_REVENUE [] None 1 True False 0) = CONTRADICTED"
  using contradiction_lowers_trust [OF libm_demo_ok, of AGGREGATOR C_REVENUE "[]" None 1 False 0]
  by blast

text \<open>C24: more evidence never hurts: appending a piece of evidence, independent or not, cannot
  lower the score of a claim.\<close>

theorem trust_monotone_in_evidence:
  assumes "libm_ok L"
  shows "tr_score (compute_trust L tier cat ev obs ex con ver now)
    \<le> tr_score (compute_trust L tier cat (ev @ [e]) obs ex con ver now)"
proof -
  obtain g p where l: "evidence_loop ev [] 1 = (g, p)" by fastforce
  have p: "0 \<le> p" "p \<le> 1" using evidence_loop_01 [of 1 ev "[]"] l by auto
  let ?i = "if te_independence_group e \<notin> set g then 1 else 1 / 4 :: rat"
  have "snd (evidence_loop (ev @ [e]) [] 1)
      = fmul p (fsub 1 (fmul (max 0 (min 1 (te_reliability e))) ?i))"
    by (simp add: evidence_loop_append l Let_def)
  also have "\<dots> \<le> fmul p 1"
    using evidence_factor_01 [of ?i "te_reliability e"] p
    by (intro fmul_mono(2)) auto
  also have "fmul p 1 = p"
  proof -
    have "fl (snd (evidence_loop xs gs q)) = snd (evidence_loop xs gs q)" if "fl q = q" for xs gs q
      using that by (induction xs gs q rule: evidence_loop.induct) (auto simp: Let_def fmul_def)
    from this [of 1 ev "[]"] show ?thesis using l by (simp add: fmul_def)
  qed
  finally have le: "snd (evidence_loop (ev @ [e]) [] 1) \<le> snd (evidence_loop ev [] 1)"
    by (simp add: l)
  show ?thesis
    unfolding tr_score_eq
    using TIER_BASE_01 [of tier] evidence_loop_01 [of 1 ev "[]"] le
      evidence_loop_01 [of 1 "ev @ [e]" "[]"]
      trust_recency_01 [OF assms, of cat obs now] trust_mult_nonneg [of con ver]
    by (intro clamp_mono raw_trust_mono [THEN conjunct2]) auto
qed

theorem trust_monotone_in_evidence_witness:
  "tr_score (compute_trust libm_demo AGGREGATOR C_REVENUE [] None 1 False False 0)
   \<le> tr_score (compute_trust libm_demo AGGREGATOR C_REVENUE
        ([] @ [\<lparr>te_reliability = 1, te_independence_group = ''g''\<rparr>]) None 1 False False 0)"
  by (rule trust_monotone_in_evidence [OF libm_demo_ok])

text \<open>A claim backed by one self-reported source is unverifiable: 0.40 times at most 0.61 times at most
  0.82 stays below the threshold 0.30.\<close>

lemma self_reported_claim_unverifiable:
  assumes "libm_ok L" and "te_reliability e \<le> fl (40 / 100)" and "ex \<le> fl (82 / 100)"
  shows "tr_status (compute_trust L SELF_REPORTED cat [e] obs ex False False now) = UNVERIFIABLE"
proof -
  let ?r = "max 0 (min 1 (te_reliability e))"
  have "0 \<le> fl (40 / 100)" by (intro fl_nonneg) simp
  then have r: "0 \<le> ?r" "?r \<le> fl (40 / 100)" using assms(2) by auto
  have "fmul ?r 1 \<le> fl (40 / 100)"
    using r flr.rnd_le_rnd [of ?r "40 / 100"] by (simp only: fmul_def mult_1_right)
  then have f: "fsub 1 (fl (40 / 100)) \<le> fsub 1 (fmul ?r 1)"
    by (simp add: fsub_def fl_mono)
  have q: "snd (evidence_loop [e] [] 1) = fsub 1 (fmul ?r 1)"
    by (simp add: Let_def fmul_def [of 1] fsub_def)
  have p0: "0 \<le> fsub 1 (fl (40 / 100))"
  proof -
    have "fl (40 / 100) \<le> 1" by (rule flr.rnd_le) simp_all
    then show ?thesis unfolding fsub_def by (intro fl_nonneg) simp
  qed
  have m: "trust_mult False False \<le> 1" by (simp add: trust_mult_def fmul_def)
  have "tr_score (compute_trust L SELF_REPORTED cat [e] obs ex False False now) < fl (30 / 100)"
    using tr_score_le [OF assms(1) _ _ p0 assms(3) m, of SELF_REPORTED "fl (40 / 100)" "[e]" cat obs now]
      f q tier_caps(2) by (simp only: TIER_BASE.simps order_refl) (meson le_less_trans)
  moreover have "fl (30 / 100) \<le> fl (55 / 100)" "fl (55 / 100) \<le> fl (80 / 100)" by (intro fl_mono; simp)+
  ultimately show ?thesis unfolding tr_status_eq trust_status_def by auto
qed

end
