(* ===== verification/Recommendation.thy ===== *)
theory Recommendation
  imports PyFloat Models
begin

text \<open>
  \<open>services/score/recommendation.py\<close> and \<open>services/score/thesis.py\<close>: the recommendation from the
  three independent axes, and the thesis fit with its hard gates.
\<close>

section \<open>Recommendation\<close>

record AxisValue =
  ax_score :: rat
  ax_confidence :: rat
  ax_rationale :: string

record Recommendation =
  rec_decision :: DecisionKind
  rec_rationale :: string

text \<open>\<open>a or b\<close> on strings.\<close>

definition or_str :: "string option \<Rightarrow> string \<Rightarrow> string" where
  "or_str a b = (case a of None \<Rightarrow> b | Some s \<Rightarrow> if s = [] then b else s)"

text \<open>\<open>min(axes, key=score)\<close>: the first of the smallest.\<close>

fun min_axis :: "AxisValue \<Rightarrow> AxisValue list \<Rightarrow> AxisValue" where
  "min_axis a [] = a"
| "min_axis a (b # bs) = min_axis (if ax_score b < ax_score a then b else a) bs"

text \<open>\<open>statistics.mean\<close> of floats: the exact mean, rounded once.\<close>

definition mean :: "rat list \<Rightarrow> rat" where
  "mean xs = fl (sum_list xs / of_nat (length xs))"

definition recommend ::
  "AxisValue list \<Rightarrow> rat \<Rightarrow> bool \<Rightarrow> bool \<Rightarrow> string option \<Rightarrow> Recommendation" where
  "recommend axes thesis_fit contradicted_critical cold_start gate_reason =
     (if length axes \<noteq> 3 then
        \<lparr>rec_decision = NEEDS_HUMAN, rec_rationale = ''One or more axes could not be scored.''\<rparr>
      else if contradicted_critical then
        \<lparr>rec_decision = NEEDS_HUMAN, rec_rationale = ''A decision-critical claim is contradicted.''\<rparr>
      else if thesis_fit = 0 then
        \<lparr>rec_decision = PASS, rec_rationale = or_str gate_reason ''A hard thesis gate failed.''\<rparr>
      else if Min (set (map ax_score axes)) < 25 then
        \<lparr>rec_decision = PASS,
         rec_rationale = or_str (Some (ax_rationale (min_axis (hd axes) (tl axes))))
           ''One independent axis is below 25.''\<rparr>
      else if (\<forall>a \<in> set axes. 70 \<le> ax_score a) \<and> 65 \<le> thesis_fit
          \<and> fl (55 / 100) \<le> mean (map ax_confidence axes) then
        \<lparr>rec_decision = INVEST,
         rec_rationale = ''All three axes and thesis fit clear the investment bar.''\<rparr>
      else if 30 < fsub (Max (set (map ax_score axes))) (Min (set (map ax_score axes))) then
        \<lparr>rec_decision = WATCHLIST, rec_rationale = ''The independent axes disagree materially.''\<rparr>
      else if mean (map ax_confidence axes) < fl (40 / 100) \<or> cold_start then
        \<lparr>rec_decision = NEEDS_HUMAN,
         rec_rationale = ''Evidence is too thin for a confident automated recommendation.''\<rparr>
      else
        \<lparr>rec_decision = WATCHLIST,
         rec_rationale = ''Evidence is credible but does not clear every investment threshold.''\<rparr>)"

lemma min_axis_in: "min_axis a bs \<in> set (a # bs)"
  by (induction a bs rule: min_axis.induct) auto

lemma min_axis_score: "ax_score (min_axis a bs) = Min (ax_score ` set (a # bs))"
proof (induction a bs rule: min_axis.induct)
  case (2 a b bs)
  then show ?case
    by (cases "bs = []") (auto simp: min_def Min_insert2 not_less)
qed simp

text \<open>C12: exactly when does the system recommend to invest? Three axes, no contradicted critical
  claim, every axis at 70 or more, a thesis fit of at least 65 and a mean confidence of at least
  0.55: no strong axis compensates a weak one, and there is no other way.\<close>

theorem recommend_invest_iff:
  "rec_decision (recommend axes fit contra cold gate) = INVEST \<longleftrightarrow>
     length axes = 3 \<and> \<not> contra \<and> list_all (\<lambda>a. 70 \<le> ax_score a) axes \<and> 65 \<le> fit
     \<and> fl (55 / 100) \<le> mean (map ax_confidence axes)"
proof -
  have "\<not> Min (ax_score ` set axes) < 25" if "length axes = 3" "\<forall>a \<in> set axes. 70 \<le> ax_score a"
  proof -
    from that(1) have "axes \<noteq> []" by auto
    then have "Min (ax_score ` set axes) \<in> ax_score ` set axes" by (intro Min_in) auto
    with that(2) show ?thesis by auto
  qed
  then show ?thesis by (auto simp: recommend_def list_all_iff)
qed

text \<open>C13: an automated pass has a reason on record: it happens only when no critical claim is
  contradicted and either the thesis gate failed or some axis is below 25, and its rationale is
  never empty.\<close>

theorem recommend_pass_reason:
  assumes "rec_decision (recommend axes fit contra cold gate) = PASS"
  shows "length axes = 3 \<and> \<not> contra \<and> (fit = 0 \<or> (\<exists>a \<in> set axes. ax_score a < 25))
    \<and> rec_rationale (recommend axes fit contra cold gate) \<noteq> []"
proof -
  have "\<exists>a \<in> set axes. ax_score a < 25"
    if "length axes = 3" "Min (ax_score ` set axes) < 25"
  proof -
    from that(1) have "axes \<noteq> []" by auto
    then show ?thesis using that(2) by (simp add: Min_less_iff)
  qed
  then show ?thesis using assms
    by (auto simp: recommend_def or_str_def split: if_splits option.splits)
qed

theorem recommend_pass_reason_witness:
  "rec_decision (recommend [\<lparr>ax_score = 10, ax_confidence = 1, ax_rationale = []\<rparr>,
     \<lparr>ax_score = 90, ax_confidence = 1, ax_rationale = []\<rparr>,
     \<lparr>ax_score = 90, ax_confidence = 1, ax_rationale = []\<rparr>] 80 False False None) = PASS
   \<and> rec_rationale (recommend [\<lparr>ax_score = 10, ax_confidence = 1, ax_rationale = []\<rparr>,
     \<lparr>ax_score = 90, ax_confidence = 1, ax_rationale = []\<rparr>,
     \<lparr>ax_score = 90, ax_confidence = 1, ax_rationale = []\<rparr>] 80 False False None) \<noteq> []"
proof -
  have p: "rec_decision (recommend [\<lparr>ax_score = 10, ax_confidence = 1, ax_rationale = []\<rparr>,
     \<lparr>ax_score = 90, ax_confidence = 1, ax_rationale = []\<rparr>,
     \<lparr>ax_score = 90, ax_confidence = 1, ax_rationale = []\<rparr>] 80 False False None) = PASS"
    by (simp add: recommend_def)
  show ?thesis using p recommend_pass_reason [OF p] by blast
qed

section \<open>Thesis fit\<close>

record ThesisFitResult =
  fit_score :: rat
  fit_gate_reason :: "string option"
  fit_must_have_coverage :: "(string \<times> bool) list"

definition folded :: "string list \<Rightarrow> string list" where
  "folded xs = map casefold xs"

definition meets :: "string list \<Rightarrow> string list \<Rightarrow> bool" where
  "meets xs ys \<longleftrightarrow> list_ex (\<lambda>x. x \<in> set ys) xs"

definition coverage :: "string \<Rightarrow> string list \<Rightarrow> (string \<times> bool) list" where
  "coverage text rules =
     map (\<lambda>rule. (rule, list_all (\<lambda>token. contains token text)
       (take 3 (split_ws (casefold rule))))) rules"

definition must_have_ratio :: "(string \<times> bool) list \<Rightarrow> rat" where
  "must_have_ratio cov =
     (if cov = [] then 1
      else fl (of_nat (length (filter snd cov)) / of_nat (length cov)))"

definition fit_value :: "rat \<Rightarrow> rat \<Rightarrow> rat \<Rightarrow> rat \<Rightarrow> rat" where
  "fit_value sector_match stage_match geo_match ratio =
     fmul 100 (fadd (fadd (fadd (fmul (fl (4 / 10)) sector_match)
       (fmul (fl (25 / 100)) stage_match)) (fmul (fl (15 / 100)) geo_match))
       (fmul (fl (2 / 10)) ratio))"

definition compute_thesis_fit ::
  "string list \<Rightarrow> string option \<Rightarrow> string option \<Rightarrow> string list \<Rightarrow> string list \<Rightarrow> string list
   \<Rightarrow> string list \<Rightarrow> string list \<Rightarrow> string \<Rightarrow> ThesisFitResult" where
  "compute_thesis_fit company_sectors company_stage company_country thesis_sectors anti_sectors
     stages geos must_haves company_text =
   (let sector_set = folded company_sectors;
        gate = (\<lambda>reason. \<lparr>fit_score = 0, fit_gate_reason = Some reason, fit_must_have_coverage = []\<rparr>);
        stage_in = (case company_stage of None \<Rightarrow> False | Some s \<Rightarrow> casefold s \<in> set (folded stages));
        country_in = (case company_country of None \<Rightarrow> False | Some c \<Rightarrow> casefold c \<in> set (folded geos))
    in if meets sector_set (folded anti_sectors) then gate ''Company matches an excluded sector.''
       else if thesis_sectors \<noteq> [] \<and> sector_set \<noteq> [] \<and> \<not> meets sector_set (folded thesis_sectors)
         then gate ''Company is outside the thesis sectors.''
       else if stages \<noteq> [] \<and> truthy company_stage \<and> \<not> stage_in
         then gate ''Company stage is outside the thesis.''
       else if geos \<noteq> [] \<and> truthy company_country \<and> \<not> country_in \<and> ''remote'' \<notin> set (folded geos)
         then gate ''Company geography is outside the thesis.''
       else
         \<lparr>fit_score = py_round 2 (fit_value
            (if thesis_sectors = [] \<or> meets sector_set (folded thesis_sectors) then 1 else 1 / 2)
            (if stages = [] \<or> \<not> truthy company_stage \<or> stage_in then 1 else 1 / 2)
            (if geos = [] \<or> \<not> truthy company_country \<or> country_in then 1 else 1 / 2)
            (must_have_ratio (coverage (casefold company_text) must_haves))),
          fit_gate_reason = None,
          fit_must_have_coverage = coverage (casefold company_text) must_haves\<rparr>)"

lemma must_have_ratio_01: "0 \<le> must_have_ratio cov \<and> must_have_ratio cov \<le> 1"
proof (cases "cov = []")
  case False
  then have "of_nat (length (filter snd cov)) / of_nat (length cov) \<le> (1 :: rat)"
    by (simp add: divide_le_eq_1_pos length_filter_le)
  then show ?thesis using False flr.rnd_le [of 1] by (simp add: must_have_ratio_def fl_nonneg)
qed (simp add: must_have_ratio_def)

lemma fit_value_mono:
  assumes "0 \<le> s" "s \<le> s'" "0 \<le> t" "t \<le> t'" "0 \<le> g" "g \<le> g'" "0 \<le> r" "r \<le> r'"
  shows "fit_value s t g r \<le> fit_value s' t' g' r'"
proof -
  have k: "0 \<le> fl (4 / 10)" "0 \<le> fl (25 / 100)" "0 \<le> fl (15 / 100)" "0 \<le> fl (2 / 10)"
    "0 \<le> (100 :: rat)" by (intro fl_nonneg; simp)+ simp
  note m1 = fmul_mono [OF k(1) order_refl assms(1,2)]
  note m2 = fmul_mono [OF k(2) order_refl assms(3,4)]
  note m3 = fmul_mono [OF k(3) order_refl assms(5,6)]
  note m4 = fmul_mono [OF k(4) order_refl assms(7,8)]
  note a1 = fadd_mono(1) [OF m1(1) m2(1)] fadd_mono(2) [OF m1(2) m2(2)]
  note a2 = fadd_mono(1) [OF a1(1) m3(1)] fadd_mono(2) [OF a1(2) m3(2)]
  note a3 = fadd_mono(1) [OF a2(1) m4(1)] fadd_mono(2) [OF a2(2) m4(2)]
  show ?thesis unfolding fit_value_def
    by (rule fmul_mono(2) [OF k(5) order_refl a3])
qed

lemma fit_value_ends:
  "52 \<le> py_round 2 (fit_value (1 / 2) 1 (1 / 2) 0)" "py_round 2 (fit_value 1 1 1 1) = 100"
  by code_simp+

lemma ungated_fit_range:
  assumes "s = 1 \<or> s = 1 / 2" "g = 1 \<or> g = 1 / 2" "0 \<le> r" "r \<le> 1"
  shows "52 \<le> py_round 2 (fit_value s 1 g r) \<and> py_round 2 (fit_value s 1 g r) \<le> 100"
proof
  have "fit_value (1 / 2) 1 (1 / 2) 0 \<le> fit_value s 1 g r"
    using assms by (intro fit_value_mono) auto
  then show "52 \<le> py_round 2 (fit_value s 1 g r)"
    using fit_value_ends(1) pyr.rnd_mono order_trans by blast
  have "fit_value s 1 g r \<le> fit_value 1 1 1 1"
    using assms by (intro fit_value_mono) auto
  then show "py_round 2 (fit_value s 1 g r) \<le> 100"
    using pyr.rnd_mono [of _ _ 2] by (simp only: fit_value_ends(2) [symmetric])
qed

text \<open>The hard gates and the score agree. A gated company scores exactly 0; an ungated one
  scores between 52 and 100, so a fit of 0 (which the recommendation reads as "a hard gate failed")
  never comes from low partial matches, and every gate leaves its reason.\<close>

theorem thesis_fit_gate:
  fixes cs st co ts anti stages geos must body
  defines "r \<equiv> compute_thesis_fit cs st co ts anti stages geos must body"
  shows "(fit_gate_reason r \<noteq> None \<longleftrightarrow> fit_score r = 0)
    \<and> (fit_gate_reason r = None \<longleftrightarrow> 52 \<le> fit_score r \<and> fit_score r \<le> 100)"
proof (cases "fit_gate_reason r")
  case (Some x)
  then show ?thesis
    by (auto simp: r_def compute_thesis_fit_def Let_def split: if_splits)
next
  case None
  have stage: "(if stages = [] \<or> \<not> truthy st \<or>
        (case st of None \<Rightarrow> False | Some s \<Rightarrow> casefold s \<in> set (folded stages)) then 1 else 1 / 2) = (1 :: rat)"
    using None by (auto simp: r_def compute_thesis_fit_def Let_def split: if_splits)
  obtain s g where eq: "fit_score r = py_round 2 (fit_value s 1 g (must_have_ratio (coverage (casefold body) must)))"
    and sg: "s = 1 \<or> s = 1 / 2" "g = 1 \<or> g = 1 / 2"
    using None unfolding r_def compute_thesis_fit_def Let_def stage
    by (simp split: if_splits)
  have "52 \<le> fit_score r \<and> fit_score r \<le> 100"
    unfolding eq using must_have_ratio_01 sg by (intro ungated_fit_range) auto
  then show ?thesis using None by auto
qed

end
