(* ===== verification/MemoText.thy ===== *)
theory MemoText
  imports Models Text PyFloat
begin

text \<open>
  \<open>app/services/memo.py\<close>: the memo of an opportunity, composed from its claims. Python's
  \<open>title\<close>, \<open>split\<close> and two-digit formatting are written out. The dash of the recommendation line
  stands at its Windows-1252 code.
\<close>

definition REQUIRED_SECTIONS :: "(string \<times> ClaimCategory list) list" where
  "REQUIRED_SECTIONS =
     [(''company_snapshot'', [C_PRODUCT, C_MARKET]),
      (''investment_hypotheses'', [C_TEAM, C_TRACTION, C_TECHNOLOGY]),
      (''swot'', [C_MARKET, C_PRODUCT, C_TECHNOLOGY]),
      (''problem_product'', [C_PRODUCT]),
      (''traction_kpis'', [C_TRACTION, C_REVENUE])]"

definition upper_char :: "char \<Rightarrow> char" where
  "upper_char c = (if CHR ''a'' \<le> c \<and> c \<le> CHR ''z'' then char_of (of_char c - 32 :: nat) else c)"

text \<open>\<open>s.title()\<close>: the flag says that the character before was a letter.\<close>

fun title_case :: "bool \<Rightarrow> string \<Rightarrow> string" where
  "title_case b [] = []"
| "title_case b (c # cs) =
     (let letter = is_alnum (lower_char c) \<and> \<not> is_digit c
      in (if b then lower_char c else upper_char c) # title_case letter cs)"

definition title_of :: "string \<Rightarrow> string" where
  "title_of key = title_case False (replace ''_'' '' '' key)"

text \<open>\<open>f"{x:.2f}"\<close> for a float that is not negative.\<close>

definition fmt2 :: "rat \<Rightarrow> string" where
  "fmt2 x =
     (let n = nat (round_half_even (x * 100))
      in str_nat (n div 100) @ ''.'' @ str_nat (n mod 100 div 10) @ str_nat (n mod 10))"

text \<open>The dict of a claim that the pipeline passes.\<close>

record claim_data =
  cd_id :: uuid
  cd_category :: ClaimCategory
  cd_text :: string
  cd_trust_score :: rat

record MemoDraft =
  md_sections :: "memo_section list"
  md_gaps :: "memo_gap list"
  md_word_count :: nat

definition bullet :: "claim_data \<Rightarrow> string" where
  "bullet c =
     ''- '' @ cd_text c @ '' [claim:'' @ str_nat (cd_id c) @ ''] (trust ''
     @ fmt2 (fl (cd_trust_score c)) @ '')''"

definition relevant :: "claim_data list \<Rightarrow> ClaimCategory list \<Rightarrow> claim_data list" where
  "relevant cs categories = filter (\<lambda>c. cd_category c \<in> set categories) cs"

definition newline :: string where "newline = [char_of (10 :: nat)]"

definition memo_section_of :: "claim_data list \<Rightarrow> string \<times> ClaimCategory list \<Rightarrow> memo_section" where
  "memo_section_of cs kc =
     (let rel = relevant cs (snd kc)
      in if rel \<noteq> [] then
           \<lparr>sec_key = fst kc, sec_title = title_of (fst kc),
            sec_markdown = join newline (map bullet rel), sec_claim_ids = map cd_id rel, sec_gaps = [],
            sec_edited_by = None, sec_edited_at = None\<rparr>
         else
           \<lparr>sec_key = fst kc, sec_title = title_of (fst kc),
            sec_markdown = ''Not disclosed in the available evidence.'', sec_claim_ids = [],
            sec_gaps = [''No evidence-backed claims are available for this section.''],
            sec_edited_by = None, sec_edited_at = None\<rparr>)"

definition memo_gap_of :: "claim_data list \<Rightarrow> string \<times> ClaimCategory list \<Rightarrow> memo_gap list" where
  "memo_gap_of cs kc =
     (if relevant cs (snd kc) = []
      then [\<lparr>gap_field = fst kc, gap_reason = ''not_disclosed'',
             gap_how_to_resolve = ''Request primary documentation or a founder answer.''\<rparr>]
      else [])"

definition recommendation_section :: "DecisionKind \<Rightarrow> string \<Rightarrow> memo_section" where
  "recommendation_section recommendation rationale =
     \<lparr>sec_key = ''recommendation'', sec_title = ''Recommendation'',
      sec_markdown = ''**'' @ title_of (decision_value recommendation) @ ''** '' @ [CHR 0x97]
                     @ '' '' @ rationale,
      sec_claim_ids = [], sec_gaps = [], sec_edited_by = None, sec_edited_at = None\<rparr>"

definition word_count :: "memo_section list \<Rightarrow> nat" where
  "word_count secs = sum_list (map (\<lambda>s. length (split_ws (sec_markdown s))) secs)"

definition compose_memo :: "claim_data list \<Rightarrow> DecisionKind \<Rightarrow> string \<Rightarrow> MemoDraft" where
  "compose_memo cs recommendation rationale =
     (let sections = map (memo_section_of cs) REQUIRED_SECTIONS
                     @ [recommendation_section recommendation rationale]
      in \<lparr>md_sections = sections, md_gaps = concat (map (memo_gap_of cs) REQUIRED_SECTIONS),
          md_word_count = word_count sections\<rparr>)"

section \<open>Every section cites claims or marks a gap\<close>

lemma compose_memo_simps:
  "md_sections (compose_memo cs r w) = map (memo_section_of cs) REQUIRED_SECTIONS @ [recommendation_section r w]"
  "md_gaps (compose_memo cs r w) = concat (map (memo_gap_of cs) REQUIRED_SECTIONS)"
  by (simp_all add: compose_memo_def Let_def)

lemma section_simps [simp]:
  "sec_key (memo_section_of cs kc) = fst kc"
  "sec_claim_ids (memo_section_of cs kc) = map cd_id (relevant cs (snd kc))"
  "sec_gaps (memo_section_of cs kc) = [] \<longleftrightarrow> relevant cs (snd kc) \<noteq> []"
  by (simp_all add: memo_section_of_def Let_def)

lemma gap_fields: "gap_field ` set (memo_gap_of cs kc) = (if relevant cs (snd kc) = [] then {fst kc} else {})"
  by (simp add: memo_gap_of_def)

lemma required_keys: "distinct (map fst REQUIRED_SECTIONS)"
  by (simp add: REQUIRED_SECTIONS_def)

lemma gap_iff:
  assumes "kc \<in> set REQUIRED_SECTIONS"
  shows "fst kc \<in> gap_field ` set (md_gaps (compose_memo cs r w)) \<longleftrightarrow> relevant cs (snd kc) = []"
proof -
  have "kc' = kc" if "kc' \<in> set REQUIRED_SECTIONS" "fst kc' = fst kc" for kc'
    using that assms required_keys by (metis eq_key_imp_eq_value prod.collapse)
  moreover have "fst kc \<in> gap_field ` set (md_gaps (compose_memo cs r w))
      \<longleftrightarrow> (\<exists>kc' \<in> set REQUIRED_SECTIONS. fst kc \<in> gap_field ` set (memo_gap_of cs kc'))"
    by (auto simp: compose_memo_simps)
  ultimately show ?thesis using assms by (auto simp: gap_fields split: if_splits)
qed

lemma containsI: "s = a @ p @ b \<Longrightarrow> contains p s"
  by (auto simp: contains_append)

lemma contains_trans: "contains p q \<Longrightarrow> contains q s \<Longrightarrow> contains p s"
proof -
  assume "contains p q" "contains q s"
  then obtain a b c d where "q = a @ p @ b" "s = c @ q @ d" by (auto simp: contains_append)
  then show "contains p s" by (intro containsI [of _ "c @ a" _ "b @ d"]) simp
qed

lemma literal_cited: "contains (cd_text c) (bullet c)"
  unfolding bullet_def by (rule containsI [of _ "''- ''"]) (rule refl)

lemma contains_join: "x \<in> set xs \<Longrightarrow> contains x (join sep xs)"
proof (induction sep xs rule: join.induct)
  case (2 sep y)
  then show ?case using containsI [of x "[]" x "[]"] by simp
next
  case (3 sep y z ys)
  show ?case
  proof (cases "x = y")
    case True
    then show ?thesis by (intro containsI [of _ "[]"]) simp
  next
    case False
    then have "contains x (join sep (z # ys))" using 3 by simp
    moreover have "contains (join sep (z # ys)) (join sep (y # z # ys))"
      by (rule containsI [of _ "y @ sep" _ "[]"]) simp
    ultimately show ?thesis by (rule contains_trans)
  qed
qed simp

text \<open>C27: the memo hides nothing and invents nothing. It has the five required sections in order and
  then the recommendation; a required section cites exactly the claims of its categories and quotes
  each of them; it cites none exactly when it is listed in the gaps and marked as a gap itself;
  and every claim id in the memo is the id of a claim of the opportunity.\<close>

theorem memo_cites_or_marks_gap:
  "map sec_key (md_sections (compose_memo cs r w)) = map fst REQUIRED_SECTIONS @ [''recommendation'']
   \<and> (\<forall>sec \<in> set (md_sections (compose_memo cs r w)). set (sec_claim_ids sec) \<subseteq> cd_id ` set cs)
   \<and> (\<forall>kc \<in> set REQUIRED_SECTIONS. \<exists>sec \<in> set (md_sections (compose_memo cs r w)).
        sec_key sec = fst kc
        \<and> sec_claim_ids sec = map cd_id (filter (\<lambda>c. cd_category c \<in> set (snd kc)) cs)
        \<and> (\<forall>c \<in> set cs. cd_category c \<in> set (snd kc) \<longrightarrow> contains (cd_text c) (sec_markdown sec))
        \<and> (sec_claim_ids sec = [] \<longleftrightarrow> fst kc \<in> gap_field ` set (md_gaps (compose_memo cs r w)))
        \<and> (sec_claim_ids sec = [] \<longleftrightarrow> sec_gaps sec \<noteq> []))"
proof (intro conjI ballI)
  show "map sec_key (md_sections (compose_memo cs r w)) = map fst REQUIRED_SECTIONS @ [''recommendation'']"
    by (simp add: compose_memo_simps o_def recommendation_section_def)
next
  fix sec assume "sec \<in> set (md_sections (compose_memo cs r w))"
  then show "set (sec_claim_ids sec) \<subseteq> cd_id ` set cs"
    by (auto simp: compose_memo_simps recommendation_section_def relevant_def)
next
  fix kc assume kc: "kc \<in> set REQUIRED_SECTIONS"
  let ?s = "memo_section_of cs kc"
  have quote: "contains (cd_text c) (sec_markdown ?s)" if "c \<in> set cs" "cd_category c \<in> set (snd kc)" for c
  proof -
    have rel: "c \<in> set (relevant cs (snd kc))" using that by (simp add: relevant_def)
    then have "contains (bullet c) (sec_markdown ?s)"
      by (auto simp: memo_section_of_def Let_def intro!: contains_join)
    then show ?thesis by (rule contains_trans [OF literal_cited])
  qed
  show "\<exists>sec \<in> set (md_sections (compose_memo cs r w)). sec_key sec = fst kc
        \<and> sec_claim_ids sec = map cd_id (filter (\<lambda>c. cd_category c \<in> set (snd kc)) cs)
        \<and> (\<forall>c \<in> set cs. cd_category c \<in> set (snd kc) \<longrightarrow> contains (cd_text c) (sec_markdown sec))
        \<and> (sec_claim_ids sec = [] \<longleftrightarrow> fst kc \<in> gap_field ` set (md_gaps (compose_memo cs r w)))
        \<and> (sec_claim_ids sec = [] \<longleftrightarrow> sec_gaps sec \<noteq> [])"
  proof (rule bexI [of _ ?s])
    show "?s \<in> set (md_sections (compose_memo cs r w))" using kc by (simp add: compose_memo_simps)
    show "sec_key ?s = fst kc \<and> sec_claim_ids ?s = map cd_id (filter (\<lambda>c. cd_category c \<in> set (snd kc)) cs)
        \<and> (\<forall>c \<in> set cs. cd_category c \<in> set (snd kc) \<longrightarrow> contains (cd_text c) (sec_markdown ?s))
        \<and> (sec_claim_ids ?s = [] \<longleftrightarrow> fst kc \<in> gap_field ` set (md_gaps (compose_memo cs r w)))
        \<and> (sec_claim_ids ?s = [] \<longleftrightarrow> sec_gaps ?s \<noteq> [])"
      using quote gap_iff [OF kc, of cs r w] by (simp add: relevant_def)
  qed
qed

theorem memo_cites_or_marks_gap_witness:
  "\<exists>sec \<in> set (md_sections (compose_memo
      [\<lparr>cd_id = 4, cd_category = C_MARKET, cd_text = ''TAM $2B'', cd_trust_score = 1/5\<rparr>] NEEDS_HUMAN ''Gaps.'')).
     sec_key sec = ''company_snapshot'' \<and> sec_claim_ids sec = [4]"
proof -
  let ?c = "\<lparr>cd_id = 4, cd_category = C_MARKET, cd_text = ''TAM $2B'', cd_trust_score = 1/5\<rparr>"
  have kc: "(''company_snapshot'', [C_PRODUCT, C_MARKET]) \<in> set REQUIRED_SECTIONS"
    by (simp add: REQUIRED_SECTIONS_def)
  have f: "map cd_id (filter (\<lambda>c. cd_category c \<in> set [C_PRODUCT, C_MARKET]) [?c]) = [4]" by simp
  show ?thesis
    using bspec [OF memo_cites_or_marks_gap [of "[?c]" NEEDS_HUMAN "''Gaps.''", THEN conjunct2, THEN conjunct2] kc]
    unfolding fst_conv snd_conv f by (elim bexE conjE) (intro bexI conjI)
qed

end
