(* ===== verification/Pipeline.thy ===== *)
theory Pipeline
  imports Jobs Connectors Documents Trust Recommendation MemoText
begin

text \<open>
  \<open>app/services/pipeline.py\<close>: the worker. A job is started (one transaction), then either harvests the
  connectors or analyses one opportunity: parse and extract, score three axes, thesis fit,
  recommendation, memo. Each commit is a \<open>commit_run\<close>. An exception ends the job as failed, and what was
  flushed before is committed with it; a database error makes that commit fail too.
\<close>

section \<open>Rows\<close>

definition set_opportunity :: "env \<Rightarrow> uuid \<Rightarrow> (Opportunity \<Rightarrow> Opportunity) \<Rightarrow> db \<Rightarrow> db" where
  "set_opportunity E i f d =
     d\<lparr>opportunities := upd_row op_id i (\<lambda>p. (f p)\<lparr>op_updated_at := env_now E\<rparr>) (opportunities d)\<rparr>"

definition set_application :: "uuid \<Rightarrow> (Application \<Rightarrow> Application) \<Rightarrow> db \<Rightarrow> db" where
  "set_application i f d = d\<lparr>applications := upd_row app_id i f (applications d)\<rparr>"

definition set_source :: "uuid \<Rightarrow> (Source \<Rightarrow> Source) \<Rightarrow> db \<Rightarrow> db" where
  "set_source i f d = d\<lparr>sources := upd_row src_id i f (sources d)\<rparr>"

definition set_document :: "uuid \<Rightarrow> (Document \<Rightarrow> Document) \<Rightarrow> db \<Rightarrow> db" where
  "set_document i f d = d\<lparr>documents := upd_row doc_id i f (documents d)\<rparr>"

definition new_source :: "string \<Rightarrow> string \<Rightarrow> SourceTier \<Rightarrow> rat \<Rightarrow> uuid \<Rightarrow> Source" where
  "new_source key label tier reliability u =
     \<lparr>src_id = u, src_key = key, src_display_name = label, src_tier = tier, src_base_url = None,
      src_status = ACTIVE, src_reliability = reliability, src_rate_limit = JObj [],
      src_requires_key = False, src_tos_note = None, src_last_ok_at = None, src_last_error_at = None,
      src_last_error = None\<rparr>"

definition add_source :: "Source \<Rightarrow> db \<Rightarrow> db" where
  "add_source r d = d\<lparr>sources := sources d @ [r]\<rparr>"

definition source_by_key :: "string \<Rightarrow> db \<Rightarrow> Source option" where
  "source_by_key key d = first_row (\<lambda>r. src_key r = key) (sources d)"

text \<open>\<open>UniqueConstraint("job_id", "seq")\<close>.\<close>

definition add_step :: "AgentStep \<Rightarrow> unit run" where
  "add_step st =
     andThen (query (\<lambda>d. list_ex (\<lambda>t. st_job_id t = st_job_id st \<and> st_seq t = st_seq st) (agent_steps d)))
       (\<lambda>clash. if clash then throw IntegrityError
                else change (\<lambda>d. d\<lparr>agent_steps := agent_steps d @ [st]\<rparr>))"

fun exn_name :: "exn \<Rightarrow> string" where
  "exn_name (App e) = ''AppError''"
| "exn_name IntegrityError = ''IntegrityError''"
| "exn_name (PyExn c m) = c"

fun exn_str :: "exn \<Rightarrow> string" where
  "exn_str (App e) = err_message e"
| "exn_str IntegrityError = ''integrity error''"
| "exn_str (PyExn c m) = m"

section \<open>Harvesting\<close>

definition hint_json :: "IdentityHint \<Rightarrow> json" where
  "hint_json h =
     JObj [(''provider'', JStr (ih_provider h)), (''value'', JStr (ih_value h)),
           (''confidence'', JNum (ih_confidence h))]"

definition new_signal :: "env \<Rightarrow> uuid option \<Rightarrow> uuid \<Rightarrow> NormalizedSignal \<Rightarrow> uuid \<Rightarrow> Signal" where
  "new_signal E org source n u =
     \<lparr>sig_id = u, sig_org_id = org, sig_source_id = source, sig_kind = ns_kind n,
      sig_external_id = ns_external_id n, sig_url = ns_url n, sig_title = ns_title n,
      sig_body = ns_body n,
      sig_payload = jset ''identity_hints'' (JList (map hint_json (ns_identities n))) (ns_payload n), sig_raw_ref = None,
      sig_content_hash = content_hash E n, sig_person_id = None, sig_company_id = None,
      sig_strength = Some (dec_str (ns_strength n)), sig_observed_at = ns_observed_at n\<rparr>"

definition is_duplicate :: "env \<Rightarrow> uuid \<Rightarrow> NormalizedSignal \<Rightarrow> db \<Rightarrow> bool" where
  "is_duplicate E source n d =
     list_ex (\<lambda>g. sig_source_id g = source \<and> sig_content_hash g = content_hash E n
                \<and> sig_observed_at g = ns_observed_at n) (signals d)"

definition bump_discovered :: "uuid \<Rightarrow> db \<Rightarrow> db" where
  "bump_discovered ch d =
     d\<lparr>sourcing_channels := upd_row ch_id ch (\<lambda>c. c\<lparr>ch_discovered_count := ch_discovered_count c + 1\<rparr>)
        (sourcing_channels d)\<rparr>"

definition harvest_item ::
  "env \<Rightarrow> uuid option \<Rightarrow> uuid \<Rightarrow> uuid \<Rightarrow> NormalizedSignal \<Rightarrow> uuid option run" where
  "harvest_item E org source channel item =
     andThen (query (is_duplicate E source item)) (\<lambda>dup.
     if dup then ret None
     else
       andThen (insert_new (new_signal E org source item) (\<lambda>g d. d\<lparr>signals := signals d @ [g]\<rparr>)) (\<lambda>g.
       andThen (resolve_outbound_signal E g source (Some channel)) (\<lambda>candidate.
       andThen (insert_new (new_job org ''screen'' ''opportunity'' (rs_opportunity candidate)
           (Some (''outbound-signal:'' @ str_nat (sig_id g)))
           (JObj [(''opportunity_id'', JUuid (rs_opportunity candidate)),
                  (''signal_id'', JUuid (sig_id g))]) (env_now E)) add_job) (\<lambda>j.
       andThen (change (bump_discovered channel)) (\<lambda>_. ret (Some (job_id j)))))))"

text \<open>The items in order; an exception keeps the jobs created so far.\<close>

fun harvest_items ::
  "env \<Rightarrow> uuid option \<Rightarrow> uuid \<Rightarrow> uuid \<Rightarrow> NormalizedSignal list \<Rightarrow> uuid list \<Rightarrow> (exn option \<times> uuid list) run" where
  "harvest_items E org source channel [] acc s = (Inr (None, acc), s)"
| "harvest_items E org source channel (item # items) acc s =
     (case harvest_item E org source channel item s of
        (Inl e, s') \<Rightarrow> (Inr (Some e, acc), s')
      | (Inr None, s') \<Rightarrow> harvest_items E org source channel items acc s'
      | (Inr (Some j), s') \<Rightarrow> harvest_items E org source channel items (acc @ [j]) s')"

definition degrade :: "env \<Rightarrow> exn \<Rightarrow> uuid \<Rightarrow> unit run" where
  "degrade E e source =
     andThen (change (set_source source (\<lambda>r. r\<lparr>src_status := DEGRADED,
         src_last_error_at := Some (env_now E), src_last_error := Some (take 500 (exn_str e))\<rparr>)))
       (\<lambda>_. commit_run)"

definition ensure_source :: "string \<Rightarrow> Source option \<Rightarrow> Source run" where
  "ensure_source key existing =
     (case existing of Some r \<Rightarrow> ret r
      | None \<Rightarrow> insert_new (new_source key (title_of key) AGGREGATOR (65/100)) add_source)"

definition ensure_channel :: "string \<Rightarrow> string \<Rightarrow> uuid run" where
  "ensure_channel key label =
     andThen (query (\<lambda>d. first_row (\<lambda>c. ch_key c = key) (sourcing_channels d)))
       (\<lambda>existing. case existing of Some c \<Rightarrow> ret (ch_id c)
        | None \<Rightarrow> andThen (insert_new
            (\<lambda>u. \<lparr>ch_id = u, ch_key = key, ch_label = label, ch_kind = ''source'', ch_parent_id = None,
                  ch_discovered_count = 0, ch_advanced_count = 0\<rparr>)
            (\<lambda>c d. d\<lparr>sourcing_channels := sourcing_channels d @ [c]\<rparr>)) (\<lambda>c. ret (ch_id c)))"

text \<open>One connector: the jobs it created, the failure it noted, and whether its step is skipped.\<close>

record harvest_result =
  hr_children :: "uuid list"
  hr_failure :: "string option"
  hr_skipped :: bool

definition harvest_key :: "env \<Rightarrow> Job \<Rightarrow> string \<Rightarrow> int \<Rightarrow> string \<Rightarrow> harvest_result run" where
  "harvest_key E job q limit key =
     andThen (query (source_by_key key)) (\<lambda>existing.
     if \<not> connector_enabled (env_settings E) key then
       ret \<lparr>hr_children = [], hr_failure = Some ''no_credentials'', hr_skipped = True\<rparr>
     else case connector_harvest E key q limit of
       Inl e \<Rightarrow>
         andThen (when_some existing (\<lambda>r. degrade E e (src_id r))) (\<lambda>_.
         ret \<lparr>hr_children = [], hr_failure = Some (exn_name e), hr_skipped = False\<rparr>)
     | Inr items \<Rightarrow>
         andThen (ensure_source key existing) (\<lambda>source.
         andThen (ensure_channel key (src_display_name source)) (\<lambda>channel.
         andThen (harvest_items E (job_org_id job) (src_id source) channel items []) (\<lambda>(err, children).
         case err of
           None \<Rightarrow>
             andThen (change (set_source (src_id source)
                 (\<lambda>r. r\<lparr>src_status := ACTIVE, src_last_ok_at := Some (env_now E)\<rparr>))) (\<lambda>_.
             andThen commit_run (\<lambda>_.
             ret \<lparr>hr_children = children, hr_failure = None, hr_skipped = False\<rparr>))
         | Some IntegrityError \<Rightarrow> throw IntegrityError
         | Some e \<Rightarrow>
             andThen (degrade E e (src_id source)) (\<lambda>_.
             ret \<lparr>hr_children = children, hr_failure = Some (exn_name e), hr_skipped = False\<rparr>)))))"

definition harvest_step :: "env \<Rightarrow> Job \<Rightarrow> nat \<Rightarrow> nat \<Rightarrow> string \<Rightarrow> bool \<Rightarrow> AgentStep" where
  "harvest_step E job seq n key failed =
     \<lparr>st_job_id = job_id job, st_seq = seq, st_agent = ''harvester'', st_action = ''ingest.'' @ key,
      st_status = (if failed then ''degraded'' else ''succeeded''),
      st_progress = dec_str (py_round 2 (fmul (fdiv (of_nat seq) (of_nat (max 1 n))) 90)),
      st_message = Some (''Harvested source '' @ key @ ''.''), st_input_summary = JObj [],
      st_output_summary = JObj [], st_evidence_ids = [], st_cost_usd = 0, st_duration_ms = None, st_error = None\<rparr>"

fun harvest_loop ::
  "env \<Rightarrow> Job \<Rightarrow> string \<Rightarrow> int \<Rightarrow> nat \<Rightarrow> nat \<Rightarrow> string list \<Rightarrow> uuid list \<Rightarrow> (string \<times> string) list
   \<Rightarrow> (uuid list \<times> (string \<times> string) list) run" where
  "harvest_loop E job q limit n seq [] children failures = ret (children, failures)"
| "harvest_loop E job q limit n seq (key # keys) children failures =
     andThen (harvest_key E job q limit key) (\<lambda>r.
     let children' = children @ hr_children r;
         failures' = failures @ (case hr_failure r of None \<Rightarrow> [] | Some m \<Rightarrow> [(key, m)])
     in if hr_skipped r then harvest_loop E job q limit n (Suc seq) keys children' failures'
        else andThen (add_step (harvest_step E job seq n key (list_ex (\<lambda>f. fst f = key) failures'))) (\<lambda>_.
             andThen commit_run (\<lambda>_. harvest_loop E job q limit n (Suc seq) keys children' failures')))"

fun requested_keys :: "json \<Rightarrow> exn + string list" where
  "requested_keys (JStr s) = Inr (if s = ''auto'' then connector_keys else [])"
| "requested_keys (JList xs) =
     Inr (filter (\<lambda>k. k \<in> set connector_keys) (concat (map (\<lambda>x. case x of JStr s \<Rightarrow> [s] | _ \<Rightarrow> []) xs)))"
| "requested_keys _ = Inl (PyExn ''TypeError'' ''object is not iterable'')"

definition input_int :: "string \<Rightarrow> int \<Rightarrow> json \<Rightarrow> int" where
  "input_int k dflt j = (case jget_truthy k j of None \<Rightarrow> dflt | Some v \<Rightarrow> trunc (json_num v))"

definition finish_harvest ::
  "env \<Rightarrow> Job \<Rightarrow> uuid list \<Rightarrow> (string \<times> string) list \<Rightarrow> Job \<Rightarrow> Job" where
  "finish_harvest E job children failures j =
     j\<lparr>job_status := (if failures \<noteq> [] then PARTIAL else SUCCEEDED), job_progress := 100,
       job_current_step := Some ''done'', job_finished_at := Some (env_now E),
       job_result := JObj [(''signals_ingested'', JNum (of_nat (length children))),
         (''candidates_resolved'', JNum (of_nat (length children))),
         (''screening_jobs'', JList (map JUuid children)),
         (''failures'', JList (map (\<lambda>(k, m). JObj [(''source'', JStr k), (''reason'', JStr m)]) failures))]\<rparr>"

definition process_harvest :: "env \<Rightarrow> Job \<Rightarrow> uuid list run" where
  "process_harvest E job =
     andThen (lift (requested_keys (jget_or (JStr ''auto'') ''channels'' (job_input job)))) (\<lambda>requested.
     let q = (case jget_truthy ''query'' (job_input job) of None \<Rightarrow> ''AI startup'' | Some v \<Rightarrow> json_str v);
         limit = min 100 (input_int ''limit'' 25 (job_input job));
         keys = (if set_demo_mode (env_settings E) then [] else requested);
         failures = (if set_demo_mode (env_settings E)
                     then [(''all'', ''network harvesting disabled in DEMO_MODE'')] else [])
     in andThen (harvest_loop E job q limit (length keys) 1 keys [] failures) (\<lambda>(children, fails).
        andThen (change (set_job (job_id job) (finish_harvest E job children fails))) (\<lambda>_.
        andThen commit_run (\<lambda>_. ret children))))"

section \<open>Parsing and extraction\<close>

definition pipeline_step :: "uuid \<Rightarrow> nat \<Rightarrow> string \<Rightarrow> rat \<Rightarrow> string \<Rightarrow> json \<Rightarrow> AgentStep" where
  "pipeline_step j seq action progress message output =
     \<lparr>st_job_id = j, st_seq = seq, st_agent = ''pipeline'', st_action = action,
      st_status = ''succeeded'', st_progress = progress, st_message = Some message,
      st_input_summary = JObj [], st_output_summary = output, st_evidence_ids = [], st_cost_usd = 0,
      st_duration_ms = None, st_error = None\<rparr>"

text \<open>\<open>_step\<close>: the row, the job's progress and heartbeat, one commit.\<close>

definition step :: "env \<Rightarrow> uuid \<Rightarrow> nat \<Rightarrow> string \<Rightarrow> rat \<Rightarrow> string \<Rightarrow> unit run" where
  "step E j seq action progress message =
     andThen (add_step (pipeline_step j seq action progress message (JObj []))) (\<lambda>_.
     andThen (change (set_job j (\<lambda>j. j\<lparr>job_progress := progress, job_current_step := Some action,
                job_heartbeat_at := Some (env_now E)\<rparr>))) (\<lambda>_. commit_run))"

definition ensure_deck_source :: "Source run" where
  "ensure_deck_source =
     andThen (query (source_by_key ''deck'')) (\<lambda>existing. case existing of Some r \<Rightarrow> ret r
       | None \<Rightarrow> insert_new (new_source ''deck'' ''Founder-submitted deck'' SELF_REPORTED (4/10)) add_source)"

fun first_long :: "(nat \<times> string) list \<Rightarrow> (nat \<times> string) option" where
  "first_long [] = None"
| "first_long ((n, t) # ls) = (if 12 \<le> length t then Some (n, t) else first_long ls)"

definition page_lines :: "ParsedPage list \<Rightarrow> (nat \<times> string) list" where
  "page_lines pages = concat (map (\<lambda>p. map (\<lambda>t. (pp_page_no p, t)) (lines_of (pp_text p))) pages)"

definition product_claim :: "ParsedPage list \<Rightarrow> ExtractedClaim option" where
  "product_claim pages =
     (case first_long (page_lines pages) of
        None \<Rightarrow> None
      | Some (n, text) \<Rightarrow>
          Some \<lparr>ec_category = C_PRODUCT, ec_predicate = ''deck_summary'', ec_text = take 500 text,
                ec_value_num = None, ec_value_unit = None,
                ec_locator = \<lparr>loc_type = ''deck'', loc_page = n, loc_snippet = take 400 text\<rparr>,
                ec_extraction_confidence = fl (72/100), ec_unverifiable = False\<rparr>)"

definition stored_pages :: "uuid \<Rightarrow> db \<Rightarrow> ParsedPage list" where
  "stored_pages i d =
     map (\<lambda>p. \<lparr>pp_page_no = dp_page_no p, pp_text = or_empty (dp_text p), pp_ocr_used = dp_ocr_used p\<rparr>)
       (filter (\<lambda>p. dp_document_id p = i) (document_pages d))"

definition store_pages :: "uuid \<Rightarrow> ParsedDeck \<Rightarrow> db \<Rightarrow> db" where
  "store_pages i deck d =
     set_document i (\<lambda>c. c\<lparr>doc_page_count := Some (length (pd_pages deck)),
         doc_parser := Some (pd_parser deck),
         doc_parse_status := (if pd_partial deck then ''partial'' else ''ok'')\<rparr>)
       (d\<lparr>document_pages := document_pages d @
          map (\<lambda>p. \<lparr>dp_document_id = i, dp_page_no = pp_page_no p, dp_text = Some (pp_text p),
                     dp_ocr_used = pp_ocr_used p, dp_image_s3_key = None, dp_layout = None\<rparr>) (pd_pages deck)\<rparr>)"

definition document_text :: "env \<Rightarrow> Document \<Rightarrow> ParsedPage list run" where
  "document_text E document =
     andThen (query (stored_pages (doc_id document))) (\<lambda>existing.
     if existing \<noteq> [] then ret existing
     else andThen (lift (store_get E (doc_s3_key document))) (\<lambda>data.
          andThen (lift (parse_deck E data (or_empty (doc_mime document)))) (\<lambda>deck.
          andThen (change (store_pages (doc_id document) deck)) (\<lambda>_. ret (pd_pages deck)))))"

definition deck_group :: "Document \<Rightarrow> string" where
  "deck_group document = ''deck:'' @ str_nat (doc_id document)"

definition claim_trust :: "env \<Rightarrow> Source \<Rightarrow> Document \<Rightarrow> ExtractedClaim \<Rightarrow> TrustResult" where
  "claim_trust E source document item =
     compute_trust (env_libm E) (src_tier source) (ec_category item)
       [\<lparr>te_reliability = fl (src_reliability source), te_independence_group = deck_group document\<rparr>]
       (Some (doc_created_at document)) (ec_extraction_confidence item) False False (env_now E)"

definition new_claim ::
  "env \<Rightarrow> Opportunity \<Rightarrow> Source \<Rightarrow> Document \<Rightarrow> ExtractedClaim \<Rightarrow> uuid \<Rightarrow> Claim" where
  "new_claim E opp source document item u =
     (let trust = claim_trust E source document item
      in \<lparr>cl_id = u, cl_org_id = op_org_id opp, cl_opportunity_id = Some (op_id opp),
          cl_company_id = Some (op_company_id opp), cl_person_id = None, cl_category = ec_category item,
          cl_predicate = ec_predicate item, cl_text = ec_text item, cl_value_num = ec_value_num item,
          cl_value_unit = ec_value_unit item, cl_value_text = None, cl_as_of = None,
          cl_status = (if ec_unverifiable item then UNVERIFIABLE else tr_status trust),
          cl_trust_score = dec_str (tr_score trust), cl_trust_inputs = inputs_json (tr_inputs trust),
          cl_contradiction_of = None,
          cl_verification_note =
            (if ec_unverifiable item then Some ''Prompt-injection-like text detected.'' else None),
          cl_extracted_by = Some ''deterministic-v1''\<rparr>)"

definition new_evidence :: "Source \<Rightarrow> Document \<Rightarrow> ExtractedClaim \<Rightarrow> uuid \<Rightarrow> uuid \<Rightarrow> Evidence" where
  "new_evidence source document item claim u =
     \<lparr>ev_id = u, ev_claim_id = claim, ev_signal_id = None, ev_document_id = Some (doc_id document),
      ev_source_id = src_id source, ev_locator = locator_json (ec_locator item),
      ev_snippet = take 400 (loc_snippet (ec_locator item)), ev_supports = (\<not> ec_unverifiable item),
      ev_independence_group = Some (deck_group document),
      ev_observed_at = Some (doc_created_at document)\<rparr>"

definition add_claim :: "Claim \<Rightarrow> db \<Rightarrow> db" where
  "add_claim c d = d\<lparr>claims := claims d @ [c]\<rparr>"

definition add_evidence :: "Evidence \<Rightarrow> db \<Rightarrow> db" where
  "add_evidence v d = d\<lparr>evidence := evidence d @ [v]\<rparr>"

definition create_claim ::
  "env \<Rightarrow> Opportunity \<Rightarrow> Source \<Rightarrow> Document \<Rightarrow> ExtractedClaim \<Rightarrow> Claim run" where
  "create_claim E opp source document item =
     andThen (insert_new (new_claim E opp source document item) add_claim) (\<lambda>c.
     andThen (insert_new (new_evidence source document item (cl_id c)) add_evidence) (\<lambda>_. ret c))"

definition claims_of :: "uuid \<Rightarrow> db \<Rightarrow> Claim list" where
  "claims_of opp d = filter (\<lambda>c. cl_opportunity_id c = Some opp) (claims d)"

definition all_extracted :: "ParsedPage list \<Rightarrow> ExtractedClaim list" where
  "all_extracted pages =
     extract_claims pages @ (case product_claim pages of None \<Rightarrow> [] | Some c \<Rightarrow> [c])"

definition parse_and_extract :: "env \<Rightarrow> Document \<Rightarrow> Opportunity \<Rightarrow> Claim list run" where
  "parse_and_extract E document opp =
     andThen (document_text E document) (\<lambda>pages.
     andThen (query (claims_of (op_id opp))) (\<lambda>existing.
     if existing \<noteq> [] then ret existing
     else andThen ensure_deck_source (\<lambda>source.
          map_run (create_claim E opp source document) (all_extracted pages))))"

section \<open>Scoring\<close>

definition team_scores :: "uuid \<Rightarrow> db \<Rightarrow> FounderScore list" where
  "team_scores company d =
     concat (map (\<lambda>f. map (\<lambda>_. f) (filter (\<lambda>a. af_person_id a = fs_person_id f
        \<and> af_company_id a = company \<and> af_is_founder a) (affiliations d))) (founder_scores d))"

text \<open>\<open>max(founder_scores, key=score)\<close>: the first of the greatest.\<close>

fun best_score :: "FounderScore \<Rightarrow> FounderScore list \<Rightarrow> FounderScore" where
  "best_score b [] = b"
| "best_score b (f # fs) = best_score (if fs_score b < fs_score f then f else b) fs"

record axis_draft =
  ad_axis :: AxisKind
  ad_score :: rat
  ad_confidence :: rat
  ad_rationale :: string
  ad_stance :: "MarketStance option"

definition founder_axis :: "FounderScore list \<Rightarrow> axis_draft" where
  "founder_axis scores =
     (case scores of
        f # fs \<Rightarrow>
          (let best = best_score f fs
           in \<lparr>ad_axis = FOUNDER,
               ad_score = fadd 35 (fmul (fdiv (of_int (fs_score best - 300)) 600) 60),
               ad_confidence = fl (fs_confidence best),
               ad_rationale = ''Founder Score and team evidence are available.'', ad_stance = None\<rparr>)
      | [] \<Rightarrow>
          \<lparr>ad_axis = FOUNDER, ad_score = 50, ad_confidence = fl (20/100),
           ad_rationale = ''No resolved founder profile; cohort prior used without penalty.'',
           ad_stance = None\<rparr>)"

definition count_in :: "ClaimCategory list \<Rightarrow> Claim list \<Rightarrow> nat" where
  "count_in cats cs = length (filter (\<lambda>c. cl_category c \<in> set cats) cs)"

definition market_axis :: "Claim list \<Rightarrow> axis_draft" where
  "market_axis cs =
     (let m = count_in [C_MARKET] cs; t = count_in [C_TRACTION, C_REVENUE] cs
      in \<lparr>ad_axis = MARKET, ad_score = min 80 (fadd (fadd 48 (of_nat (m * 8))) (of_nat (t * 2))),
          ad_confidence = min (fl (75/100)) (fadd (fl (22/100)) (fmul (of_nat m) (fl (15/100)))),
          ad_rationale = ''Market score reflects only evidence-backed market and traction claims.'',
          ad_stance = Some NEUTRAL\<rparr>)"

definition idea_axis :: "Claim list \<Rightarrow> axis_draft" where
  "idea_axis cs =
     (let p = count_in [C_PRODUCT, C_TECHNOLOGY] cs; t = count_in [C_TRACTION, C_REVENUE] cs
      in \<lparr>ad_axis = IDEA_VS_MARKET,
          ad_score = min 80 (fadd (fadd 50 (of_nat (p * 6))) (of_nat (t * 3))),
          ad_confidence = min (fl (75/100))
            (fadd (fadd (fl (25/100)) (fmul (of_nat p) (fl (12/100)))) (fmul (of_nat t) (fl (8/100)))),
          ad_rationale = ''Idea-vs-market score reflects product specificity and demonstrated pull.'',
          ad_stance = None\<rparr>)"

definition axis_history :: "uuid \<Rightarrow> AxisKind \<Rightarrow> db \<Rightarrow> OpportunityScore list" where
  "axis_history opp axis d =
     filter (\<lambda>r. os_opportunity_id r = opp \<and> os_axis r = axis) (opportunity_scores d)"

text \<open>\<open>order_by(version.desc()).limit(1)\<close>.\<close>

definition latest_axis :: "uuid \<Rightarrow> AxisKind \<Rightarrow> db \<Rightarrow> OpportunityScore option" where
  "latest_axis opp axis d =
     (case sort_key (\<lambda>r. - os_version r) (axis_history opp axis d) of [] \<Rightarrow> None | r # _ \<Rightarrow> Some r)"

definition axis_trend :: "rat \<Rightarrow> OpportunityScore option \<Rightarrow> TrendKind" where
  "axis_trend score previous =
     (case previous of None \<Rightarrow> INSUFFICIENT_DATA
      | Some r \<Rightarrow> let delta = fsub score (fl (os_score r))
                  in if \<bar>delta\<bar> < 3 then STABLE else if 0 < delta then IMPROVING else DECLINING)"

definition next_axis_version :: "OpportunityScore option \<Rightarrow> int" where
  "next_axis_version previous = (case previous of None \<Rightarrow> 1 | Some r \<Rightarrow> os_version r + 1)"

definition new_axis_row :: "uuid \<Rightarrow> axis_draft \<Rightarrow> OpportunityScore option \<Rightarrow> uuid \<Rightarrow> OpportunityScore" where
  "new_axis_row opp a previous u =
     \<lparr>os_id = u, os_opportunity_id = opp, os_axis = ad_axis a,
      os_score = dec_str (py_round 2 (ad_score a)), os_confidence = dec_str (py_round 3 (ad_confidence a)),
      os_trend = axis_trend (ad_score a) previous, os_stance = ad_stance a,
      os_rationale = ad_rationale a, os_drivers = [], os_model_version = ''axes-deterministic-v1'',
      os_version = next_axis_version previous\<rparr>"

definition add_axis :: "OpportunityScore \<Rightarrow> db \<Rightarrow> db" where
  "add_axis r d = d\<lparr>opportunity_scores := opportunity_scores d @ [r]\<rparr>"

definition score_axis :: "uuid \<Rightarrow> axis_draft \<Rightarrow> OpportunityScore run" where
  "score_axis opp a =
     andThen (query (latest_axis opp (ad_axis a))) (\<lambda>previous.
     insert_new (new_axis_row opp a previous) add_axis)"

definition score_axes :: "Opportunity \<Rightarrow> Claim list \<Rightarrow> OpportunityScore list run" where
  "score_axes opp cs =
     andThen (query (team_scores (op_company_id opp))) (\<lambda>team.
     map_run (score_axis (op_id opp)) [founder_axis team, market_axis cs, idea_axis cs])"

definition thesis_fit :: "Opportunity \<Rightarrow> Company \<Rightarrow> db \<Rightarrow> rat \<times> string option" where
  "thesis_fit opp company d =
     (case (case op_thesis_id opp of None \<Rightarrow> None | Some t \<Rightarrow> get_row th_id t (theses d)) of
        None \<Rightarrow> (70, None)
      | Some th \<Rightarrow>
          let r = compute_thesis_fit (co_sectors company) (co_stage company) (co_hq_country company)
                    (th_sectors th) (th_anti_sectors th) (th_stages th) (th_geos th) (th_must_haves th)
                    (join '' '' (filter (\<lambda>t. t \<noteq> []) [or_empty (co_one_liner company),
                                                       or_empty (co_description company)]))
          in (fit_score r, fit_gate_reason r))"

section \<open>The memo\<close>

definition critical_contradiction :: "Claim list \<Rightarrow> bool" where
  "critical_contradiction cs =
     list_ex (\<lambda>c. cl_status c = CONTRADICTED \<and> cl_category c \<in> {C_REVENUE, C_TRACTION, C_TEAM}) cs"

definition axis_value_of :: "OpportunityScore \<Rightarrow> AxisValue" where
  "axis_value_of r =
     \<lparr>ax_score = fl (os_score r), ax_confidence = fl (os_confidence r), ax_rationale = os_rationale r\<rparr>"

definition recommendation_of ::
  "OpportunityScore list \<Rightarrow> rat \<Rightarrow> Claim list \<Rightarrow> string option \<Rightarrow> Recommendation" where
  "recommendation_of axes fit cs gate_reason =
     recommend (map axis_value_of axes) fit (critical_contradiction cs)
       (fl (os_confidence (hd axes)) < fl (4/10)) gate_reason"

definition trust_counts :: "Claim list \<Rightarrow> (string \<times> nat) list" where
  "trust_counts cs =
     map (\<lambda>st. (claim_status_value st, length (filter (\<lambda>c. cl_status c = st) cs))) all_claim_status"

definition claim_data_of :: "Claim \<Rightarrow> claim_data" where
  "claim_data_of c =
     \<lparr>cd_id = cl_id c, cd_category = cl_category c, cd_text = cl_text c,
      cd_trust_score = cl_trust_score c\<rparr>"

definition memo_versions :: "uuid \<Rightarrow> db \<Rightarrow> int list" where
  "memo_versions opp d = map memo_version (filter (\<lambda>m. memo_opportunity_id m = opp) (memos d))"

definition next_memo_version :: "uuid \<Rightarrow> db \<Rightarrow> int" where
  "next_memo_version opp d = (case memo_versions opp d of [] \<Rightarrow> 1 | v # vs \<Rightarrow> fold max vs v + 1)"

definition new_memo :: "Opportunity \<Rightarrow> Claim list \<Rightarrow> Recommendation \<Rightarrow> int \<Rightarrow> uuid \<Rightarrow> Memo" where
  "new_memo opp cs r version u =
     (let draft = compose_memo (map claim_data_of cs) (rec_decision r) (rec_rationale r)
      in \<lparr>memo_id = u, memo_org_id = op_org_id opp, memo_opportunity_id = op_id opp,
          memo_version = version, memo_status = ''ready'', memo_sections = md_sections draft,
          memo_recommendation = Some (rec_decision r),
          memo_recommendation_rationale = Some (rec_rationale r),
          memo_adversarial = JObj
            [(''bear_case'', JStr ''Evidence remains incomplete; validate every decision-critical gap.''),
             (''kill_criteria'', JList [JStr ''Critical claim contradicted'', JStr ''Founder identity unresolved'',
                                      JStr ''Thesis hard gate fails''])],
          memo_gaps = md_gaps draft, memo_trust_summary = trust_counts cs,
          memo_word_count = Some (md_word_count draft), memo_generated_ms = Some 0, memo_cost_usd = Some 0,
          memo_model_version = Some ''memo-deterministic-v1'', memo_created_by = None\<rparr>)"

definition add_memo :: "Memo \<Rightarrow> db \<Rightarrow> db" where
  "add_memo m d = d\<lparr>memos := memos d @ [m]\<rparr>"

section \<open>process_job\<close>

text \<open>The first transaction: a job that is gone or cancelled is not run.\<close>

definition start_job :: "env \<Rightarrow> uuid \<Rightarrow> Job option run" where
  "start_job E i =
     andThen (query (\<lambda>d. get_row job_id i (jobs d))) (\<lambda>found.
     case found of None \<Rightarrow> ret None
     | Some j \<Rightarrow>
         if job_status j = CANCELLED then ret None
         else andThen (change (set_job i (\<lambda>j. j\<lparr>job_status := RUNNING, job_started_at := Some (env_now E),
                  job_attempts := job_attempts j + 1, job_heartbeat_at := Some (env_now E)\<rparr>))) (\<lambda>_.
              andThen commit_run (\<lambda>_. ret (Some j))))"

text \<open>\<open>uuid.UUID(text)\<close>: text that is a UUID is \<open>JUuid\<close>.\<close>

fun parse_uuid :: "json \<Rightarrow> exn + uuid" where
  "parse_uuid (JUuid u) = Inr u"
| "parse_uuid (JStr s) = Inl (PyExn ''ValueError'' ''badly formed hexadecimal UUID string'')"
| "parse_uuid j = Inl (PyExn ''AttributeError'' ''object has no attribute replace'')"

definition job_target :: "Job \<Rightarrow> exn + uuid" where
  "job_target job =
     (case job_target_id job of Some t \<Rightarrow> Inr t
      | None \<Rightarrow> (case jget ''opportunity_id'' (job_input job) of
                   None \<Rightarrow> Inl (PyExn ''KeyError'' ''opportunity_id'') | Some j \<Rightarrow> parse_uuid j))"

definition need :: "string \<Rightarrow> 'a option \<Rightarrow> 'a run" where
  "need msg x = (case x of None \<Rightarrow> throw (PyExn ''RuntimeError'' msg) | Some a \<Rightarrow> ret a)"

text \<open>The row that a key of the job's input names, if it names one.\<close>

definition named_row :: "string \<Rightarrow> Job \<Rightarrow> (uuid \<Rightarrow> db \<Rightarrow> 'a option) \<Rightarrow> 'a option run" where
  "named_row k job get =
     (case jget_truthy k (job_input job) of None \<Rightarrow> ret None
      | Some j \<Rightarrow> andThen (lift (parse_uuid j)) (\<lambda>u. query (get u)))"

definition open_case :: "env \<Rightarrow> Job \<Rightarrow> (Opportunity \<times> Company \<times> Application option) run" where
  "open_case E job =
     andThen (lift (job_target job)) (\<lambda>i.
     andThen (query (\<lambda>d. get_row op_id i (opportunities d))) (\<lambda>o1.
     andThen (need ''opportunity missing'' o1) (\<lambda>opp.
     andThen (query (\<lambda>d. get_row co_id (op_company_id opp) (companies d))) (\<lambda>c1.
     andThen (need ''company missing'' c1) (\<lambda>company.
     andThen (change (set_opportunity E i (\<lambda>p. p\<lparr>op_stage := SCREENING\<rparr>))) (\<lambda>_.
     andThen (named_row ''application_id'' job (\<lambda>u d. get_row app_id u (applications d))) (\<lambda>app.
     andThen (when_some app (\<lambda>a. change (set_application (app_id a) (\<lambda>a. a\<lparr>app_status := PARSING\<rparr>)))) (\<lambda>_.
     andThen commit_run (\<lambda>_. ret (opp, company, app))))))))))"

definition prescreen :: "uuid \<Rightarrow> unit run" where
  "prescreen opp =
     andThen (query (\<lambda>d. get_row ps_opportunity_id opp (prescreen_results d))) (\<lambda>existing.
     case existing of Some _ \<Rightarrow> ret ()
     | None \<Rightarrow> andThen (change (\<lambda>d. d\<lparr>prescreen_results := prescreen_results d @
                 [\<lparr>ps_opportunity_id = opp, ps_passed = True, ps_rules_fired = [], ps_latency_ms = 1, ps_cost_usd = 0\<rparr>]\<rparr>)) (\<lambda>_. commit_run))"

definition gather_claims :: "env \<Rightarrow> Job \<Rightarrow> Opportunity \<Rightarrow> Claim list run" where
  "gather_claims E job opp =
     andThen (query (claims_of (op_id opp))) (\<lambda>existing.
     andThen (named_row ''document_id'' job (\<lambda>u d. get_row doc_id u (documents d))) (\<lambda>document.
     case document of None \<Rightarrow> ret existing
     | Some document \<Rightarrow>
         andThen (parse_and_extract E document opp) (\<lambda>cs. andThen commit_run (\<lambda>_. ret cs))))"

definition fit_and_recommend ::
  "env \<Rightarrow> Opportunity \<Rightarrow> Company \<Rightarrow> Claim list \<Rightarrow> OpportunityScore list \<Rightarrow> Recommendation run" where
  "fit_and_recommend E opp company cs axes =
     andThen (query (thesis_fit opp company)) (\<lambda>(fit, gate_reason).
     andThen (change (set_opportunity E (op_id opp) (\<lambda>p. p\<lparr>op_thesis_fit := Some (dec_str fit)\<rparr>))) (\<lambda>_.
     ret (recommendation_of axes fit cs gate_reason)))"

definition write_memo ::
  "env \<Rightarrow> Opportunity \<Rightarrow> Application option \<Rightarrow> Claim list \<Rightarrow> Recommendation \<Rightarrow> Memo run" where
  "write_memo E opp app cs r =
     andThen (query (next_memo_version (op_id opp))) (\<lambda>version.
     andThen (insert_new (new_memo opp cs r version) add_memo) (\<lambda>memo.
     andThen (change (set_opportunity E (op_id opp) (\<lambda>p. p\<lparr>op_stage := DECISION,
                op_screened_at := Some (env_now E), op_memo_ready_at := Some (env_now E),
                op_version := op_version p + 1\<rparr>))) (\<lambda>_.
     andThen (when_some app (\<lambda>a. change (set_application (app_id a)
                (\<lambda>a. a\<lparr>app_status := IN_DILIGENCE\<rparr>)))) (\<lambda>_.
     andThen commit_run (\<lambda>_. ret memo)))))"

definition job_result_of :: "Opportunity \<Rightarrow> Memo \<Rightarrow> Recommendation \<Rightarrow> json" where
  "job_result_of opp memo r =
     JObj [(''opportunity_id'', JUuid (op_id opp)), (''memo_id'', JUuid (memo_id memo)),
           (''recommendation'', JStr (decision_value (rec_decision r)))]"

definition succeed :: "env \<Rightarrow> json \<Rightarrow> Job \<Rightarrow> Job" where
  "succeed E result j =
     j\<lparr>job_status := SUCCEEDED, job_progress := 100, job_current_step := Some ''done'',
       job_finished_at := Some (env_now E), job_result := result\<rparr>"

definition finish_job :: "env \<Rightarrow> uuid \<Rightarrow> json \<Rightarrow> unit run" where
  "finish_job E j result =
     andThen (change (set_job j (succeed E result))) (\<lambda>_.
     andThen (add_step (pipeline_step j 6 ''done'' 100 ''Decision-support package is ready.'' result)) (\<lambda>_.
     commit_run))"

definition claims_message :: "Claim list \<Rightarrow> string" where
  "claims_message cs = ''Extracted '' @ str_nat (length cs) @ '' evidence-backed claims.''"

definition analyse :: "env \<Rightarrow> Job \<Rightarrow> json run" where
  "analyse E job =
     andThen (open_case E job) (\<lambda>(opp, company, app).
     andThen (step E (job_id job) 1 ''prescreen'' 8 ''Mechanical prescreen completed.'') (\<lambda>_.
     andThen (prescreen (op_id opp)) (\<lambda>_.
     andThen (gather_claims E job opp) (\<lambda>cs.
     andThen (step E (job_id job) 2 ''extract_claims'' 32 (claims_message cs)) (\<lambda>_.
     andThen (score_axes opp cs) (\<lambda>axes.
     andThen commit_run (\<lambda>_.
     andThen (step E (job_id job) 3 ''score_axes'' 58
                ''Three independent axes scored without averaging.'') (\<lambda>_.
     andThen (fit_and_recommend E opp company cs axes) (\<lambda>r.
     andThen (step E (job_id job) 4 ''thesis_and_recommend'' 72
                ''Thesis fit and recommendation computed.'') (\<lambda>_.
     andThen (write_memo E opp app cs r) (\<lambda>memo.
     andThen (step E (job_id job) 5 ''memo'' 95
                ''Evidence-backed memo generated; gaps marked not disclosed.'') (\<lambda>_.
     ret (job_result_of opp memo r)))))))))))))"

text \<open>The handler of an exception. After a database error the session cannot commit: the failure is not
  recorded and the error leaves the worker.\<close>

definition fail_job :: "env \<Rightarrow> uuid \<Rightarrow> exn \<Rightarrow> unit run" where
  "fail_job E i e =
     andThen (change (set_job i (\<lambda>j. j\<lparr>job_status := FAILED,
         job_error_code := Some (map upper_char (exn_name e)),
         job_error_message := Some (take 1000 (exn_str e)), job_finished_at := Some (env_now E)\<rparr>))) (\<lambda>_.
     if e = IntegrityError
     then throw (PyExn ''PendingRollbackError'' ''This Session's transaction has been rolled back'')
     else commit_run)"

definition catch :: "'a run \<Rightarrow> (exn \<Rightarrow> 'a run) \<Rightarrow> 'a run" where
  "catch m h s = (case m s of (Inl e, s') \<Rightarrow> h e s' | (Inr x, s') \<Rightarrow> (Inr x, s'))"

text \<open>The \<open>try\<close> block: the harvest hands its jobs on, any other kind is analysed.\<close>

definition run_started :: "env \<Rightarrow> Job \<Rightarrow> unit run" where
  "run_started E job =
     catch
       (if job_kind job = ''ingest.harvest'' then
          andThen (process_harvest E job) (\<lambda>children. each children (dispatch_job E))
        else andThen (analyse E job) (finish_job E (job_id job)))
       (fail_job E (job_id job))"

definition process_job :: "env \<Rightarrow> uuid \<Rightarrow> unit run" where
  "process_job E i =
     andThen (start_job E i) (\<lambda>started. when_some started (run_started E))"

section \<open>What the worker keeps\<close>

lemma safe_set_opportunity:
  assumes "\<And>p. op_id (f p) = op_id p" "\<And>p. op_first_signal_at (f p) = op_first_signal_at p"
    "\<And>p. op_sla_deadline_at (f p) = op_sla_deadline_at p" "\<And>p. op_org_id (f p) = op_org_id p"
    "\<And>p. op_company_id (f p) = op_company_id p"
  shows "history_kept d (set_opportunity E i f d)"
  using assms by (auto simp: history_kept_def set_opportunity_def)

lemma keeps_add_step [kept]: "hist.keeps (add_step st)"
  unfolding add_step_def by (auto intro!: hist_intros simp: history_kept_def)

lemma keeps_set_job [simp]: "history_kept d (set_job i f d)"
  by (simp add: history_kept_def set_job_def)

lemma keeps_step [kept]: "hist.keeps (step E j n a p m)"
  unfolding step_def by (auto intro!: hist_intros kept)

lemma frame_hist: "frame.keeps m \<Longrightarrow> hist.keeps m"
  by (rule fund_hist [of undefined], rule frame_fund)

lemma keeps_ensure_deck_source [kept]: "hist.keeps ensure_deck_source"
  unfolding ensure_deck_source_def
  by (auto intro!: hist_intros simp: history_kept_def add_source_def split: option.split)

lemma keeps_create_claim [kept]: "hist.keeps (create_claim E opp src doc item)"
  unfolding create_claim_def
  by (auto intro!: hist_intros simp: history_kept_def add_claim_def add_evidence_def)

lemma keeps_document_text [kept]: "hist.keeps (document_text E doc)"
  unfolding document_text_def
  by (auto intro!: hist_intros simp: history_kept_def store_pages_def set_document_def)

lemma keeps_parse [kept]: "hist.keeps (parse_and_extract E doc opp)"
  unfolding parse_and_extract_def by (auto intro!: hist_intros kept)

lemma keeps_score_axes [kept]: "hist.keeps (score_axes opp cs)"
  unfolding score_axes_def score_axis_def
  by (auto intro!: hist_intros simp: history_kept_def add_axis_def)

lemma keeps_named_row [kept]: "hist.keeps (named_row k job get)"
  unfolding named_row_def by (auto intro!: hist_intros split: option.split)

lemma keeps_need [kept]: "hist.keeps (need m x)"
  by (simp add: need_def split: option.split)

lemma keeps_open_case [kept]: "hist.keeps (open_case E job)"
  unfolding open_case_def
  by (auto intro!: hist_intros kept safe_set_opportunity simp: history_kept_def set_application_def)

lemma keeps_prescreen [kept]: "hist.keeps (prescreen i)"
  unfolding prescreen_def
  by (auto intro!: hist_intros simp: history_kept_def split: option.split)

lemma keeps_gather [kept]: "hist.keeps (gather_claims E job opp)"
  unfolding gather_claims_def by (auto intro!: hist_intros kept split: option.split)

lemma keeps_fit [kept]: "hist.keeps (fit_and_recommend E opp c cs axes)"
  unfolding fit_and_recommend_def
  by (auto intro!: hist_intros safe_set_opportunity split: prod.split)

lemma keeps_write_memo [kept]: "hist.keeps (write_memo E opp app cs r)"
  unfolding write_memo_def
  by (auto intro!: hist_intros safe_set_opportunity
      simp: history_kept_def add_memo_def set_application_def)

lemma keeps_analyse [kept]: "hist.keeps (analyse E job)"
  unfolding analyse_def by (auto intro!: hist_intros kept split: prod.split)

text \<open>A \<open>try\<close> block and the loop over the harvested items respect what their parts respect.\<close>

context db_order
begin

lemma keeps_catch [intro]:
  assumes "keeps m" and "\<And>e. keeps (h e)"
  shows "keeps (catch m h)"
  unfolding keeps_def
proof
  fix s
  obtain r s1 where 1: "m s = (r, s1)" by fastforce
  note k1 = keepsD [OF assms(1) 1]
  show "R (s_db s) (s_db (snd (catch m h s))) \<and>
      (s_committed (snd (catch m h s)) = s_committed s
       \<or> R (s_db s) (s_committed (snd (catch m h s))))"
  proof (cases r)
    case (Inl e)
    obtain r2 s2 where 2: "h e s1 = (r2, s2)" by fastforce
    show ?thesis using k1 keepsD [OF assms(2) 2] order_trans
      by (auto simp: catch_def 1 Inl 2)
  next
    case (Inr x)
    then show ?thesis using k1 by (simp add: catch_def 1)
  qed
qed

lemma keeps_harvest_items:
  assumes "\<And>item. keeps (harvest_item E org src ch item)"
  shows "keeps (harvest_items E org src ch items acc)"
proof (induction items arbitrary: acc)
  case Nil
  have "harvest_items E org src ch [] acc = ret (None, acc)"
    by (rule ext) (simp add: ret_def)
  then show ?case by simp
next
  case (Cons item items)
  show ?case unfolding keeps_def
  proof
    fix s
    obtain r s1 where 1: "harvest_item E org src ch item s = (r, s1)" by fastforce
    note k1 = keepsD [OF assms 1]
    have k2: "R (s_db s1) (s_db s2) \<and> (s_committed s2 = s_committed s1 \<or> R (s_db s1) (s_committed s2))"
      if "harvest_items E org src ch items acc' s1 = (r2, s2)" for acc' r2 s2
      using keepsD [OF Cons.IH that] .
    show "R (s_db s) (s_db (snd (harvest_items E org src ch (item # items) acc s))) \<and>
        (s_committed (snd (harvest_items E org src ch (item # items) acc s)) = s_committed s \<or>
         R (s_db s) (s_committed (snd (harvest_items E org src ch (item # items) acc s))))"
    proof (cases r)
      case (Inl e)
      then show ?thesis using k1 by (simp add: 1)
    next
      case (Inr jo)
      define acc' where "acc' = (case jo of None \<Rightarrow> acc | Some j \<Rightarrow> acc @ [j])"
      obtain r2 s2 where 2: "harvest_items E org src ch items acc' s1 = (r2, s2)" by fastforce
      have "harvest_items E org src ch (item # items) acc s = (r2, s2)"
        using Inr 2 by (simp add: 1 acc'_def split: option.splits)
      then show ?thesis using k1 k2 [OF 2] order_trans by auto
    qed
  qed
qed

end

lemma keeps_resolve [kept]: "hist.keeps (resolve_outbound_signal E g src ch)"
  by (rule fund_hist [of "case sig_org_id g of Some x \<Rightarrow> x | None \<Rightarrow> 0"], rule safe_resolve)
    (simp split: option.split)

lemma keeps_harvest_item [kept]: "hist.keeps (harvest_item E org src ch item)"
  unfolding harvest_item_def
  by (auto intro!: hist_intros kept simp: history_kept_def add_job_def bump_discovered_def)

lemma hist_harvest_items [kept]: "hist.keeps (harvest_items E org src ch items acc)"
  by (rule hist.keeps_harvest_items) (rule keeps_harvest_item)

lemma keeps_harvest_key [kept]: "hist.keeps (harvest_key E job q limit key)"
  unfolding harvest_key_def degrade_def ensure_source_def ensure_channel_def
  by (auto intro!: hist_intros kept simp: history_kept_def set_source_def add_source_def
      split: option.split sum.split prod.split exn.split)

lemma keeps_harvest_loop [kept]: "hist.keeps (harvest_loop E job q limit n seq keys cs fs)"
  by (induction keys arbitrary: seq cs fs) (auto intro!: hist_intros kept simp: Let_def)

lemma keeps_process_job [kept]: "hist.keeps (process_job E i)"
  unfolding process_job_def start_job_def run_started_def fail_job_def finish_job_def
    process_harvest_def dispatch_job_def Let_def
  by (auto intro!: hist_intros kept hist.keeps_catch split: option.split prod.split)

text \<open>C10: the worker never rewrites history. Whatever job it runs, whatever happens inside and however
  it ends, every opportunity keeps its fund, its company, its first signal time and its deadline
  (the 24 hour clock is never reset), and the ledgers of founder events, axis scores, evidence and
  audit records only grow.\<close>

theorem worker_keeps_history:
  "history_kept d (fst (snd (request (process_job E i) d)))"
  by (rule hist.keeps_request) (rule keeps_process_job)

section \<open>How a job ends\<close>

text \<open>The step numbers of a job. A computation is calm when it raises no database error and leaves the steps
  and the job identifiers alone; \<open>leads j a m b\<close> says the same of a computation that takes the
  steps of \<open>j\<close> from \<open>a\<close> to \<open>b\<close>, unless it raises.\<close>

definition steps_of :: "uuid \<Rightarrow> db \<Rightarrow> nat list" where
  "steps_of j d = map st_seq (filter (\<lambda>st. st_job_id st = j) (agent_steps d))"

definition calm :: "'a run \<Rightarrow> bool" where
  "calm m \<longleftrightarrow> (\<forall>s. fst (m s) \<noteq> Inl IntegrityError
     \<and> agent_steps (s_db (snd (m s))) = agent_steps (s_db s)
     \<and> map job_id (jobs (s_db (snd (m s)))) = map job_id (jobs (s_db s)))"

definition leads :: "uuid \<Rightarrow> nat list \<Rightarrow> 'a run \<Rightarrow> nat list \<Rightarrow> bool" where
  "leads j a m b \<longleftrightarrow> (\<forall>s. steps_of j (s_db s) = a \<longrightarrow> fst (m s) \<noteq> Inl IntegrityError
     \<and> (\<forall>x. fst (m s) = Inr x \<longrightarrow> steps_of j (s_db (snd (m s))) = b)
     \<and> map job_id (jobs (s_db (snd (m s)))) = map job_id (jobs (s_db s)))"

lemma calm_basic [intro, simp]:
  "calm (ret x)" "calm (query f)" "calm commit_run" "e \<noteq> IntegrityError \<Longrightarrow> calm (throw e)"
  "r \<noteq> Inl IntegrityError \<Longrightarrow> calm (lift r)"
  by (simp_all add: calm_def ret_def query_def commit_run_def throw_def lift_run)

lemma calm_change:
  "(\<And>d. agent_steps (f d) = agent_steps d \<and> map job_id (jobs (f d)) = map job_id (jobs d)) \<Longrightarrow> calm (change f)"
  by (simp add: calm_def change_def)

lemma calm_insert:
  "(\<And>r d. agent_steps (put r d) = agent_steps d \<and> map job_id (jobs (put r d)) = map job_id (jobs d)) \<Longrightarrow>
     calm (insert_new mk put)"
  by (simp add: calm_def insert_new_run)

lemma calm_andThen:
  assumes "calm m" "\<And>x. calm (f x)" shows "calm (andThen m f)"
  unfolding calm_def
proof
  fix s :: session
  obtain r s1 where 1: "m s = (r, s1)" by fastforce
  have a: "r \<noteq> Inl IntegrityError" "agent_steps (s_db s1) = agent_steps (s_db s)"
      "map job_id (jobs (s_db s1)) = map job_id (jobs (s_db s))"
    using assms(1) [unfolded calm_def, rule_format, of s] by (simp_all add: 1)
  show "fst (andThen m f s) \<noteq> Inl IntegrityError
      \<and> agent_steps (s_db (snd (andThen m f s))) = agent_steps (s_db s)
      \<and> map job_id (jobs (s_db (snd (andThen m f s)))) = map job_id (jobs (s_db s))"
    using a assms(2) [unfolded calm_def, rule_format, of _ s1]
    by (cases r) (simp_all add: andThen_def 1)
qed

lemma calm_when_some: "(\<And>a. calm (f a)) \<Longrightarrow> calm (when_some x f)"
  by (simp add: when_some_def split: option.split)

lemma calm_map_run: "(\<And>x. calm (f x)) \<Longrightarrow> calm (map_run f xs)"
  by (induction xs) (auto intro: calm_andThen)

lemmas calm_intros = calm_andThen calm_change calm_insert calm_when_some calm_map_run

lemma leads_calm: "calm m \<Longrightarrow> leads j a m a"
  by (simp add: leads_def calm_def steps_of_def)

lemma leads_andThen:
  assumes "leads j a m b" "\<And>x. leads j b (f x) c" shows "leads j a (andThen m f) c"
  unfolding leads_def
proof (intro allI impI)
  fix s :: session assume s: "steps_of j (s_db s) = a"
  obtain r s1 where 1: "m s = (r, s1)" by fastforce
  have a: "r \<noteq> Inl IntegrityError" "\<And>x. r = Inr x \<Longrightarrow> steps_of j (s_db s1) = b"
      "map job_id (jobs (s_db s1)) = map job_id (jobs (s_db s))"
    using assms(1) [unfolded leads_def, rule_format, OF s] by (auto simp: 1)
  show "fst (andThen m f s) \<noteq> Inl IntegrityError
      \<and> (\<forall>x. fst (andThen m f s) = Inr x \<longrightarrow> steps_of j (s_db (snd (andThen m f s))) = c)
      \<and> map job_id (jobs (s_db (snd (andThen m f s)))) = map job_id (jobs (s_db s))"
  proof (cases r)
    case (Inl e)
    then show ?thesis using a by (simp add: andThen_def 1)
  next
    case (Inr x)
    then show ?thesis using a(3) assms(2) [unfolded leads_def, rule_format, OF a(2) [OF Inr], of x]
      by (simp add: andThen_def 1)
  qed
qed

lemma set_job_ids [simp]: "(\<And>j. job_id (f j) = job_id j) \<Longrightarrow> map job_id (jobs (set_job i f d)) = map job_id (jobs d)"
  by (simp add: set_job_def row_simps)

lemma set_job_steps [simp]: "agent_steps (set_job i f d) = agent_steps d"
  by (simp add: set_job_def)

lemma leads_step:
  assumes "n \<notin> set a" shows "leads j a (step E j n act p msg) (a @ [n])"
proof -
  have "\<not> list_ex (\<lambda>t. st_job_id t = j \<and> st_seq t = n) (agent_steps d)" if "steps_of j d = a" for d
    using that assms by (auto simp: steps_of_def list_ex_iff)
  then show ?thesis
    by (auto simp: leads_def step_def add_step_def run_simps pipeline_step_def)
      (simp_all add: steps_of_def)
qed

text \<open>The readers and the store raise their own exceptions, not database errors.\<close>

definition env_calm :: "env \<Rightarrow> bool" where
  "env_calm E \<longleftrightarrow> (\<forall>k. env_store_get E k \<noteq> Inl IntegrityError) \<and> (\<forall>b. env_pdf E b \<noteq> Inl IntegrityError)"

lemma parse_uuid_calm [simp]: "parse_uuid j \<noteq> Inl IntegrityError"
  by (cases j) simp_all

lemma parse_deck_calm: "env_calm E \<Longrightarrow> parse_deck E data mime \<noteq> Inl IntegrityError"
  by (auto simp: parse_deck_def parse_pdf_def parse_pptx_def pdf_error_def env_calm_def
      split: sum.splits exn.splits if_splits)

lemma calm_parts:
  "calm (need m x)" "calm (named_row k job get)" "calm (prescreen i)"
  "calm (fit_and_recommend E opp c cs axes)" "calm (score_axes opp cs)" "calm (write_memo E opp app cs r)"
  "calm ensure_deck_source" "calm (create_claim E opp src doc item)"
  unfolding need_def named_row_def prescreen_def fit_and_recommend_def score_axes_def score_axis_def
    write_memo_def ensure_deck_source_def create_claim_def
  by (auto intro!: calm_intros split: option.split prod.split
      simp: set_opportunity_def set_application_def add_memo_def add_axis_def add_source_def
        add_claim_def add_evidence_def)

lemma calm_open_case: "calm (open_case E job)"
  unfolding open_case_def
  by (auto intro!: calm_intros calm_parts split: option.split
      simp: job_target_def set_opportunity_def set_application_def)

lemma calm_gather: "env_calm E \<Longrightarrow> calm (gather_claims E job opp)"
  unfolding gather_claims_def parse_and_extract_def document_text_def store_get_def
  by (auto intro!: calm_intros calm_parts split: option.split
      simp: parse_deck_calm store_pages_def set_document_def)
    (simp add: env_calm_def)

lemma leads_analyse:
  assumes "env_calm E" shows "leads (job_id job) [] (analyse E job) [1, 2, 3, 4, 5]"
proof -
  note calm = leads_calm [OF calm_open_case] leads_calm [OF calm_parts(3)]
    leads_calm [OF calm_gather [OF assms]] leads_calm [OF calm_parts(5)] leads_calm [OF calm_parts(4)]
    leads_calm [OF calm_parts(6)] leads_calm [OF calm_basic(3)] leads_calm [OF calm_basic(1)]
  have st: "leads (job_id job) [] (step E (job_id job) 1 a p m) [1]"
    "leads (job_id job) [1] (step E (job_id job) 2 a p m) [1, 2]"
    "leads (job_id job) [1, 2] (step E (job_id job) 3 a p m) [1, 2, 3]"
    "leads (job_id job) [1, 2, 3] (step E (job_id job) 4 a p m) [1, 2, 3, 4]"
    "leads (job_id job) [1, 2, 3, 4] (step E (job_id job) 5 a p m) [1, 2, 3, 4, 5]" for a p m
    using leads_step [of 1 "[]"] leads_step [of 2 "[1]"] leads_step [of 3 "[1, 2]"]
      leads_step [of 4 "[1, 2, 3]"] leads_step [of 5 "[1, 2, 3, 4]"] by simp_all
  show ?thesis unfolding analyse_def
    by (rule leads_andThen calm st | simp only: split_beta)+
qed

text \<open>The end of an analysis that succeeds: the memo, the stage, the last step.\<close>

lemma write_memo_run:
  "write_memo E opp app cs r s =
     (let v = next_memo_version (op_id opp) (s_db s); memo = new_memo opp cs r v (next_uuid (s_db s));
          d1 = set_opportunity E (op_id opp) (\<lambda>p. p\<lparr>op_stage := DECISION,
                op_screened_at := Some (env_now E), op_memo_ready_at := Some (env_now E),
                op_version := op_version p + 1\<rparr>) (add_memo memo ((s_db s)\<lparr>next_uuid := Suc (next_uuid (s_db s))\<rparr>));
          d2 = (case app of None \<Rightarrow> d1
                | Some a \<Rightarrow> set_application (app_id a) (\<lambda>a. a\<lparr>app_status := IN_DILIGENCE\<rparr>) d1)
      in (Inr memo, commit (s\<lparr>s_db := d2\<rparr>)))"
  by (simp add: write_memo_def run_simps when_some_def Let_def split: option.split)

lemma step_Inr:
  "step E j n a p m s = (Inr (), s') \<Longrightarrow>
     opportunities (s_db s') = opportunities (s_db s) \<and> memos (s_db s') = memos (s_db s)"
  by (auto simp: step_def add_step_def run_simps set_job_def split: if_splits)

lemma analyse_Inr:
  assumes "analyse E job s = (Inr res, s')"
  shows "\<exists>opp company app cs r memo s1 s2 s3. open_case E job s = (Inr (opp, company, app), s1)
     \<and> write_memo E opp app cs r s2 = (Inr memo, s3) \<and> history_kept (s_db s1) (s_db s2)
     \<and> step E (job_id job) 5 ''memo'' 95 ''Evidence-backed memo generated; gaps marked not disclosed.'' s3
         = (Inr (), s') \<and> res = job_result_of opp memo r"
proof -
  define rest where "rest = (\<lambda>opp company (app :: Application option).
     andThen (step E (job_id job) 1 ''prescreen'' 8 ''Mechanical prescreen completed.'') (\<lambda>_.
     andThen (prescreen (op_id opp)) (\<lambda>_.
     andThen (gather_claims E job opp) (\<lambda>cs.
     andThen (step E (job_id job) 2 ''extract_claims'' 32 (claims_message cs)) (\<lambda>_.
     andThen (score_axes opp cs) (\<lambda>axes.
     andThen commit_run (\<lambda>_.
     andThen (step E (job_id job) 3 ''score_axes'' 58
                ''Three independent axes scored without averaging.'') (\<lambda>_.
     andThen (fit_and_recommend E opp company cs axes) (\<lambda>r.
     andThen (step E (job_id job) 4 ''thesis_and_recommend'' 72
                ''Thesis fit and recommendation computed.'') (\<lambda>_. ret (cs, r)))))))))))"
  have keep: "hist.keeps (rest opp company app)" for opp company app
    unfolding rest_def by (auto intro!: hist_intros kept)
  have split: "analyse E job = andThen (open_case E job) (\<lambda>(opp, company, app).
      andThen (rest opp company app) (\<lambda>(cs, r).
      andThen (write_memo E opp app cs r) (\<lambda>memo.
      andThen (step E (job_id job) 5 ''memo'' 95 ''Evidence-backed memo generated; gaps marked not disclosed.'') (\<lambda>_.
      ret (job_result_of opp memo r)))))"
    unfolding analyse_def rest_def by (simp add: andThen_assoc_fun andThen_ret_fun)
  obtain x s1 where 1: "open_case E job s = (Inr x, s1)"
    and c1: "(case x of (opp, company, app) \<Rightarrow> andThen (rest opp company app) (\<lambda>(cs, r).
      andThen (write_memo E opp app cs r) (\<lambda>memo.
      andThen (step E (job_id job) 5 ''memo'' 95 ''Evidence-backed memo generated; gaps marked not disclosed.'') (\<lambda>_.
      ret (job_result_of opp memo r))))) s1 = (Inr res, s')"
    using assms unfolding split by (subst (asm) andThen_Inr) blast
  obtain opp company app where x: "x = (opp, company, app)" by (cases x)
  obtain y s2 where 2: "rest opp company app s1 = (Inr y, s2)"
    and c2: "(case y of (cs, r) \<Rightarrow> andThen (write_memo E opp app cs r) (\<lambda>memo.
      andThen (step E (job_id job) 5 ''memo'' 95 ''Evidence-backed memo generated; gaps marked not disclosed.'') (\<lambda>_.
      ret (job_result_of opp memo r)))) s2 = (Inr res, s')"
    using c1 unfolding x prod.case by (subst (asm) andThen_Inr) blast
  obtain cs r where y: "y = (cs, r)" by (cases y)
  obtain memo s3 where 3: "write_memo E opp app cs r s2 = (Inr memo, s3)"
    and c3: "andThen (step E (job_id job) 5 ''memo'' 95 ''Evidence-backed memo generated; gaps marked not disclosed.'') (\<lambda>_.
      ret (job_result_of opp memo r)) s3 = (Inr res, s')"
    using c2 unfolding y prod.case by (subst (asm) andThen_Inr) blast
  obtain u s4 where 4: "step E (job_id job) 5 ''memo'' 95 ''Evidence-backed memo generated; gaps marked not disclosed.'' s3
      = (Inr u, s4)" "ret (job_result_of opp memo r) s4 = (Inr res, s')"
    using c3 by (subst (asm) andThen_Inr) blast
  have "history_kept (s_db s1) (s_db s2)" using hist.keepsD [OF keep 2] by blast
  moreover have "s4 = s'" "res = job_result_of opp memo r" "u = ()" using 4(2) by (simp_all add: ret_def)
  ultimately show ?thesis using 1 3 4(1) unfolding x by blast
qed

lemma open_case_Inr:
  assumes "open_case E job s = (Inr (opp, company, app), s1)"
  shows "job_target job = Inr (op_id opp) \<and> get_row op_id (op_id opp) (opportunities (s_db s)) = Some opp
    \<and> (\<exists>p. get_row op_id (op_id opp) (opportunities (s_db s1)) = Some p)"
proof -
  have "hist.keeps (open_case E job)" by (rule keeps_open_case)
  from hist.keepsD [OF this assms] have kept: "clock_kept (opportunities (s_db s)) (opportunities (s_db s1))"
    by (simp add: history_kept_def)
  obtain i where i: "job_target job = Inr i" "get_row op_id i (opportunities (s_db s)) = Some opp"
    using assms by (auto simp: open_case_def run_simps need_def andThen_ret andThen_throw andThen_Inr ret_def
        split: sum.splits option.splits)
  then have "op_id opp = i" using get_row_Some by fast
  then show ?thesis using i kept by (auto simp: clock_kept_def)
qed

lemma analyse_effect:
  assumes "analyse E job s = (Inr res, s')"
  shows "\<exists>opp p memo r. job_target job = Inr (op_id opp)
    \<and> get_row op_id (op_id opp) (opportunities (s_db s)) = Some opp
    \<and> get_row op_id (op_id opp) (opportunities (s_db s')) = Some p \<and> op_stage p = DECISION
    \<and> memo \<in> set (memos (s_db s')) \<and> memo_opportunity_id memo = op_id opp
    \<and> memo_recommendation memo = Some (rec_decision r) \<and> res = job_result_of opp memo r"
proof -
  obtain opp company app cs r memo s1 s2 s3 where
    1: "open_case E job s = (Inr (opp, company, app), s1)"
    and 2: "write_memo E opp app cs r s2 = (Inr memo, s3)" and h: "history_kept (s_db s1) (s_db s2)"
    and 3: "step E (job_id job) 5 ''memo'' 95 ''Evidence-backed memo generated; gaps marked not disclosed.'' s3
         = (Inr (), s')" and res: "res = job_result_of opp memo r"
    using analyse_Inr [OF assms] by blast
  note o1 = open_case_Inr [OF 1]
  then obtain p where p: "get_row op_id (op_id opp) (opportunities (s_db s2)) = Some p"
    using h by (auto simp: history_kept_def clock_kept_def)
  have st: "opportunities (s_db s') = opportunities (s_db s3)" "memos (s_db s') = memos (s_db s3)"
    using step_Inr [OF 3] by auto
  have "memo \<in> set (memos (s_db s3)) \<and> memo_opportunity_id memo = op_id opp
      \<and> memo_recommendation memo = Some (rec_decision r)"
    using 2 by (auto simp: write_memo_run Let_def new_memo_def add_memo_def set_opportunity_def
        set_application_def split: option.splits)
  moreover have "\<exists>p. get_row op_id (op_id opp) (opportunities (s_db s3)) = Some p \<and> op_stage p = DECISION"
    using 2 p by (auto simp: write_memo_run Let_def add_memo_def set_opportunity_def
        set_application_def row_simps split: option.splits)
  ultimately show ?thesis using o1 res unfolding st by blast
qed

lemma get_row_ids: "map pk rs = map pk rs' \<Longrightarrow> get_row pk k rs \<noteq> None \<Longrightarrow> get_row pk k rs' \<noteq> None"
  by (metis get_row_None image_set)



end
