(* ===== verification/Cursors.thy ===== *)
theory Cursors
  imports Runtime Security
begin

text \<open>
  The pagination cursor of \<open>app/services/utils.py\<close>: a position in the list of opportunities (newest
  first, then by identifier) as URL-safe base64 text, and keyset pagination as an interface: what a
  page function must return for the pages to visit every row exactly once. The bytes of a text are
  its characters; \<open>isoformat\<close> and \<open>fromisoformat\<close> are parameters.
\<close>

section \<open>Base64\<close>

text \<open>\<open>base64.urlsafe_b64encode\<close>: three bytes at a time, padded with \<open>=\<close>.\<close>

definition b64_char :: "nat \<Rightarrow> char" where
  "b64_char n =
     (if n < 26 then char_of (65 + n) else if n < 52 then char_of (71 + n)
      else if n < 62 then char_of (n - 4) else if n = 62 then CHR ''-'' else CHR ''_'')"

fun b64_encode :: "nat list \<Rightarrow> string" where
  "b64_encode [] = []"
| "b64_encode [a] = [b64_char (a div 4), b64_char (a mod 4 * 16), CHR ''='', CHR ''='']"
| "b64_encode [a, b] =
     [b64_char (a div 4), b64_char (a mod 4 * 16 + b div 16), b64_char (b mod 16 * 4), CHR ''='']"
| "b64_encode (a # b # c # bs) =
     b64_char (a div 4) # b64_char (a mod 4 * 16 + b div 16) # b64_char (b mod 16 * 4 + c div 64)
       # b64_char (c mod 64) # b64_encode bs"

text \<open>\<open>base64.urlsafe_b64decode\<close>: both alphabets are read, a character outside them is skipped, and
  padding ends the text. The state is the place in the group of four, the bits left over and the
  number of \<open>=\<close> seen; None is \<open>binascii.Error\<close>.\<close>

definition b64_value :: "char \<Rightarrow> nat option" where
  "b64_value c =
     (let n = (of_char c :: nat)
      in if 65 \<le> n \<and> n \<le> 90 then Some (n - 65) else if 97 \<le> n \<and> n \<le> 122 then Some (n - 71)
         else if 48 \<le> n \<and> n \<le> 57 then Some (n + 4) else if c = CHR ''-'' \<or> c = CHR ''+'' then Some 62
         else if c = CHR ''_'' \<or> c = CHR ''/'' then Some 63 else None)"

fun b64_scan :: "nat \<Rightarrow> nat \<Rightarrow> nat \<Rightarrow> nat list \<Rightarrow> string \<Rightarrow> nat list option" where
  "b64_scan q left pads out [] = (if q = 0 then Some out else None)"
| "b64_scan q left pads out (c # cs) =
     (if c = CHR ''='' then
        (if 2 \<le> q \<and> 4 \<le> q + Suc pads then Some out
         else b64_scan q left (if 2 \<le> q then Suc pads else pads) out cs)
      else case b64_value c of
             None \<Rightarrow> b64_scan q left pads out cs
           | Some v \<Rightarrow>
               if q = 0 then b64_scan 1 v 0 out cs
               else if q = 1 then b64_scan 2 (v mod 16) 0 (out @ [left * 4 + v div 16]) cs
               else if q = 2 then b64_scan 3 (v mod 4) 0 (out @ [left * 16 + v div 4]) cs
               else b64_scan 0 0 0 (out @ [left * 64 + v]) cs)"

definition b64_decode :: "string \<Rightarrow> nat list option" where
  "b64_decode s = b64_scan 0 0 0 [] s"

section \<open>The cursor\<close>

datatype cursor = Cursor (cur_at: datetime) (cur_id: uuid)

text \<open>The order of the rows: the database compares \<open>updated_at\<close>, then the identifier.\<close>

instantiation cursor :: linorder
begin

definition less_cursor_def:
  "c < c' \<longleftrightarrow> cur_at c < cur_at c' \<or> (cur_at c = cur_at c' \<and> cur_id c < cur_id c')"

definition less_eq_cursor_def: "(c :: cursor) \<le> c' \<longleftrightarrow> c < c' \<or> c = c'"

instance
proof
  fix x y z :: cursor
  show "x < y \<longleftrightarrow> x \<le> y \<and> \<not> y \<le> x" by (auto simp: less_cursor_def less_eq_cursor_def)
  show "x \<le> x" by (simp add: less_eq_cursor_def)
  show "x \<le> y \<Longrightarrow> y \<le> z \<Longrightarrow> x \<le> z" by (auto simp: less_cursor_def less_eq_cursor_def)
  show "x \<le> y \<Longrightarrow> y \<le> x \<Longrightarrow> x = y" by (auto simp: less_cursor_def less_eq_cursor_def)
  show "x \<le> y \<or> y \<le> x" by (cases x; cases y) (auto simp: less_cursor_def less_eq_cursor_def)
qed

end

text \<open>\<open>s.rsplit("|", 1)\<close>, \<open>s.rstrip("=")\<close> and the text of a UUID.\<close>

definition rsplit :: "char \<Rightarrow> string \<Rightarrow> (string \<times> string) option" where
  "rsplit c s =
     (if c \<in> set s then Some (rev (tl (dropWhile (\<lambda>x. x \<noteq> c) (rev s))), rev (takeWhile (\<lambda>x. x \<noteq> c) (rev s)))
      else None)"

definition rstrip :: "char \<Rightarrow> string \<Rightarrow> string" where
  "rstrip c s = rev (dropWhile (\<lambda>x. x = c) (rev s))"

definition uuid_of_text :: "string \<Rightarrow> uuid option" where
  "uuid_of_text s = (if s \<noteq> [] \<and> list_all is_digit s then Some (nat_of_digits 0 s) else None)"

definition encode_cursor :: "(datetime \<Rightarrow> string) \<Rightarrow> datetime \<Rightarrow> uuid \<Rightarrow> string" where
  "encode_cursor fmt at_time row =
     rstrip (CHR ''='') (b64_encode (map of_char (fmt at_time @ ''|'' @ str_nat row)))"

definition invalid_cursor :: exn where
  "invalid_cursor = PyExn ''ValueError'' ''invalid cursor''"

fun value_error :: "exn \<Rightarrow> bool" where
  "value_error (PyExn c m) = (c = ''ValueError'' \<or> c = ''UnicodeDecodeError'')"
| "value_error _ = False"

text \<open>\<open>-len(cursor) % 4\<close> padding characters.\<close>

definition padded :: "string \<Rightarrow> string" where
  "padded s = s @ replicate ((4 - length s mod 4) mod 4) (CHR ''='')"

definition decode_cursor :: "env \<Rightarrow> string \<Rightarrow> exn + datetime \<times> string" where
  "decode_cursor E s =
     (case b64_decode (padded s) of
        None \<Rightarrow> Inl invalid_cursor
      | Some bytes \<Rightarrow>
          (case rsplit (CHR ''|'') (map char_of bytes) of
             None \<Rightarrow> Inl invalid_cursor
           | Some (stamp, row) \<Rightarrow>
               (case env_fromiso E stamp of
                  Inl e \<Rightarrow> Inl (if value_error e then invalid_cursor else e)
                | Inr t \<Rightarrow> Inr (t, row))))"

text \<open>What the list does with the cursor it is given.\<close>

definition parse_cursor :: "env \<Rightarrow> string \<Rightarrow> exn + cursor" where
  "parse_cursor E s =
     (let bad = App (ValidationError ''Invalid pagination cursor.'')
      in case decode_cursor E s of
           Inl e \<Rightarrow> Inl (if value_error e then bad else e)
         | Inr (t, row) \<Rightarrow> (case uuid_of_text row of None \<Rightarrow> Inl bad | Some u \<Rightarrow> Inr (Cursor t u)))"

section \<open>Encoding and decoding\<close>

lemma code_of_char: "k < 256 \<Longrightarrow> (of_char (char_of k :: char) :: nat) = k" for k :: nat
  by simp

lemma b64_value_char: "n < 64 \<Longrightarrow> b64_value (b64_char n) = Some n \<and> b64_char n \<noteq> CHR ''=''"
proof -
  assume "n < 64"
  then consider "n < 26" | "26 \<le> n" "n < 52" | "52 \<le> n" "n < 62" | "n = 62" | "n = 63" by linarith
  moreover have "b64_char n \<noteq> CHR ''=''" if "(of_char (b64_char n) :: nat) \<noteq> 61" using that by auto
  moreover have "48 \<le> n - 4 \<and> n - 4 \<le> 57" if "52 \<le> n" "n < 62" using that by arith
  ultimately show ?thesis by cases (simp_all add: b64_char_def b64_value_def code_of_char Let_def)
qed

lemma scan_char:
  assumes "n < 64"
  shows "b64_scan q left pads out (b64_char n # cs) =
    (if q = 0 then b64_scan 1 n 0 out cs
     else if q = 1 then b64_scan 2 (n mod 16) 0 (out @ [left * 4 + n div 16]) cs
     else if q = 2 then b64_scan 3 (n mod 4) 0 (out @ [left * 16 + n div 4]) cs
     else b64_scan 0 0 0 (out @ [left * 64 + n]) cs)"
  using b64_value_char [OF assms] by simp

lemma scan_pad:
  "b64_scan q left pads out (CHR ''='' # cs) =
     (if 2 \<le> q \<and> 4 \<le> q + Suc pads then Some out
      else b64_scan q left (if 2 \<le> q then Suc pads else pads) out cs)"
  by simp

declare b64_scan.simps(2) [simp del]

lemma b64_not_pad: "n < 64 \<Longrightarrow> CHR ''='' \<noteq> b64_char n"
  using b64_value_char by fastforce

lemma mul_add_div: "p < k \<Longrightarrow> (m * k + p) div k = m \<and> (m * k + p) mod k = p" for m p k :: nat
proof -
  assume p: "p < k"
  then have "k \<noteq> 0" by simp
  from div_mult_self3 [OF this, of m p] p show ?thesis
    by (simp only: div_less mod_mult_self3 mod_less add_0_right simp_thms)
qed

lemma last_take: "0 < n \<Longrightarrow> n \<le> length xs \<Longrightarrow> last (take n xs) = xs ! (n - 1)"
  by (subst last_conv_nth) auto

text \<open>The sextets of two neighbouring bytes.\<close>

lemma sextets:
  fixes a b c :: nat assumes "a < 256" "b < 256" "c < 256"
  shows "a div 4 < 64" "a mod 4 * 16 + b div 16 < 64" "b mod 16 * 4 + c div 64 < 64"
    "(a mod 4 * 16 + b div 16) div 16 = a mod 4" "(a mod 4 * 16 + b div 16) mod 16 = b div 16"
    "(b mod 16 * 4 + c div 64) div 4 = b mod 16" "(b mod 16 * 4 + c div 64) mod 4 = c div 64"
    "a div 4 * 4 + a mod 4 = a" "b div 16 * 16 + b mod 16 = b" "c div 64 * 64 + c mod 64 = c"
proof -
  have a: "a div 4 < 64" "a mod 4 < 4" and b: "b div 16 < 16" "b mod 16 < 16" and c: "c div 64 < 4"
    using assms by (simp_all add: less_mult_imp_div_less)
  from a b show "a div 4 < 64" "a mod 4 * 16 + b div 16 < 64" by linarith+
  from b c show "b mod 16 * 4 + c div 64 < 64" by linarith
  show "(a mod 4 * 16 + b div 16) div 16 = a mod 4" "(a mod 4 * 16 + b div 16) mod 16 = b div 16"
    using mul_add_div [OF b(1), of "a mod 4"] by simp_all
  show "(b mod 16 * 4 + c div 64) div 4 = b mod 16" "(b mod 16 * 4 + c div 64) mod 4 = c div 64"
    using mul_add_div [OF c, of "b mod 16"] by simp_all
qed (simp_all add: div_mult_mod_eq)

lemma b64_round:
  assumes "\<forall>x \<in> set bs. x < 256"
  shows "b64_scan 0 0 0 out (b64_encode bs) = Some (out @ bs)"
  using assms
proof (induction bs arbitrary: out rule: b64_encode.induct)
  case (2 a)
  then have "a < 256" by simp
  note x = sextets(1,2,4,8) [OF this, of 0 0, simplified]
  have y: "a mod 4 * 16 < 64" by simp
  show ?case using x by (simp add: scan_char [OF x(1)] scan_char [OF y] scan_pad)
next
  case (3 a b)
  then have a: "a < 256" "b < 256" by simp_all
  note x = sextets [OF a, of 0, simplified]
  have y: "b mod 16 * 4 < 64" by simp
  show ?case using x by (simp add: scan_char [OF sextets(1) [OF a, of 0]] scan_char [OF sextets(2) [OF a, of 0]]
      scan_char [OF y] scan_pad)
next
  case (4 a b c bs)
  then have x: "a < 256" "b < 256" "c < 256" by simp_all
  have y: "c mod 64 < 64" by simp
  show ?case using sextets [OF x] "4.IH" "4.prems"
    by (simp add: scan_char [OF sextets(1) [OF x]] scan_char [OF sextets(2) [OF x]]
        scan_char [OF sextets(3) [OF x]] scan_char [OF y])
qed simp

lemma b64_shape:
  assumes "\<forall>x \<in> set bs. x < 256"
  shows "\<exists>core k. b64_encode bs = core @ replicate k (CHR ''='') \<and> k < 3 \<and> CHR ''='' \<notin> set core
    \<and> (length core + k) mod 4 = 0"
  using assms
proof (induction bs rule: b64_encode.induct)
  case (2 a)
  then have a: "a < 256" by simp
  have y: "a mod 4 * 16 < 64" by simp
  show ?case using b64_not_pad [OF sextets(1) [OF a, of 0 0]] b64_not_pad [OF y]
    by (intro exI [of _ "[b64_char (a div 4), b64_char (a mod 4 * 16)]"] exI [of _ 2]) (simp add: numeral_2_eq_2)
next
  case (3 a b)
  then have a: "a < 256" "b < 256" by simp_all
  have y: "b mod 16 * 4 < 64" by simp
  show ?case using b64_not_pad [OF sextets(1) [OF a, of 0]] b64_not_pad [OF sextets(2) [OF a, of 0]] b64_not_pad [OF y]
    by (intro exI [of _ "[b64_char (a div 4), b64_char (a mod 4 * 16 + b div 16), b64_char (b mod 16 * 4)]"]
        exI [of _ 1]) simp
next
  case (4 a b c bs)
  then obtain core k where ih: "b64_encode bs = core @ replicate k (CHR ''='')" "k < 3" "CHR ''='' \<notin> set core"
      "(length core + k) mod 4 = 0" by auto
  have x: "a < 256" "b < 256" "c < 256" using 4 by simp_all
  have y: "c mod 64 < 64" by simp
  have "(length core + k + 4) mod 4 = 0" using ih(4) by simp
  with ih show ?case
    using b64_not_pad [OF sextets(1) [OF x]] b64_not_pad [OF sextets(2) [OF x]] b64_not_pad [OF sextets(3) [OF x]]
      b64_not_pad [OF y]
    by (intro exI [of _ "b64_char (a div 4) # b64_char (a mod 4 * 16 + b div 16)
          # b64_char (b mod 16 * 4 + c div 64) # b64_char (c mod 64) # core"] exI [of _ k])
      (simp add: add.commute add.left_commute)
qed auto

lemma missing_mod_4:
  fixes n k :: nat assumes "k < 3" "(n + k) mod 4 = 0"
  shows "(4 - n mod 4) mod 4 = k"
proof -
  have m: "n mod 4 < 4" by simp
  have "(n mod 4 + k) mod 4 = 0" using assms(2) by (simp only: mod_add_left_eq)
  moreover have "n mod 4 \<in> {0, 1, 2, 3}" using m by auto
  moreover have "k \<in> {0, 1, 2}" using assms(1) by auto
  ultimately show ?thesis by (elim insertE emptyE) simp_all
qed

lemma padded_rstrip:
  assumes "\<forall>x \<in> set bs. x < 256"
  shows "padded (rstrip (CHR ''='') (b64_encode bs)) = b64_encode bs"
proof -
  from b64_shape [OF assms] obtain core k where s: "b64_encode bs = core @ replicate k (CHR ''='')"
      "k < 3" "CHR ''='' \<notin> set core" "(length core + k) mod 4 = 0" by auto
  have "rstrip (CHR ''='') (core @ replicate k (CHR ''='')) = core"
  proof -
    have "dropWhile (\<lambda>x. x = CHR ''='') (rev core) = rev core"
      using s(3) by (subst dropWhile_eq_self_iff) (metis hd_rev last_in_set rev_is_Nil_conv)
    then have "dropWhile (\<lambda>x. x = CHR ''='') (replicate k (CHR ''='') @ rev core) = rev core"
      by (induction k) simp_all
    then show ?thesis by (simp add: rstrip_def)
  qed
  moreover have "(4 - length core mod 4) mod 4 = k" using s(2,4) by (rule missing_mod_4)
  ultimately show ?thesis by (simp add: s(1) padded_def)
qed

lemma rsplit_last: "c \<notin> set b \<Longrightarrow> rsplit c (a @ c # b) = Some (a, b)"
proof -
  assume c: "c \<notin> set b"
  then have "takeWhile (\<lambda>x. x \<noteq> c) (rev b @ c # rev a) = rev b" "dropWhile (\<lambda>x. x \<noteq> c) (rev b @ c # rev a) = c # rev a"
    by (auto simp: takeWhile_append dropWhile_append)
  then show ?thesis by (simp add: rsplit_def)
qed

lemma nat_of_digits_append: "nat_of_digits n (s @ t) = nat_of_digits (nat_of_digits n s) t"
  by (induction s arbitrary: n) simp_all

lemma uuid_of_text_str [simp]: "uuid_of_text (str_nat n) = Some n"
proof -
  have "nat_of_digits 0 (str_nat n) = n"
  proof (induction n rule: str_nat.induct)
    case (1 n)
    show ?case
    proof (cases "n < 10")
      case False
      then have "nat_of_digits 0 (str_nat (n div 10)) = n div 10" using 1 by simp
      then show ?thesis using False by (subst str_nat.simps) (simp add: nat_of_digits_append)
    qed (subst str_nat.simps, simp)
  qed
  moreover have "str_nat n \<noteq> []" by (subst str_nat.simps) simp
  ultimately show ?thesis by (simp add: uuid_of_text_def list_all_iff str_nat_digits)
qed

lemma cursor_round_trips:
  assumes iso: "env_fromiso E (fmt t) = Inr t"
  shows "decode_cursor E (encode_cursor fmt t row) = Inr (t, str_nat row)
    \<and> parse_cursor E (encode_cursor fmt t row) = Inr (Cursor t row)"
proof -
  let ?bs = "map of_char (fmt t @ ''|'' @ str_nat row) :: nat list"
  have b: "\<forall>x \<in> set ?bs. x < 256" by auto
  have "b64_decode (padded (encode_cursor fmt t row)) = Some ?bs"
    unfolding encode_cursor_def padded_rstrip [OF b] b64_decode_def using b64_round [OF b, of "[]"] by simp
  moreover have "map char_of ?bs = fmt t @ CHR ''|'' # str_nat row"
    unfolding map_map comp_def char_of_char list.map_ident by simp
  moreover have "CHR ''|'' \<notin> set (str_nat row)"
    using str_nat_digits [of "CHR ''|''" row] by (auto simp: is_digit_def less_eq_char_def)
  ultimately have "decode_cursor E (encode_cursor fmt t row) = Inr (t, str_nat row)"
    using iso by (simp add: decode_cursor_def rsplit_last)
  then show ?thesis by (simp add: parse_cursor_def)
qed

text \<open>C39: a cursor read back is the position it was made from. For any time whose ISO text
  \<open>fromisoformat\<close> reads back, whatever characters that text has, and any row, decoding the encoded
  cursor (base64 with the padding stripped and restored, split at the last bar) gives exactly them.\<close>

theorem cursor_round_trip:
  assumes "env_fromiso E (fmt t) = Inr t"
  shows "decode_cursor E (encode_cursor fmt t row) = Inr (t, str_nat row)
    \<and> parse_cursor E (encode_cursor fmt t row) = Inr (Cursor t row)"
  using assms by (rule cursor_round_trips)

theorem cursor_round_trip_witness:
  "parse_cursor demo_env (encode_cursor (\<lambda>_. ''1970-01-01T00:00:00+00:00'') 0 42) = Inr (Cursor 0 42)"
  using cursor_round_trip [of demo_env "\<lambda>_. ''1970-01-01T00:00:00+00:00''" 0 42] by (simp add: demo_env_def)

section \<open>Keyset pagination\<close>

text \<open>Following the cursors: the pages from one position on, at most \<open>n\<close> of them.\<close>

fun walk :: "('k option \<Rightarrow> 'r list \<times> 'k option) \<Rightarrow> nat \<Rightarrow> 'k option \<Rightarrow> 'r list" where
  "walk page 0 c = []"
| "walk page (Suc n) c =
     (let (rs, next_c) = page c
      in rs @ (case next_c of None \<Rightarrow> [] | Some k \<Rightarrow> walk page n (Some k)))"

text \<open>What a page function promises of a database \<open>d\<close> that is in order: the rows after the position, in
  descending order of their keys, at most \<open>limit\<close> of them, and the key of the last one as the next
  position when there are more.\<close>

locale keyset =
  fixes valid :: "'d \<Rightarrow> bool" and key :: "'r \<Rightarrow> 'k::linorder" and rows :: "'d \<Rightarrow> 'r list" and limit :: nat
    and page :: "'d \<Rightarrow> 'k option \<Rightarrow> 'r list \<times> 'k option"
  assumes descending: "valid d \<Longrightarrow> sorted_wrt (\<lambda>r s. key s < key r) (rows d)"
    and limit_pos: "valid d \<Longrightarrow> 0 < limit"
    and page_first: "valid d \<Longrightarrow> page d None =
      (take limit (rows d), if limit < length (rows d) then Some (key (rows d ! (limit - 1))) else None)"
    and page_next: "valid d \<Longrightarrow> page d (Some k) =
      (let rs = filter (\<lambda>r. key r < k) (rows d)
       in (take limit rs, if limit < length rs then Some (key (rs ! (limit - 1))) else None))"
begin

lemma after_last:
  assumes "valid d" "rows d = seen @ rest" "seen \<noteq> []"
  shows "filter (\<lambda>r. key r < key (last seen)) (rows d) = rest"
proof -
  obtain xs x where s: "seen = xs @ [x]" using assms(3) by (cases seen rule: rev_cases) auto
  have d: "sorted_wrt (\<lambda>r s. key s < key r) (xs @ x # rest)" using descending [OF assms(1)] by (simp add: assms(2) s)
  then have "filter (\<lambda>r. key r < key x) xs = []" "filter (\<lambda>r. key r < key x) rest = rest"
    by (auto simp: sorted_wrt_append filter_empty_conv filter_id_conv)
  then show ?thesis by (simp add: assms(2) s)
qed

lemma walk_rest:
  assumes "valid d" "rows d = seen @ rest" "seen \<noteq> []" "length rest \<le> n * limit"
  shows "rest = [] \<or> walk (page d) n (Some (key (last seen))) = rest"
  using assms(2-)
proof (induction n arbitrary: seen rest)
  case (Suc n)
  have p: "page d (Some (key (last seen))) =
      (take limit rest, if limit < length rest then Some (key (rest ! (limit - 1))) else None)"
    unfolding page_next [OF assms(1)] after_last [OF assms(1) Suc.prems(1,2)] Let_def by (rule refl)
  show ?case
  proof (cases "limit < length rest")
    case True
    let ?seen = "seen @ take limit rest"
    have l: "last ?seen = rest ! (limit - 1)" using True limit_pos [OF assms(1)] last_take [of limit rest]
      by (subst last_appendR) auto
    have "rows d = ?seen @ drop limit rest" "?seen \<noteq> []" using Suc.prems by simp_all
    moreover have "length (drop limit rest) \<le> n * limit" using Suc.prems(3) by simp
    ultimately have "drop limit rest = [] \<or> walk (page d) n (Some (key (last ?seen))) = drop limit rest"
      by (rule Suc.IH)
    then show ?thesis using p True l append_take_drop_id [of limit rest] by (simp add: not_less)
  qed (simp add: p)
qed simp

lemma walk_all:
  assumes "valid d" "length (rows d) < n * limit"
  shows "walk (page d) n None = rows d"
proof (cases n)
  case (Suc m)
  note limit_pos = limit_pos [OF assms(1)] and n = assms(2)
  show ?thesis
  proof (cases "limit < length (rows d)")
    case True
    let ?seen = "take limit (rows d)"
    have "last ?seen = rows d ! (limit - 1)" using True limit_pos last_take [of limit "rows d"] by auto
    moreover have "rows d = ?seen @ drop limit (rows d)" "?seen \<noteq> []" "length (drop limit (rows d)) \<le> m * limit"
      using True limit_pos n Suc by auto
    then have "drop limit (rows d) = [] \<or> walk (page d) m (Some (key (last ?seen))) = drop limit (rows d)"
      by (rule walk_rest [OF assms(1)])
    ultimately show ?thesis using True Suc page_first [OF assms(1)] append_take_drop_id [of limit "rows d"]
      by (simp add: not_less)
  qed (simp add: page_first [OF assms(1)] Suc)
qed (use assms in simp)

end

end
