(* ===== verification/Contracts.thy ===== *)
theory Contracts
  imports Principals Ingestion
begin

text \<open>
  Two contracts that the request handlers of several resources share. A row is looked up by its
  identifier and the caller's fund, so a row of another fund is as good as absent. A row with a
  version is changed only by a request whose \<open>If-Match\<close> header names its current version, and a
  change raises the version: of two writers that read the same version one loses, and changes nothing.
\<close>

section \<open>Rows of one fund\<close>

locale fund_row =
  fixes look :: "uuid \<Rightarrow> uuid \<Rightarrow> db \<Rightarrow> 'r option" and rows :: "db \<Rightarrow> 'r list"
    and pk :: "'r \<Rightarrow> uuid" and owner :: "'r \<Rightarrow> uuid"
  assumes look_own: "look org i d = Some r \<Longrightarrow> r \<in> set (rows d) \<and> pk r = i \<and> owner r = org"
    and look_all: "look org i d = None \<Longrightarrow> r \<in> set (rows d) \<Longrightarrow> pk r = i \<Longrightarrow> owner r \<noteq> org"
begin

lemma look_unique:
  assumes "distinct (map pk (rows d))" "r \<in> set (rows d)"
  shows "look org (pk r) d = (if owner r = org then Some r else None)"
proof (cases "look org (pk r) d")
  case (Some q)
  note own = look_own [OF Some]
  moreover have "q = r" using assms own by (metis get_row_unique option.inject)
  ultimately show ?thesis using Some by simp
qed (use look_all assms in auto)

lemma look_iff: "look org i d \<noteq> None \<longleftrightarrow> list_ex (\<lambda>r. pk r = i \<and> owner r = org) (rows d)"
  unfolding list_ex_iff using look_own look_all by (cases "look org i d") blast+

text \<open>A request for a row of another fund ends as for a row that does not exist, having done nothing.\<close>

lemma foreign_row_hidden:
  assumes "distinct (map pk (rows (s_db s)))" "r \<in> set (rows (s_db s))" "owner r \<noteq> org"
  shows "andThen (query (look org (pk r))) (\<lambda>x. andThen (found name x) f) s
    = (Inl (App (NotFoundError name)), s)"
  using look_unique [OF assms(1,2)] assms(3) by (simp add: run_simps)

end

text \<open>The usual lookup: the first row with the identifier and the fund.\<close>

definition own_row :: "(db \<Rightarrow> 'r list) \<Rightarrow> ('r \<Rightarrow> uuid) \<Rightarrow> ('r \<Rightarrow> uuid) \<Rightarrow> uuid \<Rightarrow> uuid \<Rightarrow> db \<Rightarrow> 'r option" where
  "own_row rows pk owner org i d = first_row (\<lambda>r. pk r = i \<and> owner r = org) (rows d)"

lemma own_row_fund_row: "fund_row (own_row rows pk owner) rows pk owner"
  by unfold_locales (auto simp: own_row_def first_row_None dest: first_row_Some)

lemma own_row_upd:
  assumes "\<And>r. pk (f r) = pk r" "\<And>r. owner (f r) = owner r" "rows d' = upd_row pk j f (rows d)"
  shows "own_row rows pk owner org i d' =
    (if i = j then map_option f (own_row rows pk owner org i d) else own_row rows pk owner org i d)"
  unfolding own_row_def upd_row_def assms(3)
  by (subst first_row_upd)
    (auto simp: assms map_option_case dest: first_row_Some split: option.split)

section \<open>The version header\<close>

text \<open>\<open>if_match is None or if_match.strip('"') != str(version)\<close>.\<close>

definition fresh_version :: "string option \<Rightarrow> int \<Rightarrow> bool" where
  "fresh_version if_match version \<longleftrightarrow>
     (case if_match of None \<Rightarrow> False | Some h \<Rightarrow> strip_by (\<lambda>c. c = CHR 0x22) h = int_str version)"

lemma int_str_inj [simp]: "int_str m = int_str n \<longleftrightarrow> m = n"
proof
  have minus: "CHR ''-'' \<notin> set (str_nat k)" for k
    using str_nat_digits [of "CHR ''-''" k] by (auto simp: is_digit_def less_eq_char_def)
  assume "int_str m = int_str n"
  then show "m = n"
    using minus [of "nat m"] minus [of "nat n"] str_nat_inj
    by (auto simp: int_str_def split: if_splits dest!: str_nat_inj) (metis list.set_intros(1))+
qed simp

lemma fresh_version_unique: "fresh_version h m \<Longrightarrow> fresh_version h n \<Longrightarrow> m = n"
  by (auto simp: fresh_version_def split: option.splits)

lemma fresh_version_None [simp]: "\<not> fresh_version None n"
  by (simp add: fresh_version_def)

locale versioned =
  fixes look :: "db \<Rightarrow> 'r option" and version :: "'r \<Rightarrow> int"
    and patch :: "string option \<Rightarrow> 'u \<Rightarrow> 'a run"
  assumes patch_fresh: "patch h u s = (Inr x, s') \<Longrightarrow>
      \<exists>r. look (s_db s) = Some r \<and> fresh_version h (version r)"
    and patch_raises: "patch h u s = (Inr x, s') \<Longrightarrow> look (s_db s) = Some r \<Longrightarrow>
      \<exists>r'. look (s_db s') = Some r' \<and> version r' = version r + 1"
    and patch_commits: "patch h u s = (Inr x, s') \<Longrightarrow> s_committed s' = s_db s'"
    and patch_stale: "look (s_db s) = Some r \<Longrightarrow> \<not> fresh_version h (version r) \<Longrightarrow>
      \<exists>e. patch h u s = (Inl e, s)"
begin

lemma second_writer_loses:
  assumes "patch h u s = (Inr x, s')" "s_db s2 = s_db s'"
  shows "\<exists>e. patch h u' s2 = (Inl e, s2)"
proof -
  obtain r where r: "look (s_db s) = Some r" "fresh_version h (version r)"
    using patch_fresh [OF assms(1)] by blast
  obtain r' where r': "look (s_db s') = Some r'" "version r' = version r + 1"
    using patch_raises [OF assms(1) r(1)] by blast
  have "\<not> fresh_version h (version r')"
    using fresh_version_unique [OF r(2)] r'(2) by fastforce
  then show ?thesis using patch_stale r'(1) assms(2) by simp
qed

lemma no_lost_update:
  assumes "request (patch h u) d = (Inr x, d1, q)"
  shows "\<exists>e. request (patch h u') d1 = (Inl e, d1, [])"
proof -
  obtain s' where s: "patch h u (open_session d []) = (Inr x, s')" "s_committed s' = d1"
    using assms by (auto simp: request_def split: prod.splits)
  then have "s_db (open_session d1 []) = s_db s'" using patch_commits by (simp add: open_session_def)
  from second_writer_loses [OF s(1) this] obtain e
    where "patch h u' (open_session d1 []) = (Inl e, open_session d1 [])" by blast
  then show ?thesis by (simp add: request_def open_session_def)
qed

text \<open>The versions of \<open>n\<close> successful writes in a row: none is skipped and none is used twice.\<close>

fun writes :: "(string option \<times> 'u) list \<Rightarrow> session \<Rightarrow> session option" where
  "writes [] s = Some s"
| "writes ((h, u) # ws) s = (case patch h u s of (Inl e, s') \<Rightarrow> None | (Inr x, s') \<Rightarrow> writes ws s')"

lemma versions_consecutive:
  assumes "writes ws s = Some s'" "look (s_db s) = Some r"
  shows "\<exists>r'. look (s_db s') = Some r' \<and> version r' = version r + int (length ws)"
  using assms
proof (induction ws arbitrary: s r)
  case (Cons w ws)
  obtain h u where w: "w = (h, u)" by fastforce
  from Cons.prems(1) w obtain x s1 where p: "patch h u s = (Inr x, s1)" "writes ws s1 = Some s'"
    by (auto split: prod.splits sum.splits)
  obtain r1 where "look (s_db s1) = Some r1" "version r1 = version r + 1"
    using patch_raises [OF p(1) Cons.prems(2)] by blast
  then show ?case using Cons.IH [OF p(2)] by auto
qed simp

end

text \<open>The same of two handlers for one row, such as one handler at two times and for two callers.\<close>

lemma two_writers:
  assumes a: "versioned look version patch" and b: "versioned look version patch'"
    and ok: "request (patch h u) d = (Inr x, d1, q)"
  shows "\<exists>e. request (patch' h u') d1 = (Inl e, d1, [])"
proof -
  obtain s' where s: "patch h u (open_session d []) = (Inr x, s')" "s_committed s' = d1"
    using ok by (auto simp: request_def split: prod.splits)
  obtain r where r: "look (s_db (open_session d [])) = Some r" "fresh_version h (version r)"
    using versioned.patch_fresh [OF a s(1)] by blast
  obtain r' where r': "look (s_db s') = Some r'" "version r' = version r + 1"
    using versioned.patch_raises [OF a s(1) r(1)] by blast
  have "s_db s' = d1" using versioned.patch_commits [OF a s(1)] s(2) by simp
  moreover have "\<not> fresh_version h (version r')" using fresh_version_unique [OF r(2)] r'(2) by fastforce
  ultimately obtain e where "patch' h u' (open_session d1 []) = (Inl e, open_session d1 [])"
    using versioned.patch_stale [OF b, of "open_session d1 []" r' h u'] r'(1) by (auto simp: open_session_def)
  then show ?thesis by (simp add: request_def open_session_def)
qed

end
