(* ===== verification/Opportunities.thy ===== *)
theory Opportunities
  imports Pipeline Cursors Contracts
begin

text \<open>
  \<open>app/services/opportunities.py\<close> and \<open>app/routers/opportunities.py\<close>: the cards and the detail of an
  opportunity, the list with its filters, facets and cursor, and the requests that create, change,
  analyse, decide and archive one. The rows of a join come in the order of the first table. \<open>isofmt\<close> is
  \<open>datetime.isoformat\<close>.
\<close>

section \<open>Reading an opportunity\<close>

definition find_opportunity :: "uuid \<Rightarrow> uuid \<Rightarrow> db \<Rightarrow> Opportunity option" where
  "find_opportunity = own_row opportunities op_id op_org_id"

definition get_opportunity :: "uuid \<Rightarrow> uuid \<Rightarrow> Opportunity run" where
  "get_opportunity org i = andThen (query (find_opportunity org i)) (found ''Opportunity'')"

record FounderSummary =
  fm_person_id :: uuid
  fm_name :: string
  fm_founder_score :: "int option"
  fm_founder_score_ci :: "(int \<times> int) option"
  fm_cold_start :: bool

definition founder_summary :: "Person \<Rightarrow> FounderScore option \<Rightarrow> FounderSummary" where
  "founder_summary p sc =
     \<lparr>fm_person_id = per_id p, fm_name = per_display_name p, fm_founder_score = map_option fs_score sc,
      fm_founder_score_ci = map_option (\<lambda>s. (fs_ci_low s, fs_ci_high s)) sc,
      fm_cold_start = (case sc of None \<Rightarrow> True | Some s \<Rightarrow> fs_cold_start s)\<rparr>"

definition founders :: "uuid \<Rightarrow> db \<Rightarrow> FounderSummary list" where
  "founders company d =
     [founder_summary p (get_row fs_person_id (per_id p) (founder_scores d)).
        p \<leftarrow> persons d, a \<leftarrow> affiliations d,
        af_person_id a = per_id p \<and> af_company_id a = company \<and> af_is_founder a]"

text \<open>The newest version of each axis: the rows come newest first, and a later one is not looked at.\<close>

definition axes :: "uuid \<Rightarrow> db \<Rightarrow> AxisKind \<Rightarrow> OpportunityScore option" where
  "axes opp d =
     foldl (\<lambda>latest row. if latest (os_axis row) = None then latest(os_axis row := Some row) else latest)
       (\<lambda>_. None)
       (sort_key (\<lambda>r. - os_version r) (filter (\<lambda>r. os_opportunity_id r = opp) (opportunity_scores d)))"

definition trust_summary :: "uuid \<Rightarrow> db \<Rightarrow> (string \<times> nat) list" where
  "trust_summary opp d =
     map (\<lambda>st. (claim_status_value st,
            length (filter (\<lambda>c. cl_opportunity_id c = Some opp \<and> cl_status c = st) (claims d))))
       all_claim_status"

record SLAOut =
  sla_deadline_at :: datetime
  sla_hours_remaining :: rat
  sla_at_risk :: bool
  sla_breached :: bool

definition total_seconds :: "duration \<Rightarrow> rat" where
  "total_seconds t = fl (of_int t / 1000000)"

definition sla :: "env \<Rightarrow> Opportunity \<Rightarrow> SLAOut" where
  "sla E opp =
     (let left = fdiv (total_seconds (op_sla_deadline_at opp - env_now E)) 3600
      in \<lparr>sla_deadline_at = op_sla_deadline_at opp, sla_hours_remaining = py_round 2 left,
          sla_at_risk = (op_decided_at opp = None \<and> 0 < left \<and> left < 4),
          sla_breached = (op_decided_at opp = None \<and> left \<le> 0)\<rparr>)"

record CompanySummary =
  cs_id :: uuid
  cs_name :: string
  cs_domain :: "string option"
  cs_one_liner :: "string option"
  cs_sectors :: "string list"
  cs_hq_country :: "string option"
  cs_hq_city :: "string option"

definition company_summary :: "Company \<Rightarrow> CompanySummary" where
  "company_summary c =
     \<lparr>cs_id = co_id c, cs_name = co_name c, cs_domain = co_domain c, cs_one_liner = co_one_liner c,
      cs_sectors = co_sectors c, cs_hq_country = co_hq_country c, cs_hq_city = co_hq_city c\<rparr>"

record OpportunityCard =
  cd_opp_id :: uuid
  cd_company :: CompanySummary
  cd_origin :: OpportunityOrigin
  cd_stage :: OpportunityStage
  cd_founders :: "FounderSummary list"
  cd_axes :: "AxisKind \<Rightarrow> OpportunityScore option"
  cd_thesis_fit :: "rat option"
  cd_trust_summary :: "(string \<times> nat) list"
  cd_decision :: "DecisionKind option"
  cd_sla :: SLAOut
  cd_first_signal_at :: datetime
  cd_updated_at :: datetime

definition card_of :: "env \<Rightarrow> Opportunity \<Rightarrow> Company \<Rightarrow> db \<Rightarrow> OpportunityCard" where
  "card_of E opp c d =
     \<lparr>cd_opp_id = op_id opp, cd_company = company_summary c, cd_origin = op_origin opp,
      cd_stage = op_stage opp, cd_founders = founders (co_id c) d, cd_axes = axes (op_id opp) d,
      cd_thesis_fit = op_thesis_fit opp, cd_trust_summary = trust_summary (op_id opp) d,
      cd_decision = op_decision opp, cd_sla = sla E opp, cd_first_signal_at = op_first_signal_at opp,
      cd_updated_at = op_updated_at opp\<rparr>"

definition build_card :: "env \<Rightarrow> Opportunity \<Rightarrow> OpportunityCard run" where
  "build_card E opp =
     andThen (query (\<lambda>d. get_row co_id (op_company_id opp) (companies d))) (\<lambda>r.
     andThen (found ''Company'' r) (\<lambda>c. query (card_of E opp c)))"

record claim_line =
  ln_id :: uuid
  ln_category :: string
  ln_text :: string
  ln_status :: string
  ln_trust_score :: rat

record memo_line =
  mn_id :: uuid
  mn_version :: int
  mn_status :: string
  mn_recommendation :: "string option"

record OpportunityDetail =
  dt_card :: OpportunityCard
  dt_title :: "string option"
  dt_thesis_id :: "uuid option"
  dt_conviction :: "rat option"
  dt_priority_rank :: "rat option"
  dt_sourced_at :: datetime
  dt_screened_at :: "datetime option"
  dt_diligence_started_at :: "datetime option"
  dt_memo_ready_at :: "datetime option"
  dt_decided_at :: "datetime option"
  dt_decision_rationale :: "string option"
  dt_assigned_to :: "uuid option"
  dt_version :: int
  dt_claims :: "claim_line list"
  dt_memo :: "memo_line option"

definition newest_memo :: "uuid \<Rightarrow> db \<Rightarrow> Memo option" where
  "newest_memo opp d =
     (case sort_key (\<lambda>m. - memo_version m) (filter (\<lambda>m. memo_opportunity_id m = opp) (memos d)) of
        [] \<Rightarrow> None | m # _ \<Rightarrow> Some m)"

definition claim_line_of :: "Claim \<Rightarrow> claim_line" where
  "claim_line_of c =
     \<lparr>ln_id = cl_id c, ln_category = category_value (cl_category c), ln_text = cl_text c,
      ln_status = claim_status_value (cl_status c), ln_trust_score = fl (cl_trust_score c)\<rparr>"

definition memo_line_of :: "Memo \<Rightarrow> memo_line" where
  "memo_line_of m =
     \<lparr>mn_id = memo_id m, mn_version = memo_version m, mn_status = memo_status m,
      mn_recommendation = map_option decision_value (memo_recommendation m)\<rparr>"

definition detail_of :: "OpportunityCard \<Rightarrow> Opportunity \<Rightarrow> db \<Rightarrow> OpportunityDetail" where
  "detail_of shown opp d =
     \<lparr>dt_card = shown, dt_title = op_title opp, dt_thesis_id = op_thesis_id opp,
      dt_conviction = op_conviction opp, dt_priority_rank = op_priority_rank opp,
      dt_sourced_at = op_sourced_at opp, dt_screened_at = op_screened_at opp,
      dt_diligence_started_at = op_diligence_started_at opp, dt_memo_ready_at = op_memo_ready_at opp,
      dt_decided_at = op_decided_at opp, dt_decision_rationale = op_decision_rationale opp,
      dt_assigned_to = op_assigned_to opp, dt_version = op_version opp,
      dt_claims = map claim_line_of
        (take 200 (filter (\<lambda>c. cl_opportunity_id c = Some (op_id opp)) (claims d))),
      dt_memo = map_option memo_line_of (newest_memo (op_id opp) d)\<rparr>"

definition build_detail :: "env \<Rightarrow> Opportunity \<Rightarrow> OpportunityDetail run" where
  "build_detail E opp =
     andThen (build_card E opp) (\<lambda>shown. query (detail_of shown opp))"

section \<open>The list\<close>

record list_filter =
  lf_stage :: "OpportunityStage option"
  lf_origin :: "OpportunityOrigin option"
  lf_q :: "string option"
  lf_sla_risk :: bool

text \<open>\<open>lower(column) LIKE '%q%'\<close> on a column that may be NULL; a normal name has no wildcards.\<close>

definition like_name :: "string \<Rightarrow> string option \<Rightarrow> bool" where
  "like_name q column = (case column of None \<Rightarrow> False | Some t \<Rightarrow> contains (normalize_name q) (casefold t))"

definition text_match :: "string option \<Rightarrow> Company \<Rightarrow> bool" where
  "text_match q c \<longleftrightarrow>
     (truthy q \<longrightarrow> like_name (the q) (Some (co_name c)) \<or> like_name (the q) (co_description c))"

definition sla_soon :: "env \<Rightarrow> Opportunity \<Rightarrow> bool" where
  "sla_soon E opp \<longleftrightarrow>
     op_decided_at opp = None \<and> env_now E < op_sla_deadline_at opp
     \<and> op_sla_deadline_at opp < env_now E + hours 4"

definition selected :: "env \<Rightarrow> uuid \<Rightarrow> list_filter \<Rightarrow> db \<Rightarrow> Opportunity \<Rightarrow> bool" where
  "selected E org flt d opp \<longleftrightarrow>
     op_org_id opp = org
     \<and> (case get_row co_id (op_company_id opp) (companies d) of None \<Rightarrow> False | Some c \<Rightarrow> text_match (lf_q flt) c)
     \<and> matches (lf_stage flt) (op_stage opp) \<and> matches (lf_origin flt) (op_origin opp)
     \<and> (lf_sla_risk flt \<longrightarrow> sla_soon E opp)"

definition place :: "Opportunity \<Rightarrow> cursor" where
  "place opp = Cursor (op_updated_at opp) (op_id opp)"

text \<open>\<open>order_by(updated_at.desc(), id.desc())\<close>.\<close>

definition listing :: "env \<Rightarrow> uuid \<Rightarrow> list_filter \<Rightarrow> db \<Rightarrow> Opportunity list" where
  "listing E org flt d = rev (sort_key place (filter (selected E org flt d) (opportunities d)))"

definition page_rows :: "env \<Rightarrow> uuid \<Rightarrow> list_filter \<Rightarrow> cursor option \<Rightarrow> nat \<Rightarrow> db \<Rightarrow> Opportunity list" where
  "page_rows E org flt pos limit d =
     take (limit + 1) (filter (\<lambda>p. case pos of None \<Rightarrow> True | Some c \<Rightarrow> place p < c) (listing E org flt d))"

text \<open>\<open>dict(Counter(values))\<close>: in the order the values are met.\<close>

definition counter :: "string list \<Rightarrow> (string \<times> nat) list" where
  "counter vs = map (\<lambda>v. (v, length (filter ((=) v) vs))) (rev (remdups (rev vs)))"

record OpportunityList =
  ol_items :: "OpportunityCard list"
  ol_next_cursor :: "string option"
  ol_total_estimate :: nat
  ol_stage :: "(string \<times> nat) list"
  ol_origin :: "(string \<times> nat) list"
  ol_decision :: "(string \<times> nat) list"

definition next_cursor :: "(datetime \<Rightarrow> string) \<Rightarrow> nat \<Rightarrow> Opportunity list \<Rightarrow> string option" where
  "next_cursor isofmt limit rs =
     (let shown = take limit rs
      in if limit < length rs \<and> shown \<noteq> []
         then Some (encode_cursor isofmt (op_updated_at (last shown)) (op_id (last shown))) else None)"

definition read_cursor :: "env \<Rightarrow> string option \<Rightarrow> cursor option run" where
  "read_cursor E text =
     (case text of None \<Rightarrow> ret None
      | Some t \<Rightarrow> if t = [] then ret None else andThen (lift (parse_cursor E t)) (\<lambda>c. ret (Some c)))"

definition list_opportunities ::
  "env \<Rightarrow> (datetime \<Rightarrow> string) \<Rightarrow> uuid \<Rightarrow> list_filter \<Rightarrow> string option \<Rightarrow> nat \<Rightarrow> OpportunityList run" where
  "list_opportunities E isofmt org flt cursor limit =
     andThen (read_cursor E cursor) (\<lambda>pos.
     andThen (query (page_rows E org flt pos limit)) (\<lambda>rs.
     andThen (map_run (build_card E) (take limit rs)) (\<lambda>cards.
     query (\<lambda>d.
       \<lparr>ol_items = cards, ol_next_cursor = next_cursor isofmt limit rs,
        ol_total_estimate = length (filter (\<lambda>p. op_org_id p = org) (opportunities d)),
        ol_stage = counter (map (\<lambda>p. stage_value (op_stage p)) (take limit rs)),
        ol_origin = counter (map (\<lambda>p. origin_value (op_origin p)) (take limit rs)),
        ol_decision = counter (map (\<lambda>p. case op_decision p of None \<Rightarrow> ''undecided'' | Some k \<Rightarrow> decision_value k)
                                 (take limit rs))\<rparr>))))"

text \<open>\<open>GET /opportunities\<close>; \<open>limit\<close> lies between 1 and 100.\<close>

definition opportunity_list ::
  "env \<Rightarrow> (datetime \<Rightarrow> string) \<Rightarrow> Principal \<Rightarrow> list_filter \<Rightarrow> string option \<Rightarrow> nat \<Rightarrow> OpportunityList run" where
  "opportunity_list E isofmt pr flt cursor limit =
     andThen (require READ pr) (\<lambda>_. list_opportunities E isofmt (pr_org_id pr) flt cursor limit)"

section \<open>Creating one by hand\<close>

record OpportunityCreate =
  oc_company_id :: "uuid option"
  oc_company_name :: "string option"
  oc_origin :: OpportunityOrigin
  oc_thesis_id :: "uuid option"

text \<open>\<open>exactly_one_company\<close>, and the length of the name.\<close>

definition valid_create :: "OpportunityCreate \<Rightarrow> bool" where
  "valid_create b \<longleftrightarrow>
     (oc_company_id b \<noteq> None) \<noteq> truthy (oc_company_name b)
     \<and> (case oc_company_name b of None \<Rightarrow> True | Some n \<Rightarrow> 1 \<le> length n \<and> length n \<le> 200)"

definition named_company :: "env \<Rightarrow> string \<Rightarrow> Company run" where
  "named_company E name =
     andThen (query (\<lambda>d. first_row (\<lambda>c. co_normalized_name c = normalize_name name) (companies d)))
       (\<lambda>r. case r of Some c \<Rightarrow> ret c
            | None \<Rightarrow> insert_new (new_company name None (JObj []) None True (env_now E)) add_company)"

definition create_manual_opportunity ::
  "env \<Rightarrow> uuid \<Rightarrow> uuid option \<Rightarrow> string option \<Rightarrow> OpportunityOrigin \<Rightarrow> uuid option \<Rightarrow> Opportunity run" where
  "create_manual_opportunity E org company_id company_name origin thesis =
     andThen (case company_id of
                Some i \<Rightarrow> andThen (query (\<lambda>d. get_row co_id i (companies d))) (found ''Company'')
              | None \<Rightarrow> (case company_name of None \<Rightarrow> throw (PyExn ''AssertionError'' [])
                         | Some name \<Rightarrow> named_company E name)) (\<lambda>c.
     andThen (query (live_opportunity org (co_id c))) (\<lambda>existing.
     andThen (check (existing = None)
               (ConflictError ''A live opportunity already exists for this company.'' ''DUPLICATE_OPPORTUNITY'')) (\<lambda>_.
     andThen (query (\<lambda>d. thesis = None \<or> list_ex (\<lambda>t. Some (th_id t) = thesis) (theses d))) (\<lambda>known.
     if known
     then insert_new (new_opportunity org c thesis origin (env_now E) (env_now E)
                        (set_decision_sla_hours (env_settings E))) add_opportunity
     else throw IntegrityError))))"

text \<open>\<open>await session.refresh(opportunity)\<close>.\<close>

definition refreshed :: "Opportunity \<Rightarrow> Opportunity run" where
  "refreshed opp =
     query (\<lambda>d. case get_row op_id (op_id opp) (opportunities d) of None \<Rightarrow> opp | Some p \<Rightarrow> p)"

definition create_opportunity :: "env \<Rightarrow> Principal \<Rightarrow> OpportunityCreate \<Rightarrow> OpportunityDetail run" where
  "create_opportunity E pr body =
     andThen (require SCREEN pr) (\<lambda>_.
     andThen (create_manual_opportunity E (pr_org_id pr) (oc_company_id body) (oc_company_name body)
               (oc_origin body) (oc_thesis_id body)) (\<lambda>opp.
     andThen commit_run (\<lambda>_. andThen (refreshed opp) (build_detail E))))"

definition opportunity_detail :: "env \<Rightarrow> Principal \<Rightarrow> uuid \<Rightarrow> OpportunityDetail run" where
  "opportunity_detail E pr i =
     andThen (require READ pr) (\<lambda>_. andThen (get_opportunity (pr_org_id pr) i) (build_detail E))"

section \<open>Changing one\<close>

text \<open>The fields a PATCH may set: None is a field the body leaves out, Some None an explicit null.\<close>

record OpportunityUpdate =
  ou_assigned_to :: "uuid option option"
  ou_stage :: "OpportunityStage option option"
  ou_title :: "string option option"

definition set_fields :: "OpportunityUpdate \<Rightarrow> Opportunity \<Rightarrow> Opportunity" where
  "set_fields u p =
     p\<lparr>op_assigned_to := (case ou_assigned_to u of None \<Rightarrow> op_assigned_to p | Some a \<Rightarrow> a),
       op_stage := (case ou_stage u of Some (Some st) \<Rightarrow> st | _ \<Rightarrow> op_stage p),
       op_title := (case ou_title u of None \<Rightarrow> op_title p | Some t \<Rightarrow> t)\<rparr>"

text \<open>The columns' constraints at the commit: a stage that is not null, an existing user.\<close>

definition storable :: "OpportunityUpdate \<Rightarrow> db \<Rightarrow> bool" where
  "storable u d \<longleftrightarrow>
     ou_stage u \<noteq> Some None
     \<and> (case ou_assigned_to u of Some (Some a) \<Rightarrow> list_ex (\<lambda>x. usr_id x = a) (users d) | _ \<Rightarrow> True)"

definition stale :: "string \<Rightarrow> app_error" where
  "stale resource = ConflictError (resource @ '' version is stale or If-Match is missing.'') ''STALE_VERSION''"

definition update_opportunity ::
  "env \<Rightarrow> Principal \<Rightarrow> uuid \<Rightarrow> string option \<Rightarrow> OpportunityUpdate \<Rightarrow> OpportunityDetail run" where
  "update_opportunity E pr i if_match body =
     andThen (require SCREEN pr) (\<lambda>_.
     andThen (get_opportunity (pr_org_id pr) i) (\<lambda>opp.
     andThen (check (fresh_version if_match (op_version opp)) (stale ''Opportunity'')) (\<lambda>_.
     andThen (query (storable body)) (\<lambda>ok.
     if \<not> ok then throw IntegrityError
     else andThen (change (set_opportunity E i (\<lambda>p. (set_fields body p)\<lparr>op_version := op_version p + 1\<rparr>))) (\<lambda>_.
          andThen commit_run (\<lambda>_. andThen (refreshed opp) (build_detail E)))))))"

section \<open>Starting a job\<close>

text \<open>The newest application of an opportunity that is being screened names its deck.\<close>

definition newest_application :: "uuid \<Rightarrow> db \<Rightarrow> Application option" where
  "newest_application opp d =
     (case sort_key (\<lambda>a. - app_received_at a) (filter (\<lambda>a. app_opportunity_id a = Some opp) (applications d)) of
        [] \<Rightarrow> None | a # _ \<Rightarrow> Some a)"

definition with_deck :: "Application option \<Rightarrow> json \<Rightarrow> json" where
  "with_deck application inp =
     (case application of None \<Rightarrow> inp
      | Some a \<Rightarrow> (case app_deck_document_id a of None \<Rightarrow> inp
                   | Some doc \<Rightarrow> jset ''application_id'' (JUuid (app_id a)) (jset ''document_id'' (JUuid doc) inp)))"

definition key_required :: app_error where
  "key_required = ValidationError ''Idempotency-Key header is required.''"

definition start_opportunity_job ::
  "env \<Rightarrow> uuid \<Rightarrow> string \<Rightarrow> uuid \<Rightarrow> json \<Rightarrow> string option \<Rightarrow> (uuid \<times> bool) run" where
  "start_opportunity_job E org kind i inp key =
     andThen (check (truthy key) key_required) (\<lambda>_.
     andThen (get_opportunity org i) (\<lambda>_.
     andThen (if kind = ''screen'' then query (newest_application i) else ret None) (\<lambda>application.
     andThen (create_job E org kind ''opportunity'' i (the key) (with_deck application inp)) (\<lambda>(j, replayed).
     andThen commit_run (\<lambda>_.
     andThen (if replayed then ret () else dispatch_job E (job_id j)) (\<lambda>_. ret (job_id j, replayed)))))))"

text \<open>The answer is the job and whether it is a replay, the \<open>Idempotent-Replay\<close> header.\<close>

definition screen_opportunity :: "env \<Rightarrow> Principal \<Rightarrow> uuid \<Rightarrow> bool \<Rightarrow> string option \<Rightarrow> (uuid \<times> bool) run" where
  "screen_opportunity E pr i force key =
     andThen (require SCREEN pr) (\<lambda>_.
     start_opportunity_job E (pr_org_id pr) ''screen'' i (JObj [(''force'', JBool force)]) key)"

definition diligence_opportunity ::
  "env \<Rightarrow> Principal \<Rightarrow> uuid \<Rightarrow> string list \<Rightarrow> string option \<Rightarrow> (uuid \<times> bool) run" where
  "diligence_opportunity E pr i focus key =
     andThen (require SCREEN pr) (\<lambda>_.
     start_opportunity_job E (pr_org_id pr) ''diligence'' i (JObj [(''focus'', JList (map JStr focus))]) key)"

definition memo_opportunity :: "env \<Rightarrow> Principal \<Rightarrow> uuid \<Rightarrow> bool \<Rightarrow> string option \<Rightarrow> (uuid \<times> bool) run" where
  "memo_opportunity E pr i regenerate key =
     andThen (require SCREEN pr) (\<lambda>_.
     start_opportunity_job E (pr_org_id pr) ''memo'' i (JObj [(''regenerate'', JBool regenerate)]) key)"

section \<open>Deciding\<close>

record DecisionRequest =
  dr_decision :: DecisionKind
  dr_rationale :: string

text \<open>\<open>only_human_decisions\<close> and the length of the rationale.\<close>

definition valid_decision :: "DecisionRequest \<Rightarrow> bool" where
  "valid_decision b \<longleftrightarrow>
     dr_decision b \<noteq> NEEDS_HUMAN \<and> 10 \<le> length (dr_rationale b) \<and> length (dr_rationale b) \<le> 5000"

definition decided_with :: "uuid \<Rightarrow> uuid \<Rightarrow> string \<Rightarrow> AuditLog \<Rightarrow> bool" where
  "decided_with org i key a \<longleftrightarrow>
     al_org_id a = Some org \<and> al_action a = ''opportunity.decide'' \<and> al_target_id a = Some i
     \<and> jget ''idempotency_key'' (al_meta a) = Some (JStr key)"

text \<open>\<open>select(count(Evidence.id)).join(Claim)\<close>.\<close>

definition evidence_count :: "uuid \<Rightarrow> db \<Rightarrow> nat" where
  "evidence_count i d =
     length [e. e \<leftarrow> evidence d, c \<leftarrow> claims d, cl_id c = ev_claim_id e \<and> cl_opportunity_id c = Some i]"

definition decision_audit :: "Principal \<Rightarrow> uuid \<Rightarrow> DecisionKind \<Rightarrow> string \<Rightarrow> string option \<Rightarrow> AuditLog" where
  "decision_audit pr i decision key request_id =
     \<lparr>al_org_id = Some (pr_org_id pr), al_actor_user_id = pr_user_id pr, al_actor_kind = pr_kind pr,
      al_action = ''opportunity.decide'', al_target_type = Some ''opportunity'', al_target_id = Some i,
      al_meta = JObj [(''decision'', JStr (decision_value decision)), (''idempotency_key'', JStr key)],
      al_ip = None, al_request_id = request_id\<rparr>"

definition decided :: "env \<Rightarrow> Principal \<Rightarrow> DecisionRequest \<Rightarrow> Opportunity \<Rightarrow> Opportunity" where
  "decided E pr body p =
     p\<lparr>op_decision := Some (dr_decision body), op_decision_rationale := Some (dr_rationale body),
       op_decision_by := pr_user_id pr, op_decided_at := Some (env_now E), op_stage := DECIDED,
       op_version := op_version p + 1\<rparr>"

definition record_decision ::
  "env \<Rightarrow> Principal \<Rightarrow> uuid \<Rightarrow> DecisionRequest \<Rightarrow> string \<Rightarrow> string option \<Rightarrow> unit run" where
  "record_decision E pr i body key request_id =
     andThen (change (set_opportunity E i (decided E pr body))) (\<lambda>_.
     andThen (change (\<lambda>d. d\<lparr>audit_log := audit_log d @ [decision_audit pr i (dr_decision body) key request_id]\<rparr>)) (\<lambda>_.
     andThen (query (\<lambda>d. first_row (\<lambda>a. app_opportunity_id a = Some i) (applications d))) (\<lambda>application.
     when_some application (\<lambda>a. change (set_application (app_id a) (\<lambda>a. a\<lparr>app_status := APP_DECIDED\<rparr>))))))"

definition decide_opportunity ::
  "env \<Rightarrow> Principal \<Rightarrow> uuid \<Rightarrow> DecisionRequest \<Rightarrow> string option \<Rightarrow> string option \<Rightarrow> OpportunityDetail run" where
  "decide_opportunity E pr i body key request_id =
     andThen (require DECIDE pr) (\<lambda>_.
     andThen (check (truthy key) key_required) (\<lambda>_.
     andThen (get_opportunity (pr_org_id pr) i) (\<lambda>opp.
     andThen (check (op_stage opp \<noteq> ARCHIVED)
               (AppError ''UNPROCESSABLE'' ''Archived opportunities cannot be decided.'' 422)) (\<lambda>_.
     andThen (query (\<lambda>d. first_row (decided_with (pr_org_id pr) i (the key)) (audit_log d))) (\<lambda>existing_audit.
     if existing_audit \<noteq> None \<and> op_decision opp \<noteq> None then build_detail E opp
     else andThen (query (evidence_count i)) (\<lambda>n.
          andThen (check (\<not> (dr_decision body = PASS \<and> n = 0))
                    (AppError ''COLD_START_INSUFFICIENT_EVIDENCE''
                       ''A pass decision must cite evidence rather than missing data.'' 422)) (\<lambda>_.
          andThen (record_decision E pr i body (the key) request_id) (\<lambda>_.
          andThen commit_run (\<lambda>_. andThen (refreshed opp) (build_detail E))))))))))"

text \<open>Archiving does not refresh the row, so the detail reads the \<open>updated_at\<close> that the flush expired:
  \<open>lazy_load\<close> says whether the session can load an attribute on access. SQLAlchemy's asyncio session
  cannot, it raises \<open>MissingGreenlet\<close>.\<close>

definition archive_opportunity :: "bool \<Rightarrow> env \<Rightarrow> Principal \<Rightarrow> uuid \<Rightarrow> OpportunityDetail run" where
  "archive_opportunity lazy_load E pr i =
     andThen (require SCREEN pr) (\<lambda>_.
     andThen (get_opportunity (pr_org_id pr) i) (\<lambda>opp.
     andThen (change (set_opportunity E i (\<lambda>p. p\<lparr>op_stage := ARCHIVED, op_version := op_version p + 1\<rparr>))) (\<lambda>_.
     andThen commit_run (\<lambda>_.
     if lazy_load then andThen (refreshed opp) (build_detail E)
     else throw (PyExn ''MissingGreenlet'' ''greenlet_spawn has not been called'')))))"

section \<open>Looking into one\<close>

definition timeline_events :: "Opportunity \<Rightarrow> (string \<times> datetime option) list" where
  "timeline_events p =
     [(''first_signal'', Some (op_first_signal_at p)), (''sourced'', Some (op_sourced_at p)),
      (''screened'', op_screened_at p), (''diligence_started'', op_diligence_started_at p),
      (''memo_ready'', op_memo_ready_at p), (''decided'', op_decided_at p)]"

definition opportunity_timeline :: "Principal \<Rightarrow> uuid \<Rightarrow> (string \<times> datetime) list run" where
  "opportunity_timeline pr i =
     andThen (require READ pr) (\<lambda>_.
     andThen (get_opportunity (pr_org_id pr) i) (\<lambda>p.
     ret (List.map_filter (\<lambda>(name, time). map_option (\<lambda>t. (name, t)) time) (timeline_events p))))"

text \<open>\<open>order_by(axis, version.desc())\<close>; the axes are stored as text.\<close>

definition score_rows :: "uuid \<Rightarrow> db \<Rightarrow> OpportunityScore list" where
  "score_rows i d =
     sort_key (\<lambda>r. axis_value (os_axis r))
       (sort_key (\<lambda>r. - os_version r) (filter (\<lambda>r. os_opportunity_id r = i) (opportunity_scores d)))"

fun first_per_axis :: "AxisKind list \<Rightarrow> OpportunityScore list \<Rightarrow> OpportunityScore list" where
  "first_per_axis seen [] = []"
| "first_per_axis seen (r # rs) =
     (if os_axis r \<in> set seen then first_per_axis seen rs else r # first_per_axis (os_axis r # seen) rs)"

definition opportunity_scores_endpoint ::
  "Principal \<Rightarrow> uuid \<Rightarrow> bool \<Rightarrow> (OpportunityScore list \<times> OpportunityScore list) run" where
  "opportunity_scores_endpoint pr i history =
     andThen (require READ pr) (\<lambda>_.
     andThen (get_opportunity (pr_org_id pr) i) (\<lambda>_.
     andThen (query (score_rows i)) (\<lambda>rs. ret (first_per_axis [] rs, if history then rs else []))))"

text \<open>\<open>order_by(created_at.desc())\<close>: the claims are kept in the order they were created.\<close>

definition opportunity_claims ::
  "Principal \<Rightarrow> uuid \<Rightarrow> ClaimCategory option \<Rightarrow> ClaimStatus option \<Rightarrow> rat \<Rightarrow> Claim list run" where
  "opportunity_claims pr i category status min_trust =
     andThen (require READ pr) (\<lambda>_.
     andThen (get_opportunity (pr_org_id pr) i) (\<lambda>_.
     query (\<lambda>d. rev (filter (\<lambda>c. cl_opportunity_id c = Some i \<and> min_trust \<le> cl_trust_score c
       \<and> matches category (cl_category c) \<and> matches status (cl_status c)) (claims d)))))"

definition claim_evidence :: "Principal \<Rightarrow> uuid \<Rightarrow> uuid \<Rightarrow> Evidence list run" where
  "claim_evidence pr i claim =
     andThen (require READ pr) (\<lambda>_.
     andThen (get_opportunity (pr_org_id pr) i) (\<lambda>_.
     andThen (query (\<lambda>d. first_row (\<lambda>c. cl_id c = claim \<and> cl_opportunity_id c = Some i) (claims d))) (\<lambda>r.
     andThen (found ''Claim'' r) (\<lambda>_. query (\<lambda>d. filter (\<lambda>e. ev_claim_id e = claim) (evidence d))))))"

definition opportunity_trace :: "Principal \<Rightarrow> uuid \<Rightarrow> uuid option \<Rightarrow> AgentStep list run" where
  "opportunity_trace pr i job =
     andThen (require READ pr) (\<lambda>_.
     andThen (get_opportunity (pr_org_id pr) i) (\<lambda>_.
     query (\<lambda>d. filter (\<lambda>st. list_ex (\<lambda>j. job_id j = st_job_id st \<and> job_target_id j = Some i
                                     \<and> job_org_id j = Some (pr_org_id pr)) (jobs d)
                             \<and> matches job (st_job_id st)) (agent_steps d))))"

section \<open>The contracts\<close>

interpretation opp_row: fund_row find_opportunity opportunities op_id op_org_id
  unfolding find_opportunity_def by (rule own_row_fund_row)

lemma get_opportunity_run [run_simps]:
  "andThen (get_opportunity org i) f s =
     (case find_opportunity org i (s_db s) of
        None \<Rightarrow> (Inl (App (NotFoundError ''Opportunity'')), s) | Some p \<Rightarrow> f p s)"
  by (simp add: get_opportunity_def run_simps)

lemma find_set_opportunity:
  assumes "\<And>p. op_id (f p) = op_id p" "\<And>p. op_org_id (f p) = op_org_id p"
  shows "find_opportunity org i (set_opportunity E j f d) =
    (if i = j then map_option (\<lambda>p. (f p)\<lparr>op_updated_at := env_now E\<rparr>) (find_opportunity org i d)
     else find_opportunity org i d)"
  unfolding find_opportunity_def
  by (rule own_row_upd) (simp_all add: assms set_opportunity_def)

text \<open>Reading changes nothing.\<close>

definition reads :: "'a run \<Rightarrow> bool" where
  "reads m \<longleftrightarrow> (\<forall>s. snd (m s) = s)"

lemma reads_intros [intro, simp]:
  "reads (ret x)" "reads (throw e)" "reads (query f)" "reads (lift r)" "reads (found n y)" "reads (check c er)"
  "reads (require p pr)"
  by (simp_all add: reads_def run_simps require_def split: option.split)

lemma reads_andThen [intro]: "reads m \<Longrightarrow> (\<And>x. reads (f x)) \<Longrightarrow> reads (andThen m f)"
  unfolding reads_def andThen_def by (metis (no_types, lifting) prod.case_eq_if snd_conv sum.case_eq_if)

lemma reads_map_run [intro]: "(\<And>x. reads (f x)) \<Longrightarrow> reads (map_run f xs)"
  by (induction xs) auto

lemma readsD: "reads m \<Longrightarrow> m s = (r, s') \<Longrightarrow> s' = s"
  unfolding reads_def by (metis snd_conv)

lemma reads_card [intro, simp]: "reads (build_card E opp)"
  by (auto simp: build_card_def)

lemma reads_detail [intro, simp]: "reads (build_detail E opp)"
  by (auto simp: build_detail_def)

lemma reads_refreshed [intro, simp]: "reads (refreshed opp)"
  by (auto simp: refreshed_def)

lemma reads_refreshed_detail [simp]: "reads (andThen (refreshed opp) (build_detail E))"
  by (rule reads_andThen) auto

lemma set_fields_simps [simp]:
  "op_id (set_fields u p) = op_id p" "op_org_id (set_fields u p) = op_org_id p"
  "op_version (set_fields u p) = op_version p" "op_company_id (set_fields u p) = op_company_id p"
  by (simp_all add: set_fields_def)

lemma update_opportunity_Inr:
  assumes "update_opportunity E pr i h u s = (Inr x, s')"
  shows "\<exists>p. find_opportunity (pr_org_id pr) i (s_db s) = Some p \<and> fresh_version h (op_version p)
    \<and> s_db s' = set_opportunity E i (\<lambda>p. (set_fields u p)\<lparr>op_version := op_version p + 1\<rparr>) (s_db s)
    \<and> s_committed s' = s_db s'"
  using assms
  by (auto simp: update_opportunity_def run_simps andThen_require split: if_splits option.splits
      dest!: readsD [rotated])

interpretation opp_version: versioned "find_opportunity (pr_org_id pr) i" op_version
    "update_opportunity E pr i" for E pr i
proof
  fix h u s x s' r
  assume ok: "update_opportunity E pr i h u s = (Inr x, s')"
  note eff = update_opportunity_Inr [OF ok]
  show "\<exists>r. find_opportunity (pr_org_id pr) i (s_db s) = Some r \<and> fresh_version h (op_version r)"
    using eff by blast
  show "s_committed s' = s_db s'" using eff by blast
  show "\<exists>r'. find_opportunity (pr_org_id pr) i (s_db s') = Some r' \<and> op_version r' = op_version r + 1"
    if "find_opportunity (pr_org_id pr) i (s_db s) = Some r" for r
    using eff that by (auto simp: find_set_opportunity)
qed (simp add: update_opportunity_def run_simps andThen_require)

section \<open>The pages of the list\<close>

definition cursor_page ::
  "env \<Rightarrow> uuid \<Rightarrow> list_filter \<Rightarrow> nat \<Rightarrow> db \<Rightarrow> cursor option \<Rightarrow> Opportunity list \<times> cursor option" where
  "cursor_page E org flt limit d pos =
     (let rs = page_rows E org flt pos limit d; shown = take limit rs
      in (shown, if limit < length rs \<and> shown \<noteq> [] then Some (place (last shown)) else None))"

lemma page_of_take:
  assumes "0 < limit"
  shows "(let rs = take (limit + 1) xs; shown = take limit rs
      in (shown, if limit < length rs \<and> shown \<noteq> [] then Some (f (last shown)) else None))
    = (take limit xs, if limit < length xs then Some (f (xs ! (limit - 1))) else None)"
  using assms by (auto simp: Let_def last_take min_def)

definition ids_distinct :: "nat \<Rightarrow> db \<Rightarrow> bool" where
  "ids_distinct limit d \<longleftrightarrow> distinct (map op_id (opportunities d)) \<and> 0 < limit"

lemma listing_descending:
  assumes "distinct (map op_id (opportunities d))"
  shows "sorted_wrt (\<lambda>r s. place s < place r) (listing E org flt d)"
proof -
  let ?xs = "sort_key place (filter (selected E org flt d) (opportunities d))"
  have "inj_on place (set (opportunities d))"
    using assms by (auto simp: inj_on_def place_def distinct_map)
  then have "distinct (map place ?xs)"
    using assms by (auto simp: distinct_map inj_on_def)
  moreover have "sorted (map place ?xs)" by simp
  ultimately have "sorted_wrt (<) (map place ?xs)"
    by (simp only: strict_sorted_iff)
  then show ?thesis by (simp add: listing_def sorted_wrt_rev sorted_wrt_map)
qed

interpretation opp_list: keyset "ids_distinct limit" place "listing E org flt" limit "cursor_page E org flt limit"
  for E org flt limit
proof
  fix d k assume v: "ids_distinct limit d"
  then show pos: "0 < limit" by (simp add: ids_distinct_def)
  show "sorted_wrt (\<lambda>r s. place s < place r) (listing E org flt d)"
    using v listing_descending by (simp add: ids_distinct_def)
  show "cursor_page E org flt limit d None = (take limit (listing E org flt d),
      if limit < length (listing E org flt d) then Some (place (listing E org flt d ! (limit - 1))) else None)"
    unfolding cursor_page_def page_rows_def option.case filter_True [OF ballI [OF TrueI]]
    by (rule page_of_take [OF pos])
  show "cursor_page E org flt limit d (Some k) =
      (let rs = filter (\<lambda>r. place r < k) (listing E org flt d)
       in (take limit rs, if limit < length rs then Some (place (rs ! (limit - 1))) else None))"
    unfolding cursor_page_def page_rows_def option.case page_of_take [OF pos] by (simp add: Let_def)
qed

text \<open>Every listed opportunity has its company, so building the cards of a page does not fail.\<close>

definition shown_card :: "env \<Rightarrow> db \<Rightarrow> Opportunity \<Rightarrow> OpportunityCard" where
  "shown_card E d p = card_of E p (the (get_row co_id (op_company_id p) (companies d))) d"

lemma build_card_selected:
  "selected E org flt (s_db s) p \<Longrightarrow> build_card E p s = (Inr (shown_card E (s_db s) p), s)"
  by (auto simp: build_card_def run_simps selected_def shown_card_def split: option.splits)

lemma build_cards:
  assumes "\<forall>p \<in> set ps. selected E org flt (s_db s) p"
  shows "map_run (build_card E) ps s = (Inr (map (shown_card E (s_db s)) ps), s)"
  using assms
proof (induction ps)
  case (Cons p ps)
  then have p: "build_card E p s = (Inr (shown_card E (s_db s) p), s)" by (intro build_card_selected [of E org flt]) simp
  show ?case using Cons by (simp add: andThen_goes [where m = "build_card E p", OF p]
        andThen_goes [where m = "map_run (build_card E) ps"] run_simps)
qed (simp add: run_simps)

lemma page_rows_selected: "p \<in> set (page_rows E org flt pos limit d) \<Longrightarrow> selected E org flt d p"
  by (auto simp: page_rows_def listing_def dest!: in_set_takeD)

text \<open>The text of a position.\<close>

definition cursor_text :: "(datetime \<Rightarrow> string) \<Rightarrow> cursor \<Rightarrow> string" where
  "cursor_text isofmt c = encode_cursor isofmt (cur_at c) (cur_id c)"

lemma next_cursor_page:
  "next_cursor isofmt limit (page_rows E org flt pos limit d)
    = map_option (cursor_text isofmt) (snd (cursor_page E org flt limit d pos))"
  by (simp add: next_cursor_def cursor_page_def Let_def cursor_text_def place_def)

lemma list_page:
  assumes "read_cursor E text s = (Inr pos, s)"
  shows "\<exists>l. list_opportunities E isofmt org flt text limit s = (Inr l, s)
    \<and> map cd_opp_id (ol_items l) = map op_id (fst (cursor_page E org flt limit (s_db s) pos))
    \<and> ol_next_cursor l = map_option (cursor_text isofmt) (snd (cursor_page E org flt limit (s_db s) pos))"
proof -
  let ?rs = "page_rows E org flt pos limit (s_db s)"
  have "map_run (build_card E) (take limit ?rs) s = (Inr (map (shown_card E (s_db s)) (take limit ?rs)), s)"
    by (rule build_cards) (auto intro: page_rows_selected dest: in_set_takeD)
  then show ?thesis
    unfolding list_opportunities_def andThen_goes [where m = "read_cursor E text", OF assms] andThen_query
    by (simp add: andThen_goes [where m = "map_run (build_card E) (take limit (page_rows E org flt pos limit (s_db s)))"] run_simps next_cursor_page)
      (simp add: shown_card_def card_of_def comp_def cursor_page_def Let_def)
qed

text \<open>A client that follows \<open>next_cursor\<close> for at most \<open>n\<close> requests and collects the identifiers.\<close>

fun crawl ::
  "env \<Rightarrow> (datetime \<Rightarrow> string) \<Rightarrow> Principal \<Rightarrow> list_filter \<Rightarrow> nat \<Rightarrow> nat \<Rightarrow> string option \<Rightarrow> db \<Rightarrow> exn + uuid list" where
  "crawl E isofmt pr flt limit 0 text d = Inr []"
| "crawl E isofmt pr flt limit (Suc n) text d =
     (case request (opportunity_list E isofmt pr flt text limit) d of
        (Inl e, _) \<Rightarrow> Inl e
      | (Inr l, _) \<Rightarrow>
          (case ol_next_cursor l of
             None \<Rightarrow> Inr (map cd_opp_id (ol_items l))
           | Some t \<Rightarrow> map_sum id ((@) (map cd_opp_id (ol_items l)))
                         (crawl E isofmt pr flt limit n (Some t) d)))"

lemma parse_cursor_empty: "parse_cursor E [] \<noteq> Inr c"
  by (simp add: parse_cursor_def decode_cursor_def padded_def b64_decode_def rsplit_def invalid_cursor_def)

lemma crawl_walk:
  assumes iso: "\<And>t. env_fromiso E (isofmt t) = Inr t" and perm: "has_permission pr READ"
    and at_pos: "\<And>s. read_cursor E tx s = (Inr pos, s)"
  shows "crawl E isofmt pr flt limit n tx d
    = Inr (map op_id (walk (cursor_page E (pr_org_id pr) flt limit d) n pos))"
  using at_pos
proof (induction n arbitrary: tx pos)
  case (Suc n)
  obtain l where l: "list_opportunities E isofmt (pr_org_id pr) flt tx limit (open_session d []) = (Inr l, open_session d [])"
      "map cd_opp_id (ol_items l) = map op_id (fst (cursor_page E (pr_org_id pr) flt limit d pos))"
      "ol_next_cursor l = map_option (cursor_text isofmt) (snd (cursor_page E (pr_org_id pr) flt limit d pos))"
    using list_page [OF Suc.prems, of isofmt "pr_org_id pr" flt limit "open_session d []"]
    by (auto simp: open_session_def)
  have req: "fst (request (opportunity_list E isofmt pr flt tx limit) d) = Inr l"
    using l(1) perm by (simp add: request_def opportunity_list_def andThen_require)
  show ?case
  proof (cases "snd (cursor_page E (pr_org_id pr) flt limit d pos)")
    case None
    then show ?thesis using req l by (auto simp: split_beta split: sum.splits prod.splits)
  next
    case (Some c)
    have rt: "parse_cursor E (cursor_text isofmt c) = Inr c"
      using cursor_round_trips [of E isofmt "cur_at c" "cur_id c"] iso by (simp add: cursor_text_def)
    then have "cursor_text isofmt c \<noteq> []" using parse_cursor_empty by metis
    with rt have "\<And>s. read_cursor E (Some (cursor_text isofmt c)) s = (Inr (Some c), s)"
      by (simp add: read_cursor_def run_simps)
    from Suc.IH [OF this] show ?thesis
      using req l Some by (auto simp: split_beta split: sum.splits prod.splits)
  qed
qed simp

section \<open>What the list, the cards and a decision show\<close>

text \<open>C28: the list shows every opportunity that matches, once. A client that may read, asks for pages
  of any positive size and follows \<open>next_cursor\<close> gets the identifiers of exactly the opportunities of its
  fund that the filters select, most recently updated first, none twice and none left out, and stops.
  The hypotheses: \<open>fromisoformat\<close> reads what \<open>isoformat\<close> writes, identifiers are unique, and the client
  may send one request more than there are full pages.\<close>

theorem list_visits_every_match:
  assumes "\<And>t. env_fromiso E (isofmt t) = Inr t" and "has_permission pr READ"
    and "distinct (map op_id (opportunities d))" and "0 < limit"
    and "length (listing E (pr_org_id pr) flt d) < n * limit"
  shows "crawl E isofmt pr flt limit n None d = Inr (map op_id (listing E (pr_org_id pr) flt d))
    \<and> set (listing E (pr_org_id pr) flt d) = {p \<in> set (opportunities d). selected E (pr_org_id pr) flt d p}
    \<and> distinct (map op_id (listing E (pr_org_id pr) flt d))
    \<and> sorted_wrt (\<lambda>p q. place q < place p) (listing E (pr_org_id pr) flt d)"
proof -
  have "crawl E isofmt pr flt limit n None d
      = Inr (map op_id (walk (cursor_page E (pr_org_id pr) flt limit d) n None))"
    by (rule crawl_walk) (simp_all add: assms(1,2) read_cursor_def run_simps)
  also have "walk (cursor_page E (pr_org_id pr) flt limit d) n None = listing E (pr_org_id pr) flt d"
    by (rule opp_list.walk_all) (simp_all add: ids_distinct_def assms)
  finally show ?thesis
    using listing_descending [OF assms(3)] assms(3)
    by (auto simp: listing_def distinct_map rev_map [symmetric] inj_on_def)
qed

definition demo_opportunity :: "uuid \<Rightarrow> Opportunity" where
  "demo_opportunity u =
     new_opportunity 1 (new_company ''acme'' None (JObj []) None False 0 9) None MANUAL 0 (int u) 24 u"

definition demo_funds :: db where
  "demo_funds = empty_db\<lparr>companies := [new_company ''acme'' None (JObj []) None False 0 9],
     opportunities := map demo_opportunity [3, 4, 5], next_uuid := 10\<rparr>"

definition demo_pr :: "UserRole \<Rightarrow> Principal" where
  "demo_pr role = \<lparr>pr_org_id = 1, pr_user_id = Some 2, pr_role = role, pr_scopes = [],
      pr_token_jti = None, pr_kind = ''user''\<rparr>"

definition unary :: "datetime \<Rightarrow> string" where
  "unary t = (if t < 0 then CHR ''-'' # replicate (nat (- t)) (CHR ''1'') else replicate (nat t) (CHR ''1''))"

definition from_unary :: "string \<Rightarrow> exn + datetime" where
  "from_unary s = Inr (if s \<noteq> [] \<and> hd s = CHR ''-'' then 1 - int (length s) else int (length s))"

lemma unary_round: "from_unary (unary t) = Inr t"
  by (auto simp: unary_def from_unary_def)

theorem list_visits_every_match_witness:
  "crawl (demo_env\<lparr>env_fromiso := from_unary\<rparr>) unary (demo_pr VIEWER)
     \<lparr>lf_stage = None, lf_origin = None, lf_q = None, lf_sla_risk = False\<rparr> 2 2 None demo_funds = Inr [5, 4, 3]"
proof -
  let ?flt = "\<lparr>lf_stage = None, lf_origin = None, lf_q = None, lf_sla_risk = False\<rparr>"
  have l: "map op_id (listing (demo_env\<lparr>env_fromiso := from_unary\<rparr>) (pr_org_id (demo_pr VIEWER)) ?flt demo_funds) = [5, 4, 3]"
    by (simp add: listing_def selected_def demo_funds_def demo_opportunity_def new_opportunity_def new_company_def
        demo_pr_def row_simps text_match_def truthy_def matches_def place_def less_eq_cursor_def less_cursor_def)
  then have "length (listing (demo_env\<lparr>env_fromiso := from_unary\<rparr>) (pr_org_id (demo_pr VIEWER)) ?flt demo_funds) = 3"
    by (subst length_map [of op_id, symmetric], subst l) simp
  moreover have "distinct (map op_id (opportunities demo_funds))" by code_simp
  moreover have "has_permission (demo_pr VIEWER) READ" by code_simp
  ultimately show ?thesis
    using list_visits_every_match [of "demo_env\<lparr>env_fromiso := from_unary\<rparr>" unary "demo_pr VIEWER" demo_funds 2 ?flt 2]
    by (simp add: unary_round l)
qed

lemma filter_sort_latest:
  "find (\<lambda>r. f r = a) (sort_key g xs) = (case sort_key g (filter (\<lambda>r. f r = a) xs) of [] \<Rightarrow> None | r # _ \<Rightarrow> Some r)"
proof -
  have "find P ys = (case filter P ys of [] \<Rightarrow> None | r # _ \<Rightarrow> Some r)" for P :: "'a \<Rightarrow> bool" and ys
    by (induction ys) auto
  then show ?thesis by (simp add: filter_sort)
qed

lemma axes_fold:
  "foldl (\<lambda>latest row. if latest (os_axis row) = None then latest(os_axis row := Some row) else latest) m rs a
    = (case m a of None \<Rightarrow> find (\<lambda>r. os_axis r = a) rs | Some r \<Rightarrow> Some r)"
  by (induction rs arbitrary: m) (auto split: option.split)

text \<open>A card shows what the worker works with. For each axis it shows the row that the worker
  takes as the latest one, with the highest version, and its trust summary has the counts that the memo
  states for the same claims.\<close>

theorem card_agrees_with_worker:
  "cd_axes (card_of E p c d) a = latest_axis (op_id p) a d
    \<and> cd_trust_summary (card_of E p c d) = trust_counts (claims_of (op_id p) d)"
proof
  show "cd_axes (card_of E p c d) a = latest_axis (op_id p) a d"
    by (simp add: card_of_def axes_def axes_fold filter_sort_latest latest_axis_def axis_history_def conj_commute)
  show "cd_trust_summary (card_of E p c d) = trust_counts (claims_of (op_id p) d)"
    by (simp add: card_of_def trust_summary_def trust_counts_def claims_of_def conj_commute)
qed

lemma fl_lower: "of_int m * 2 powi e \<le> x \<Longrightarrow> \<bar>m\<bar> \<le> 2 ^ 53 \<Longrightarrow> - 1074 \<le> e \<Longrightarrow> of_int m * 2 powi e \<le> fl x"
  using fl_mono [of "of_int m * 2 powi e" x] fl_dyadic [of m e] by simp

lemma fl_upper: "x \<le> of_int m * 2 powi e \<Longrightarrow> \<bar>m\<bar> \<le> 2 ^ 53 \<Longrightarrow> - 1074 \<le> e \<Longrightarrow> fl x \<le> of_int m * 2 powi e"
  using fl_mono [of x "of_int m * 2 powi e"] fl_dyadic [of m e] by simp

text \<open>The hours left, a rounded quotient of a rounded quotient, against 0 and 4 hours.\<close>

lemma hours_left_pos: "0 < fdiv (total_seconds t) 3600 \<longleftrightarrow> 0 < t"
proof (cases "0 < t")
  case True
  have "(1::rat) * 2 powi (-20) \<le> of_int t / 1000000" using True by (simp add: power_int_minus field_simps)
  then have 1: "1 * 2 powi (-20) \<le> total_seconds t" using fl_lower [of 1 "-20"] by (simp add: total_seconds_def)
  then have "(1::rat) * 2 powi (-32) \<le> total_seconds t / 3600" by (simp add: power_int_minus field_simps)
  then have "1 * 2 powi (-32) \<le> fdiv (total_seconds t) 3600" using fl_lower [of 1 "-32"] by (simp add: fdiv_def)
  then show ?thesis using True by (auto simp: power_int_minus intro: less_le_trans)
next
  case False
  then have "total_seconds t \<le> 0" using fl_mono [of "of_int t / 1000000" 0] by (simp add: total_seconds_def)
  then have "fdiv (total_seconds t) 3600 \<le> 0" using fl_mono [of "total_seconds t / 3600" 0] by (simp add: fdiv_def)
  then show ?thesis using False by simp
qed

lemma hours_left_four: "fdiv (total_seconds t) 3600 < 4 \<longleftrightarrow> t < hours 4"
proof (cases "t < hours 4")
  case True
  then have "t \<le> 14399999999" by (simp add: time_defs)
  then have "of_int t \<le> (14399999999::rat)" by (metis of_int_le_iff of_int_numeral)
  then have "of_int t / 1000000 \<le> of_int (14400 * 2 ^ 20 - 1) * (2::rat) powi (-20)"
    by (simp add: power_int_minus field_simps)
  then have "total_seconds t \<le> of_int (14400 * 2 ^ 20 - 1) * 2 powi (-20)"
    unfolding total_seconds_def by (rule fl_upper) simp_all
  then have "total_seconds t / 3600 \<le> of_int (2 ^ 34 - 1) * (2::rat) powi (-32)"
    by (simp add: power_int_minus field_simps)
  then have "fdiv (total_seconds t) 3600 \<le> of_int (2 ^ 34 - 1) * 2 powi (-32)"
    unfolding fdiv_def by (rule fl_upper) simp_all
  also have "\<dots> < 4" by (simp add: power_int_minus)
  finally show ?thesis using True by simp
next
  case False
  then have "14400000000 \<le> t" by (simp add: time_defs)
  then have "(14400000000::rat) \<le> of_int t" by (metis of_int_le_iff of_int_numeral)
  then have "(14400::rat) \<le> of_int t / 1000000" by simp
  then have "14400 \<le> total_seconds t" using fl_mono [of 14400] by (simp add: total_seconds_def)
  then have "4 \<le> total_seconds t / 3600" by simp
  then have "4 \<le> fdiv (total_seconds t) 3600" using fl_mono [of 4] by (simp add: fdiv_def)
  then show ?thesis using False by simp
qed

text \<open>The filter and the card agree on what is late. An opportunity is in the list with
  \<open>sla_risk\<close>, which the database decides on exact instants, when its card says \<open>at_risk\<close>, which is computed
  from a number of hours rounded twice; and the card says \<open>breached\<close> exactly when an undecided
  opportunity's deadline is not in the future.\<close>

theorem sla_filter_agrees_with_card:
  "sla_at_risk (sla E p) = sla_soon E p
    \<and> sla_breached (sla E p) = (op_decided_at p = None \<and> op_sla_deadline_at p \<le> env_now E)"
proof -
  have "fdiv (total_seconds t) 3600 \<le> 0 \<longleftrightarrow> t \<le> 0" for t
    using hours_left_pos [of t] by (simp add: not_less [symmetric])
  then show ?thesis
    by (auto simp: sla_def Let_def sla_soon_def hours_left_pos hours_left_four)
qed

section \<open>A decision is made once\<close>

definition decision_db ::
  "env \<Rightarrow> Principal \<Rightarrow> uuid \<Rightarrow> DecisionRequest \<Rightarrow> string \<Rightarrow> string option \<Rightarrow> db \<Rightarrow> db" where
  "decision_db E pr i body key request_id d =
     (let d1 = set_opportunity E i (decided E pr body) d;
          d2 = d1\<lparr>audit_log := audit_log d1 @ [decision_audit pr i (dr_decision body) key request_id]\<rparr>
      in case first_row (\<lambda>a. app_opportunity_id a = Some i) (applications d2) of
           None \<Rightarrow> d2 | Some a \<Rightarrow> set_application (app_id a) (\<lambda>a. a\<lparr>app_status := APP_DECIDED\<rparr>) d2)"

lemma record_decision_run:
  "record_decision E pr i body key request_id s
    = (Inr (), s\<lparr>s_db := decision_db E pr i body key request_id (s_db s)\<rparr>)"
  by (simp add: record_decision_def decision_db_def run_simps when_some_def Let_def split: option.split)

lemma set_application_rest [simp]:
  "opportunities (set_application i f d) = opportunities d" "audit_log (set_application i f d) = audit_log d"
  "evidence (set_application i f d) = evidence d" "claims (set_application i f d) = claims d"
  by (simp_all add: set_application_def)

lemma set_opportunity_rest [simp]:
  "applications (set_opportunity E i f d) = applications d" "audit_log (set_opportunity E i f d) = audit_log d"
  "evidence (set_opportunity E i f d) = evidence d" "claims (set_opportunity E i f d) = claims d"
  "theses (set_opportunity E i f d) = theses d" "memos (set_opportunity E i f d) = memos d"
  "users (set_opportunity E i f d) = users d"
  by (simp_all add: set_opportunity_def)

lemma decision_db_tables [simp]:
  "opportunities (decision_db E pr i body key rid d) = opportunities (set_opportunity E i (decided E pr body) d)"
  "audit_log (decision_db E pr i body key rid d) = audit_log d @ [decision_audit pr i (dr_decision body) key rid]"
  by (simp_all add: decision_db_def Let_def split: option.split)

lemma find_decision_db [simp]:
  "find_opportunity org i (decision_db E pr i body key rid d)
    = map_option (\<lambda>p. (decided E pr body p)\<lparr>op_updated_at := env_now E\<rparr>) (find_opportunity org i d)"
proof -
  have "find_opportunity org i (decision_db E pr i body key rid d)
      = find_opportunity org i (set_opportunity E i (decided E pr body) d)"
    by (simp add: find_opportunity_def own_row_def)
  then show ?thesis by (simp add: find_set_opportunity decided_def)
qed

lemma decided_with_audit [simp]: "decided_with (pr_org_id pr) i key (decision_audit pr i k key rid)"
  by (simp add: decided_with_def decision_audit_def)

lemma decide_Inr:
  assumes "decide_opportunity E pr i body key rid s = (Inr x, s')"
  shows "\<exists>p. has_permission pr DECIDE \<and> truthy key \<and> find_opportunity (pr_org_id pr) i (s_db s) = Some p
    \<and> op_stage p \<noteq> ARCHIVED
    \<and> (op_decision p \<noteq> None \<and> first_row (decided_with (pr_org_id pr) i (the key)) (audit_log (s_db s)) \<noteq> None \<and> s' = s
       \<or> (dr_decision body = PASS \<longrightarrow> 0 < evidence_count i (s_db s))
         \<and> s_db s' = decision_db E pr i body (the key) rid (s_db s) \<and> s_committed s' = s_db s')"
  using assms
  by (auto simp: decide_opportunity_def run_simps andThen_require record_decision_run [THEN andThen_goes]
      split: if_splits option.splits dest!: readsD [rotated])

lemma decide_replay:
  assumes "find_opportunity (pr_org_id pr) i (s_db s) = Some p" "op_stage p \<noteq> ARCHIVED" "op_decision p \<noteq> None"
    "first_row (decided_with (pr_org_id pr) i (the key)) (audit_log (s_db s)) \<noteq> None"
  shows "snd (decide_opportunity E pr i body key rid s) = s"
proof -
  have "snd (build_detail E p s) = s" using reads_detail by (simp add: reads_def)
  then show ?thesis
    using assms by (simp add: decide_opportunity_def run_simps andThen_require)
qed

text \<open>C14: a decision is made once per idempotency key, by someone who may decide, on a live opportunity
  of their fund, and a pass never without evidence. A successful request either replays a
  decision made with its key and changes nothing, or writes the decision it asks for, the stage \<open>DECIDED\<close>,
  the time, the next version and one audit row. Whatever is asked with that key afterwards changes
  nothing.\<close>

theorem decision_made_once:
  assumes "request (decide_opportunity E pr i body key rid) d = (Inr x, d', q)"
  shows "has_permission pr DECIDE
    \<and> (\<exists>p. find_opportunity (pr_org_id pr) i d = Some p \<and> op_stage p \<noteq> ARCHIVED
        \<and> (d' = d \<and> op_decision p \<noteq> None \<and> (\<exists>a \<in> set (audit_log d). decided_with (pr_org_id pr) i (the key) a)
           \<or> (dr_decision body = PASS \<longrightarrow> 0 < evidence_count i d)
             \<and> find_opportunity (pr_org_id pr) i d' =
                 Some (p\<lparr>op_decision := Some (dr_decision body), op_decision_rationale := Some (dr_rationale body),
                         op_decision_by := pr_user_id pr, op_decided_at := Some (env_now E), op_stage := DECIDED,
                         op_version := op_version p + 1, op_updated_at := env_now E\<rparr>)
             \<and> audit_log d' = audit_log d @ [decision_audit pr i (dr_decision body) (the key) rid]))
    \<and> fst (snd (request (decide_opportunity E2 pr i body2 key rid2) d')) = d'"
proof -
  obtain s' where s: "decide_opportunity E pr i body key rid (open_session d []) = (Inr x, s')" "s_committed s' = d'"
    using assms by (auto simp: request_def split: prod.splits)
  have o1: "s_db (open_session d []) = d" "s_committed (open_session d []) = d" for d
    by (simp_all add: open_session_def)
  from decide_Inr [OF s(1)] obtain p where p: "has_permission pr DECIDE"
      "find_opportunity (pr_org_id pr) i d = Some p" "op_stage p \<noteq> ARCHIVED"
      "op_decision p \<noteq> None \<and> first_row (decided_with (pr_org_id pr) i (the key)) (audit_log d) \<noteq> None \<and> d' = d
       \<or> (dr_decision body = PASS \<longrightarrow> 0 < evidence_count i d) \<and> d' = decision_db E pr i body (the key) rid d"
    unfolding o1 using s(2) o1 by metis
  have again: "fst (snd (request (decide_opportunity E2 pr i body2 key rid2) d')) = d'"
    if "find_opportunity (pr_org_id pr) i d' = Some p'" "op_stage p' \<noteq> ARCHIVED" "op_decision p' \<noteq> None"
      "first_row (decided_with (pr_org_id pr) i (the key)) (audit_log d') \<noteq> None" for p'
    using decide_replay [of pr i "open_session d' []" p' key E2 body2 rid2] that
    by (simp add: o1 request_def split_beta)
  from p(4) show ?thesis
  proof
    assume old: "op_decision p \<noteq> None \<and> first_row (decided_with (pr_org_id pr) i (the key)) (audit_log d) \<noteq> None \<and> d' = d"
    then have "\<exists>a \<in> set (audit_log d). decided_with (pr_org_id pr) i (the key) a"
      by (auto dest: first_row_Some)
    then show ?thesis using old p again by metis
  next
    assume new: "(dr_decision body = PASS \<longrightarrow> 0 < evidence_count i d) \<and> d' = decision_db E pr i body (the key) rid d"
    let ?p = "(decided E pr body p)\<lparr>op_updated_at := env_now E\<rparr>"
    have f: "find_opportunity (pr_org_id pr) i d' = Some ?p" using new p(2) by simp
    have "first_row (decided_with (pr_org_id pr) i (the key)) (audit_log d') \<noteq> None"
      using new by (simp add: first_row_None)
    moreover have "op_stage ?p \<noteq> ARCHIVED" "op_decision ?p \<noteq> None" by (simp_all add: decided_def)
    ultimately have "fst (snd (request (decide_opportunity E2 pr i body2 key rid2) d')) = d'"
      using again f by metis
    moreover have "audit_log d' = audit_log d @ [decision_audit pr i (dr_decision body) (the key) rid]" using new by simp
    ultimately show ?thesis using p(1-3) new f unfolding decided_def by auto
  qed
qed

theorem decision_made_once_witness:
  "fst (snd (request (decide_opportunity demo_env (demo_pr PARTNER) 4
      \<lparr>dr_decision = PASS, dr_rationale = ''no second look''\<rparr> (Some ''k'') None)
      (fst (snd (request (decide_opportunity demo_env (demo_pr PARTNER) 4
         \<lparr>dr_decision = INVEST, dr_rationale = ''strong team''\<rparr> (Some ''k'') None) demo_funds)))))
   = fst (snd (request (decide_opportunity demo_env (demo_pr PARTNER) 4
         \<lparr>dr_decision = INVEST, dr_rationale = ''strong team''\<rparr> (Some ''k'') None) demo_funds))"
proof -
  let ?b = "\<lparr>dr_decision = INVEST, dr_rationale = ''strong team''\<rparr>"
  have "\<exists>x s'. decide_opportunity demo_env (demo_pr PARTNER) 4 ?b (Some ''k'') None (open_session demo_funds []) = (Inr x, s')"
    by (simp add: decide_opportunity_def run_simps andThen_require record_decision_run [THEN andThen_goes]
        demo_pr_def has_permission_def truthy_def find_opportunity_def own_row_def first_row_def demo_funds_def
        open_session_def demo_opportunity_def new_opportunity_def new_company_def empty_db_def refreshed_def
        build_detail_def build_card_def row_simps set_opportunity_def decision_db_def upd_row_def upd_where_def
        decided_def Let_def)
  then obtain x d' q where
    r: "request (decide_opportunity demo_env (demo_pr PARTNER) 4 ?b (Some ''k'') None) demo_funds = (Inr x, d', q)"
    by (auto simp: request_def)
  show ?thesis
    using decision_made_once [OF r, of demo_env "\<lparr>dr_decision = PASS, dr_rationale = ''no second look''\<rparr>" None]
    unfolding r by simp
qed

end
