(* ===== verification/Auth.thy ===== *)
theory Auth
  imports Principals
begin

text \<open>
  \<open>app/services/auth.py\<close>: passwords, access and refresh tokens, signing up (with the search for a free
  slug), logging in, rotating and revoking refresh tokens, e-mail tokens. The password hash, the
  JWT library and SHA-256 are parameters; a fresh random token never repeats an earlier one. The
  requests that call these services are in \<open>Accounts\<close>.
\<close>

section \<open>Passwords and tokens\<close>

definition COMMON_PASSWORDS :: "string list" where
  "COMMON_PASSWORDS = [''password1234'', ''123456789012'', ''qwertyuiop12'', ''letmeinplease'']"

text \<open>\<open>email.split("@", 1)[0]\<close>.\<close>

definition local_part :: "string \<Rightarrow> string" where
  "local_part email = casefold (takeWhile (\<lambda>c. c \<noteq> CHR ''@'') email)"

definition validate_password :: "string \<Rightarrow> string \<Rightarrow> app_error + unit" where
  "validate_password pw email =
     (if length pw < 12
      then Inl (ValidationError ''Password must contain at least 12 characters.'')
      else if 4 \<le> length (local_part email) \<and> contains (local_part email) (casefold pw)
      then Inl (ValidationError ''Password must not contain the email local-part.'')
      else if casefold pw \<in> set COMMON_PASSWORDS
      then Inl (ValidationError ''Choose a less common password.'')
      else Inr ())"

text \<open>Raising an application error that pure code returned.\<close>

definition app_lift :: "app_error + 'a \<Rightarrow> 'a run" where
  "app_lift r = (case r of Inl e \<Rightarrow> throw (App e) | Inr x \<Rightarrow> ret x)"

definition hash_token :: "env \<Rightarrow> string \<Rightarrow> string" where
  "hash_token E tok = env_sha256 E tok"

text \<open>\<open>secrets.token_urlsafe(32)\<close>.\<close>

definition token_urlsafe :: "env \<Rightarrow> string run" where
  "token_urlsafe E = on_db (\<lambda>d. (env_token E (next_uuid d), snd (new_uuid d)))"

definition access_payload :: "env \<Rightarrow> User \<Rightarrow> uuid \<Rightarrow> jwt_payload" where
  "access_payload E u jti =
     \<lparr>pl_sub = Some (usr_id u), pl_org = Some (usr_org_id u),
      pl_scopes = sort (map permission_value (ROLE_PERMISSIONS (usr_role u))),
      pl_jti = Some (str_nat jti), pl_typ = ''access'',
      pl_exp = env_now E + minutes (set_access_ttl_min (env_settings E))\<rparr>"

definition build_access_token :: "env \<Rightarrow> auth_env \<Rightarrow> User \<Rightarrow> string run" where
  "build_access_token E A u =
     andThen (on_db new_uuid) (\<lambda>jti. ret (ae_encode A (access_payload E u jti)))"

record IssuedTokens =
  it_access_token :: string
  it_refresh_token :: string
  it_expires_in :: int

definition add_refresh :: "RefreshToken \<Rightarrow> db \<Rightarrow> db" where
  "add_refresh r d = d\<lparr>refresh_tokens := refresh_tokens d @ [r]\<rparr>"

definition new_refresh ::
  "env \<Rightarrow> User \<Rightarrow> string \<Rightarrow> uuid \<Rightarrow> uuid option \<Rightarrow> string option \<Rightarrow> string option \<Rightarrow> uuid \<Rightarrow> RefreshToken" where
  "new_refresh E u raw family parent agent ip i =
     \<lparr>rt_id = i, rt_user_id = usr_id u, rt_token_hash = hash_token E raw, rt_family_id = family,
      rt_parent_id = parent, rt_user_agent = agent, rt_ip = ip,
      rt_expires_at = env_now E + days (set_refresh_ttl_days (env_settings E)),
      rt_revoked_at = None, rt_revoked_reason = None, rt_created_at = env_now E\<rparr>"

definition issue_tokens ::
  "env \<Rightarrow> auth_env \<Rightarrow> User \<Rightarrow> uuid option \<Rightarrow> uuid option \<Rightarrow> string option \<Rightarrow> string option \<Rightarrow> IssuedTokens run" where
  "issue_tokens E A u family parent agent ip =
     andThen (build_access_token E A u) (\<lambda>access.
     andThen (token_urlsafe E) (\<lambda>raw.
     andThen (case family of Some f \<Rightarrow> ret f | None \<Rightarrow> on_db new_uuid) (\<lambda>f.
     andThen (insert_new (new_refresh E u raw f parent agent ip) add_refresh) (\<lambda>_.
     ret \<lparr>it_access_token = access, it_refresh_token = raw,
          it_expires_in = set_access_ttl_min (env_settings E) * 60\<rparr>))))"

section \<open>Signing up\<close>

text \<open>The slug of a new fund: the base, then the base with a growing number, until one is free.\<close>

definition numbered :: "string \<Rightarrow> nat \<Rightarrow> string" where
  "numbered base k = take 70 base @ ''-'' @ str_nat k"

lemma numbered_inj: "numbered base j = numbered base k \<Longrightarrow> j = k"
  by (simp add: numbered_def str_nat_inj)

lemma finite_numbered: "finite {k. n < k \<and> numbered base k \<in> set used}"
proof -
  have "finite (numbered base -` set used)"
    by (rule finite_vimageI) (auto intro: injI numbered_inj)
  then show ?thesis by (rule rev_finite_subset) auto
qed

function slug_search :: "string list \<Rightarrow> string \<Rightarrow> string \<Rightarrow> nat \<Rightarrow> string" where
  "slug_search used base slug n =
     (if slug \<in> set used then slug_search used base (numbered base (Suc n)) (Suc n)
      else slug)"
  by pat_completeness auto

definition slugs_left :: "string list \<times> string \<times> string \<times> nat \<Rightarrow> nat" where
  "slugs_left = (\<lambda>(used, base, slug, n).
     card {k. n < k \<and> numbered base k \<in> set used} + (if slug \<in> set used then 1 else 0))"

lemma slugs_left_Suc:
  "card {k. n < k \<and> numbered base k \<in> set used}
     = card {k. Suc n < k \<and> numbered base k \<in> set used}
       + (if numbered base (Suc n) \<in> set used then 1 else 0)"
proof -
  have "{k. n < k \<and> numbered base k \<in> set used}
      = {k. Suc n < k \<and> numbered base k \<in> set used}
        \<union> (if numbered base (Suc n) \<in> set used then {Suc n} else {})"
    by (auto simp: less_Suc_eq_le Suc_le_eq intro: Suc_lessI)
  then show ?thesis using finite_numbered [of "Suc n" base used] by simp
qed

termination slug_search
proof (relation "measure slugs_left")
  fix used :: "string list" and base slug :: string and n assume "slug \<in> set used"
  then show "((used, base, numbered base (Suc n), Suc n), used, base, slug, n) \<in> measure slugs_left"
    using slugs_left_Suc [of n base used] by (simp add: slugs_left_def)
qed simp

declare slug_search.simps [simp del]

definition possessive :: "string \<Rightarrow> string" where
  "possessive name = name @ [CHR 0x27] @ ''s fund''"

definition fund_name :: "string \<Rightarrow> string option \<Rightarrow> string" where
  "fund_name full_name chosen =
     (if truthy chosen then the chosen else possessive full_name)"

definition add_org :: "Org \<Rightarrow> db \<Rightarrow> db" where
  "add_org g d = d\<lparr>orgs := orgs d @ [g]\<rparr>"

definition add_user :: "User \<Rightarrow> db \<Rightarrow> db" where
  "add_user u d = d\<lparr>users := users d @ [u]\<rparr>"

definition add_thesis :: "Thesis \<Rightarrow> db \<Rightarrow> db" where
  "add_thesis t d = d\<lparr>theses := theses d @ [t]\<rparr>"

definition set_user :: "uuid \<Rightarrow> (User \<Rightarrow> User) \<Rightarrow> db \<Rightarrow> db" where
  "set_user i f d = d\<lparr>users := upd_row usr_id i f (users d)\<rparr>"

definition set_invite :: "uuid \<Rightarrow> (OrgInvite \<Rightarrow> OrgInvite) \<Rightarrow> db \<Rightarrow> db" where
  "set_invite i f d = d\<lparr>org_invites := upd_row inv_id i f (org_invites d)\<rparr>"

text \<open>New rows: the columns not named have their defaults.\<close>

definition new_org :: "string \<Rightarrow> string \<Rightarrow> uuid \<Rightarrow> Org" where
  "new_org name slug i =
     \<lparr>org_id = i, org_name = name, org_slug = slug, org_plan = STANDARD, org_settings = JObj []\<rparr>"

definition new_user :: "uuid \<Rightarrow> string \<Rightarrow> string \<Rightarrow> string \<Rightarrow> UserRole \<Rightarrow> uuid \<Rightarrow> User" where
  "new_user org email pw_hash full_name role i =
     \<lparr>usr_id = i, usr_org_id = org, usr_email = email, usr_password_hash = Some pw_hash,
      usr_full_name = full_name, usr_role = role, usr_is_active = True, usr_email_verified_at = None,
      usr_last_login_at = None, usr_failed_logins = 0, usr_locked_until = None, usr_mfa_secret = None\<rparr>"

definition default_thesis :: "uuid \<Rightarrow> uuid \<Rightarrow> Thesis" where
  "default_thesis org i =
     \<lparr>th_id = i, th_org_id = org, th_name = ''Default early-stage thesis'', th_is_default = True,
      th_sectors = [], th_anti_sectors = [], th_stages = [''pre_seed'', ''seed''], th_geos = [''remote''],
      th_check_size_min = None, th_check_size_max = None, th_currency = ''USD'',
      th_ownership_target_pct = None, th_risk_appetite = 1/2,
      th_weights = [(''founder'', 45/100), (''market'', 30/100), (''idea_vs_market'', 25/100)], th_must_haves = [],
      th_deal_breakers = [], th_notes = None, th_version = 1, th_deleted_at = None\<rparr>"

definition invite_expired :: app_error where
  "invite_expired = AppError ''TOKEN_EXPIRED'' ''Invitation is invalid or expired.'' 401"

text \<open>Where a new user goes: the fund and role of an open invitation, or a new fund as its owner.\<close>

definition join_invite :: "env \<Rightarrow> string \<Rightarrow> string \<Rightarrow> (Org \<times> UserRole \<times> OrgInvite option) run" where
  "join_invite E tok email =
     andThen (query (\<lambda>d. first_row (\<lambda>i. inv_token_hash i = hash_token E tok \<and> inv_accepted_at i = None)
                           (org_invites d)))
       (\<lambda>invite. case invite of
          None \<Rightarrow> throw (App invite_expired)
        | Some i \<Rightarrow>
            andThen (check (env_now E < inv_expires_at i \<and> casefold (inv_email i) = email) invite_expired) (\<lambda>_.
            andThen (query (\<lambda>d. get_row org_id (inv_org_id i) (orgs d))) (\<lambda>g. case g of
              None \<Rightarrow> throw (App (AppError ''TOKEN_REVOKED'' ''Invitation organization is unavailable.'' 401))
            | Some g \<Rightarrow> ret (g, inv_role i, Some i))))"

definition found_fund :: "string \<Rightarrow> string option \<Rightarrow> (Org \<times> UserRole \<times> OrgInvite option) run" where
  "found_fund full_name chosen =
     (let name = fund_name full_name chosen; base = slugify name
      in andThen (query (\<lambda>d. slug_search (map org_slug (orgs d)) base base 1)) (\<lambda>slug.
         andThen (insert_new (new_org name slug) add_org) (\<lambda>g. ret (g, OWNER, None))))"

record SignupRequest =
  su_email :: string
  su_password :: string
  su_full_name :: string
  su_org_name :: "string option"
  su_invite_token :: "string option"

definition signup ::
  "env \<Rightarrow> auth_env \<Rightarrow> SignupRequest \<Rightarrow> string option \<Rightarrow> string option \<Rightarrow> (User \<times> Org \<times> IssuedTokens) run" where
  "signup E A body agent ip =
     (let email = casefold (su_email body)
      in andThen (app_lift (validate_password (su_password body) email)) (\<lambda>_.
         andThen (query (\<lambda>d. first_row (\<lambda>u. usr_email u = email) (users d))) (\<lambda>taken.
         andThen (check (taken = None)
                   (ConflictError ''An account with this email already exists.'' ''CONFLICT'')) (\<lambda>_.
         andThen (if truthy (su_invite_token body) then join_invite E (the (su_invite_token body)) email
                  else found_fund (su_full_name body) (su_org_name body)) (\<lambda>(g, role, invite).
         andThen (insert_new (new_user (org_id g) email (ae_hash A (su_password body))
                   (su_full_name body) role) add_user) (\<lambda>u.
         andThen (case invite of
                    None \<Rightarrow> andThen (insert_new (default_thesis (org_id g)) add_thesis) (\<lambda>_. ret ())
                  | Some i \<Rightarrow> change (set_invite (inv_id i) (\<lambda>i. i\<lparr>inv_accepted_at := Some (env_now E)\<rparr>))) (\<lambda>_.
         andThen (issue_tokens E A u None None agent ip) (\<lambda>tokens. ret (u, g, tokens)))))))))"

section \<open>Logging in\<close>

definition bad_credentials :: app_error where
  "bad_credentials = UnauthenticatedError ''UNAUTHENTICATED'' ''Invalid email or password.''"

definition account_locked :: app_error where
  "account_locked =
     (AppError ''RATE_LIMITED'' ''Account is temporarily locked.'' 429)\<lparr>err_retry_after_s := Some 300\<rparr>"

definition verify_password :: "auth_env \<Rightarrow> string option \<Rightarrow> string \<Rightarrow> bool" where
  "verify_password A pw_hash pw \<longleftrightarrow> truthy pw_hash \<and> ae_verify A (the pw_hash) pw"

definition count_failure :: "datetime \<Rightarrow> User \<Rightarrow> User" where
  "count_failure now u =
     u\<lparr>usr_failed_logins := usr_failed_logins u + 1,
       usr_locked_until := if 5 \<le> usr_failed_logins u + 1 then Some (now + minutes 15)
                           else usr_locked_until u\<rparr>"

definition logged_in :: "datetime \<Rightarrow> User \<Rightarrow> User" where
  "logged_in now u = u\<lparr>usr_failed_logins := 0, usr_locked_until := None, usr_last_login_at := Some now\<rparr>"

definition login ::
  "env \<Rightarrow> auth_env \<Rightarrow> string \<Rightarrow> string \<Rightarrow> string option \<Rightarrow> string option \<Rightarrow> (User \<times> IssuedTokens) run" where
  "login E A email pw agent ip =
     andThen (query (\<lambda>d. first_row (\<lambda>u. usr_email u = casefold email) (users d)))
       (\<lambda>row. case row of
          None \<Rightarrow> throw (App bad_credentials)
        | Some u \<Rightarrow>
            andThen (check (case usr_locked_until u of None \<Rightarrow> True | Some t \<Rightarrow> t \<le> env_now E) account_locked) (\<lambda>_.
            if \<not> verify_password A (usr_password_hash u) pw
            then andThen (change (set_user (usr_id u) (count_failure (env_now E)))) (\<lambda>_. throw (App bad_credentials))
            else
              andThen (check (usr_is_active u)
                        (UnauthenticatedError ''TOKEN_REVOKED'' ''This account is disabled.'')) (\<lambda>_.
              andThen (change (set_user (usr_id u) (logged_in (env_now E)))) (\<lambda>_.
              andThen (issue_tokens E A (logged_in (env_now E) u) None None agent ip) (\<lambda>tokens.
              ret (logged_in (env_now E) u, tokens))))))"

section \<open>Refresh tokens\<close>

definition live :: "RefreshToken \<Rightarrow> bool" where
  "live r \<longleftrightarrow> rt_revoked_at r = None"

definition revoke :: "datetime \<Rightarrow> string \<Rightarrow> RefreshToken \<Rightarrow> RefreshToken" where
  "revoke now reason r = r\<lparr>rt_revoked_at := Some now, rt_revoked_reason := Some reason\<rparr>"

definition revoke_where :: "(RefreshToken \<Rightarrow> bool) \<Rightarrow> datetime \<Rightarrow> string \<Rightarrow> db \<Rightarrow> db" where
  "revoke_where P now reason d =
     d\<lparr>refresh_tokens := upd_where P (revoke now reason) (refresh_tokens d)\<rparr>"

definition add_audit :: "AuditLog \<Rightarrow> db \<Rightarrow> db" where
  "add_audit a d = d\<lparr>audit_log := audit_log d @ [a]\<rparr>"

definition reuse_audit :: "RefreshToken \<Rightarrow> AuditLog" where
  "reuse_audit r =
     \<lparr>al_org_id = None, al_actor_user_id = Some (rt_user_id r), al_actor_kind = ''token'',
      al_action = ''auth.refresh_reuse'', al_target_type = Some ''refresh_family'',
      al_target_id = Some (rt_family_id r), al_meta = JObj [], al_ip = None, al_request_id = None\<rparr>"

definition rotate_refresh_token ::
  "env \<Rightarrow> auth_env \<Rightarrow> string \<Rightarrow> string option \<Rightarrow> string option \<Rightarrow> (User \<times> IssuedTokens) run" where
  "rotate_refresh_token E A raw agent ip =
     andThen (query (\<lambda>d. first_row (\<lambda>r. rt_token_hash r = hash_token E raw) (refresh_tokens d)))
       (\<lambda>row. case row of
          None \<Rightarrow> throw (App (UnauthenticatedError ''TOKEN_REVOKED'' ''Refresh token is invalid.''))
        | Some r \<Rightarrow>
            if \<not> live r then
              andThen (change (revoke_where (\<lambda>t. rt_family_id t = rt_family_id r \<and> live t)
                        (env_now E) ''reuse_detected'')) (\<lambda>_.
              andThen (change (add_audit (reuse_audit r))) (\<lambda>_.
              andThen commit_run (\<lambda>_.
              throw (App (UnauthenticatedError ''TOKEN_REVOKED'' ''Refresh token reuse was detected.'')))))
            else if rt_expires_at r \<le> env_now E then
              andThen (change (revoke_where (\<lambda>t. rt_id t = rt_id r) (env_now E) ''expired'')) (\<lambda>_.
              throw (App (UnauthenticatedError ''TOKEN_EXPIRED'' ''Refresh token has expired.'')))
            else
              andThen (change (revoke_where (\<lambda>t. rt_id t = rt_id r) (env_now E) ''rotated'')) (\<lambda>_.
              andThen (query (\<lambda>d. get_row usr_id (rt_user_id r) (users d))) (\<lambda>user. case user of
                None \<Rightarrow> throw (App (UnauthenticatedError ''TOKEN_REVOKED'' ''Account is unavailable.''))
              | Some u \<Rightarrow>
                  andThen (check (usr_is_active u)
                            (UnauthenticatedError ''TOKEN_REVOKED'' ''Account is unavailable.'')) (\<lambda>_.
                  andThen (issue_tokens E A u (Some (rt_family_id r)) (Some (rt_id r)) agent ip) (\<lambda>tokens.
                  ret (u, tokens))))))"

definition revoke_refresh :: "env \<Rightarrow> string option \<Rightarrow> uuid \<Rightarrow> bool \<Rightarrow> unit run" where
  "revoke_refresh E raw user all_devices =
     (if all_devices then
        change (revoke_where (\<lambda>t. rt_user_id t = user \<and> live t) (env_now E) ''logout_all'')
      else if truthy raw then
        andThen (query (\<lambda>d. first_row (\<lambda>r. rt_token_hash r = hash_token E (the raw)) (refresh_tokens d)))
          (\<lambda>row. when_some row (\<lambda>r.
             if rt_user_id r = user
             then change (revoke_where (\<lambda>t. rt_id t = rt_id r) (env_now E) ''logout'') else ret ()))
      else ret ())"

section \<open>E-mail tokens\<close>

definition add_email_token :: "EmailToken \<Rightarrow> db \<Rightarrow> db" where
  "add_email_token t d = d\<lparr>email_tokens := email_tokens d @ [t]\<rparr>"

definition create_email_token :: "env \<Rightarrow> User \<Rightarrow> string \<Rightarrow> string run" where
  "create_email_token E u purpose =
     andThen (token_urlsafe E) (\<lambda>raw.
     andThen (insert_new (\<lambda>i. \<lparr>et_id = i, et_user_id = usr_id u, et_purpose = purpose,
                et_token_hash = hash_token E raw,
                et_expires_at = env_now E + hours (if purpose = ''reset'' then 1 else 24),
                et_used_at = None\<rparr>) add_email_token) (\<lambda>_. ret raw))"

definition consume_email_token :: "env \<Rightarrow> string \<Rightarrow> string \<Rightarrow> User run" where
  "consume_email_token E raw purpose =
     andThen (query (\<lambda>d. first_row (\<lambda>t. et_token_hash t = hash_token E raw \<and> et_purpose t = purpose
                           \<and> et_used_at t = None) (email_tokens d)))
       (\<lambda>row. case row of
          None \<Rightarrow> throw (App (AppError ''TOKEN_EXPIRED'' ''The token is invalid or expired.'' 401))
        | Some t \<Rightarrow>
            andThen (check (env_now E < et_expires_at t)
                      (AppError ''TOKEN_EXPIRED'' ''The token is invalid or expired.'' 401)) (\<lambda>_.
            andThen (query (\<lambda>d. get_row usr_id (et_user_id t) (users d))) (\<lambda>user. case user of
              None \<Rightarrow> throw (App Unauthenticated)
            | Some u \<Rightarrow>
                andThen (change (\<lambda>d. d\<lparr>email_tokens :=
                    upd_row et_id (et_id t) (\<lambda>t. t\<lparr>et_used_at := Some (env_now E)\<rparr>) (email_tokens d)\<rparr>)) (\<lambda>_.
                ret u))))"

section \<open>The free slug\<close>

lemma slug_search_free: "slug_search used base slug n \<notin> set used"
  by (induction used base slug n rule: slug_search.induct)
     (subst slug_search.simps, auto)

lemma slug_search_form:
  "slug_search used base slug n = slug
     \<or> (\<exists>k. n < k \<and> k \<le> n + slugs_left (used, base, slug, n)
          \<and> slug_search used base slug n = numbered base k)"
proof (induction used base slug n rule: slug_search.induct)
  case (1 used base slug n)
  show ?case
  proof (cases "slug \<in> set used")
    case True
    have left: "Suc (slugs_left (used, base, numbered base (Suc n), Suc n))
        = slugs_left (used, base, slug, n)"
      using True by (simp add: slugs_left_def slugs_left_Suc [of n])
    have eq: "slug_search used base slug n
        = slug_search used base (numbered base (Suc n)) (Suc n)"
      using True by (subst slug_search.simps) simp
    from "1.IH" [OF True] show ?thesis
    proof
      assume "slug_search used base (numbered base (Suc n)) (Suc n) = numbered base (Suc n)"
      then show ?thesis using eq left by (intro disjI2 exI [of _ "Suc n"]) simp
    next
      assume "\<exists>k. Suc n < k \<and> k \<le> Suc n + slugs_left (used, base, numbered base (Suc n), Suc n)
          \<and> slug_search used base (numbered base (Suc n)) (Suc n) = numbered base k"
      then obtain k where "Suc n < k" "k \<le> Suc n + slugs_left (used, base, numbered base (Suc n), Suc n)"
        "slug_search used base slug n = numbered base k"
        using eq by auto
      then show ?thesis using left by (intro disjI2 exI [of _ k]) simp
    qed
  qed (simp add: slug_search.simps)
qed

lemma slugs_left_le: "slugs_left (used, base, slug, n) \<le> Suc (length used)"
proof -
  have "card {k. n < k \<and> numbered base k \<in> set used} \<le> card (set used)"
    by (rule card_inj_on_le [of "numbered base"]) (auto intro: inj_onI numbered_inj)
  then show ?thesis using card_length [of used] by (auto simp: slugs_left_def)
qed

text \<open>C40: the search for a slug ends. Whatever slugs are taken, the loop of the sign-up returns one
  that is free: the base itself, or the base (its first 70 characters) with a number of at most two
  more than the funds there are, so it makes at most that many steps.\<close>

theorem slug_loop_terminates:
  "slug_search used base base 1 \<notin> set used
   \<and> (slug_search used base base 1 = base
      \<or> (\<exists>k. 2 \<le> k \<and> k \<le> length used + 2 \<and> slug_search used base base 1 = numbered base k))"
proof -
  have "slug_search used base base 1 = base
      \<or> (\<exists>k. 1 < k \<and> k \<le> 1 + Suc (length used) \<and> slug_search used base base 1 = numbered base k)"
    using slug_search_form [of used base base 1] slugs_left_le [of used base base 1]
    by (meson add_left_mono le_trans)
  then have "slug_search used base base 1 = base
      \<or> (\<exists>k. 2 \<le> k \<and> k \<le> length used + 2 \<and> slug_search used base base 1 = numbered base k)"
    by (elim disj_forward ex_forward) simp_all
  then show ?thesis using slug_search_free by blast
qed

end
