(* ===== verification/Theses.thy ===== *)
theory Theses
  imports Opportunities Auth
begin

text \<open>
  \<open>app/routers/theses.py\<close> with its requests from \<open>app/schemas/thesis.py\<close>: the investment theses of a
  fund, at most one of them the default. The list columns of a PATCH are lists or left out (an
  explicit null would be stored as a JSON null); the columns that must not be null refuse one.
\<close>

section \<open>Requests\<close>

record ThesisCreate =
  tc_name :: string
  tc_is_default :: bool
  tc_sectors :: "string list"
  tc_anti_sectors :: "string list"
  tc_stages :: "string list"
  tc_geos :: "string list"
  tc_check_size_min :: "rat option"
  tc_check_size_max :: "rat option"
  tc_currency :: string
  tc_ownership_target_pct :: "rat option"
  tc_risk_appetite :: rat
  tc_weights :: "(string \<times> rat) list"
  tc_must_haves :: "string list"
  tc_deal_breakers :: "string list"
  tc_notes :: "string option"

definition default_weights :: "(string \<times> rat) list" where
  "default_weights = [(''founder'', 45/100), (''market'', 30/100), (''idea_vs_market'', 25/100)]"

definition in_range :: "rat \<Rightarrow> rat option \<Rightarrow> rat option \<Rightarrow> bool" where
  "in_range lo hi x \<longleftrightarrow>
     (case x of None \<Rightarrow> True | Some v \<Rightarrow> lo \<le> v \<and> (case hi of None \<Rightarrow> True | Some h \<Rightarrow> v \<le> h))"

definition currency_ok :: "string \<Rightarrow> bool" where
  "currency_ok c \<longleftrightarrow> length c = 3 \<and> list_all (\<lambda>x. CHR ''A'' \<le> x \<and> x \<le> CHR ''Z'') c"

text \<open>The fields' bounds and \<open>validate_ranges\<close>.\<close>

definition valid_thesis :: "ThesisCreate \<Rightarrow> bool" where
  "valid_thesis b \<longleftrightarrow>
     2 \<le> length (tc_name b) \<and> length (tc_name b) \<le> 160
     \<and> in_range 0 None (tc_check_size_min b) \<and> in_range 0 None (tc_check_size_max b)
     \<and> currency_ok (tc_currency b) \<and> in_range 0 (Some 100) (tc_ownership_target_pct b)
     \<and> in_range 0 (Some 1) (Some (tc_risk_appetite b))
     \<and> (case (tc_check_size_min b, tc_check_size_max b) of (Some lo, Some hi) \<Rightarrow> lo \<le> hi | _ \<Rightarrow> True)
     \<and> list_all (\<lambda>s. s \<notin> set (tc_anti_sectors b)) (tc_sectors b)
     \<and> set (map fst (tc_weights b)) = {''founder'', ''market'', ''idea_vs_market''}"

record ThesisUpdate =
  tu_name :: "string option option"
  tu_sectors :: "string list option"
  tu_anti_sectors :: "string list option"
  tu_stages :: "string list option"
  tu_geos :: "string list option"
  tu_check_size_min :: "rat option option"
  tu_check_size_max :: "rat option option"
  tu_currency :: "string option option"
  tu_ownership_target_pct :: "rat option option"
  tu_risk_appetite :: "rat option option"
  tu_weights :: "(string \<times> rat) list option"
  tu_must_haves :: "string list option"
  tu_deal_breakers :: "string list option"
  tu_notes :: "string option option"

text \<open>A PATCH has the fields' bounds only, not \<open>validate_ranges\<close>.\<close>

definition valid_thesis_update :: "ThesisUpdate \<Rightarrow> bool" where
  "valid_thesis_update b \<longleftrightarrow>
     (case tu_name b of Some (Some n) \<Rightarrow> 2 \<le> length n \<and> length n \<le> 160 | _ \<Rightarrow> True)
     \<and> (case tu_check_size_min b of Some x \<Rightarrow> in_range 0 None x | None \<Rightarrow> True)
     \<and> (case tu_check_size_max b of Some x \<Rightarrow> in_range 0 None x | None \<Rightarrow> True)
     \<and> (case tu_currency b of Some (Some c) \<Rightarrow> currency_ok c | _ \<Rightarrow> True)
     \<and> (case tu_ownership_target_pct b of Some x \<Rightarrow> in_range 0 (Some 100) x | None \<Rightarrow> True)
     \<and> (case tu_risk_appetite b of Some x \<Rightarrow> in_range 0 (Some 1) x | None \<Rightarrow> True)"

section \<open>Handlers\<close>

definition find_thesis :: "uuid \<Rightarrow> uuid \<Rightarrow> db \<Rightarrow> Thesis option" where
  "find_thesis = own_row theses th_id th_org_id"

definition get_thesis_row :: "uuid \<Rightarrow> uuid \<Rightarrow> Thesis run" where
  "get_thesis_row org i = andThen (query (find_thesis org i)) (found ''Thesis'')"

definition set_thesis :: "uuid \<Rightarrow> (Thesis \<Rightarrow> Thesis) \<Rightarrow> db \<Rightarrow> db" where
  "set_thesis i f d = d\<lparr>theses := upd_row th_id i f (theses d)\<rparr>"

text \<open>\<open>UPDATE theses SET is_default = false WHERE org_id = ...\<close>.\<close>

definition clear_default :: "uuid \<Rightarrow> db \<Rightarrow> db" where
  "clear_default org d =
     d\<lparr>theses := upd_where (\<lambda>t. th_org_id t = org) (\<lambda>t. t\<lparr>th_is_default := False\<rparr>) (theses d)\<rparr>"

definition refreshed_thesis :: "Thesis \<Rightarrow> Thesis run" where
  "refreshed_thesis t =
     query (\<lambda>d. case get_row th_id (th_id t) (theses d) of None \<Rightarrow> t | Some r \<Rightarrow> r)"

text \<open>\<open>order_by(is_default.desc(), created_at)\<close>: the rows are kept in the order of their creation.\<close>

definition list_theses :: "Principal \<Rightarrow> bool \<Rightarrow> Thesis list run" where
  "list_theses pr include_deleted =
     andThen (require READ pr) (\<lambda>_.
     query (\<lambda>d. sort_key (\<lambda>t. if th_is_default t then 0 else (1::nat))
       (filter (\<lambda>t. th_org_id t = pr_org_id pr \<and> (include_deleted \<or> th_deleted_at t = None)) (theses d))))"

definition thesis_of :: "uuid \<Rightarrow> ThesisCreate \<Rightarrow> uuid \<Rightarrow> Thesis" where
  "thesis_of org b u =
     \<lparr>th_id = u, th_org_id = org, th_name = tc_name b, th_is_default = tc_is_default b,
      th_sectors = tc_sectors b, th_anti_sectors = tc_anti_sectors b, th_stages = tc_stages b,
      th_geos = tc_geos b, th_check_size_min = tc_check_size_min b,
      th_check_size_max = tc_check_size_max b, th_currency = tc_currency b,
      th_ownership_target_pct = tc_ownership_target_pct b, th_risk_appetite = tc_risk_appetite b,
      th_weights = tc_weights b, th_must_haves = tc_must_haves b,
      th_deal_breakers = tc_deal_breakers b, th_notes = tc_notes b, th_version = 1, th_deleted_at = None\<rparr>"

definition create_thesis :: "Principal \<Rightarrow> ThesisCreate \<Rightarrow> Thesis run" where
  "create_thesis pr body =
     andThen (require THESIS_WRITE pr) (\<lambda>_.
     andThen (if tc_is_default body then change (clear_default (pr_org_id pr)) else ret ()) (\<lambda>_.
     andThen (insert_new (thesis_of (pr_org_id pr) body) add_thesis) (\<lambda>t.
     andThen commit_run (\<lambda>_. refreshed_thesis t))))"

definition get_thesis :: "Principal \<Rightarrow> uuid \<Rightarrow> Thesis run" where
  "get_thesis pr i = andThen (require READ pr) (\<lambda>_. get_thesis_row (pr_org_id pr) i)"

definition set_thesis_fields :: "ThesisUpdate \<Rightarrow> Thesis \<Rightarrow> Thesis" where
  "set_thesis_fields u t =
     t\<lparr>th_name := (case tu_name u of Some (Some n) \<Rightarrow> n | _ \<Rightarrow> th_name t),
       th_sectors := (case tu_sectors u of None \<Rightarrow> th_sectors t | Some x \<Rightarrow> x),
       th_anti_sectors := (case tu_anti_sectors u of None \<Rightarrow> th_anti_sectors t | Some x \<Rightarrow> x),
       th_stages := (case tu_stages u of None \<Rightarrow> th_stages t | Some x \<Rightarrow> x),
       th_geos := (case tu_geos u of None \<Rightarrow> th_geos t | Some x \<Rightarrow> x),
       th_check_size_min := (case tu_check_size_min u of None \<Rightarrow> th_check_size_min t | Some x \<Rightarrow> x),
       th_check_size_max := (case tu_check_size_max u of None \<Rightarrow> th_check_size_max t | Some x \<Rightarrow> x),
       th_currency := (case tu_currency u of Some (Some c) \<Rightarrow> c | _ \<Rightarrow> th_currency t),
       th_ownership_target_pct := (case tu_ownership_target_pct u of None \<Rightarrow> th_ownership_target_pct t | Some x \<Rightarrow> x),
       th_risk_appetite := (case tu_risk_appetite u of Some (Some x) \<Rightarrow> x | _ \<Rightarrow> th_risk_appetite t),
       th_weights := (case tu_weights u of None \<Rightarrow> th_weights t | Some x \<Rightarrow> x),
       th_must_haves := (case tu_must_haves u of None \<Rightarrow> th_must_haves t | Some x \<Rightarrow> x),
       th_deal_breakers := (case tu_deal_breakers u of None \<Rightarrow> th_deal_breakers t | Some x \<Rightarrow> x),
       th_notes := (case tu_notes u of None \<Rightarrow> th_notes t | Some x \<Rightarrow> x)\<rparr>"

definition null_refused :: "ThesisUpdate \<Rightarrow> bool" where
  "null_refused u \<longleftrightarrow> tu_name u = Some None \<or> tu_currency u = Some None \<or> tu_risk_appetite u = Some None"

definition update_thesis :: "Principal \<Rightarrow> uuid \<Rightarrow> string option \<Rightarrow> ThesisUpdate \<Rightarrow> Thesis run" where
  "update_thesis pr i if_match body =
     andThen (require THESIS_WRITE pr) (\<lambda>_.
     andThen (get_thesis_row (pr_org_id pr) i) (\<lambda>t.
     andThen (check (fresh_version if_match (th_version t)) (stale ''Thesis'')) (\<lambda>_.
     if null_refused body then throw IntegrityError
     else andThen (change (set_thesis i (\<lambda>t. (set_thesis_fields body t)\<lparr>th_version := th_version t + 1\<rparr>))) (\<lambda>_.
          andThen commit_run (\<lambda>_. refreshed_thesis t)))))"

definition delete_thesis :: "env \<Rightarrow> Principal \<Rightarrow> uuid \<Rightarrow> unit run" where
  "delete_thesis E pr i =
     andThen (require THESIS_WRITE pr) (\<lambda>_.
     andThen (get_thesis_row (pr_org_id pr) i) (\<lambda>t.
     andThen (change (set_thesis i (\<lambda>t. t\<lparr>th_deleted_at := Some (env_now E), th_is_default := False\<rparr>))) (\<lambda>_.
     commit_run)))"

definition set_default :: "Principal \<Rightarrow> uuid \<Rightarrow> Thesis run" where
  "set_default pr i =
     andThen (require THESIS_WRITE pr) (\<lambda>_.
     andThen (get_thesis_row (pr_org_id pr) i) (\<lambda>t.
     andThen (change (clear_default (pr_org_id pr))) (\<lambda>_.
     andThen (change (set_thesis i (\<lambda>t. t\<lparr>th_is_default := True\<rparr>))) (\<lambda>_.
     andThen commit_run (\<lambda>_. refreshed_thesis t)))))"

record ThesisPreview =
  tp_matched_count :: nat
  tp_excluded_by_gate :: "(string \<times> nat) list"

definition preview_thesis :: "Principal \<Rightarrow> uuid \<Rightarrow> ThesisPreview run" where
  "preview_thesis pr i =
     andThen (require READ pr) (\<lambda>_.
     andThen (get_thesis_row (pr_org_id pr) i) (\<lambda>_.
     query (\<lambda>d. \<lparr>tp_matched_count =
         length (take 200 (filter (\<lambda>p. op_org_id p = pr_org_id pr) (opportunities d))),
       tp_excluded_by_gate = [(''sector'', 0), (''geo'', 0)]\<rparr>)))"

section \<open>The contracts\<close>

interpretation thesis_row: fund_row find_thesis theses th_id th_org_id
  unfolding find_thesis_def by (rule own_row_fund_row)

lemma get_thesis_run [run_simps]:
  "andThen (get_thesis_row org i) f s =
     (case find_thesis org i (s_db s) of
        None \<Rightarrow> (Inl (App (NotFoundError ''Thesis'')), s) | Some t \<Rightarrow> f t s)"
  by (simp add: get_thesis_row_def run_simps)

lemma refreshed_thesis_run [run_simps]:
  "refreshed_thesis t s = (Inr (case get_row th_id (th_id t) (theses (s_db s)) of None \<Rightarrow> t | Some r \<Rightarrow> r), s)"
  "andThen (refreshed_thesis t) f s =
     f (case get_row th_id (th_id t) (theses (s_db s)) of None \<Rightarrow> t | Some r \<Rightarrow> r) s"
  by (simp_all add: refreshed_thesis_def run_simps)

lemma find_set_thesis:
  assumes "\<And>t. th_id (f t) = th_id t" "\<And>t. th_org_id (f t) = th_org_id t"
  shows "find_thesis org i (set_thesis j f d) =
    (if i = j then map_option f (find_thesis org i d) else find_thesis org i d)"
  unfolding find_thesis_def by (rule own_row_upd) (simp_all add: assms set_thesis_def)

lemma set_thesis_fields_simps [simp]:
  "th_id (set_thesis_fields u t) = th_id t" "th_org_id (set_thesis_fields u t) = th_org_id t"
  "th_version (set_thesis_fields u t) = th_version t" "th_is_default (set_thesis_fields u t) = th_is_default t"
  by (simp_all add: set_thesis_fields_def)

lemma update_thesis_Inr:
  assumes "update_thesis pr i h u s = (Inr x, s')"
  shows "\<exists>t. find_thesis (pr_org_id pr) i (s_db s) = Some t \<and> fresh_version h (th_version t)
    \<and> s_db s' = set_thesis i (\<lambda>t. (set_thesis_fields u t)\<lparr>th_version := th_version t + 1\<rparr>) (s_db s)
    \<and> s_committed s' = s_db s'"
  using assms by (auto simp: update_thesis_def run_simps andThen_require split: if_splits option.splits)

interpretation thesis_version: versioned "find_thesis (pr_org_id pr) i" th_version "update_thesis pr i" for pr i
proof
  fix h u s x s' r
  assume ok: "update_thesis pr i h u s = (Inr x, s')"
  note eff = update_thesis_Inr [OF ok]
  show "\<exists>r. find_thesis (pr_org_id pr) i (s_db s) = Some r \<and> fresh_version h (th_version r)"
    using eff by blast
  show "s_committed s' = s_db s'" using eff by blast
  show "\<exists>r'. find_thesis (pr_org_id pr) i (s_db s') = Some r' \<and> th_version r' = th_version r + 1"
    if "find_thesis (pr_org_id pr) i (s_db s) = Some r" for r
    using eff that by (auto simp: find_set_thesis)
qed (simp add: update_thesis_def run_simps andThen_require)

section \<open>One default per fund\<close>

definition defaults_ok :: "db \<Rightarrow> bool" where
  "defaults_ok d \<longleftrightarrow>
     distinct (map th_id (theses d)) \<and> list_all (\<lambda>t. th_id t < next_uuid d) (theses d)
     \<and> (\<forall>t \<in> set (theses d). \<forall>t' \<in> set (theses d).
          th_is_default t \<longrightarrow> th_is_default t' \<longrightarrow> th_org_id t = th_org_id t' \<longrightarrow> th_id t = th_id t')"

text \<open>The requests that write theses, one at a time.\<close>

datatype thesis_request =
    CreateThesis ThesisCreate
  | UpdateThesis uuid "string option" ThesisUpdate
  | DeleteThesis uuid
  | DefaultThesis uuid

fun thesis_handler :: "env \<Rightarrow> Principal \<Rightarrow> thesis_request \<Rightarrow> unit run" where
  "thesis_handler E pr (CreateThesis b) = andThen (create_thesis pr b) (\<lambda>_. ret ())"
| "thesis_handler E pr (UpdateThesis i h b) = andThen (update_thesis pr i h b) (\<lambda>_. ret ())"
| "thesis_handler E pr (DeleteThesis i) = delete_thesis E pr i"
| "thesis_handler E pr (DefaultThesis i) = andThen (set_default pr i) (\<lambda>_. ret ())"

lemma defaults_okI:
  assumes "distinct (map th_id (theses d))" "\<forall>t \<in> set (theses d). th_id t < next_uuid d"
    and "\<And>t t'. t \<in> set (theses d) \<Longrightarrow> t' \<in> set (theses d) \<Longrightarrow> th_is_default t \<Longrightarrow> th_is_default t' \<Longrightarrow>
      th_org_id t = th_org_id t' \<Longrightarrow> th_id t = th_id t'"
  shows "defaults_ok d"
  using assms unfolding defaults_ok_def list_all_iff by blast

lemma defaults_uniqueD:
  "defaults_ok d \<Longrightarrow> t \<in> set (theses d) \<Longrightarrow> t' \<in> set (theses d) \<Longrightarrow> th_is_default t \<Longrightarrow> th_is_default t' \<Longrightarrow>
    th_org_id t = th_org_id t' \<Longrightarrow> th_id t = th_id t'"
  unfolding defaults_ok_def by blast

lemma defaults_okD:
  "defaults_ok d \<Longrightarrow> distinct (map th_id (theses d)) \<and> (\<forall>t \<in> set (theses d). th_id t < next_uuid d)"
  by (simp add: defaults_ok_def list_all_iff)

lemma defaults_ok_upd:
  assumes "defaults_ok d" "\<And>t. th_id (f t) = th_id t" "\<And>t. th_org_id (f t) = th_org_id t"
    "\<And>t. t \<in> set (theses d) \<Longrightarrow> P t \<Longrightarrow> th_is_default (f t) \<Longrightarrow> th_is_default t"
    "theses d' = upd_where P f (theses d)" "next_uuid d' = next_uuid d"
  shows "defaults_ok d'"
proof (rule defaults_okI)
  note ok = defaults_okD [OF assms(1)]
  show "distinct (map th_id (theses d'))" using ok assms(2,5) by (simp add: row_simps)
  show "\<forall>t \<in> set (theses d'). th_id t < next_uuid d'"
    using ok assms(2) by (auto simp: assms(5,6) upd_where_def)
  fix t t' assume t: "t \<in> set (theses d')" "t' \<in> set (theses d')" "th_is_default t" "th_is_default t'"
    "th_org_id t = th_org_id t'"
  obtain r where r: "r \<in> set (theses d)" "t = (if P r then f r else r)"
    using t(1) unfolding assms(5) by (rule in_upd_whereE)
  obtain r' where r': "r' \<in> set (theses d)" "t' = (if P r' then f r' else r')"
    using t(2) unfolding assms(5) by (rule in_upd_whereE)
  have "th_is_default r" "th_is_default r'" "th_org_id r = th_org_id r'"
    using t r r' assms(3,4) by (auto split: if_splits)
  then have "th_id r = th_id r'" using defaults_uniqueD [OF assms(1)] r(1) r'(1) by blast
  then show "th_id t = th_id t'" using r r' assms(2) by simp
qed

lemma defaults_ok_set_thesis:
  assumes "defaults_ok d" "\<And>t. th_id (f t) = th_id t" "\<And>t. th_org_id (f t) = th_org_id t"
    "\<And>t. th_is_default (f t) \<Longrightarrow> th_is_default t"
  shows "defaults_ok (set_thesis i f d)"
  by (rule defaults_ok_upd [OF assms(1-3)]) (simp_all add: set_thesis_def upd_row_def assms(4))

lemma defaults_ok_clear: "defaults_ok d \<Longrightarrow> defaults_ok (clear_default org d)"
  by (rule defaults_ok_upd) (simp_all add: clear_default_def)

lemma clear_default_row:
  assumes "r \<in> set (theses (clear_default org d))"
  obtains q where "q \<in> set (theses d)" "th_id r = th_id q" "th_org_id r = th_org_id q"
    "th_is_default r \<Longrightarrow> th_org_id q \<noteq> org"
proof -
  have "r \<in> set (upd_where (\<lambda>t. th_org_id t = org) (\<lambda>t. t\<lparr>th_is_default := False\<rparr>) (theses d))"
    using assms by (simp add: clear_default_def)
  then obtain q where q: "q \<in> set (theses d)" "r = (if th_org_id q = org then q\<lparr>th_is_default := False\<rparr> else q)"
    by (rule in_upd_whereE)
  show thesis by (rule that [OF q(1)]) (simp_all add: q(2) split: if_splits)
qed

lemma cleared: "t \<in> set (theses (clear_default org d)) \<Longrightarrow> th_org_id t = org \<Longrightarrow> \<not> th_is_default t"
  by (metis clear_default_row)

lemma defaults_ok_add:
  assumes "defaults_ok d" "th_id t = next_uuid d"
    "th_is_default t \<Longrightarrow> \<forall>r \<in> set (theses d). th_org_id r = th_org_id t \<longrightarrow> \<not> th_is_default r"
  shows "defaults_ok (add_thesis t (d\<lparr>next_uuid := Suc (next_uuid d)\<rparr>))"
proof (rule defaults_okI)
  let ?d = "add_thesis t (d\<lparr>next_uuid := Suc (next_uuid d)\<rparr>)"
  have ts: "theses ?d = theses d @ [t]" "next_uuid ?d = Suc (next_uuid d)" by (simp_all add: add_thesis_def)
  show "distinct (map th_id (theses ?d))" "\<forall>r \<in> set (theses ?d). th_id r < next_uuid ?d"
    unfolding ts using defaults_okD [OF assms(1)] assms(2) by (auto simp: less_Suc_eq)
  fix r r' assume "r \<in> set (theses ?d)" "r' \<in> set (theses ?d)" "th_is_default r" "th_is_default r'"
    "th_org_id r = th_org_id r'"
  then show "th_id r = th_id r'"
    unfolding ts using assms(3) defaults_uniqueD [OF assms(1), of r r'] by auto
qed

lemma defaults_ok_choose:
  assumes "defaults_ok d" "find_thesis org i d = Some t"
  shows "defaults_ok (set_thesis i (\<lambda>t. t\<lparr>th_is_default := True\<rparr>) (clear_default org d))"
proof -
  let ?c = "clear_default org d"
  have ok: "defaults_ok ?c" using assms(1) by (rule defaults_ok_clear)
  have "t \<in> set (theses d)" "th_id t = i" "th_org_id t = org" using thesis_row.look_own [OF assms(2)] by auto
  then have own: "th_org_id r = org" if "r \<in> set (theses ?c)" "th_id r = i" for r
  proof -
    obtain q where q: "q \<in> set (theses d)" "th_id r = th_id q" "th_org_id r = th_org_id q"
      using clear_default_row [OF \<open>r \<in> set (theses ?c)\<close>] by metis
    have dist: "distinct (map th_id (theses d))" using defaults_okD [OF assms(1)] by blast
    have "th_id q = th_id t" using q(2) that(2) \<open>th_id t = i\<close> by metis
    then have "Some q = Some t"
      using get_row_unique [OF dist q(1)] get_row_unique [OF dist \<open>t \<in> set (theses d)\<close>] by metis
    then show ?thesis using q(3) \<open>th_org_id t = org\<close> by simp
  qed
  let ?d = "set_thesis i (\<lambda>t. t\<lparr>th_is_default := True\<rparr>) ?c"
  have ts: "theses ?d = upd_row th_id i (\<lambda>t. t\<lparr>th_is_default := True\<rparr>) (theses ?c)" "next_uuid ?d = next_uuid ?c"
    by (simp_all add: set_thesis_def)
  show ?thesis
  proof (rule defaults_okI)
    show "distinct (map th_id (theses ?d))" unfolding ts using defaults_okD [OF ok] by (simp add: row_simps)
    show "\<forall>r \<in> set (theses ?d). th_id r < next_uuid ?d"
      unfolding ts using defaults_okD [OF ok] by (auto simp: upd_row_def upd_where_def)
    have which: "th_id r = i \<and> th_org_id r = org \<or> r \<in> set (theses ?c) \<and> th_org_id r \<noteq> org"
      if "r \<in> set (theses ?d)" "th_is_default r" for r
    proof -
      have "r \<in> set (upd_where (\<lambda>t. th_id t = i) (\<lambda>t. t\<lparr>th_is_default := True\<rparr>) (theses ?c))"
        using that(1) unfolding ts upd_row_def .
      then obtain q where q: "q \<in> set (theses ?c)" "r = (if th_id q = i then q\<lparr>th_is_default := True\<rparr> else q)"
        by (rule in_upd_whereE)
      show ?thesis
      proof (cases "th_id q = i")
        case False
        then show ?thesis using q cleared [of q org d] that(2) by auto
      qed (use q own in simp)
    qed
    fix r r' assume r: "r \<in> set (theses ?d)" "r' \<in> set (theses ?d)" "th_is_default r" "th_is_default r'"
      "th_org_id r = th_org_id r'"
    show "th_id r = th_id r'"
      using which [OF r(1,3)] which [OF r(2,4)] r(3-5) defaults_uniqueD [OF ok] by metis
  qed
qed

lemma thesis_handler_keeps_defaults:
  assumes "defaults_ok (s_db s)" "thesis_handler E pr r s = (x, s')"
  shows "s' = s \<or> defaults_ok (s_db s') \<and> (s_committed s' = s_committed s \<or> s_committed s' = s_db s')"
proof (cases r)
  case (CreateThesis b)
  have "defaults_ok (add_thesis (thesis_of org b (next_uuid d)) (d\<lparr>next_uuid := Suc (next_uuid d)\<rparr>))"
    if "defaults_ok d" "tc_is_default b \<Longrightarrow> \<forall>r \<in> set (theses d). th_org_id r = org \<longrightarrow> \<not> th_is_default r" for d org
    using that by (intro defaults_ok_add) (simp_all add: thesis_of_def)
  then show ?thesis
    using assms CreateThesis defaults_ok_clear cleared
    by (auto simp: create_thesis_def run_simps andThen_require split: if_splits)
next
  case (UpdateThesis i h b)
  then show ?thesis
    using assms by (auto simp: update_thesis_def run_simps andThen_require intro!: defaults_ok_set_thesis
        split: if_splits option.splits)
next
  case (DeleteThesis i)
  then show ?thesis
    using assms by (auto simp: delete_thesis_def run_simps andThen_require intro!: defaults_ok_set_thesis
        split: if_splits option.splits)
next
  case (DefaultThesis i)
  then show ?thesis
    using assms by (auto simp: set_default_def run_simps andThen_require intro: defaults_ok_choose
        split: if_splits option.splits)
qed

text \<open>C38: a fund has at most one default thesis, whatever requests come in whatever order. After any
  sequence of requests that create, change, delete or choose a thesis, made by principals of any funds,
  no two theses of a fund are its default.\<close>

theorem one_default_thesis:
  assumes "defaults_ok d"
  shows "defaults_ok (foldl (\<lambda>d (E, pr, r). fst (snd (request (thesis_handler E pr r) d))) d rs)"
proof -
  have step: "defaults_ok (fst (snd (request (thesis_handler E pr r) d)))" if "defaults_ok d" for E pr r d
  proof -
    obtain x s' where s: "thesis_handler E pr r (open_session d []) = (x, s')" by fastforce
    then show ?thesis
      using thesis_handler_keeps_defaults [OF _ s] that by (auto simp: request_def open_session_def)
  qed
  show ?thesis using assms by (induction rs arbitrary: d) (auto simp: step split: prod.split)
qed

theorem one_default_thesis_witness:
  "defaults_ok (foldl (\<lambda>d (E, pr, r). fst (snd (request (thesis_handler E pr r) d)))
     (demo_funds\<lparr>theses := [default_thesis 1 6, (default_thesis 1 7)\<lparr>th_is_default := False\<rparr>]\<rparr>)
     [(demo_env, demo_pr OWNER, DefaultThesis 7), (demo_env, demo_pr OWNER, DeleteThesis 6)])"
  by (rule one_default_thesis) (simp add: defaults_ok_def default_thesis_def demo_funds_def)

end
