(* ===== verification/Memos.thy ===== *)
theory Memos
  imports Opportunities
begin

text \<open>
  \<open>app/routers/memos.py\<close>: reading, editing, regenerating and exporting a memo. The sections of a PATCH
  have the fields of a stored section; \<open>str(None)\<close>, the editor of a request without a user, is the inner
  None of \<open>edited_by\<close>.
\<close>

definition find_memo :: "uuid \<Rightarrow> uuid \<Rightarrow> db \<Rightarrow> Memo option" where
  "find_memo = own_row memos memo_id memo_org_id"

definition get_memo_row :: "uuid \<Rightarrow> uuid \<Rightarrow> Memo run" where
  "get_memo_row org i = andThen (query (find_memo org i)) (found ''Memo'')"

definition set_memo :: "uuid \<Rightarrow> (Memo \<Rightarrow> Memo) \<Rightarrow> db \<Rightarrow> db" where
  "set_memo i f d = d\<lparr>memos := upd_row memo_id i f (memos d)\<rparr>"

definition get_memo :: "Principal \<Rightarrow> uuid \<Rightarrow> Memo run" where
  "get_memo pr i = andThen (require READ pr) (\<lambda>_. get_memo_row (pr_org_id pr) i)"

definition memo_versions_of :: "uuid \<Rightarrow> uuid \<Rightarrow> db \<Rightarrow> Memo list" where
  "memo_versions_of org i d = filter (\<lambda>m. memo_opportunity_id m = i \<and> memo_org_id m = org) (memos d)"

definition select_memo :: "string \<Rightarrow> uuid \<Rightarrow> uuid \<Rightarrow> db \<Rightarrow> exn + Memo option" where
  "select_memo version org i d =
     (if version = ''latest''
      then Inr (case sort_key (\<lambda>m. - memo_version m) (memo_versions_of org i d) of [] \<Rightarrow> None | m # _ \<Rightarrow> Some m)
      else case py_int version of
             None \<Rightarrow> Inl (App (ValidationError ''version must be 'latest' or an integer''))
           | Some v \<Rightarrow> Inr (find (\<lambda>m. memo_version m = v) (memo_versions_of org i d)))"

definition get_opportunity_memo :: "Principal \<Rightarrow> uuid \<Rightarrow> string \<Rightarrow> Memo run" where
  "get_opportunity_memo pr i version =
     andThen (require READ pr) (\<lambda>_.
     andThen (get_opportunity (pr_org_id pr) i) (\<lambda>_.
     andThen (query (select_memo version (pr_org_id pr) i)) (\<lambda>r.
     andThen (lift r) (found ''Memo''))))"

definition regenerate_section ::
  "env \<Rightarrow> Principal \<Rightarrow> uuid \<Rightarrow> string \<Rightarrow> string option \<Rightarrow> (uuid \<times> bool) run" where
  "regenerate_section E pr i section_key key =
     andThen (require SCREEN pr) (\<lambda>_.
     andThen (get_memo_row (pr_org_id pr) i) (\<lambda>m.
     andThen (check (truthy key) key_required) (\<lambda>_.
     andThen (create_job E (pr_org_id pr) ''memo'' ''opportunity'' (memo_opportunity_id m) (the key)
               (JObj [(''memo_id'', JUuid (memo_id m)), (''section'', JStr section_key)])) (\<lambda>(j, replayed).
     andThen commit_run (\<lambda>_.
     andThen (if replayed then ret () else dispatch_job E (job_id j)) (\<lambda>_. ret (job_id j, replayed)))))))"

definition edited :: "env \<Rightarrow> Principal \<Rightarrow> memo_section \<Rightarrow> memo_section" where
  "edited E pr sec = sec\<lparr>sec_edited_by := Some (pr_user_id pr), sec_edited_at := Some (env_now E)\<rparr>"

text \<open>\<open>UniqueConstraint("opportunity_id", "version")\<close>: another memo has the next version already.\<close>

definition version_taken :: "Memo \<Rightarrow> db \<Rightarrow> bool" where
  "version_taken m d =
     list_ex (\<lambda>n. memo_id n \<noteq> memo_id m \<and> memo_opportunity_id n = memo_opportunity_id m
                  \<and> memo_version n = memo_version m + 1) (memos d)"

definition refreshed_memo :: "Memo \<Rightarrow> Memo run" where
  "refreshed_memo m = query (\<lambda>d. case get_row memo_id (memo_id m) (memos d) of None \<Rightarrow> m | Some r \<Rightarrow> r)"

definition patch_memo ::
  "env \<Rightarrow> Principal \<Rightarrow> uuid \<Rightarrow> string option \<Rightarrow> memo_section list \<Rightarrow> Memo run" where
  "patch_memo E pr i if_match sections =
     andThen (require SCREEN pr) (\<lambda>_.
     andThen (get_memo_row (pr_org_id pr) i) (\<lambda>m.
     andThen (check (fresh_version if_match (memo_version m)) (stale ''Memo'')) (\<lambda>_.
     andThen (query (version_taken m)) (\<lambda>taken.
     if taken then throw IntegrityError
     else andThen (change (set_memo i (\<lambda>m. m\<lparr>memo_sections := map (edited E pr) sections,
                                             memo_version := memo_version m + 1\<rparr>))) (\<lambda>_.
          andThen commit_run (\<lambda>_. refreshed_memo m))))))"

definition export_job :: "env \<Rightarrow> uuid \<Rightarrow> Memo \<Rightarrow> string \<Rightarrow> uuid \<Rightarrow> Job" where
  "export_job E org m format u =
     (new_job (Some org) ''memo.export'' ''memo'' (memo_id m) None (JObj [(''format'', JStr format)]) (env_now E) u)
       \<lparr>job_status := SUCCEEDED, job_progress := 100,
        job_result := JObj [(''download_url'', JNull), (''expires_at'', JNull), (''degraded'', JBool True),
          (''degradation_reasons'', JList [JStr ''Binary memo export adapter is not configured.''])],
        job_started_at := Some (env_now E), job_finished_at := Some (env_now E)\<rparr>"

definition export_memo :: "env \<Rightarrow> Principal \<Rightarrow> uuid \<Rightarrow> string \<Rightarrow> uuid run" where
  "export_memo E pr i format =
     andThen (require SCREEN pr) (\<lambda>_.
     andThen (get_memo_row (pr_org_id pr) i) (\<lambda>m.
     andThen (insert_new (export_job E (pr_org_id pr) m format) add_job) (\<lambda>j.
     andThen commit_run (\<lambda>_. ret (job_id j)))))"

record evidence_line =
  el_id :: uuid
  el_locator :: json
  el_snippet :: string
  el_supports :: bool

record citation =
  ct_claim_id :: uuid
  ct_text :: string
  ct_trust_score :: rat
  ct_status :: string
  ct_evidence :: "evidence_line list"

definition evidence_line_of :: "Evidence \<Rightarrow> evidence_line" where
  "evidence_line_of e =
     \<lparr>el_id = ev_id e, el_locator = ev_locator e, el_snippet = ev_snippet e, el_supports = ev_supports e\<rparr>"

definition citation_of :: "db \<Rightarrow> Claim \<Rightarrow> citation" where
  "citation_of d c =
     \<lparr>ct_claim_id = cl_id c, ct_text = cl_text c, ct_trust_score = fl (cl_trust_score c),
      ct_status = claim_status_value (cl_status c),
      ct_evidence = map evidence_line_of (filter (\<lambda>e. ev_claim_id e = cl_id c) (evidence d))\<rparr>"

definition memo_citations :: "Principal \<Rightarrow> uuid \<Rightarrow> citation list run" where
  "memo_citations pr i =
     andThen (require READ pr) (\<lambda>_.
     andThen (get_memo_row (pr_org_id pr) i) (\<lambda>m.
     query (\<lambda>d. map (citation_of d) (claims_of (memo_opportunity_id m) d))))"

section \<open>The contracts\<close>

interpretation memo_row: fund_row find_memo memos memo_id memo_org_id
  unfolding find_memo_def by (rule own_row_fund_row)

lemma get_memo_run [run_simps]:
  "andThen (get_memo_row org i) f s =
     (case find_memo org i (s_db s) of None \<Rightarrow> (Inl (App (NotFoundError ''Memo'')), s) | Some m \<Rightarrow> f m s)"
  by (simp add: get_memo_row_def run_simps)

lemma find_set_memo:
  assumes "\<And>m. memo_id (f m) = memo_id m" "\<And>m. memo_org_id (f m) = memo_org_id m"
  shows "find_memo org i (set_memo j f d) = (if i = j then map_option f (find_memo org i d) else find_memo org i d)"
  unfolding find_memo_def by (rule own_row_upd) (simp_all add: assms set_memo_def)

lemma patch_memo_Inr:
  assumes "patch_memo E pr i h secs s = (Inr x, s')"
  shows "\<exists>m. find_memo (pr_org_id pr) i (s_db s) = Some m \<and> fresh_version h (memo_version m)
    \<and> s_db s' = set_memo i (\<lambda>m. m\<lparr>memo_sections := map (edited E pr) secs, memo_version := memo_version m + 1\<rparr>) (s_db s)
    \<and> s_committed s' = s_db s'"
  using assms
  by (auto simp: patch_memo_def refreshed_memo_def run_simps andThen_require split: if_splits option.splits)

interpretation memo_version: versioned "find_memo (pr_org_id pr) i" memo_version "patch_memo E pr i" for E pr i
proof
  fix h u s x s' r
  assume ok: "patch_memo E pr i h u s = (Inr x, s')"
  note eff = patch_memo_Inr [OF ok]
  show "\<exists>r. find_memo (pr_org_id pr) i (s_db s) = Some r \<and> fresh_version h (memo_version r)"
    using eff by blast
  show "s_committed s' = s_db s'" using eff by blast
  show "\<exists>r'. find_memo (pr_org_id pr) i (s_db s') = Some r' \<and> memo_version r' = memo_version r + 1"
    if "find_memo (pr_org_id pr) i (s_db s) = Some r" for r
    using eff that by (auto simp: find_set_memo)
qed (simp add: patch_memo_def run_simps andThen_require)

text \<open>A memo that has been superseded cannot be edited. Editing raises the memo's version in place,
  and the version is unique per opportunity; so once a newer memo holds the next number, a PATCH with the
  memo's current version passes the \<open>If-Match\<close> check and still ends in an integrity error (the
  generic 409 \<open>CONFLICT\<close>, not \<open>STALE_VERSION\<close>), whatever sections it brings, and nothing changes.\<close>

theorem superseded_memo_not_editable:
  assumes "m \<in> set (memos d)" "n \<in> set (memos d)" "distinct (map memo_id (memos d))"
    and "memo_opportunity_id n = memo_opportunity_id m" "memo_version n = memo_version m + 1"
    and "pr_org_id pr = memo_org_id m" "has_permission pr SCREEN" "fresh_version if_match (memo_version m)"
  shows "request (patch_memo E pr (memo_id m) if_match sections) d = (Inl IntegrityError, d, [])
    \<and> map_option err_code (handled_error IntegrityError) = Some ''CONFLICT''"
proof -
  have "find_memo (pr_org_id pr) (memo_id m) d = Some m"
    using memo_row.look_unique [OF assms(3,1)] assms(6) by simp
  moreover have "memo_id n \<noteq> memo_id m"
    using assms(5) get_row_unique [OF assms(3,1)] get_row_unique [OF assms(3,2)] by auto
  then have "version_taken m d"
    using assms(2,4,5) by (auto simp: version_taken_def list_ex_iff intro!: bexI [of _ n])
  ultimately show ?thesis
    using assms(7,8)
    by (simp add: request_def patch_memo_def run_simps andThen_require open_session_def ConflictError_def AppError_def)
qed

definition demo_memo :: "uuid \<Rightarrow> int \<Rightarrow> Memo" where
  "demo_memo u v =
     \<lparr>memo_id = u, memo_org_id = 1, memo_opportunity_id = 4, memo_version = v, memo_status = ''ready'',
      memo_sections = [], memo_recommendation = None, memo_recommendation_rationale = None,
      memo_adversarial = JObj [], memo_gaps = [], memo_trust_summary = [], memo_word_count = None,
      memo_generated_ms = None, memo_cost_usd = None, memo_model_version = None, memo_created_by = None\<rparr>"

theorem superseded_memo_not_editable_witness:
  "request (patch_memo demo_env (demo_pr ANALYST) 20 (Some ''1'') [])
     (demo_funds\<lparr>memos := [demo_memo 20 1, demo_memo 21 2]\<rparr>)
   = (Inl IntegrityError, demo_funds\<lparr>memos := [demo_memo 20 1, demo_memo 21 2]\<rparr>, [])"
proof -
  have "fresh_version (Some ''1'') 1" by code_simp
  then show ?thesis
    using superseded_memo_not_editable [of "demo_memo 20 1" "demo_funds\<lparr>memos := [demo_memo 20 1, demo_memo 21 2]\<rparr>"
        "demo_memo 21 2" "demo_pr ANALYST" "Some ''1''" demo_env "[]"]
    by (simp add: demo_memo_def demo_pr_def has_permission_def)
qed

end
