(* ===== verification/Operations.thy ===== *)
theory Operations
  imports Opportunities
begin

text \<open>
  \<open>app/routers/operations.py\<close>: the channel and founder graphs, the outreach queue, the usage figures and
  the data subject requests. The outreach handlers are shown to implement an abstract machine on the
  status alone. (\<open>POST /admin/harvest\<close> and the queue summary are in \<open>Jobs\<close>.)
\<close>

section \<open>Graphs\<close>

record channel_node =
  cn_id :: uuid
  cn_label :: string
  cn_kind :: string
  cn_quality :: rat
  cn_ci :: "rat \<times> rat"
  cn_discovered :: int
  cn_advanced :: int

record suggestion =
  sg_channel_id :: uuid
  sg_reason :: string
  sg_expected_yield :: rat

definition ch_alpha :: "SourcingChannel \<Rightarrow> int" where
  "ch_alpha c = 1 + ch_advanced_count c"

definition ch_beta :: "SourcingChannel \<Rightarrow> int" where
  "ch_beta c = 1 + max 0 (ch_discovered_count c - ch_advanced_count c)"

definition ch_quality :: "SourcingChannel \<Rightarrow> rat" where
  "ch_quality c = fl (of_int (ch_alpha c) / of_int (ch_alpha c + ch_beta c))"

definition ch_radius :: "libm \<Rightarrow> SourcingChannel \<Rightarrow> rat" where
  "ch_radius L c =
     (let a = ch_alpha c; b = ch_beta c;
          variance = fl (of_int (a * b) / of_int ((a + b) ^ 2 * (a + b + 1)))
      in fmul (fl (128/100)) (lm_sqrt L variance))"

definition total_discovered :: "SourcingChannel list \<Rightarrow> int" where
  "total_discovered cs = max 1 (sum_list (map ch_discovered_count cs))"

definition exploration :: "libm \<Rightarrow> int \<Rightarrow> SourcingChannel \<Rightarrow> rat" where
  "exploration L seen c =
     fadd (ch_quality c)
       (fmul (fl (12/10)) (lm_sqrt L (fdiv (lm_log L (of_int (seen + 1))) (of_int (max 1 (ch_discovered_count c))))))"

definition channel_node_of :: "libm \<Rightarrow> SourcingChannel \<Rightarrow> channel_node" where
  "channel_node_of L c =
     (let q = ch_quality c; r = ch_radius L c
      in \<lparr>cn_id = ch_id c, cn_label = ch_label c, cn_kind = ch_kind c, cn_quality = py_round 3 q,
          cn_ci = (py_round 3 (max 0 (fsub q r)), py_round 3 (min 1 (fadd q r))),
          cn_discovered = ch_discovered_count c, cn_advanced = ch_advanced_count c\<rparr>)"

definition suggestion_of :: "libm \<Rightarrow> int \<Rightarrow> SourcingChannel \<Rightarrow> suggestion" where
  "suggestion_of L seen c =
     \<lparr>sg_channel_id = ch_id c, sg_reason = ''Under-explored channel with a wide uncertainty interval.'',
      sg_expected_yield = py_round 3 (exploration L seen c)\<rparr>"

definition channel_graph :: "env \<Rightarrow> Principal \<Rightarrow> (channel_node list \<times> suggestion list) run" where
  "channel_graph E pr =
     andThen (require READ pr) (\<lambda>_.
     query (\<lambda>d. let cs = sourcing_channels d; L = env_libm E
                in (map (channel_node_of L) cs,
                    take 5 (map (suggestion_of L (total_discovered cs))
                              (filter (\<lambda>c. ch_discovered_count c < 5) cs)))))"

definition founder_graph :: "Principal \<Rightarrow> uuid \<Rightarrow> ((uuid \<times> string) \<times> (uuid \<times> string \<times> rat) list) run" where
  "founder_graph pr i =
     andThen (require READ pr) (\<lambda>_.
     andThen (query (\<lambda>d. get_row per_id i (persons d))) (\<lambda>r.
     andThen (found ''Founder'' r) (\<lambda>p.
     query (\<lambda>d. ((per_id p, per_display_name p),
       map (\<lambda>a. (af_company_id a, af_role a, fl (af_confidence a)))
         (filter (\<lambda>a. af_person_id a = i) (affiliations d)))))))"

section \<open>Outreach\<close>

definition find_outreach :: "uuid \<Rightarrow> uuid \<Rightarrow> db \<Rightarrow> Outreach option" where
  "find_outreach = own_row outreach out_id out_org_id"

definition get_outreach :: "uuid \<Rightarrow> uuid \<Rightarrow> Outreach run" where
  "get_outreach org i = andThen (query (find_outreach org i)) (found ''Outreach'')"

definition set_outreach :: "uuid \<Rightarrow> (Outreach \<Rightarrow> Outreach) \<Rightarrow> db \<Rightarrow> db" where
  "set_outreach i f d = d\<lparr>outreach := upd_row out_id i f (outreach d)\<rparr>"

text \<open>\<open>order_by(created_at.desc())\<close>: the rows are kept in the order of their creation.\<close>

definition list_outreach :: "Principal \<Rightarrow> OutreachStatus option \<Rightarrow> Outreach list run" where
  "list_outreach pr status =
     andThen (require READ pr) (\<lambda>_.
     query (\<lambda>d. rev (filter (\<lambda>r. out_org_id r = pr_org_id pr \<and> matches status (out_status r)) (outreach d))))"

definition approve_outreach :: "Principal \<Rightarrow> uuid \<Rightarrow> OutreachStatus run" where
  "approve_outreach pr i =
     andThen (require SCREEN pr) (\<lambda>_.
     andThen (get_outreach (pr_org_id pr) i) (\<lambda>_.
     andThen (change (set_outreach i (\<lambda>r. r\<lparr>out_status := APPROVED, out_approved_by := pr_user_id pr\<rparr>))) (\<lambda>_.
     andThen commit_run (\<lambda>_. ret APPROVED))))"

definition send_outreach :: "env \<Rightarrow> Principal \<Rightarrow> uuid \<Rightarrow> (OutreachStatus \<times> string) run" where
  "send_outreach E pr i =
     andThen (require SCREEN pr) (\<lambda>_.
     andThen (get_outreach (pr_org_id pr) i) (\<lambda>r.
     andThen (check (out_status r = APPROVED)
               (AppError ''UNPROCESSABLE'' ''Outreach must be approved before sending.'' 422)) (\<lambda>_.
     andThen (change (set_outreach i (\<lambda>r. r\<lparr>out_status := SENT, out_sent_at := Some (env_now E)\<rparr>))) (\<lambda>_.
     andThen commit_run (\<lambda>_.
     ret (SENT, if set_demo_mode (env_settings E) then ''demo_noop'' else ''external_adapter''))))))"

definition reject_outreach :: "Principal \<Rightarrow> uuid \<Rightarrow> string \<Rightarrow> OutreachStatus run" where
  "reject_outreach pr i reason =
     andThen (require SCREEN pr) (\<lambda>_.
     andThen (get_outreach (pr_org_id pr) i) (\<lambda>_.
     andThen (change (set_outreach i (\<lambda>r. r\<lparr>out_status := DECLINED, out_rejection_reason := Some reason\<rparr>))) (\<lambda>_.
     andThen commit_run (\<lambda>_. ret DECLINED))))"

section \<open>Usage and data subjects\<close>

record usage_figures =
  us_median_time_to_decision_h :: "rat option"
  us_sla_breaches :: nat

definition decision_hours :: "Opportunity list \<Rightarrow> rat list" where
  "decision_hours ps =
     sort (List.map_filter (\<lambda>p. map_option (\<lambda>t. fdiv (total_seconds (t - op_first_signal_at p)) 3600) (op_decided_at p)) ps)"

definition usage :: "Principal \<Rightarrow> usage_figures run" where
  "usage pr =
     andThen (require ADMIN pr) (\<lambda>_.
     query (\<lambda>d. let ps = filter (\<lambda>p. op_org_id p = pr_org_id pr) (opportunities d); ts = decision_hours ps
       in \<lparr>us_median_time_to_decision_h = (if ts = [] then None else Some (py_round 2 (ts ! (length ts div 2)))),
           us_sla_breaches = length (filter (\<lambda>p. case op_decided_at p of None \<Rightarrow> False
                                                 | Some t \<Rightarrow> op_sla_deadline_at p < t) ps)\<rparr>))"

text \<open>\<open>GET /admin/merges\<close> is always empty, and an action on a merge only echoes it.\<close>

definition merges :: "Principal \<Rightarrow> uuid list run" where
  "merges pr = andThen (require ADMIN pr) (\<lambda>_. ret [])"

definition merge_action :: "Principal \<Rightarrow> uuid \<Rightarrow> string \<Rightarrow> (uuid \<times> string) run" where
  "merge_action pr merge action =
     andThen (require ADMIN pr) (\<lambda>_.
     andThen (check (action \<in> {''confirm'', ''reject'', ''undo''})
               (ValidationError ''action must be confirm, reject, or undo'')) (\<lambda>_. ret (merge, action)))"

record person_export =
  pe_id :: uuid
  pe_display_name :: string
  pe_headline :: "string option"
  pe_bio :: "string option"
  pe_links :: json
  pe_signals :: "(uuid \<times> SignalKind \<times> string option \<times> datetime) list"

definition gdpr_export :: "Principal \<Rightarrow> uuid \<Rightarrow> person_export run" where
  "gdpr_export pr i =
     andThen (require ADMIN pr) (\<lambda>_.
     andThen (query (\<lambda>d. get_row per_id i (persons d))) (\<lambda>r.
     andThen (found ''Founder'' r) (\<lambda>p.
     query (\<lambda>d. \<lparr>pe_id = per_id p, pe_display_name = per_display_name p, pe_headline = per_headline p,
       pe_bio = per_bio p, pe_links = per_links p,
       pe_signals = map (\<lambda>s. (sig_id s, sig_kind s, sig_url s, sig_observed_at s))
         (filter (\<lambda>s. sig_person_id s = Some i) (signals d))\<rparr>))))"

definition erased :: "Person \<Rightarrow> Person" where
  "erased p =
     p\<lparr>per_display_name := ''Erased data subject'', per_normalized_name := ''erased-'' @ str_nat (per_id p),
       per_headline := None, per_bio := None, per_emails := [], per_links := JObj [], per_education := [],
       per_employment := []\<rparr>"

definition gdpr_erase :: "Principal \<Rightarrow> uuid \<Rightarrow> uuid run" where
  "gdpr_erase pr i =
     andThen (require ADMIN pr) (\<lambda>_.
     andThen (query (\<lambda>d. get_row per_id i (persons d))) (\<lambda>r.
     andThen (found ''Founder'' r) (\<lambda>_.
     andThen (change (set_person i erased)) (\<lambda>_.
     andThen commit_run (\<lambda>_. ret i)))))"

section \<open>The outreach machine\<close>

interpretation out_row: fund_row find_outreach outreach out_id out_org_id
  unfolding find_outreach_def by (rule own_row_fund_row)

datatype outreach_action = Approve | Send | Reject string

fun outreach_handler :: "env \<Rightarrow> Principal \<Rightarrow> uuid \<Rightarrow> outreach_action \<Rightarrow> OutreachStatus run" where
  "outreach_handler E pr i Approve = approve_outreach pr i"
| "outreach_handler E pr i Send = andThen (send_outreach E pr i) (\<lambda>x. ret (fst x))"
| "outreach_handler E pr i (Reject reason) = reject_outreach pr i reason"

text \<open>The abstract machine: the statuses of one fund's outreach, and what an action makes of a status.\<close>

type_synonym outreach_board = "uuid \<rightharpoonup> OutreachStatus"

definition board :: "uuid \<Rightarrow> db \<Rightarrow> outreach_board" where
  "board org d i = map_option out_status (find_outreach org i d)"

fun outreach_next :: "outreach_action \<Rightarrow> OutreachStatus \<Rightarrow> OutreachStatus option" where
  "outreach_next Approve st = Some APPROVED"
| "outreach_next Send st = (if st = APPROVED then Some SENT else None)"
| "outreach_next (Reject reason) st = Some DECLINED"

definition board_step :: "bool \<Rightarrow> uuid \<Rightarrow> outreach_action \<Rightarrow> outreach_board \<Rightarrow> outreach_board" where
  "board_step allowed i a b =
     (if \<not> allowed then b
      else case Option.bind (b i) (outreach_next a) of None \<Rightarrow> b | Some st \<Rightarrow> b(i \<mapsto> st))"

lemma get_outreach_run [run_simps]:
  "andThen (get_outreach org i) f s =
     (case find_outreach org i (s_db s) of
        None \<Rightarrow> (Inl (App (NotFoundError ''Outreach'')), s) | Some r \<Rightarrow> f r s)"
  by (simp add: get_outreach_def run_simps)

lemma find_set_outreach:
  assumes "\<And>r. out_id (f r) = out_id r" "\<And>r. out_org_id (f r) = out_org_id r"
  shows "find_outreach org i (set_outreach j f d) =
    (if i = j then map_option f (find_outreach org i d) else find_outreach org i d)"
  unfolding find_outreach_def by (rule own_row_upd) (simp_all add: assms set_outreach_def)

lemma board_set:
  assumes "\<And>r. out_id (f r) = out_id r" "\<And>r. out_org_id (f r) = out_org_id r" "\<And>r. out_status (f r) = st"
    "find_outreach org i d = Some r"
  shows "board org (set_outreach i f d) = (board org d)(i \<mapsto> st)"
  by (rule ext) (simp add: board_def find_set_outreach assms)

text \<open>C34: the outreach handlers implement the machine. What a request for any action on any row, by
  anyone, does to the statuses of the caller's fund is what the abstract machine does: nothing without
  the permission or the row, \<open>APPROVED\<close> or \<open>DECLINED\<close> from any status (an outreach already sent can be
  approved, and so sent, again), and \<open>SENT\<close> from \<open>APPROVED\<close> only. It answers with the new status
  exactly when there is one.\<close>

theorem outreach_refines_machine:
  "board (pr_org_id pr) (fst (snd (request (outreach_handler E pr i a) d)))
     = board_step (has_permission pr SCREEN) i a (board (pr_org_id pr) d)
   \<and> (\<exists>st. fst (request (outreach_handler E pr i a) d) = Inr st) =
      (has_permission pr SCREEN \<and> Option.bind (board (pr_org_id pr) d i) (outreach_next a) \<noteq> None)"
proof (cases "has_permission pr SCREEN")
  case True
  show ?thesis
  proof (cases "find_outreach (pr_org_id pr) i d")
    case None
    then show ?thesis using True
      by (cases a) (simp_all add: approve_outreach_def send_outreach_def reject_outreach_def request_def run_simps
          andThen_require open_session_def board_step_def board_def)
  next
    case (Some r)
    then show ?thesis using True
      by (cases a) (simp_all add: approve_outreach_def send_outreach_def reject_outreach_def request_def run_simps
          andThen_require open_session_def board_step_def board_set fun_eq_iff, simp_all add: board_def)
  qed
qed (cases a; simp add: approve_outreach_def send_outreach_def reject_outreach_def request_def run_simps
    andThen_require open_session_def board_step_def)

section \<open>Bounds of the channel graph\<close>

text \<open>A channel's quality is a probability inside its interval. For any channel that advanced no
  fewer than zero candidates, the quality and both ends of its interval, as the graph shows them, lie
  between 0 and 1, and the interval contains the quality, whatever the square root of the platform
  returns within its documented range.\<close>

theorem channel_quality_in_interval:
  assumes "libm_ok L" "0 \<le> ch_advanced_count c"
  shows "0 \<le> fst (cn_ci (channel_node_of L c)) \<and> fst (cn_ci (channel_node_of L c)) \<le> cn_quality (channel_node_of L c)
    \<and> cn_quality (channel_node_of L c) \<le> snd (cn_ci (channel_node_of L c)) \<and> snd (cn_ci (channel_node_of L c)) \<le> 1"
proof -
  let ?q = "ch_quality c" and ?r = "ch_radius L c"
  have ab: "1 \<le> ch_alpha c" "1 \<le> ch_beta c" using assms(2) by (simp_all add: ch_alpha_def ch_beta_def)
  have frac: "0 \<le> of_int (ch_alpha c) / (of_int (ch_alpha c + ch_beta c) :: rat)"
    "of_int (ch_alpha c) / (of_int (ch_alpha c + ch_beta c) :: rat) \<le> 1"
    using ab by (simp_all add: field_simps flip: of_int_add)
  have q: "0 \<le> ?q" "?q \<le> 1" using frac flr.rnd_le [of 1] by (simp_all add: ch_quality_def fl_nonneg)
  have "0 \<le> fl (of_int (ch_alpha c * ch_beta c) / (of_int ((ch_alpha c + ch_beta c)\<^sup>2 * (ch_alpha c + ch_beta c + 1)) :: rat))"
    using ab by (intro fl_nonneg divide_nonneg_nonneg) (simp_all flip: of_int_mult)
  then have "0 \<le> ?r"
    using assms(1) by (simp add: ch_radius_def Let_def libm_ok_def fmul_def fl_nonneg)
  moreover have "fl ?q = ?q" by (simp add: ch_quality_def)
  ultimately have "fsub ?q ?r \<le> ?q" "?q \<le> fadd ?q ?r"
    using fl_mono [of "?q - ?r" ?q] fl_mono [of ?q "?q + ?r"] by (simp_all add: fsub_def fadd_def)
  then have "max 0 (fsub ?q ?r) \<le> ?q" "?q \<le> min 1 (fadd ?q ?r)" using q by simp_all
  then show ?thesis
    using pyr.rnd_ge [of 3 0 "max 0 (fsub ?q ?r)"] pyr.rnd_le [of 3 1 "min 1 (fadd ?q ?r)"] py_round_mono
    by (simp add: channel_node_of_def Let_def)
qed

definition demo_channel :: SourcingChannel where
  "demo_channel =
     \<lparr>ch_id = 30, ch_key = ''hn'', ch_label = ''Hacker News'', ch_kind = ''forum'', ch_parent_id = None,
      ch_discovered_count = 4, ch_advanced_count = 1\<rparr>"

theorem channel_quality_in_interval_witness:
  "0 \<le> fst (cn_ci (channel_node_of libm_demo demo_channel))
    \<and> snd (cn_ci (channel_node_of libm_demo demo_channel)) \<le> 1"
  using channel_quality_in_interval [OF libm_demo_ok, of demo_channel] by (simp add: demo_channel_def)

section \<open>Erasure\<close>

text \<open>What erasing a data subject leaves. The request overwrites the name, headline, biography,
  addresses, links, education and employment of the person. The place, country, city and skills stay in
  the row, and every signal, memory chunk and score that names the person stays as it was.\<close>

theorem erasure_leaves_traces:
  assumes "request (gdpr_erase pr i) d = (Inr x, d', q)"
  shows "\<exists>p. get_row per_id i (persons d) = Some p
    \<and> get_row per_id i (persons d') = Some (erased p)
    \<and> per_location_text (erased p) = per_location_text p \<and> per_country_code (erased p) = per_country_code p
    \<and> per_city (erased p) = per_city p \<and> per_skills (erased p) = per_skills p
    \<and> signals d' = signals d \<and> kb_chunks d' = kb_chunks d \<and> founder_score_events d' = founder_score_events d"
  using assms
  by (auto simp: gdpr_erase_def request_def run_simps andThen_require open_session_def set_person_def erased_def
      row_simps split: if_splits option.splits)

theorem erasure_leaves_traces_witness:
  "\<exists>d'. fst (snd (request (gdpr_erase (demo_pr OWNER) 11)
       (demo_funds\<lparr>persons := [(new_person ''Ada'' [] (JObj []) False 0 11)\<lparr>per_city := Some ''Oslo''\<rparr>]\<rparr>))) = d'
     \<and> map per_city (persons d') = [Some ''Oslo'']"
proof -
  let ?d = "demo_funds\<lparr>persons := [(new_person ''Ada'' [] (JObj []) False 0 11)\<lparr>per_city := Some ''Oslo''\<rparr>]\<rparr>"
  obtain x d' q where r: "request (gdpr_erase (demo_pr OWNER) 11) ?d = (Inr x, d', q)" "length (persons d') = 1"
    by (simp add: gdpr_erase_def request_def run_simps andThen_require open_session_def row_simps demo_pr_def
        has_permission_def all_permissions_def new_person_def set_person_def)
  have "\<exists>p. get_row per_id 11 (persons ?d) = Some p \<and> get_row per_id 11 (persons d') = Some (erased p)
      \<and> per_city (erased p) = per_city p"
    using erasure_leaves_traces [OF r(1)] by blast
  then have "\<exists>p. get_row per_id 11 (persons d') = Some p \<and> per_city p = Some ''Oslo''"
    by (auto simp: row_simps new_person_def)
  then show ?thesis using r by (auto simp: length_Suc_conv row_simps split: if_splits)
qed

end
