(* ===== verification/Applications.thy ===== *)
theory Applications
  imports Opportunities Auth
begin

text \<open>
  \<open>app/services/applications.py\<close> and \<open>app/routers/applications.py\<close>: an application arrives from the
  dashboard or from the public form, finds or makes its company, document and live opportunity, gets a
  founder profile and a queued job. An upload is its file name and the chunks it is read in.
\<close>

section \<open>create\_application\<close>

record CreatedApplication =
  ca_application :: Application
  ca_opportunity :: Opportunity
  ca_job :: Job
  ca_tracking_token :: "string option"
  ca_replayed :: bool

record application_form =
  af_company_name :: string
  af_website :: "string option"
  af_contact_email :: "string option"
  af_contact_name :: "string option"
  af_artifacts :: "string list"
  af_notes :: "string option"

definition deck_required :: app_error where
  "deck_required =
     (ValidationError ''Deck file is required when no website is provided.'')
       \<lparr>err_fields := [(''deck'', ''required'', ''Upload a PDF or PPTX.'')]\<rparr>"

text \<open>The job of an earlier request with the same key, with its application and opportunity.\<close>

definition prior_job :: "uuid \<Rightarrow> string \<Rightarrow> db \<Rightarrow> Job option" where
  "prior_job org key d =
     first_row (\<lambda>j. job_org_id j = Some org \<and> job_kind j = ''application.process'' \<and> job_idempotency_key j = Some key)
       (jobs d)"

definition input_uuid :: "string \<Rightarrow> json \<Rightarrow> exn + uuid" where
  "input_uuid k j = (case jget k j of None \<Rightarrow> Inl (PyExn ''KeyError'' k) | Some v \<Rightarrow> parse_uuid v)"

definition replay :: "Job \<Rightarrow> CreatedApplication option run" where
  "replay j =
     (if jget_truthy ''application_id'' (job_input j) = None then ret None
      else andThen (lift (input_uuid ''application_id'' (job_input j))) (\<lambda>a.
           andThen (query (\<lambda>d. get_row app_id a (applications d))) (\<lambda>application.
           andThen (lift (input_uuid ''opportunity_id'' (job_input j))) (\<lambda>p.
           andThen (query (\<lambda>d. get_row op_id p (opportunities d))) (\<lambda>opportunity.
           ret (case (application, opportunity) of
                  (Some a, Some p) \<Rightarrow> Some \<lparr>ca_application = a, ca_opportunity = p, ca_job = j,
                                           ca_tracking_token = None, ca_replayed = True\<rparr>
                | _ \<Rightarrow> None))))))"

definition earlier_request :: "uuid \<Rightarrow> string option \<Rightarrow> CreatedApplication option run" where
  "earlier_request org key =
     (if \<not> truthy key then ret None
      else andThen (query (prior_job org (the key)))
             (\<lambda>prior. case prior of None \<Rightarrow> ret None | Some j \<Rightarrow> replay j))"

definition website_domain :: "string option \<Rightarrow> exn + string option" where
  "website_domain website =
     (if \<not> truthy website then Inr None
      else case urlsplit (the website) of
             Inl e \<Rightarrow> Inl e
           | Inr p \<Rightarrow> Inr (case hostname p of None \<Rightarrow> None | Some h \<Rightarrow> if h = [] then None else Some (casefold h)))"

definition company_for :: "string option \<Rightarrow> string \<Rightarrow> db \<Rightarrow> Company option" where
  "company_for domain name d =
     (case (case domain of None \<Rightarrow> None | Some h \<Rightarrow> first_row (\<lambda>c. co_domain c = Some h) (companies d)) of
        Some c \<Rightarrow> Some c
      | None \<Rightarrow> first_row (\<lambda>c. co_normalized_name c = normalize_name name) (companies d))"

definition application_company :: "env \<Rightarrow> application_form \<Rightarrow> Company run" where
  "application_company E form =
     andThen (lift (website_domain (af_website form))) (\<lambda>domain.
     andThen (query (company_for domain (af_company_name form))) (\<lambda>existing.
     case existing of
       Some c \<Rightarrow> ret c
     | None \<Rightarrow> insert_new (\<lambda>u. (new_company (strip (af_company_name form)) domain
                 (JObj (if truthy (af_website form) then [(''website'', JStr (the (af_website form)))] else []))
                 None True (env_now E) u)\<lparr>co_normalized_name := normalize_name (af_company_name form)\<rparr>) add_company))"

text \<open>\<open>Path(name).name\<close>: the last component, \<open>.\<close> is none.\<close>

definition path_name :: "string \<Rightarrow> string" where
  "path_name s =
     (let parts = filter (\<lambda>p. p \<noteq> ''.'') (split_acc (\<lambda>c. c = CHR ''/'') [] s) in if parts = [] then [] else last parts)"

definition new_document ::
  "uuid \<Rightarrow> uuid \<Rightarrow> string \<Rightarrow> string \<Rightarrow> nat \<Rightarrow> string \<Rightarrow> string \<Rightarrow> uuid option \<Rightarrow> datetime \<Rightarrow> uuid \<Rightarrow> Document" where
  "new_document org company filename mime bytes digest key uploaded_by now u =
     \<lparr>doc_id = u, doc_org_id = Some org, doc_company_id = Some company, doc_kind = ''deck'',
      doc_filename = Some filename, doc_mime = Some mime, doc_size_bytes = Some bytes, doc_sha256 = digest,
      doc_s3_key = key, doc_page_count = None, doc_parse_status = ''pending'', doc_parse_error = None,
      doc_parser = None, doc_uploaded_by = uploaded_by, doc_created_at = now\<rparr>"

definition add_document :: "Document \<Rightarrow> db \<Rightarrow> db" where
  "add_document r d = d\<lparr>documents := documents d @ [r]\<rparr>"

text \<open>The bytes of the deck are stored once per fund.\<close>

definition application_document ::
  "env \<Rightarrow> uuid \<Rightarrow> Company \<Rightarrow> string option \<Rightarrow> string option \<Rightarrow> uuid option \<Rightarrow> uuid option run" where
  "application_document E org company deck filename uploaded_by =
     (case deck of
        None \<Rightarrow> ret None
      | Some data \<Rightarrow>
          andThen (app_lift (sniff_document_mime data)) (\<lambda>mime.
          andThen (query (\<lambda>d. first_row (\<lambda>r. doc_org_id r = Some org \<and> doc_sha256 r = env_sha256 E data) (documents d)))
            (\<lambda>existing. case existing of
               Some r \<Rightarrow> ret (Some (doc_id r))
             | None \<Rightarrow>
                 let sfx = (if mime = PDF_MIME then ''.pdf'' else ''.pptx'')
                 in andThen (lift (store_put E data sfx)) (\<lambda>(key, digest).
                    andThen (insert_new (new_document org (co_id company)
                        (path_name (if truthy filename then the filename else ''deck'' @ sfx)) mime (length data)
                        digest key uploaded_by (env_now E)) add_document) (\<lambda>r. ret (Some (doc_id r)))))))"

definition fund_default_thesis :: "uuid \<Rightarrow> db \<Rightarrow> Thesis option" where
  "fund_default_thesis org d =
     first_row (\<lambda>t. th_org_id t = org \<and> th_is_default t \<and> th_deleted_at t = None) (theses d)"

definition application_opportunity :: "env \<Rightarrow> uuid \<Rightarrow> Company \<Rightarrow> Opportunity run" where
  "application_opportunity E org company =
     andThen (query (live_opportunity org (co_id company))) (\<lambda>existing.
     case existing of
       Some p \<Rightarrow> ret p
     | None \<Rightarrow>
         andThen (query (fund_default_thesis org)) (\<lambda>thesis.
         insert_new (new_opportunity org company (map_option th_id thesis) INBOUND (env_now E) (env_now E)
                       (set_decision_sla_hours (env_settings E))) add_opportunity))"

definition new_application ::
  "env \<Rightarrow> uuid \<Rightarrow> application_form \<Rightarrow> uuid option \<Rightarrow> uuid \<Rightarrow> string \<Rightarrow> string option \<Rightarrow> string option \<Rightarrow> uuid \<Rightarrow> Application" where
  "new_application E org form doc opp channel ip token u =
     \<lparr>app_id = u, app_org_id = org, app_company_name = strip (af_company_name form),
      app_deck_document_id = doc,
      app_contact_email = (if truthy (af_contact_email form) then map_option casefold (af_contact_email form) else None),
      app_contact_name = af_contact_name form, app_website = af_website form,
      app_extra = JObj [(''artifacts'', JList (map JStr (af_artifacts form))),
                        (''notes'', case af_notes form of None \<Rightarrow> JNull | Some n \<Rightarrow> JStr n)],
      app_status = RECEIVED, app_submitted_ip = ip, app_opportunity_id = Some opp,
      app_source_channel = Some channel, app_outreach_id = None, app_received_at = env_now E, app_deleted_at = None,
      app_tracking_token_hash =
        (if truthy token then Some (env_sha256 E (the token)) else None)\<rparr>"

definition add_application :: "Application \<Rightarrow> db \<Rightarrow> db" where
  "add_application a d = d\<lparr>applications := applications d @ [a]\<rparr>"

definition process_input :: "uuid \<Rightarrow> uuid \<Rightarrow> uuid option \<Rightarrow> bool \<Rightarrow> json" where
  "process_input application opp doc public =
     JObj [(''application_id'', JUuid application), (''opportunity_id'', JUuid opp),
           (''document_id'', case doc of None \<Rightarrow> JNull | Some u \<Rightarrow> JUuid u), (''public'', JBool public)]"

definition store_application ::
  "env \<Rightarrow> uuid \<Rightarrow> application_form \<Rightarrow> uuid option \<Rightarrow> Opportunity \<Rightarrow> string \<Rightarrow> string option \<Rightarrow> string option \<Rightarrow>
     bool \<Rightarrow> CreatedApplication run" where
  "store_application E org form doc opp channel ip key public =
     andThen (if public then andThen (token_urlsafe E) (\<lambda>t. ret (Some t)) else ret None) (\<lambda>token.
     andThen (insert_new (new_application E org form doc (op_id opp) channel ip token) add_application) (\<lambda>a.
     andThen (insert_new (new_job (Some org) ''application.process'' ''opportunity'' (op_id opp) key
                (process_input (app_id a) (op_id opp) doc public) (env_now E)) add_job) (\<lambda>j.
     ret \<lparr>ca_application = a, ca_opportunity = opp, ca_job = j, ca_tracking_token = token, ca_replayed = False\<rparr>)))"

definition create_application ::
  "env \<Rightarrow> uuid \<Rightarrow> application_form \<Rightarrow> string option \<Rightarrow> string option \<Rightarrow> string \<Rightarrow> string option \<Rightarrow> uuid option \<Rightarrow>
     string option \<Rightarrow> bool \<Rightarrow> CreatedApplication run" where
  "create_application E org form deck filename channel ip uploaded_by key public =
     andThen (check (strip (af_company_name form) \<noteq> []) (ValidationError ''Company name is required.'')) (\<lambda>_.
     andThen (check (deck \<noteq> None \<or> truthy (af_website form)) deck_required) (\<lambda>_.
     andThen (earlier_request org key) (\<lambda>earlier.
     case earlier of
       Some r \<Rightarrow> ret r
     | None \<Rightarrow>
         andThen (application_company E form) (\<lambda>company.
         andThen (application_document E org company deck filename uploaded_by) (\<lambda>doc.
         andThen (application_opportunity E org company) (\<lambda>opp.
         andThen (ensure_application_founder E company (af_contact_name form) (af_contact_email form)
                    (af_website form) (af_artifacts form)) (\<lambda>_.
         store_application E org form doc opp channel ip key public)))))))"

section \<open>Requests\<close>

fun validate_all :: "resolver \<Rightarrow> string list \<Rightarrow> unit run" where
  "validate_all resolve [] = ret ()"
| "validate_all resolve (u # us) = andThen (lift (validate_public_url resolve u)) (\<lambda>_. validate_all resolve us)"

definition validate_urls :: "resolver \<Rightarrow> string option \<Rightarrow> string list \<Rightarrow> unit run" where
  "validate_urls resolve website artifacts =
     andThen (if truthy website then validate_all resolve [the website] else ret ()) (\<lambda>_.
     validate_all resolve (take 10 artifacts))"

definition read_deck :: "env \<Rightarrow> (string option \<times> string list) option \<Rightarrow> string option run" where
  "read_deck E deck =
     (case deck of None \<Rightarrow> ret None
      | Some (name, chunks) \<Rightarrow>
          andThen (app_lift (read_limited_upload (set_max_upload_mb (env_settings E)) chunks)) (\<lambda>data. ret (Some data)))"

definition deck_name :: "(string option \<times> string list) option \<Rightarrow> string option" where
  "deck_name deck = (case deck of None \<Rightarrow> None | Some (name, chunks) \<Rightarrow> name)"

text \<open>The answer: application, opportunity, job, and whether it is a replay.\<close>

definition submit_application ::
  "env \<Rightarrow> resolver \<Rightarrow> Principal \<Rightarrow> application_form \<Rightarrow> (string option \<times> string list) option \<Rightarrow> string option \<Rightarrow>
     string option \<Rightarrow> (uuid \<times> uuid \<times> uuid \<times> bool) run" where
  "submit_application E resolve pr form deck ip key =
     andThen (require SCREEN pr) (\<lambda>_.
     andThen (check (truthy key) key_required) (\<lambda>_.
     andThen (validate_urls resolve (af_website form) (af_artifacts form)) (\<lambda>_.
     andThen (read_deck E deck) (\<lambda>data.
     andThen (create_application E (pr_org_id pr) form data (deck_name deck) ''web_form'' ip (pr_user_id pr) key False) (\<lambda>r.
     andThen commit_run (\<lambda>_.
     andThen (if ca_replayed r then ret () else dispatch_job E (job_id (ca_job r))) (\<lambda>_.
     ret (app_id (ca_application r), op_id (ca_opportunity r), job_id (ca_job r), ca_replayed r))))))))"

definition list_applications :: "Principal \<Rightarrow> ApplicationStatus option \<Rightarrow> nat \<Rightarrow> Application list run" where
  "list_applications pr status limit =
     andThen (require READ pr) (\<lambda>_.
     query (\<lambda>d. take limit (sort_key (\<lambda>a. - app_received_at a)
       (filter (\<lambda>a. app_org_id a = pr_org_id pr \<and> app_deleted_at a = None \<and> matches status (app_status a))
         (applications d)))))"

definition find_application :: "uuid \<Rightarrow> uuid \<Rightarrow> db \<Rightarrow> Application option" where
  "find_application = own_row applications app_id app_org_id"

definition get_application :: "Principal \<Rightarrow> uuid \<Rightarrow> Application run" where
  "get_application pr i =
     andThen (require READ pr) (\<lambda>_.
     andThen (query (\<lambda>d. first_row (\<lambda>a. app_id a = i \<and> app_org_id a = pr_org_id pr \<and> app_deleted_at a = None)
                           (applications d))) (found ''Application''))"

definition info_questions :: "string list" where
  "info_questions =
     [''What evidence best demonstrates that the problem is urgent?'',
      ''What have you shipped, and what changed after users saw it?'',
      ''Which decision-critical metrics can you substantiate with primary evidence?'']"

definition request_application_info :: "Principal \<Rightarrow> uuid \<Rightarrow> string list run" where
  "request_application_info pr i =
     andThen (require SCREEN pr) (\<lambda>_.
     andThen (query (find_application (pr_org_id pr) i)) (\<lambda>r. andThen (found ''Application'' r) (\<lambda>_.
     andThen (change (set_application i (\<lambda>a. a\<lparr>app_status := NEEDS_INFO\<rparr>))) (\<lambda>_.
     andThen commit_run (\<lambda>_. ret info_questions)))))"

definition delete_application :: "env \<Rightarrow> Principal \<Rightarrow> uuid \<Rightarrow> unit run" where
  "delete_application E pr i =
     andThen (require SCREEN pr) (\<lambda>_.
     andThen (query (find_application (pr_org_id pr) i)) (\<lambda>r. andThen (found ''Application'' r) (\<lambda>_.
     andThen (change (set_application i (\<lambda>a. a\<lparr>app_deleted_at := Some (env_now E)\<rparr>))) (\<lambda>_. commit_run))))"

definition public_apply ::
  "env \<Rightarrow> resolver \<Rightarrow> string \<Rightarrow> application_form \<Rightarrow> (string option \<times> string list) option \<Rightarrow> string option \<Rightarrow>
     (uuid \<times> string) run" where
  "public_apply E resolve slug form deck ip =
     andThen (query (\<lambda>d. first_row (\<lambda>g. org_slug g = slug) (orgs d))) (\<lambda>r. andThen (found ''Fund'' r) (\<lambda>org.
     andThen (validate_urls resolve (af_website form) (af_artifacts form)) (\<lambda>_.
     andThen (read_deck E deck) (\<lambda>data.
     andThen (create_application E (org_id org) form data (deck_name deck) ''public_form'' ip None None True) (\<lambda>r.
     andThen commit_run (\<lambda>_.
     andThen (dispatch_job E (job_id (ca_job r))) (\<lambda>_.
     case ca_tracking_token r of
       None \<Rightarrow> throw (PyExn ''AssertionError'' [])
     | Some token \<Rightarrow> ret (app_id (ca_application r), token))))))))"

record PublicApplicationStatus =
  pa_status :: ApplicationStatus
  pa_stage :: "string option"
  pa_submitted_at :: datetime
  pa_decided_at :: "datetime option"
  pa_hours_remaining :: rat

definition public_application_status :: "env \<Rightarrow> string \<Rightarrow> PublicApplicationStatus run" where
  "public_application_status E token =
     andThen (query (\<lambda>d. first_row (\<lambda>a. app_tracking_token_hash a = Some (env_sha256 E token)) (applications d))) (\<lambda>r.
     andThen (found ''Application'' r) (\<lambda>a.
     query (\<lambda>d. let opp = Option.bind (app_opportunity_id a) (\<lambda>p. get_row op_id p (opportunities d));
                    deadline = (case opp of None \<Rightarrow> app_received_at a | Some p \<Rightarrow> op_sla_deadline_at p);
                    left = fdiv (total_seconds (deadline - env_now E)) 3600
                in \<lparr>pa_status = app_status a, pa_stage = map_option (\<lambda>p. stage_value (op_stage p)) opp,
                    pa_submitted_at = app_received_at a, pa_decided_at = Option.bind opp op_decided_at,
                    pa_hours_remaining = py_round 2 (max 0 left)\<rparr>)))"

section \<open>What an application does\<close>

interpretation application_row: fund_row find_application applications app_id app_org_id
  unfolding find_application_def by (rule own_row_fund_row)

text \<open>Until the application is stored, its job and application tables stay and opportunities are only added.\<close>

definition intake_kept :: "db \<Rightarrow> db \<Rightarrow> bool" where
  "intake_kept d d' \<longleftrightarrow>
     jobs d' = jobs d \<and> applications d' = applications d \<and> prefix (opportunities d) (opportunities d')"

interpretation intake: db_order intake_kept
  by unfold_locales (auto simp: intake_kept_def)

lemmas intake_intros = intake.keeps_andThen intake.keeps_change intake.keeps_insert_new
  intake.keeps_on_db intake.keeps_when_some intake.keeps_if

lemma frame_intake: "frame.keeps m \<Longrightarrow> intake.keeps m"
  unfolding frame.keeps_def intake.keeps_def entities_only_def intake_kept_def by (metis prefix_order.refl)

lemma intake_founder [simp]: "intake.keeps (ensure_application_founder E c n e w a)"
  by (rule frame_intake) (rule frame_application_founder)

lemma intake_parts [simp]:
  "intake.keeps (application_company E form)"
  "intake.keeps (application_document E org c deck fn by)"
  "intake.keeps (application_opportunity E org c)"
  by (auto simp: application_company_def application_document_def application_opportunity_def app_lift_def Let_def
      intake_kept_def add_company_def add_document_def add_opportunity_def
      intro!: intake_intros split: option.split sum.split prod.split)

lemma intakeD: "m s = (r, s') \<Longrightarrow> intake.keeps m \<Longrightarrow> intake_kept (s_db s) (s_db s')"
  using intake.keepsD by blast

lemma application_opportunity_live:
  assumes "application_opportunity E org c s = (Inr p, s')"
  shows "p \<in> set (opportunities (s_db s')) \<and> op_org_id p = org \<and> op_company_id p = co_id c \<and> op_stage p \<noteq> ARCHIVED"
  using assms
  by (auto simp: application_opportunity_def run_simps live_opportunity_def add_opportunity_def new_opportunity_def
      split: option.splits dest: first_row_Some)

lemma store_application_effect:
  assumes "store_application E org form doc opp ch ip key public s = (Inr r, s')"
  shows "\<not> ca_replayed r \<and> ca_opportunity r = opp \<and> jobs (s_db s') = jobs (s_db s) @ [ca_job r]
    \<and> applications (s_db s') = applications (s_db s) @ [ca_application r]
    \<and> opportunities (s_db s') = opportunities (s_db s)
    \<and> app_opportunity_id (ca_application r) = Some (op_id opp) \<and> app_status (ca_application r) = RECEIVED
    \<and> app_org_id (ca_application r) = org
    \<and> job_org_id (ca_job r) = Some org \<and> job_kind (ca_job r) = ''application.process''
    \<and> job_idempotency_key (ca_job r) = key \<and> job_status (ca_job r) = QUEUED
    \<and> job_target_id (ca_job r) = Some (op_id opp)
    \<and> job_input (ca_job r) = process_input (app_id (ca_application r)) (op_id opp) doc public"
  using assms
  by (auto simp: store_application_def run_simps token_urlsafe_def new_uuid_def add_application_def add_job_def
      new_job_def new_application_def split: if_splits)

lemma create_application_effect:
  assumes "create_application E org form deck fn ch ip by key public s = (Inr r, s')"
    and "\<not> truthy key \<or> prior_job org (the key) (s_db s) = None"
  shows "\<not> ca_replayed r \<and> jobs (s_db s') = jobs (s_db s) @ [ca_job r]
    \<and> applications (s_db s') = applications (s_db s) @ [ca_application r]
    \<and> ca_opportunity r \<in> set (opportunities (s_db s')) \<and> op_org_id (ca_opportunity r) = org
    \<and> op_stage (ca_opportunity r) \<noteq> ARCHIVED
    \<and> app_opportunity_id (ca_application r) = Some (op_id (ca_opportunity r))
    \<and> app_status (ca_application r) = RECEIVED \<and> app_org_id (ca_application r) = org
    \<and> job_org_id (ca_job r) = Some org \<and> job_kind (ca_job r) = ''application.process''
    \<and> job_idempotency_key (ca_job r) = key \<and> job_status (ca_job r) = QUEUED
    \<and> job_target_id (ca_job r) = Some (op_id (ca_opportunity r))
    \<and> (\<exists>doc. job_input (ca_job r) = process_input (app_id (ca_application r)) (op_id (ca_opportunity r)) doc public)"
proof -
  have "earlier_request org key s = (Inr None, s)"
    using assms(2) by (auto simp: earlier_request_def run_simps)
  then obtain c doc p f s1 s2 s3 s4 where
    c: "application_company E form s = (Inr c, s1)" and
    doc: "application_document E org c deck fn by s1 = (Inr doc, s2)" and
    p: "application_opportunity E org c s2 = (Inr p, s3)" and
    f: "ensure_application_founder E c (af_contact_name form) (af_contact_email form) (af_website form)
          (af_artifacts form) s3 = (Inr f, s4)" and
    st: "store_application E org form doc p ch ip key public s4 = (Inr r, s')"
    using assms(1) by (auto simp: create_application_def andThen_Inr check_run split: if_splits)
  have "intake_kept (s_db s) (s_db s1)" "intake_kept (s_db s1) (s_db s2)" "intake_kept (s_db s2) (s_db s3)"
    "intake_kept (s_db s3) (s_db s4)"
    by (rule intakeD [where m = "application_company E form", OF c] intakeD [where m = "application_document E org c deck fn by", OF doc]
        intakeD [where m = "application_opportunity E org c", OF p]
        intakeD [where m = "ensure_application_founder E c (af_contact_name form) (af_contact_email form) (af_website form)
          (af_artifacts form)", OF f]; simp)+
  moreover from this have "p \<in> set (opportunities (s_db s4))"
    using application_opportunity_live [OF p] by (auto simp: intake_kept_def prefix_def)
  ultimately show ?thesis
    using application_opportunity_live [OF p] store_application_effect [OF st] by (auto simp: intake_kept_def)
qed

lemma replay_found:
  assumes "job_input j = process_input a p doc public"
    "x \<in> set (applications (s_db s))" "app_id x = a" "y \<in> set (opportunities (s_db s))" "op_id y = p"
  shows "\<exists>r. replay j s = (Inr (Some r), s) \<and> ca_replayed r \<and> app_id (ca_application r) = a
    \<and> op_id (ca_opportunity r) = p \<and> ca_job r = j"
proof -
  obtain x' where x: "get_row app_id a (applications (s_db s)) = Some x'"
    using assms(2,3) by (cases "get_row app_id a (applications (s_db s))") (auto simp: get_row_None)
  obtain y' where y: "get_row op_id p (opportunities (s_db s)) = Some y'"
    using assms(4,5) by (cases "get_row op_id p (opportunities (s_db s))") (auto simp: get_row_None)
  show ?thesis
    using get_row_Some [OF x] get_row_Some [OF y] x y
    by (simp add: replay_def assms(1) process_input_def jget_truthy_def input_uuid_def run_simps)
qed

text \<open>C29: an application is taken in once. A first request with a key stores one application, received
  and linked to a live opportunity of the fund, and one queued job for it. Any later request of that fund
  with the same key, whatever form and deck it brings and whoever sends it, gets the same application,
  opportunity and job, marked as a replay, and changes nothing.\<close>

theorem application_taken_in_once:
  assumes "create_application E org form deck fn ch ip by (Some key) public s = (Inr r, s')"
    and "key \<noteq> []" "prior_job org key (s_db s) = None" "s_db t = s_db s'"
    and "strip (af_company_name form2) \<noteq> []" "deck2 \<noteq> None \<or> truthy (af_website form2)"
  shows "\<not> ca_replayed r \<and> jobs (s_db s') = jobs (s_db s) @ [ca_job r]
    \<and> applications (s_db s') = applications (s_db s) @ [ca_application r]
    \<and> app_status (ca_application r) = RECEIVED \<and> job_status (ca_job r) = QUEUED
    \<and> app_opportunity_id (ca_application r) = Some (op_id (ca_opportunity r))
    \<and> op_org_id (ca_opportunity r) = org \<and> op_stage (ca_opportunity r) \<noteq> ARCHIVED
    \<and> (\<exists>r2. create_application E2 org form2 deck2 fn2 ch2 ip2 by2 (Some key) public2 t = (Inr r2, t)
        \<and> ca_replayed r2 \<and> app_id (ca_application r2) = app_id (ca_application r)
        \<and> op_id (ca_opportunity r2) = op_id (ca_opportunity r) \<and> ca_job r2 = ca_job r)"
proof -
  note eff = create_application_effect [OF assms(1)]
  have e: "\<not> ca_replayed r" "jobs (s_db s') = jobs (s_db s) @ [ca_job r]"
      "applications (s_db s') = applications (s_db s) @ [ca_application r]"
      "ca_opportunity r \<in> set (opportunities (s_db s'))" "job_org_id (ca_job r) = Some org"
      "job_kind (ca_job r) = ''application.process''" "job_idempotency_key (ca_job r) = Some key"
    and i: "\<exists>doc. job_input (ca_job r) = process_input (app_id (ca_application r)) (op_id (ca_opportunity r)) doc public"
    using eff assms(2,3) by (simp_all add: truthy_def)
  have "prior_job org key (s_db t) = Some (ca_job r)"
    using assms(3,4) e by (simp add: prior_job_def row_simps) (simp add: first_row_def)
  moreover obtain doc where doc: "job_input (ca_job r) =
      process_input (app_id (ca_application r)) (op_id (ca_opportunity r)) doc public" using i by blast
  obtain r2 where "replay (ca_job r) t = (Inr (Some r2), t)" "ca_replayed r2"
      "app_id (ca_application r2) = app_id (ca_application r)" "op_id (ca_opportunity r2) = op_id (ca_opportunity r)"
      "ca_job r2 = ca_job r"
    using replay_found [OF doc, of "ca_application r" t "ca_opportunity r"] e assms(4) by auto
  ultimately have "create_application E2 org form2 deck2 fn2 ch2 ip2 by2 (Some key) public2 t = (Inr r2, t)"
    using assms(2,5,6)
    by (simp add: create_application_def run_simps earlier_request_def truthy_def andThen_goes [where m = "replay (ca_job r)"])
  then show ?thesis using eff assms(2,3) \<open>ca_replayed r2\<close> \<open>ca_job r2 = ca_job r\<close>
      \<open>app_id (ca_application r2) = app_id (ca_application r)\<close> \<open>op_id (ca_opportunity r2) = op_id (ca_opportunity r)\<close>
    by (simp add: truthy_def)
qed

definition demo_form :: application_form where
  "demo_form =
     \<lparr>af_company_name = ''Acme'', af_website = None, af_contact_email = None, af_contact_name = None,
      af_artifacts = [], af_notes = None\<rparr>"

theorem application_taken_in_once_witness:
  "\<exists>r s'. create_application demo_env 2 demo_form (Some ''%PDF-1'') None ''web_form'' None None (Some ''k'') False
       (open_session empty_db []) = (Inr r, s')
     \<and> (\<exists>r2. create_application demo_env 2 demo_form (Some ''%PDF-2'') None ''web_form'' None None (Some ''k'') False s'
              = (Inr r2, s') \<and> ca_replayed r2 \<and> app_id (ca_application r2) = app_id (ca_application r))"
proof -
  have form: "strip (af_company_name demo_form) \<noteq> []" by code_simp
  have pdf: "sniff_document_mime ''%PDF-1'' = Inr PDF_MIME" by (simp add: sniff_document_mime_def)
  have prior: "prior_job 2 ''k'' (s_db (open_session empty_db [])) = None"
    by (simp add: prior_job_def open_session_def empty_db_def first_row_def)
  obtain c s1 where c: "application_company demo_env demo_form (open_session empty_db []) = (Inr c, s1)"
    by (simp add: application_company_def website_domain_def demo_form_def truthy_def run_simps company_for_def
        open_session_def empty_db_def first_row_def)
  obtain doc s2 where doc: "application_document demo_env 2 c (Some ''%PDF-1'') None None s1 = (Inr doc, s2)"
    by (cases "first_row (\<lambda>r. doc_org_id r = Some 2 \<and> doc_sha256 r = env_sha256 demo_env ''%PDF-1'') (documents (s_db s1))")
      (auto simp: application_document_def pdf app_lift_def run_simps store_put_def demo_env_def Let_def)
  obtain p s3 where p: "application_opportunity demo_env 2 c s2 = (Inr p, s3)"
    by (cases "live_opportunity 2 (co_id c) (s_db s2)") (auto simp: application_opportunity_def run_simps)
  obtain f s4 where f: "ensure_application_founder demo_env c (af_contact_name demo_form) (af_contact_email demo_form)
      (af_website demo_form) (af_artifacts demo_form) s3 = (Inr f, s4)"
    using application_founder_profile by blast
  obtain r s' where st: "store_application demo_env 2 demo_form doc p ''web_form'' None (Some ''k'') False s4 = (Inr r, s')"
    by (simp add: store_application_def run_simps)
  have "create_application demo_env 2 demo_form (Some ''%PDF-1'') None ''web_form'' None None (Some ''k'') False
       (open_session empty_db []) = (Inr r, s')"
    using form prior
    by (simp add: create_application_def run_simps earlier_request_def truthy_def andThen_goes [where m = "application_company demo_env demo_form", OF c]
        andThen_goes [where m = "application_document demo_env 2 c (Some ''%PDF-1'') None None", OF doc]
        andThen_goes [where m = "application_opportunity demo_env 2 c", OF p]
        andThen_goes [where m = "ensure_application_founder demo_env c (af_contact_name demo_form) (af_contact_email demo_form)
          (af_website demo_form) (af_artifacts demo_form)", OF f] st)
  then show ?thesis
    using application_taken_in_once [of demo_env 2 demo_form "Some ''%PDF-1''" None "''web_form''" None None "''k''" False
        "open_session empty_db []" r s' s' demo_form "Some ''%PDF-2''" demo_env None "''web_form''" None None False] form prior
    by auto
qed

end
