(* ===== verification/Tenants.thy ===== *)
theory Tenants
  imports Theses Memos Operations Applications
begin

text \<open>
  The routes that name one row of a fund, over all the resources: opportunities, theses, memos, outreach,
  applications and jobs. A route is served with the row's identifier from the path; what it answers is
  dropped, what it does to the database and whether it fails is kept.
\<close>

datatype route =
    OpportunityGet | OpportunityPatch "string option" OpportunityUpdate
  | OpportunityScreen bool "string option" | OpportunityDiligence "string list" "string option"
  | OpportunityMemo bool "string option" | OpportunityDecide DecisionRequest "string option" "string option"
  | OpportunityArchive bool | OpportunityTimeline | OpportunityScores bool
  | OpportunityClaims "ClaimCategory option" "ClaimStatus option" rat | OpportunityEvidence uuid
  | OpportunityTrace "uuid option" | OpportunityMemoGet string
  | ThesisGet | ThesisPatch "string option" ThesisUpdate | ThesisDelete | ThesisDefault | ThesisPreviewGet
  | MemoGet | MemoPatch "string option" "memo_section list" | MemoRegenerate string "string option"
  | MemoExport string | MemoCitations
  | OutreachDo outreach_action
  | ApplicationGet | ApplicationInfo | ApplicationDelete
  | JobGet | JobCancel | JobRetry

definition quiet :: "'a run \<Rightarrow> unit run" where
  "quiet m = andThen m (\<lambda>_. ret ())"

fun serve :: "env \<Rightarrow> Principal \<Rightarrow> uuid \<Rightarrow> route \<Rightarrow> unit run" where
  "serve E pr i OpportunityGet = quiet (opportunity_detail E pr i)"
| "serve E pr i (OpportunityPatch h u) = quiet (update_opportunity E pr i h u)"
| "serve E pr i (OpportunityScreen force key) = quiet (screen_opportunity E pr i force key)"
| "serve E pr i (OpportunityDiligence focus key) = quiet (diligence_opportunity E pr i focus key)"
| "serve E pr i (OpportunityMemo again key) = quiet (memo_opportunity E pr i again key)"
| "serve E pr i (OpportunityDecide body key req) = quiet (decide_opportunity E pr i body key req)"
| "serve E pr i (OpportunityArchive lazy) = quiet (archive_opportunity lazy E pr i)"
| "serve E pr i OpportunityTimeline = quiet (opportunity_timeline pr i)"
| "serve E pr i (OpportunityScores history) = quiet (opportunity_scores_endpoint pr i history)"
| "serve E pr i (OpportunityClaims c st t) = quiet (opportunity_claims pr i c st t)"
| "serve E pr i (OpportunityEvidence c) = quiet (claim_evidence pr i c)"
| "serve E pr i (OpportunityTrace j) = quiet (opportunity_trace pr i j)"
| "serve E pr i (OpportunityMemoGet v) = quiet (get_opportunity_memo pr i v)"
| "serve E pr i ThesisGet = quiet (get_thesis pr i)"
| "serve E pr i (ThesisPatch h u) = quiet (update_thesis pr i h u)"
| "serve E pr i ThesisDelete = quiet (delete_thesis E pr i)"
| "serve E pr i ThesisDefault = quiet (set_default pr i)"
| "serve E pr i ThesisPreviewGet = quiet (preview_thesis pr i)"
| "serve E pr i MemoGet = quiet (get_memo pr i)"
| "serve E pr i (MemoPatch h secs) = quiet (patch_memo E pr i h secs)"
| "serve E pr i (MemoRegenerate sec key) = quiet (regenerate_section E pr i sec key)"
| "serve E pr i (MemoExport fmt) = quiet (export_memo E pr i fmt)"
| "serve E pr i MemoCitations = quiet (memo_citations pr i)"
| "serve E pr i (OutreachDo a) = quiet (outreach_handler E pr i a)"
| "serve E pr i ApplicationGet = quiet (get_application pr i)"
| "serve E pr i ApplicationInfo = quiet (request_application_info pr i)"
| "serve E pr i ApplicationDelete = quiet (delete_application E pr i)"
| "serve E pr i JobGet = quiet (get_job pr i)"
| "serve E pr i JobCancel = quiet (cancel_job E pr i)"
| "serve E pr i JobRetry = quiet (retry_job E pr i)"

text \<open>The fund has a row with the identifier in the table that the route is for.\<close>

fun has_row :: "uuid \<Rightarrow> uuid \<Rightarrow> db \<Rightarrow> route \<Rightarrow> bool" where
  "has_row org i d ThesisGet = list_ex (\<lambda>t. th_id t = i \<and> th_org_id t = org) (theses d)"
| "has_row org i d (ThesisPatch _ _) = list_ex (\<lambda>t. th_id t = i \<and> th_org_id t = org) (theses d)"
| "has_row org i d ThesisDelete = list_ex (\<lambda>t. th_id t = i \<and> th_org_id t = org) (theses d)"
| "has_row org i d ThesisDefault = list_ex (\<lambda>t. th_id t = i \<and> th_org_id t = org) (theses d)"
| "has_row org i d ThesisPreviewGet = list_ex (\<lambda>t. th_id t = i \<and> th_org_id t = org) (theses d)"
| "has_row org i d MemoGet = list_ex (\<lambda>m. memo_id m = i \<and> memo_org_id m = org) (memos d)"
| "has_row org i d (MemoPatch _ _) = list_ex (\<lambda>m. memo_id m = i \<and> memo_org_id m = org) (memos d)"
| "has_row org i d (MemoRegenerate _ _) = list_ex (\<lambda>m. memo_id m = i \<and> memo_org_id m = org) (memos d)"
| "has_row org i d (MemoExport _) = list_ex (\<lambda>m. memo_id m = i \<and> memo_org_id m = org) (memos d)"
| "has_row org i d MemoCitations = list_ex (\<lambda>m. memo_id m = i \<and> memo_org_id m = org) (memos d)"
| "has_row org i d (OutreachDo _) = list_ex (\<lambda>q. out_id q = i \<and> out_org_id q = org) (outreach d)"
| "has_row org i d ApplicationGet = list_ex (\<lambda>a. app_id a = i \<and> app_org_id a = org) (applications d)"
| "has_row org i d ApplicationInfo = list_ex (\<lambda>a. app_id a = i \<and> app_org_id a = org) (applications d)"
| "has_row org i d ApplicationDelete = list_ex (\<lambda>a. app_id a = i \<and> app_org_id a = org) (applications d)"
| "has_row org i d JobGet = list_ex (\<lambda>j. job_id j = i \<and> job_org_id j = Some org) (jobs d)"
| "has_row org i d JobCancel = list_ex (\<lambda>j. job_id j = i \<and> job_org_id j = Some org) (jobs d)"
| "has_row org i d JobRetry = list_ex (\<lambda>j. job_id j = i \<and> job_org_id j = Some org) (jobs d)"
| "has_row org i d _ = list_ex (\<lambda>p. op_id p = i \<and> op_org_id p = org) (opportunities d)"

lemma find_job_iff: "find_job org i d \<noteq> None \<longleftrightarrow> list_ex (\<lambda>j. job_id j = i \<and> job_org_id j = Some org) (jobs d)"
  by (cases "find_job org i d") (auto simp: find_job_def first_row_None list_ex_iff dest: first_row_Some)

lemmas has_row_iff = opp_row.look_iff thesis_row.look_iff memo_row.look_iff out_row.look_iff
  application_row.look_iff find_job_iff

section \<open>Rows of other funds cannot be reached\<close>

text \<open>A computation refuses a condition on the database when, without it, it fails with one and the same
  error and does nothing.\<close>

definition refuses :: "(db \<Rightarrow> bool) \<Rightarrow> 'a run \<Rightarrow> bool" where
  "refuses P m \<longleftrightarrow> (\<exists>e. \<forall>s. \<not> P (s_db s) \<longrightarrow> m s = (Inl e, s))"

named_theorems refused \<open>computations that refuse\<close>

lemma refuses_first [refused]: "refuses P m \<Longrightarrow> refuses P (andThen m f)"
  unfolding refuses_def by (metis andThen_stops)

lemma refuses_quiet [refused]: "refuses P m \<Longrightarrow> refuses P (quiet m)"
  unfolding quiet_def by (rule refuses_first)

lemma refuses_require [refused]: "refuses P m \<Longrightarrow> refuses P (andThen (require p pr) (\<lambda>_. m))"
  by (cases "has_permission pr p") (auto simp: refuses_def andThen_require)

lemma refuses_check [refused]: "refuses P m \<Longrightarrow> refuses P (andThen (check c e) (\<lambda>_. m))"
  by (cases c) (auto simp: refuses_def run_simps)

lemma refuses_look:
  assumes "\<And>d. \<not> P d \<Longrightarrow> look d = None"
  shows "refuses P (andThen (query look) (found n))"
    and "refuses P (andThen (query look) (\<lambda>r. andThen (found n r) f))"
  using assms unfolding refuses_def by (auto simp: run_simps)

lemma refuses_rows [refused]:
  "refuses (\<lambda>d. find_opportunity org i d \<noteq> None) (get_opportunity org i)"
  "refuses (\<lambda>d. find_thesis org i d \<noteq> None) (get_thesis_row org i)"
  "refuses (\<lambda>d. find_memo org i d \<noteq> None) (get_memo_row org i)"
  "refuses (\<lambda>d. find_outreach org i d \<noteq> None) (get_outreach org i)"
  unfolding get_opportunity_def get_thesis_row_def get_memo_row_def get_outreach_def
  by (rule refuses_look; simp)+

lemmas by_id_defs = opportunity_detail_def update_opportunity_def screen_opportunity_def
  diligence_opportunity_def memo_opportunity_def start_opportunity_job_def decide_opportunity_def
  archive_opportunity_def opportunity_timeline_def opportunity_scores_endpoint_def opportunity_claims_def
  claim_evidence_def opportunity_trace_def get_opportunity_memo_def
  get_thesis_def update_thesis_def delete_thesis_def set_default_def preview_thesis_def
  get_memo_def patch_memo_def regenerate_section_def export_memo_def memo_citations_def
  approve_outreach_def send_outreach_def reject_outreach_def
  get_application_def request_application_info_def delete_application_def
  get_job_def cancel_job_def retry_job_def

lemma serve_refuses: "refuses (\<lambda>d. has_row (pr_org_id pr) i d r) (serve E pr i r)"
proof (cases r)
  case (OutreachDo a)
  then show ?thesis by (cases a) (auto simp: by_id_defs has_row_iff [symmetric] simp del: not_None_eq intro!: refused)
next
  case ApplicationGet
  have "first_row (\<lambda>a. app_id a = i \<and> app_org_id a = pr_org_id pr \<and> app_deleted_at a = None) (applications d) = None"
    if "find_application (pr_org_id pr) i d = None" for d
    using that by (auto simp: find_application_def own_row_def first_row_None)
  then have "refuses (\<lambda>d. find_application (pr_org_id pr) i d \<noteq> None) (quiet (get_application pr i))"
    unfolding get_application_def by (intro refused refuses_look) simp
  then show ?thesis using ApplicationGet by (simp only: has_row_iff [symmetric] has_row.simps serve.simps)
qed (auto simp: by_id_defs has_row_iff [symmetric] simp del: not_None_eq intro!: refused refuses_look)

section \<open>Nothing else of another fund changes\<close>

text \<open>An identifier is the fund's own when no row of another fund has it. A route for such an identifier
  changes rows of the fund only, and the identifier stays its own.\<close>

definition owned :: "('r \<Rightarrow> 'k) \<Rightarrow> ('r \<Rightarrow> 'o) \<Rightarrow> 'k \<Rightarrow> 'o \<Rightarrow> 'r list \<Rightarrow> bool" where
  "owned key owner k x rs \<longleftrightarrow> list_all (\<lambda>r. key r = k \<longrightarrow> owner r = x) rs"

definition own_id :: "uuid \<Rightarrow> uuid \<Rightarrow> db \<Rightarrow> bool" where
  "own_id x i d \<longleftrightarrow>
     owned op_id op_org_id i x (opportunities d) \<and> owned th_id th_org_id i x (theses d)
     \<and> owned memo_id memo_org_id i x (memos d) \<and> owned out_id out_org_id i x (outreach d)
     \<and> owned job_id job_org_id i (Some x) (jobs d) \<and> owned app_id app_org_id i x (applications d)
     \<and> owned app_opportunity_id app_org_id (Some i) x (applications d)
     \<and> distinct (map app_id (applications d))"

definition own_safe :: "uuid \<Rightarrow> uuid \<Rightarrow> db \<Rightarrow> db \<Rightarrow> bool" where
  "own_safe x i d d' \<longleftrightarrow> (own_id x i d \<longrightarrow> own_id x i d' \<and> safe x d d')"

interpretation own: db_order "own_safe x i" for x i
proof
  fix d show "own_safe x i d d" using fund.order_refl by (simp add: own_safe_def)
next
  fix a b c assume "own_safe x i a b" "own_safe x i b c"
  then show "own_safe x i a c" unfolding own_safe_def using fund.order_trans by blast
qed

lemma own_reads: "reads m \<Longrightarrow> own.keeps x i m"
  by (simp add: own.keeps_def reads_def own.order_refl)

lemma own_frame: "frame.keeps m \<Longrightarrow> own.keeps x i m"
proof -
  have "own_safe x i d d'" if "entities_only d d'" for d d'
    using that entities_only_safe [OF that] by (auto simp: own_safe_def own_id_def entities_only_def)
  then show "frame.keeps m \<Longrightarrow> own.keeps x i m" unfolding frame.keeps_def own.keeps_def by blast
qed

lemma owned_upd_where [simp]:
  "(\<And>r. key (f r) = key r) \<Longrightarrow> (\<And>r. owner (f r) = owner r) \<Longrightarrow>
     owned key owner k x (upd_where P f rs) = owned key owner k x rs"
  unfolding owned_def upd_where_def by (induction rs) auto

lemma owned_snoc [simp]:
  "owned key owner k x (rs @ [r]) \<longleftrightarrow> owned key owner k x rs \<and> (key r = k \<longrightarrow> owner r = x)"
  by (auto simp: owned_def)

lemma foreign_upd_owned [simp]:
  "owned pk f i x rs \<Longrightarrow> (\<And>r. f (g r) = f r) \<Longrightarrow> foreign f x (upd_where (\<lambda>r. pk r = i) g rs) = foreign f x rs"
  by (intro foreign_upd) (auto simp: owned_def list_all_iff)

lemma map_upd_where [simp]: "(\<And>r. g (f r) = g r) \<Longrightarrow> map g (upd_where P f rs) = map g rs"
  by (simp add: upd_where_def comp_def if_distrib cong: if_cong)

lemmas own_simps = own_safe_def own_id_def safe_defs upd_row_def

lemma own_opportunity:
  assumes "\<And>p. op_id (f p) = op_id p \<and> op_first_signal_at (f p) = op_first_signal_at p
    \<and> op_sla_deadline_at (f p) = op_sla_deadline_at p \<and> op_org_id (f p) = op_org_id p
    \<and> op_company_id (f p) = op_company_id p"
  shows "own.keeps x i (change (set_opportunity E i f))"
  using assms by (intro own.keeps_change) (auto simp: own_simps set_opportunity_def intro!: clock_kept_upd [unfolded upd_row_def])

lemma own_thesis:
  assumes "\<And>t. th_id (f t) = th_id t \<and> th_org_id (f t) = th_org_id t"
  shows "own.keeps x i (change (set_thesis i f))"
  using assms by (intro own.keeps_change) (auto simp: own_simps set_thesis_def)

lemma own_memo:
  assumes "\<And>m. memo_id (f m) = memo_id m \<and> memo_org_id (f m) = memo_org_id m"
  shows "own.keeps x i (change (set_memo i f))"
  using assms by (intro own.keeps_change) (auto simp: own_simps set_memo_def)

lemma own_outreach:
  assumes "\<And>q. out_id (f q) = out_id q \<and> out_org_id (f q) = out_org_id q"
  shows "own.keeps x i (change (set_outreach i f))"
  using assms by (intro own.keeps_change) (auto simp: own_simps set_outreach_def)

lemma own_application:
  assumes "\<And>a. app_id (f a) = app_id a \<and> app_org_id (f a) = app_org_id a \<and> app_opportunity_id (f a) = app_opportunity_id a"
  shows "own.keeps x i (change (set_application i f))"
  using assms by (intro own.keeps_change) (auto simp: own_simps set_application_def)

lemma own_job:
  assumes "\<And>j. job_id (f j) = job_id j \<and> job_org_id (f j) = job_org_id j"
  shows "own.keeps x i (change (set_job i f))"
  using assms by (intro own.keeps_change) (auto simp: own_simps set_job_def)

lemma own_clear: "own.keeps x i (change (clear_default x))"
  by (intro own.keeps_change) (auto simp: own_simps clear_default_def intro!: foreign_upd)

text \<open>A decision also marks the application of the opportunity, whose identifier is another one.\<close>

lemma own_decision_application:
  assumes "\<And>a. app_id (f a) = app_id a \<and> app_org_id (f a) = app_org_id a \<and> app_opportunity_id (f a) = app_opportunity_id a"
  shows "own.keeps x i (andThen (query (\<lambda>d. first_row (\<lambda>a. app_opportunity_id a = Some i) (applications d)))
    (\<lambda>r. when_some r (\<lambda>a. change (set_application (app_id a) f))))"
proof -
  have "own_safe x i d (set_application (app_id a) f d)"
    if a: "first_row (\<lambda>a. app_opportunity_id a = Some i) (applications d) = Some a" for d a
  proof (unfold own_safe_def, intro impI)
    assume o: "own_id x i d"
    have "owned app_id app_org_id (app_id a) x (applications d)"
      using o first_row_Some [OF a] unfolding own_id_def owned_def list_all_iff
      by (metis get_row_unique option.inject)
    then show "own_id x i (set_application (app_id a) f d) \<and> safe x d (set_application (app_id a) f d)"
      using o assms by (simp add: own_simps set_application_def)
  qed
  then show ?thesis
    unfolding own.keeps_def by (auto simp: run_simps when_some_def own.order_refl split: option.split)
qed

lemma own_record_decision: "own.keeps x i (record_decision E pr i body key req)"
  unfolding record_decision_def
  by (intro own.keeps_andThen own_opportunity own.keeps_change own_decision_application)
    (auto simp: decided_def own_simps)

lemma own_create_job: "own.keeps x i (create_job E x kind tt target key inp)"
  unfolding create_job_def by (auto intro!: own.keeps_andThen own.keeps_insert_new
      simp: own_simps add_job_def new_job_def split: option.split)

lemma own_insert_job: "(\<And>u. job_org_id (mk u) = Some x) \<Longrightarrow> own.keeps x i (insert_new mk add_job)"
  by (intro own.keeps_insert_new) (auto simp: own_simps add_job_def)

lemma own_found_job:
  assumes "\<And>j. job_id j = i \<Longrightarrow> own.keeps x i (f j)"
  shows "own.keeps x i (andThen (query (find_job x i)) (\<lambda>r. andThen (found ''Job'' r) f))"
proof -
  have "own.keeps x i (andThen (found ''Job'' r) f)" if "r = find_job x i d" for r d
  proof (cases r)
    case None
    then show ?thesis by (simp add: own.keeps_def run_simps own.order_refl)
  next
    case (Some j)
    then have "job_id j = i" using that by (auto simp: find_job_def dest: first_row_Some sym)
    from assms [OF this] Some show ?thesis by (simp add: own.keeps_def run_simps)
  qed
  then show ?thesis unfolding own.keeps_def by (simp add: run_simps)
qed

lemma own_dispatch: "own.keeps x i (dispatch_job E j)"
  by (simp add: dispatch_job_def)

lemma own_retry_target: "own.keeps x i (retry_target j)"
  by (auto simp: retry_target_def new_uuid_def own_simps intro!: own.keeps_on_db split: option.split)

lemma own_looks [simp]:
  "own.keeps x i (require p pr)" "own.keeps x i (get_opportunity org k)" "own.keeps x i (get_thesis_row org k)"
  "own.keeps x i (get_memo_row org k)" "own.keeps x i (get_outreach org k)" "own.keeps x i (refreshed opp)"
  "own.keeps x i (refreshed_thesis t)" "own.keeps x i (refreshed_memo m)" "own.keeps x i (build_detail E opp)"
  by (auto simp: get_opportunity_def get_thesis_row_def get_memo_row_def get_outreach_def refreshed_thesis_def
      refreshed_memo_def intro!: own_reads)

lemmas own_intros = own.keeps_andThen own.keeps_if own_opportunity own_thesis own_memo own_outreach
  own_application own_job own_clear own_create_job own_insert_job own_record_decision own_dispatch own_retry_target

lemma own_serve: "own.keeps (pr_org_id pr) i (serve E pr i r)"
proof (cases r)
  case (OutreachDo a)
  then show ?thesis by (cases a) (auto simp: by_id_defs quiet_def intro!: own_intros)
next
  case JobRetry
  then show ?thesis by (auto simp: by_id_defs quiet_def intro!: own_intros own_found_job)
next
  case JobCancel
  then show ?thesis by (auto simp: by_id_defs quiet_def intro!: own_intros own_found_job)
qed (auto simp: by_id_defs quiet_def set_fields_def set_thesis_fields_def export_job_def new_job_def
    split: prod.splits intro!: own_intros)

section \<open>Routes that make new rows\<close>

datatype creation =
    NewOpportunity OpportunityCreate | NewThesis ThesisCreate | NewHarvest json
  | NewApplication resolver application_form "(string option \<times> string list) option" "string option" "string option"

fun serve_new :: "env \<Rightarrow> Principal \<Rightarrow> creation \<Rightarrow> unit run" where
  "serve_new E pr (NewOpportunity body) = quiet (create_opportunity E pr body)"
| "serve_new E pr (NewThesis body) = quiet (create_thesis pr body)"
| "serve_new E pr (NewHarvest body) = quiet (harvest_request E pr body)"
| "serve_new E pr (NewApplication resolve form deck ip key) = quiet (submit_application E resolve pr form deck ip key)"

lemma fund_reads: "reads m \<Longrightarrow> fund.keeps x m"
  by (simp add: fund.keeps_def reads_def fund.order_refl)

lemma fund_add_job: "(\<And>u. job_org_id (mk u) = Some x) \<Longrightarrow> fund.keeps x (insert_new mk add_job)"
  by (intro fund.keeps_insert_new) (auto simp: safe_defs add_job_def)

lemma fund_add_opportunity: "(\<And>u. op_org_id (mk u) = x) \<Longrightarrow> fund.keeps x (insert_new mk add_opportunity)"
  by (intro fund.keeps_insert_new) (auto simp: safe_defs add_opportunity_def)

lemma fund_add_company: "fund.keeps x (insert_new mk add_company)"
  by (intro fund.keeps_insert_new) (auto simp: safe_defs add_company_def)

lemma fund_dispatch: "fund.keeps x (dispatch_job E j)"
  by (simp add: dispatch_job_def)

lemma fund_manual: "fund.keeps x (create_manual_opportunity E x c n orig th)"
  unfolding create_manual_opportunity_def named_company_def
  by (auto intro!: fund_intros fund_add_opportunity fund_add_company simp: new_opportunity_def split: option.split)

lemma fund_thesis: "fund.keeps (pr_org_id pr) (create_thesis pr body)"
  unfolding create_thesis_def
  by (auto intro!: fund_intros kept foreign_upd
      simp: safe_defs clear_default_def add_thesis_def thesis_of_def refreshed_thesis_def)

lemma reads_urls: "reads (validate_urls resolve w us)" "reads (read_deck E deck)"
proof -
  have "reads (validate_all resolve us)" for us by (induction us) auto
  then show "reads (validate_urls resolve w us)" by (auto simp: validate_urls_def)
  show "reads (read_deck E deck)" by (auto simp: read_deck_def app_lift_def split: option.split sum.split)
qed

lemma fund_application: "fund.keeps x (create_application E x form deck fn ch ip by key public)"
proof -
  have c: "fund.keeps x (application_company E form)"
    by (auto simp: application_company_def intro!: fund_intros fund_add_company split: option.split)
  have d: "fund.keeps x (application_document E x co deck fn by)" for co
    by (auto simp: application_document_def Let_def app_lift_def safe_defs add_document_def
        intro!: fund_intros split: option.split sum.split)
  have p: "fund.keeps x (application_opportunity E x co)" for co
    by (auto simp: application_opportunity_def new_opportunity_def intro!: fund_intros fund_add_opportunity split: option.split)
  have a: "fund.keeps x (store_application E x form doc opp ch ip key public)" for doc opp
    by (auto simp: store_application_def token_urlsafe_def new_uuid_def safe_defs add_application_def
        new_application_def new_job_def intro!: fund_intros fund_add_job)
  have e: "reads (earlier_request x key)"
    by (auto simp: earlier_request_def replay_def intro!: reads_andThen split: option.split)
  show ?thesis
    by (auto simp: create_application_def intro!: fund.keeps_andThen fund_reads [OF e] c d p a frame_fund [OF frame_application_founder] split: option.split)
qed

lemma fund_serve_new: "fund.keeps (pr_org_id pr) (serve_new E pr c)"
  by (cases c)
    (auto simp: quiet_def create_opportunity_def harvest_request_def new_job_def submit_application_def
      intro!: fund_intros kept fund_manual fund_thesis fund_add_job fund_dispatch fund_application
        reads_urls [THEN fund_reads] reads_refreshed [THEN fund_reads] reads_detail [THEN fund_reads])

section \<open>Isolation\<close>

text \<open>Identifiers are unique over the tables, and an application belongs to the fund of its opportunity.\<close>

definition row_owners :: "db \<Rightarrow> (uuid \<times> uuid option) list" where
  "row_owners d =
     map (\<lambda>p. (op_id p, Some (op_org_id p))) (opportunities d) @ map (\<lambda>t. (th_id t, Some (th_org_id t))) (theses d)
     @ map (\<lambda>m. (memo_id m, Some (memo_org_id m))) (memos d) @ map (\<lambda>q. (out_id q, Some (out_org_id q))) (outreach d)
     @ map (\<lambda>j. (job_id j, job_org_id j)) (jobs d) @ map (\<lambda>a. (app_id a, Some (app_org_id a))) (applications d)"

definition ids_unique :: "db \<Rightarrow> bool" where
  "ids_unique d \<longleftrightarrow>
     distinct (map fst (row_owners d))
     \<and> list_all (\<lambda>a. app_opportunity_id a = None
         \<or> list_ex (\<lambda>p. Some (op_id p) = app_opportunity_id a \<and> op_org_id p = app_org_id a) (opportunities d)) (applications d)"

lemma row_owners_mem:
  "p \<in> set (opportunities d) \<Longrightarrow> (op_id p, Some (op_org_id p)) \<in> set (row_owners d)"
  "t \<in> set (theses d) \<Longrightarrow> (th_id t, Some (th_org_id t)) \<in> set (row_owners d)"
  "m \<in> set (memos d) \<Longrightarrow> (memo_id m, Some (memo_org_id m)) \<in> set (row_owners d)"
  "q \<in> set (outreach d) \<Longrightarrow> (out_id q, Some (out_org_id q)) \<in> set (row_owners d)"
  "j \<in> set (jobs d) \<Longrightarrow> (job_id j, job_org_id j) \<in> set (row_owners d)"
  "a \<in> set (applications d) \<Longrightarrow> (app_id a, Some (app_org_id a)) \<in> set (row_owners d)"
  by (auto simp: row_owners_def)

lemma own_of_row:
  assumes u: "ids_unique d" and r: "has_row x i d r"
  shows "own_id x i d"
proof -
  have "(i, Some x) \<in> set (row_owners d)"
    using r by (cases r)
      (auto simp: list_ex_iff dest: row_owners_mem)
  then have one: "w = Some x" if "(i, w) \<in> set (row_owners d)" for w
    using that u eq_key_imp_eq_value unfolding ids_unique_def by metis
  have linked: "app_org_id a = x" if "a \<in> set (applications d)" "app_opportunity_id a = Some i" for a
  proof -
    have "\<exists>p \<in> set (opportunities d). op_id p = i \<and> op_org_id p = app_org_id a"
      using u that by (fastforce simp: ids_unique_def list_all_iff list_ex_iff)
    then obtain p where "p \<in> set (opportunities d)" "op_id p = i" "op_org_id p = app_org_id a" by blast
    then have "(i, Some (app_org_id a)) \<in> set (row_owners d)" using row_owners_mem(1) by force
    then show ?thesis using one by blast
  qed
  have "distinct (map app_id (applications d))"
    using u by (simp add: ids_unique_def row_owners_def comp_def)
  moreover have "owned op_id op_org_id i x (opportunities d)" "owned th_id th_org_id i x (theses d)"
    "owned memo_id memo_org_id i x (memos d)" "owned out_id out_org_id i x (outreach d)"
    "owned job_id job_org_id i (Some x) (jobs d)" "owned app_id app_org_id i x (applications d)"
    unfolding owned_def list_all_iff using one row_owners_mem by (metis option.inject)+
  ultimately show ?thesis using linked by (simp add: own_id_def owned_def list_all_iff)
qed

text \<open>C2: a row of another fund cannot be told from a row that does not exist. Whatever route a caller
  takes with an identifier that is none of the caller's fund, the answer is an error that depends on the
  caller and the request only, not on the database, nothing changes and no job is started.\<close>

theorem foreign_row_unreachable:
  "\<exists>e. \<forall>d. \<not> has_row (pr_org_id pr) i d r \<longrightarrow> request (serve E pr i r) d = (Inl e, d, [])"
proof -
  obtain e where e: "\<And>s. \<not> has_row (pr_org_id pr) i (s_db s) r \<Longrightarrow> serve E pr i r s = (Inl e, s)"
    using serve_refuses unfolding refuses_def by blast
  then show ?thesis by (intro exI [of _ e]) (simp add: request_def open_session_def)
qed

lemma serve_stays:
  assumes "ids_unique d"
  shows "safe (pr_org_id pr) d (fst (snd (request (serve E pr i r) d)))"
proof (cases "has_row (pr_org_id pr) i d r")
  case True
  then show ?thesis
    using own.keeps_request [OF own_serve] own_of_row [OF assms True] unfolding own_safe_def by blast
next
  case False
  then show ?thesis using serve_refuses [of pr i r E] fund.order_refl
    by (auto simp: refuses_def request_def open_session_def)
qed

text \<open>C1: a request of one fund changes no row of another. After any request of a caller for a row by its
  identifier, and after any request that makes a new row, the opportunities, applications, claims, memos, jobs,
  theses, outreach, users, organisations and invitations of all other funds are what they were; no
  opportunity's clock is reset and the ledgers only grow.\<close>

theorem requests_stay_in_fund:
  assumes "ids_unique d"
  shows "safe (pr_org_id pr) d (fst (snd (request (serve E pr i r) d)))
    \<and> safe (pr_org_id pr) d (fst (snd (request (serve_new E pr c) d)))"
  using serve_stays [OF assms] fund.keeps_request [OF fund_serve_new] by blast

definition two_funds :: db where
  "two_funds = demo_funds\<lparr>opportunities := opportunities demo_funds
     @ [new_opportunity 8 (new_company ''acme'' None (JObj []) None False 0 9) None INBOUND 0 0 24 6]\<rparr>"

section \<open>Two writers\<close>

text \<open>The table and the version header of a change.\<close>

definition version_header :: "route \<Rightarrow> (string \<times> string option) option" where
  "version_header r =
     (case r of OpportunityPatch h u \<Rightarrow> Some (''opportunity'', h) | ThesisPatch h u \<Rightarrow> Some (''thesis'', h)
      | MemoPatch h secs \<Rightarrow> Some (''memo'', h) | _ \<Rightarrow> None)"

lemma version_header_cases:
  assumes "version_header r = Some v"
  obtains h u where "r = OpportunityPatch h u" "v = (''opportunity'', h)"
    | h u where "r = ThesisPatch h u" "v = (''thesis'', h)"
    | h secs where "r = MemoPatch h secs" "v = (''memo'', h)"
  using assms by (auto simp: version_header_def split: route.splits)

lemma quiet_request: "request (quiet m) d = (case request m d of (Inl e, z) \<Rightarrow> (Inl e, z) | (Inr x, z) \<Rightarrow> (Inr (), z))"
  by (simp add: request_def quiet_def andThen_def ret_def split: prod.split sum.split)

lemma quiet_Inr: "request (quiet m) d = (Inr y, d1, q) \<Longrightarrow> \<exists>x. request m d = (Inr x, d1, q)"
  by (simp add: quiet_request split: prod.splits sum.splits)

lemma quiet_Inl: "request m d = (Inl e, d1, q) \<Longrightarrow> request (quiet m) d = (Inl e, d1, q)"
  by (simp add: quiet_request)

text \<open>C15: no update is lost. When a change of an opportunity, a thesis or a memo has succeeded, every later change
  that was made from the same version, by whoever of the fund and whenever, is refused and changes nothing.\<close>

theorem second_writer_refused:
  assumes "version_header r = Some v" "version_header r' = Some v" "pr_org_id pr' = pr_org_id pr"
    and ok: "request (serve E pr i r) d = (Inr x, d1, q)"
  shows "\<exists>e. request (serve E' pr' i r') d1 = (Inl e, d1, [])"
  using assms(1)
proof (cases rule: version_header_cases)
  case 1: (1 h u)
  with assms(2) obtain u' where r': "r' = OpportunityPatch h u'" by (auto elim!: version_header_cases)
  obtain y where "request (update_opportunity E pr i h u) d = (Inr y, d1, q)" using ok 1 quiet_Inr by fastforce
  from two_writers [OF opp_version.versioned_axioms opp_version.versioned_axioms [of pr' i E', unfolded assms(3)] this]
  show ?thesis using r' quiet_Inl by fastforce
next
  case 2: (2 h u)
  with assms(2) obtain u' where r': "r' = ThesisPatch h u'" by (auto elim!: version_header_cases)
  obtain y where "request (update_thesis pr i h u) d = (Inr y, d1, q)" using ok 2 quiet_Inr by fastforce
  from two_writers [OF thesis_version.versioned_axioms thesis_version.versioned_axioms [of pr' i, unfolded assms(3)] this]
  show ?thesis using r' quiet_Inl by fastforce
next
  case 3: (3 h secs)
  with assms(2) obtain secs' where r': "r' = MemoPatch h secs'" by (auto elim!: version_header_cases)
  obtain y where "request (patch_memo E pr i h secs) d = (Inr y, d1, q)" using ok 3 quiet_Inr by fastforce
  from two_writers [OF memo_version.versioned_axioms memo_version.versioned_axioms [of pr' i E', unfolded assms(3)] this]
  show ?thesis using r' quiet_Inl by fastforce
qed

theorem second_writer_refused_witness:
  "\<exists>d1 q e. request (serve demo_env (demo_pr PARTNER) 4 (OpportunityPatch (Some ''1'') \<lparr>ou_assigned_to = None,
        ou_stage = Some (Some SCREENING), ou_title = None\<rparr>)) demo_funds = (Inr (), d1, q)
     \<and> request (serve demo_env (demo_pr OWNER) 4 (OpportunityPatch (Some ''1'') \<lparr>ou_assigned_to = None,
        ou_stage = None, ou_title = Some (Some ''mine'')\<rparr>)) d1 = (Inl e, d1, [])"
proof -
  let ?r = "OpportunityPatch (Some ''1'') \<lparr>ou_assigned_to = None, ou_stage = Some (Some SCREENING), ou_title = None\<rparr>"
  let ?r' = "OpportunityPatch (Some ''1'') \<lparr>ou_assigned_to = None, ou_stage = None, ou_title = Some (Some ''mine'')\<rparr>"
  have fresh: "fresh_version (Some ''1'') 1" by code_simp
  obtain d1 q where ok: "request (serve demo_env (demo_pr PARTNER) 4 ?r) demo_funds = (Inr (), d1, q)"
    by (simp add: quiet_def update_opportunity_def request_def run_simps andThen_require demo_pr_def
        has_permission_def find_opportunity_def own_row_def first_row_def demo_funds_def open_session_def
        demo_opportunity_def new_opportunity_def new_company_def empty_db_def refreshed_def build_detail_def
        build_card_def row_simps set_opportunity_def upd_row_def upd_where_def set_fields_def storable_def
        fresh Let_def)
  have "version_header ?r = Some (''opportunity'', Some ''1'')" "version_header ?r' = Some (''opportunity'', Some ''1'')"
    "pr_org_id (demo_pr OWNER) = pr_org_id (demo_pr PARTNER)" by code_simp+
  from second_writer_refused [OF this ok] ok show ?thesis by blast
qed

theorem foreign_row_unreachable_witness:
  "\<exists>e. request (serve demo_env (demo_pr PARTNER) 6 (OpportunityArchive True)) two_funds = (Inl e, two_funds, [])
     \<and> request (serve demo_env (demo_pr PARTNER) 6 (OpportunityArchive True)) demo_funds = (Inl e, demo_funds, [])"
proof -
  have "\<not> has_row (pr_org_id (demo_pr PARTNER)) 6 two_funds (OpportunityArchive True)"
    "\<not> has_row (pr_org_id (demo_pr PARTNER)) 6 demo_funds (OpportunityArchive True)"
    by code_simp+
  then show ?thesis
    using foreign_row_unreachable [of "demo_pr PARTNER" 6 "OpportunityArchive True" demo_env] by blast
qed

theorem requests_stay_in_fund_witness:
  "others_kept 1 two_funds (fst (snd (request (serve demo_env (demo_pr PARTNER) 4 (OpportunityArchive True)) two_funds)))"
proof -
  have "ids_unique two_funds" "pr_org_id (demo_pr PARTNER) = 1" by code_simp+
  then show ?thesis
    using requests_stay_in_fund [of two_funds "demo_pr PARTNER" demo_env 4 "OpportunityArchive True" "NewHarvest JNull"]
    by (simp add: safe_def)
qed

end
