(* ===== verification/Entities.thy ===== *)
theory Entities
  imports Opportunities
begin

text \<open>
  \<open>app/routers/entities.py\<close>: founders with their scores, companies, signals and sources. People and
  companies are shared by all funds; a company is shown to the funds that have an opportunity for it.
\<close>

section \<open>Founders\<close>

record FounderCard =
  fc_id :: uuid
  fc_display_name :: string
  fc_headline :: "string option"
  fc_country_code :: "string option"
  fc_city :: "string option"
  fc_skills :: "string list"
  fc_score :: "FounderScore option"

definition score_of_person :: "uuid \<Rightarrow> db \<Rightarrow> FounderScore option" where
  "score_of_person i d = get_row fs_person_id i (founder_scores d)"

definition founder_card :: "Person \<Rightarrow> FounderScore option \<Rightarrow> FounderCard" where
  "founder_card p sc =
     \<lparr>fc_id = per_id p, fc_display_name = per_display_name p, fc_headline = per_headline p,
      fc_country_code = per_country_code p, fc_city = per_city p, fc_skills = per_skills p, fc_score = sc\<rparr>"

record founder_filter =
  ff_q :: "string option"
  ff_min_score :: "int option"
  ff_max_score :: "int option"
  ff_cold_start :: "bool option"
  ff_country :: "string option"

text \<open>A condition on the score of a person without one is not true.\<close>

definition score_matches :: "founder_filter \<Rightarrow> FounderScore option \<Rightarrow> bool" where
  "score_matches f sc \<longleftrightarrow>
     (case ff_min_score f of None \<Rightarrow> True | Some lo \<Rightarrow> (case sc of None \<Rightarrow> False | Some s \<Rightarrow> lo \<le> fs_score s))
     \<and> (case ff_max_score f of None \<Rightarrow> True | Some hi \<Rightarrow> (case sc of None \<Rightarrow> False | Some s \<Rightarrow> fs_score s \<le> hi))
     \<and> (case ff_cold_start f of None \<Rightarrow> True | Some b \<Rightarrow> (case sc of None \<Rightarrow> False | Some s \<Rightarrow> fs_cold_start s = b))"

definition person_matches :: "founder_filter \<Rightarrow> Person \<Rightarrow> bool" where
  "person_matches f p \<longleftrightarrow>
     (truthy (ff_q f) \<longrightarrow> contains (normalize_name (the (ff_q f))) (per_normalized_name p))
     \<and> (truthy (ff_country f) \<longrightarrow> per_country_code p = Some (map upper_char (the (ff_country f))))"

text \<open>\<open>order_by(score.desc().nullslast())\<close>.\<close>

definition founder_rows :: "founder_filter \<Rightarrow> db \<Rightarrow> (Person \<times> FounderScore option) list" where
  "founder_rows f d =
     (let rows = filter (\<lambda>(p, sc). person_matches f p \<and> score_matches f sc)
                   (map (\<lambda>p. (p, score_of_person (per_id p) d)) (persons d))
      in sort_key (\<lambda>(p, sc). - fs_score (the sc)) (filter (\<lambda>(p, sc). sc \<noteq> None) rows)
         @ filter (\<lambda>(p, sc). sc = None) rows)"

definition founders_endpoint :: "Principal \<Rightarrow> founder_filter \<Rightarrow> nat \<Rightarrow> FounderCard list run" where
  "founders_endpoint pr f limit =
     andThen (require READ pr) (\<lambda>_.
     query (\<lambda>d. map (\<lambda>(p, sc). founder_card p sc) (take limit (founder_rows f d))))"

definition find_person :: "uuid \<Rightarrow> db \<Rightarrow> Person option" where
  "find_person i d = first_row (\<lambda>p. per_id p = i \<and> per_merged_into_id p = None) (persons d)"

definition get_person :: "uuid \<Rightarrow> Person run" where
  "get_person i = andThen (query (find_person i)) (found ''Founder'')"

text \<open>The profile is the row and the score.\<close>

definition founder_profile :: "Principal \<Rightarrow> uuid \<Rightarrow> (Person \<times> FounderScore option) run" where
  "founder_profile pr i =
     andThen (require READ pr) (\<lambda>_.
     andThen (get_person i) (\<lambda>p. query (\<lambda>d. (p, score_of_person (per_id p) d))))"

definition founder_history :: "env \<Rightarrow> Principal \<Rightarrow> uuid \<Rightarrow> int \<Rightarrow> FounderScoreSnapshot list run" where
  "founder_history E pr i n =
     andThen (require READ pr) (\<lambda>_.
     andThen (get_person i) (\<lambda>_.
     query (\<lambda>d. sort_key fss_day
       (filter (\<lambda>s. fss_person_id s = i \<and> td_days (env_now E - days n) \<le> fss_day s) (founder_score_snapshots d)))))"

record component_line =
  cp_key :: string
  cp_value :: "rat option"
  cp_weight :: rat
  cp_contribution :: "rat option"
  cp_reason :: "string option"

record score_explanation =
  ex_components :: "component_line list"
  ex_cohort_mean :: nat
  ex_cold_start :: bool
  ex_confidence :: rat
  ex_ci :: "int \<times> int"
  ex_missing :: "string list"

definition component_line_of :: "string \<times> component_value \<Rightarrow> component_line" where
  "component_line_of kv =
     \<lparr>cp_key = fst kv, cp_value = cv_value (snd kv), cp_weight = cv_weight (snd kv),
      cp_contribution = map_option (\<lambda>v. fmul v (cv_weight (snd kv))) (cv_value (snd kv)),
      cp_reason = (if cv_value (snd kv) = None then Some ''no_evidence'' else None)\<rparr>"

definition explanation_of :: "FounderScore \<Rightarrow> score_explanation" where
  "explanation_of sc =
     (let cs = map component_line_of (fs_components sc)
      in \<lparr>ex_components = cs, ex_cohort_mean = 550, ex_cold_start = fs_cold_start sc,
          ex_confidence = fl (fs_confidence sc), ex_ci = (fs_ci_low sc, fs_ci_high sc),
          ex_missing = map cp_key (filter (\<lambda>c. cp_value c = None) cs)\<rparr>)"

definition recompute :: "env \<Rightarrow> uuid \<Rightarrow> FounderScore run" where
  "recompute E i = on_db (recompute_founder_score (env_libm E) (env_now E) i)"

definition founder_score_explain :: "env \<Rightarrow> Principal \<Rightarrow> uuid \<Rightarrow> score_explanation run" where
  "founder_score_explain E pr i =
     andThen (require READ pr) (\<lambda>_.
     andThen (get_person i) (\<lambda>_.
     andThen (query (score_of_person i)) (\<lambda>sc.
     case sc of
       Some s \<Rightarrow> ret (explanation_of s)
     | None \<Rightarrow> andThen (recompute E i) (\<lambda>s. andThen commit_run (\<lambda>_. ret (explanation_of s))))))"

definition rescore_job :: "env \<Rightarrow> uuid \<Rightarrow> uuid \<Rightarrow> int \<Rightarrow> uuid \<Rightarrow> Job" where
  "rescore_job E org i score u =
     (new_job (Some org) ''score.founder'' ''person'' i None (JObj []) (env_now E) u)
       \<lparr>job_status := SUCCEEDED, job_progress := 100,
        job_result := JObj [(''person_id'', JUuid i), (''score'', JNum (of_int score))],
        job_started_at := Some (env_now E), job_finished_at := Some (env_now E)\<rparr>"

definition rescore_founder :: "env \<Rightarrow> Principal \<Rightarrow> uuid \<Rightarrow> uuid run" where
  "rescore_founder E pr i =
     andThen (require SCREEN pr) (\<lambda>_.
     andThen (get_person i) (\<lambda>_.
     andThen (recompute E i) (\<lambda>sc.
     andThen (insert_new (rescore_job E (pr_org_id pr) i (fs_score sc)) add_job) (\<lambda>j.
     andThen commit_run (\<lambda>_. ret (job_id j))))))"

record UpliftAction =
  ua_action :: string
  ua_expected_delta :: int
  ua_why :: string

definition uplift_candidates :: "(string \<times> UpliftAction) list" where
  "uplift_candidates =
     [(''execution'', \<lparr>ua_action = ''Link a live proof-of-work artifact'', ua_expected_delta = 24,
         ua_why = ''Adds primary execution evidence.''\<rparr>),
      (''technical_depth'', \<lparr>ua_action = ''Link a repository, paper, dataset, or technical demo'',
         ua_expected_delta = 18, ua_why = ''Adds verifiable technical depth.''\<rparr>),
      (''domain_expertise'', \<lparr>ua_action = ''Answer a falsifiable domain interview question'',
         ua_expected_delta = 12, ua_why = ''Makes domain insight legible without requiring a network.''\<rparr>),
      (''communication'', \<lparr>ua_action = ''Publish a concise product explanation'', ua_expected_delta = 8,
         ua_why = ''Provides communication evidence.''\<rparr>)]"

definition no_evidence :: "(string \<times> component_value) list \<Rightarrow> string \<Rightarrow> bool" where
  "no_evidence components k \<longleftrightarrow>
     components = [] \<or> (case map_of components k of None \<Rightarrow> True | Some v \<Rightarrow> cv_value v = None)"

definition uplift_of :: "FounderScore option \<Rightarrow> UpliftAction list" where
  "uplift_of sc =
     (let components = (case sc of None \<Rightarrow> [] | Some s \<Rightarrow> fs_components s)
      in map snd (take 3 (filter (\<lambda>(k, a). no_evidence components k) uplift_candidates)))"

definition uplift_plan :: "Principal \<Rightarrow> uuid \<Rightarrow> UpliftAction list run" where
  "uplift_plan pr i =
     andThen (require READ pr) (\<lambda>_.
     andThen (get_person i) (\<lambda>_. query (\<lambda>d. uplift_of (score_of_person i d))))"

definition merge_founder :: "Principal \<Rightarrow> uuid \<Rightarrow> uuid \<Rightarrow> (uuid \<times> uuid) run" where
  "merge_founder pr i loser_id =
     andThen (require ADMIN pr) (\<lambda>_.
     andThen (get_person i) (\<lambda>winner.
     andThen (get_person loser_id) (\<lambda>loser.
     andThen (change (set_person (per_id loser) (\<lambda>p. p\<lparr>per_merged_into_id := Some (per_id winner)\<rparr>))) (\<lambda>_.
     andThen commit_run (\<lambda>_. ret (per_id winner, per_id loser))))))"

section \<open>Companies, signals, sources\<close>

definition company_profile :: "Principal \<Rightarrow> uuid \<Rightarrow> Company run" where
  "company_profile pr i =
     andThen (require READ pr) (\<lambda>_.
     andThen (query (\<lambda>d. first_row (\<lambda>p. op_org_id p = pr_org_id pr \<and> op_company_id p = i) (opportunities d))) (\<lambda>link.
     andThen (found ''Company'' link) (\<lambda>_.
     andThen (query (\<lambda>d. get_row co_id i (companies d))) (found ''Company''))))"

definition signals_endpoint ::
  "Principal \<Rightarrow> uuid option \<Rightarrow> uuid option \<Rightarrow> SignalKind option \<Rightarrow> nat \<Rightarrow> Signal list run" where
  "signals_endpoint pr person company kind limit =
     andThen (require READ pr) (\<lambda>_.
     query (\<lambda>d. take limit (sort_key (\<lambda>s. - sig_observed_at s)
       (filter (\<lambda>s. (sig_org_id s = Some (pr_org_id pr) \<or> sig_org_id s = None)
            \<and> (person \<noteq> None \<longrightarrow> sig_person_id s = person) \<and> (company \<noteq> None \<longrightarrow> sig_company_id s = company)
            \<and> matches kind (sig_kind s)) (signals d)))))"

definition sources_endpoint :: "Principal \<Rightarrow> Source list run" where
  "sources_endpoint pr = andThen (require READ pr) (\<lambda>_. query (\<lambda>d. sort_key src_display_name (sources d)))"

definition test_source :: "Principal \<Rightarrow> string \<Rightarrow> (bool \<times> SourceStatus) run" where
  "test_source pr key =
     andThen (require SCREEN pr) (\<lambda>_.
     andThen (query (source_by_key key)) (\<lambda>r.
     andThen (found ''Source'' r) (\<lambda>s. ret (src_status s \<noteq> NO_CREDENTIALS, src_status s))))"

section \<open>Merging a founder into itself\<close>

lemma get_person_run [run_simps]:
  "andThen (get_person i) f s =
     (case find_person i (s_db s) of None \<Rightarrow> (Inl (App (NotFoundError ''Founder'')), s) | Some p \<Rightarrow> f p s)"
  by (simp add: get_person_def run_simps)

lemma find_person_merged: "find_person i (set_person i (\<lambda>p. p\<lparr>per_merged_into_id := Some w\<rparr>) d) = None"
proof -
  have gone: "\<not> (per_id r = i \<and> per_merged_into_id r = None)" if r: "r \<in> set (upd_row per_id i (\<lambda>p. p\<lparr>per_merged_into_id := Some w\<rparr>) ps)" for r ps
  proof -
    obtain q where "r = (if per_id q = i then q\<lparr>per_merged_into_id := Some w\<rparr> else q)"
      using r unfolding upd_row_def upd_where_def set_map by blast
    then show ?thesis by (cases "per_id q = i") simp_all
  qed
  have "persons (set_person i (\<lambda>p. p\<lparr>per_merged_into_id := Some w\<rparr>) d)
      = upd_row per_id i (\<lambda>p. p\<lparr>per_merged_into_id := Some w\<rparr>) (persons d)"
    by (simp add: set_person_def)
  then show ?thesis unfolding find_person_def first_row_None by (intro ballI gone) (simp only:)
qed

text \<open>Merging loses the loser, and nothing stops a founder from being merged into itself. After
  any successful merge the loser has no profile, history, explanation, plan or rescore any more (each of
  these requests ends in 404); and a merge of a founder into itself succeeds, so the founder is lost with
  nobody in its place.\<close>

theorem merged_founder_is_gone:
  assumes "find_person i d \<noteq> None" "find_person loser d \<noteq> None" "has_permission pr ADMIN"
  shows "\<exists>d'. request (merge_founder pr i loser) d = (Inr (i, loser), d', [])
    \<and> (\<forall>pr2. has_permission pr2 READ \<longrightarrow>
         request (founder_profile pr2 loser) d' = (Inl (App (NotFoundError ''Founder'')), d', [])
         \<and> request (uplift_plan pr2 loser) d' = (Inl (App (NotFoundError ''Founder'')), d', []))
    \<and> (i = loser \<longrightarrow> (\<exists>p \<in> set (persons d'). per_id p = i \<and> per_merged_into_id p = Some i))"
proof -
  obtain w l where w: "find_person i d = Some w" and l: "find_person loser d = Some l" using assms(1,2) by auto
  have ids: "per_id w = i" "per_id l = loser" "l \<in> set (persons d)"
    using w l by (auto simp: find_person_def dest!: first_row_Some)
  let ?d = "set_person loser (\<lambda>p. p\<lparr>per_merged_into_id := Some i\<rparr>) d"
  have req: "request (merge_founder pr i loser) d = (Inr (i, loser), ?d, [])"
    using assms(3) w l ids by (simp add: merge_founder_def request_def run_simps andThen_require open_session_def)
  have gone: "request (founder_profile pr2 loser) ?d = (Inl (App (NotFoundError ''Founder'')), ?d, [])"
    "request (uplift_plan pr2 loser) ?d = (Inl (App (NotFoundError ''Founder'')), ?d, [])"
    if "has_permission pr2 READ" for pr2
    using that find_person_merged [of loser i d]
    by (simp_all add: founder_profile_def uplift_plan_def request_def run_simps andThen_require open_session_def)
  have "\<exists>p \<in> set (persons ?d). per_id p = loser \<and> per_merged_into_id p = Some i"
    using ids(2,3) bex_upd_row [of l "persons d" "\<lambda>b. per_id b = loser \<and> per_merged_into_id b = Some i"
        "\<lambda>p. p\<lparr>per_merged_into_id := Some i\<rparr>" per_id] by (simp add: set_person_def)
  then show ?thesis using req gone by auto
qed

theorem merged_founder_is_gone_witness:
  "\<exists>d'. request (merge_founder (demo_pr OWNER) 11 11)
      (empty_db\<lparr>persons := [new_person ''Ada'' [] (JObj []) False 0 11]\<rparr>) = (Inr (11, 11), d', [])
    \<and> request (founder_profile (demo_pr VIEWER) 11) d' = (Inl (App (NotFoundError ''Founder'')), d', [])"
proof -
  let ?d = "empty_db\<lparr>persons := [new_person ''Ada'' [] (JObj []) False 0 11]\<rparr>"
  have "find_person 11 ?d \<noteq> None" by (simp add: find_person_def first_row_def new_person_def)
  moreover have "has_permission (demo_pr OWNER) ADMIN" "has_permission (demo_pr VIEWER) READ"
    by (simp_all add: demo_pr_def has_permission_def all_permissions_def)
  ultimately show ?thesis using merged_founder_is_gone [of 11 ?d 11 "demo_pr OWNER"] by blast
qed

end
