(* ===== verification/Search.thy ===== *)
theory Search
  imports Opportunities
begin

text \<open>
  \<open>app/services/search.py\<close> and \<open>app/routers/search.py\<close>: a query is read for known phrases, which become
  filters, and the rest is matched by words. Phrases of the same length are removed in the order they
  were found (Python's order of a set is not fixed). \<open>ILIKE\<close> with a pattern from the user is the
  database's and a parameter.
\<close>

section \<open>Reading a query\<close>

definition SECTOR_ALIASES :: "(string \<times> string) list" where
  "SECTOR_ALIASES =
     [(''ai infra'', ''ai_infra''), (''ai infrastructure'', ''ai_infra''), (''devtools'', ''devtools''),
      (''developer tools'', ''devtools''), (''fintech'', ''fintech''), (''healthtech'', ''healthtech''),
      (''climate'', ''climate''), (''robotics'', ''robotics''), (''defense'', ''defense''),
      (''vertical saas'', ''vertical_saas'')]"

definition COUNTRY_ALIASES :: "(string \<times> string \<times> string option) list" where
  "COUNTRY_ALIASES =
     [(''berlin'', ''DE'', Some ''Berlin''), (''germany'', ''DE'', None), (''london'', ''GB'', Some ''London''),
      (''uk'', ''GB'', None), (''united states'', ''US'', None), (''san francisco'', ''US'', Some ''San Francisco'')]"

datatype filter_value = FList "string list" | FStr string | FBool bool

record QueryPlan =
  qp_filters :: "(string \<times> filter_value) list"
  qp_residual :: string
  qp_unresolved :: "string list"
  qp_confidence :: rat

text \<open>The filter of a group of phrases, if one of them occurs, and the phrases to remove.\<close>

definition phrase_rule ::
  "string \<Rightarrow> string list \<Rightarrow> string \<Rightarrow> filter_value \<Rightarrow> string list \<Rightarrow> (string \<times> filter_value) list \<times> string list" where
  "phrase_rule low phrases name v removed =
     (if list_ex (\<lambda>p. contains p low) phrases then ([(name, v)], removed) else ([], []))"

definition sector_rule :: "string \<Rightarrow> (string \<times> filter_value) list \<times> string list" where
  "sector_rule low =
     (let hits = filter (\<lambda>(p, s). contains p low) SECTOR_ALIASES
      in (if hits = [] then [] else [(''sectors'', FList (sort (remdups (map snd hits))))], map fst hits))"

definition country_rule :: "string \<Rightarrow> (string \<times> filter_value) list \<times> string list" where
  "country_rule low =
     (case find (\<lambda>(p, c, t). contains p low) COUNTRY_ALIASES of
        None \<Rightarrow> ([], [])
      | Some (p, c, t) \<Rightarrow>
          ((''country'', FStr c) # (case t of None \<Rightarrow> [] | Some city \<Rightarrow> [(''city'', FStr city)]), [p]))"

definition query_rules :: "string \<Rightarrow> ((string \<times> filter_value) list \<times> string list) list" where
  "query_rules low =
     [sector_rule low, country_rule low,
      phrase_rule low [''technical founder'', ''engineer founder''] ''founder_profile'' (FList [''technical''])
        [''technical founder''],
      phrase_rule low [''enterprise traction'', ''b2b traction''] ''traction_type'' (FList [''enterprise''])
        [''enterprise traction''],
      phrase_rule low [''no prior vc'', ''no vc backing'', ''bootstrapped''] ''prior_vc_backing'' (FBool False)
        [''no prior vc'', ''no vc backing'', ''bootstrapped''],
      phrase_rule low [''top-tier accelerator'', ''top tier accelerator''] ''accelerator_tier'' (FList [''top''])
        [''top-tier accelerator'', ''top tier accelerator'']]"

text \<open>\<open>re.sub(r"\s+", " ", s)\<close>.\<close>

fun squeeze :: "bool \<Rightarrow> string \<Rightarrow> string" where
  "squeeze b [] = []"
| "squeeze b (c # cs) =
     (if is_space c then (if b then squeeze True cs else CHR '' '' # squeeze True cs) else c # squeeze False cs)"

definition residual_of :: "string \<Rightarrow> string list \<Rightarrow> string \<Rightarrow> string" where
  "residual_of low phrases q =
     (let r = fold (\<lambda>p. replace p '' '') (sort_key (\<lambda>p. - int (length p)) phrases) low;
          t = strip_by (\<lambda>c. c = CHR '' '' \<or> c = CHR '','') (squeeze False r)
      in if t = [] then q else t)"

definition query_confidence :: "nat \<Rightarrow> rat" where
  "query_confidence n = py_round 2 (min (fl (95/100)) (fadd (fl (45/100)) (fmul (fl (8/100)) (of_nat n))))"

definition interpret_query :: "string \<Rightarrow> QueryPlan" where
  "interpret_query q =
     (let low = casefold q; rules = query_rules low; filters = concat (map fst rules)
      in \<lparr>qp_filters = filters, qp_residual = residual_of low (concat (map snd rules)) q,
          qp_unresolved = [], qp_confidence = query_confidence (length filters)\<rparr>)"

section \<open>Matching\<close>

definition opt_words :: "string option list \<Rightarrow> string" where
  "opt_words xs = casefold (join '' '' (List.map_filter (\<lambda>x. if truthy x then x else None) xs))"

text \<open>\<open>str(value)\<close> of a filter that is not a list.\<close>

fun filter_terms :: "filter_value \<Rightarrow> string list" where
  "filter_terms (FList xs) = xs"
| "filter_terms (FStr s) = [s]"
| "filter_terms (FBool b) = [if b then ''True'' else ''False'']"

definition filter_ok :: "Company \<Rightarrow> string \<times> filter_value \<Rightarrow> bool" where
  "filter_ok c fv =
     (if fst fv = ''sectors'' then list_ex (\<lambda>s. s \<in> set (filter_terms (snd fv))) (co_sectors c)
      else if fst fv = ''country'' then filter_terms (snd fv) = [or_empty (co_hq_country c)] \<and> co_hq_country c \<noteq> None
      else if fst fv = ''city'' then list_all (\<lambda>v. casefold (or_empty (co_hq_city c)) = casefold v) (filter_terms (snd fv))
      else list_ex (\<lambda>t. contains (replace ''_'' '' '' t) (opt_words [co_one_liner c, co_description c]))
             (filter_terms (snd fv)))"

definition filter_why :: "Company \<Rightarrow> string \<Rightarrow> string" where
  "filter_why c attribute =
     (if attribute = ''sectors'' then ''Company sectors: '' @ join '', '' (co_sectors c)
      else if attribute = ''country'' then ''HQ country: '' @ (if truthy (co_hq_country c) then the (co_hq_country c) else ''not disclosed'')
      else if attribute = ''city'' then ''HQ city: '' @ (if truthy (co_hq_city c) then the (co_hq_city c) else ''not disclosed'')
      else ''Matched against available company evidence for '' @ attribute @ ''.'')"

record company_match =
  cm_score :: rat
  cm_matched :: "(string \<times> string) list"
  cm_unmatched :: "string list"

definition match_company :: "Company \<Rightarrow> QueryPlan \<Rightarrow> company_match" where
  "match_company c plan =
     (let fs = qp_filters plan; ok = filter (filter_ok c) fs
      in \<lparr>cm_score = fdiv (of_nat (length ok)) (of_nat (max 1 (length fs))),
          cm_matched = map (\<lambda>fv. (fst fv, filter_why c (fst fv))) ok,
          cm_unmatched = map fst (filter (\<lambda>fv. \<not> filter_ok c fv) fs)\<rparr>)"

text \<open>\<open>re.findall(r"[a-z0-9]+", s)\<close> and \<open>re.findall(r"\w+", s)\<close>, words of more than two characters.\<close>

definition words_by :: "(char \<Rightarrow> bool) \<Rightarrow> string \<Rightarrow> string list" where
  "words_by P s = filter (\<lambda>w. 2 < length w) (split_acc (\<lambda>c. \<not> P c) [] s)"

definition lexical :: "string list \<Rightarrow> string \<Rightarrow> rat" where
  "lexical terms t = fdiv (of_nat (length (filter (\<lambda>w. contains w t) terms))) (of_nat (max 1 (length terms)))"

definition filter_str :: "string \<Rightarrow> QueryPlan \<Rightarrow> string option" where
  "filter_str k plan = (case map_of (qp_filters plan) k of Some (FStr s) \<Rightarrow> Some s | _ \<Rightarrow> None)"

definition candidates :: "uuid \<Rightarrow> QueryPlan \<Rightarrow> db \<Rightarrow> (Opportunity \<times> Company) list" where
  "candidates org plan d =
     take 200
       (filter (\<lambda>(p, c). (case filter_str ''country'' plan of None \<Rightarrow> True | Some k \<Rightarrow> co_hq_country c = Some k)
            \<and> (case filter_str ''city'' plan of None \<Rightarrow> True
               | Some t \<Rightarrow> (case co_hq_city c of None \<Rightarrow> False | Some x \<Rightarrow> casefold x = casefold t)))
         [(p, c). p \<leftarrow> opportunities d, op_org_id p = org, c \<leftarrow> companies d, co_id c = op_company_id p])"

definition rank :: "QueryPlan \<Rightarrow> Opportunity \<times> Company \<Rightarrow> rat \<times> Opportunity \<times> company_match" where
  "rank plan pc =
     (let m = match_company (snd pc) plan;
          t = opt_words [Some (co_name (snd pc)), co_one_liner (snd pc), co_description (snd pc)]
      in (fadd (fmul (fl (3/4)) (cm_score m)) (fmul (fl (1/4)) (lexical (words_by is_alnum (qp_residual plan)) t)),
          fst pc, m))"

record search_item =
  si_card :: OpportunityCard
  si_score :: rat
  si_matched :: "(string \<times> string) list"
  si_unmatched :: "string list"

definition ranking :: "uuid \<Rightarrow> QueryPlan \<Rightarrow> db \<Rightarrow> (rat \<times> Opportunity \<times> company_match) list" where
  "ranking org plan d = sort_key (\<lambda>r. - fst r) (map (rank plan) (candidates org plan d))"

definition search_opportunities :: "env \<Rightarrow> uuid \<Rightarrow> string \<Rightarrow> nat \<Rightarrow> (QueryPlan \<times> search_item list) run" where
  "search_opportunities E org q limit =
     (let plan = interpret_query q
      in andThen (query (ranking org plan)) (\<lambda>ranked.
         andThen (map_run (\<lambda>(score, p, m).
             andThen (build_card E p) (\<lambda>shown.
             ret \<lparr>si_card = shown, si_score = py_round 3 score, si_matched = cm_matched m, si_unmatched = cm_unmatched m\<rparr>))
           (take limit ranked)) (\<lambda>items. ret (plan, items))))"

definition opportunity_search :: "env \<Rightarrow> Principal \<Rightarrow> string \<Rightarrow> nat \<Rightarrow> (QueryPlan \<times> search_item list) run" where
  "opportunity_search E pr q limit =
     andThen (require READ pr) (\<lambda>_. search_opportunities E (pr_org_id pr) q limit)"

section \<open>The knowledge base\<close>

record kb_hit =
  kh_id :: uuid
  kh_content :: string
  kh_source :: "uuid option"
  kh_url :: "string option"
  kh_observed_at :: "datetime option"
  kh_score :: rat
  kh_document_id :: "uuid option"
  kh_page :: "nat option"

definition is_word_char :: "char \<Rightarrow> bool" where
  "is_word_char c \<longleftrightarrow> is_alnum (lower_char c) \<or> c = CHR ''_''"

definition visible_chunk :: "uuid \<Rightarrow> KBChunk \<Rightarrow> bool" where
  "visible_chunk org k \<longleftrightarrow> kb_org_id k = Some org \<or> kb_org_id k = None"

definition search_kb :: "uuid \<Rightarrow> string \<Rightarrow> uuid option \<Rightarrow> uuid option \<Rightarrow> nat \<Rightarrow> db \<Rightarrow> kb_hit list" where
  "search_kb org q company person k d =
     (let terms = words_by is_word_char (casefold q);
          rows = take 500 (filter (\<lambda>r. visible_chunk org r \<and> (company \<noteq> None \<longrightarrow> kb_company_id r = company)
                                        \<and> (person \<noteq> None \<longrightarrow> kb_person_id r = person)) (kb_chunks d));
          scored = filter (\<lambda>x. fst x \<noteq> 0) (map (\<lambda>r. (lexical terms (casefold (kb_content r)), r)) rows)
      in map (\<lambda>(score, r). \<lparr>kh_id = kb_id r, kh_content = kb_content r, kh_source = kb_source_id r,
                kh_url = kb_source_url r, kh_observed_at = kb_observed_at r, kh_score = py_round 3 score,
                kh_document_id = kb_document_id r, kh_page = kb_page_no r\<rparr>)
           (take k (sort_key (\<lambda>x. - fst x) scored)))"

definition kb_search ::
  "Principal \<Rightarrow> string \<Rightarrow> uuid option \<Rightarrow> uuid option \<Rightarrow> nat \<Rightarrow> bool \<Rightarrow> (kb_hit list \<times> bool \<times> string list) run" where
  "kb_search pr q company person k include_web =
     andThen (require READ pr) (\<lambda>_.
     andThen (query (search_kb (pr_org_id pr) q company person k)) (\<lambda>chunks.
     ret (chunks, include_web,
          if include_web then [''web_search_runs_as_a_background_research_job''] else [])))"

text \<open>\<open>GET /search/suggest\<close>: companies of the fund's opportunities, then people.\<close>

datatype suggestion_kind = SuggestCompany | SuggestPerson

definition suggest ::
  "(string \<Rightarrow> string \<Rightarrow> bool) \<Rightarrow> Principal \<Rightarrow> string \<Rightarrow> (suggestion_kind \<times> uuid \<times> string) list run" where
  "suggest ilike pr q =
     andThen (require READ pr) (\<lambda>_.
     query (\<lambda>d. let pat = ''%'' @ casefold q @ ''%'';
         cs = take 8 [(SuggestCompany, co_id c, co_name c). c \<leftarrow> companies d, p \<leftarrow> opportunities d,
                        op_company_id p = co_id c \<and> op_org_id p = pr_org_id pr \<and> ilike pat (co_name c)];
         ps = take 8 [(SuggestPerson, per_id p, per_display_name p). p \<leftarrow> persons d, ilike pat (per_display_name p)]
       in take 10 (cs @ ps)))"

section \<open>What a search returns\<close>

lemma quotient_01: "0 \<le> fdiv (of_nat m) (of_nat (max 1 n)) \<and> fdiv (of_nat m) (of_nat (max 1 n)) \<le> 1"
  if "m \<le> n" for m n :: nat
proof -
  have "(of_nat m :: rat) / of_nat (max 1 n) \<le> 1" using that by (simp add: max_def divide_le_eq)
  then show ?thesis using flr.rnd_le [of 1] by (simp add: fdiv_def fl_nonneg)
qed

lemma rank_01: "0 \<le> fst (rank plan pc) \<and> fst (rank plan pc) \<le> 1"
proof -
  have m: "0 \<le> cm_score (match_company c plan)" "cm_score (match_company c plan) \<le> 1" for c
    using quotient_01 [OF length_filter_le, of "filter_ok c" "qp_filters plan"]
    by (simp_all add: match_company_def Let_def)
  have l: "0 \<le> lexical ts t" "lexical ts t \<le> 1" for ts t
    using quotient_01 [OF length_filter_le, of "\<lambda>w. contains w t" ts] by (simp_all add: lexical_def)
  have q: "fl (3/4) = 3/4" "fl (1/4) = 1/4"
    using fl_dyadic [of 3 "-2"] fl_dyadic [of 1 "-2"] by (simp_all add: power_int_def power2_eq_square)
  have "0 \<le> fmul (3/4) x \<and> fmul (3/4) x \<le> 3/4" "0 \<le> fmul (1/4) x \<and> fmul (1/4) x \<le> 1/4" if "0 \<le> x" "x \<le> 1" for x
    using that fmul_bounds [of "3/4" "3/4" x 1] fmul_bounds [of "1/4" "1/4" x 1] by (simp_all add: fmul_def q)
  then show ?thesis
    using m [of "snd pc"] l fadd_bounds [of 0 _ "3/4" 0 _ "1/4"]
    by (simp add: rank_def Let_def q) (simp add: fadd_def)
qed

lemma candidate_own: "(p, c) \<in> set (candidates org plan d) \<Longrightarrow>
    p \<in> set (opportunities d) \<and> op_org_id p = org \<and> c \<in> set (companies d) \<and> co_id c = op_company_id p"
  by (auto simp: candidates_def dest!: in_set_takeD)

lemma search_card:
  assumes "c \<in> set (companies (s_db s))" "co_id c = op_company_id p"
  shows "\<exists>x. build_card E p s = (Inr x, s) \<and> cd_opp_id x = op_id p"
proof -
  obtain c' where "get_row co_id (op_company_id p) (companies (s_db s)) = Some c'"
    using assms by (cases "get_row co_id (op_company_id p) (companies (s_db s))") (auto simp: get_row_None image_iff)
  then show ?thesis by (simp add: build_card_def run_simps card_of_def)
qed

definition item_run :: "env \<Rightarrow> rat \<times> Opportunity \<times> company_match \<Rightarrow> search_item run" where
  "item_run E = (\<lambda>(score, p, m). andThen (build_card E p) (\<lambda>shown.
     ret \<lparr>si_card = shown, si_score = py_round 3 score, si_matched = cm_matched m, si_unmatched = cm_unmatched m\<rparr>))"

lemma items_run:
  assumes "\<forall>r \<in> set rs. \<exists>c \<in> set (companies (s_db s)). co_id c = op_company_id (fst (snd r))"
  shows "\<exists>items. map_run (item_run E) rs s = (Inr items, s)
    \<and> map (\<lambda>i. (si_score i, cd_opp_id (si_card i))) items = map (\<lambda>r. (py_round 3 (fst r), op_id (fst (snd r)))) rs"
  using assms
proof (induction rs)
  case (Cons r rs)
  obtain score p m where r: "r = (score, p, m)" by (cases r) auto
  obtain x where x: "build_card E p s = (Inr x, s)" "cd_opp_id x = op_id p"
    using Cons.prems r search_card by fastforce
  obtain items where i: "map_run (item_run E) rs s = (Inr items, s)"
      "map (\<lambda>i. (si_score i, cd_opp_id (si_card i))) items = map (\<lambda>r. (py_round 3 (fst r), op_id (fst (snd r)))) rs"
    using Cons by auto
  let ?i = "\<lparr>si_card = x, si_score = py_round 3 score, si_matched = cm_matched m, si_unmatched = cm_unmatched m\<rparr>"
  have "item_run E r s = (Inr ?i, s)"
    using x(1) by (simp add: item_run_def r andThen_def run_simps)
  then have "map_run (item_run E) (r # rs) s = (Inr (?i # items), s)"
    using i(1) by (simp add: andThen_def run_simps)
  then show ?case using i(2) x(2) r by auto
qed (simp add: run_simps)

text \<open>A search answers with the caller's own opportunities, best first. It succeeds for everyone who
  may read and changes nothing; there are at most \<open>limit\<close> results, each an opportunity of the caller's
  fund, with a score between 0 and 1, in descending order of the scores.\<close>

theorem search_ranked_and_scoped:
  assumes "has_permission pr READ"
  shows "\<exists>items. request (opportunity_search E pr q limit) d = (Inr (interpret_query q, items), d, [])
    \<and> length items \<le> limit
    \<and> sorted_wrt (\<ge>) (map si_score items)
    \<and> (\<forall>i \<in> set items. 0 \<le> si_score i \<and> si_score i \<le> 1
         \<and> (\<exists>p \<in> set (opportunities d). op_id p = cd_opp_id (si_card i) \<and> op_org_id p = pr_org_id pr))"
proof -
  let ?rs = "take limit (ranking (pr_org_id pr) (interpret_query q) d)"
  have in_rank: "r \<in> rank (interpret_query q) ` set (candidates (pr_org_id pr) (interpret_query q) d)" if "r \<in> set ?rs" for r
    using that by (auto simp: ranking_def dest!: in_set_takeD)
  have own: "(\<exists>c \<in> set (companies d). co_id c = op_company_id (fst (snd r))) \<and> fst (snd r) \<in> set (opportunities d)
      \<and> op_org_id (fst (snd r)) = pr_org_id pr \<and> 0 \<le> fst r \<and> fst r \<le> 1" if "r \<in> set ?rs" for r
    using in_rank [OF that] rank_01 by (auto simp: rank_def Let_def dest!: candidate_own)
  obtain items where i: "map_run (item_run E) ?rs (open_session d []) = (Inr items, open_session d [])"
      "map (\<lambda>i. (si_score i, cd_opp_id (si_card i))) items = map (\<lambda>r. (py_round 3 (fst r), op_id (fst (snd r)))) ?rs"
    using items_run [of ?rs "open_session d []" E] own by (auto simp: open_session_def)
  have "sorted_wrt (\<ge>) (map fst (ranking (pr_org_id pr) (interpret_query q) d))"
    by (simp add: ranking_def sorted_wrt_map) (rule sorted_wrt_mono_rel [OF _ sorted_sort_key [unfolded sorted_map]], simp)
  then have "sorted_wrt (\<ge>) (map fst ?rs)" by (simp add: take_map [symmetric] sorted_wrt_take)
  then have so: "sorted_wrt (\<ge>) (map (\<lambda>r. py_round 3 (fst r)) ?rs)"
    by (simp add: sorted_wrt_map) (erule sorted_wrt_mono_rel [rotated], simp add: py_round_mono)
  have fsts: "map si_score items = map (\<lambda>r. py_round 3 (fst r)) ?rs"
    using arg_cong [OF i(2), of "map fst"] by (simp add: comp_def)
  have "request (opportunity_search E pr q limit) d = (Inr (interpret_query q, items), d, [])"
    using assms i(1)
    by (simp add: request_def opportunity_search_def search_opportunities_def Let_def andThen_require run_simps
        item_run_def [symmetric] andThen_goes [where m = "map_run (item_run E) ?rs"] open_session_def)
  moreover have "length items \<le> limit" using arg_cong [OF i(2), of length] by simp
  moreover have "0 \<le> si_score x \<and> si_score x \<le> 1
      \<and> (\<exists>p \<in> set (opportunities d). op_id p = cd_opp_id (si_card x) \<and> op_org_id p = pr_org_id pr)" if "x \<in> set items" for x
  proof -
    have "(si_score x, cd_opp_id (si_card x)) \<in> set (map (\<lambda>r. (py_round 3 (fst r), op_id (fst (snd r)))) ?rs)"
      using that i(2) by (metis (mono_tags, lifting) image_eqI list.set_map)
    then obtain r where r: "r \<in> set ?rs" "si_score x = py_round 3 (fst r)" "cd_opp_id (si_card x) = op_id (fst (snd r))"
      by auto
    then show ?thesis using own [OF r(1)] pyr.rnd_ge [of 3 0 "fst r"] pyr.rnd_le [of 3 1 "fst r"] by auto
  qed
  ultimately show ?thesis using so fsts by metis
qed

theorem search_ranked_and_scoped_witness:
  "\<exists>items. request (opportunity_search demo_env (demo_pr VIEWER) ''fintech in berlin'' 10) demo_funds
      = (Inr (interpret_query ''fintech in berlin'', items), demo_funds, []) \<and> length items \<le> 10"
proof -
  have "has_permission (demo_pr VIEWER) READ" by (simp add: demo_pr_def has_permission_def)
  from search_ranked_and_scoped [OF this, of demo_env "''fintech in berlin''" 10 demo_funds] show ?thesis by blast
qed

lemma casefold_not_upper: "c \<in> set (casefold t) \<Longrightarrow> \<not> (CHR ''A'' \<le> c \<and> c \<le> CHR ''Z'')"
proof -
  have "\<not> (CHR ''A'' \<le> lower_char x \<and> lower_char x \<le> CHR ''Z'')" for x
    by (auto simp: lower_char_def less_eq_char_def)
  then show "c \<in> set (casefold t) \<Longrightarrow> \<not> (CHR ''A'' \<le> c \<and> c \<le> CHR ''Z'')" by (auto simp: casefold_def)
qed

text \<open>No company matches the filter that \<open>bootstrapped\<close> sets: it looks for \<open>False\<close> in lower case text.\<close>

lemma bootstrapped_never_matches: "\<not> filter_ok c (''prior_vc_backing'', FBool False)"
proof
  assume "filter_ok c (''prior_vc_backing'', FBool False)"
  then have "contains (replace ''_'' '' '' ''False'') (opt_words [co_one_liner c, co_description c])"
    by (simp add: filter_ok_def)
  moreover have "replace ''_'' '' '' ''False'' = ''False''" by code_simp
  ultimately obtain a b where "opt_words [co_one_liner c, co_description c] = a @ ''False'' @ b"
    by (auto simp: contains_append)
  then have "CHR ''F'' \<in> set (opt_words [co_one_liner c, co_description c])" by simp
  then show False unfolding opt_words_def by (auto dest!: casefold_not_upper simp: less_eq_char_def)
qed

end
