(* ===== verification/Accounts.thy ===== *)
theory Accounts
  imports Auth
begin

text \<open>
  \<open>app/routers/auth.py\<close> and \<open>app/routers/orgs.py\<close>: the requests on accounts, sessions, the fund and its
  users, over the services of \<open>Auth\<close>, and what they guarantee together: a refresh token is used
  once, a family has one live token, a deactivated user is out.
\<close>

section \<open>The requests on an account\<close>

record cookie =
  ck_name :: string
  ck_value :: string
  ck_httponly :: bool
  ck_secure :: bool
  ck_samesite :: string
  ck_path :: string
  ck_max_age :: int

definition token_cookies :: "env \<Rightarrow> string \<Rightarrow> string \<Rightarrow> cookie list" where
  "token_cookies E refresh csrf =
     (let secure = (set_env (env_settings E) = ''prod'');
          age = set_refresh_ttl_days (env_settings E) * 86400
      in [\<lparr>ck_name = ''vcbrain_refresh'', ck_value = refresh, ck_httponly = True, ck_secure = secure,
           ck_samesite = ''lax'', ck_path = ''/api/v1/auth'', ck_max_age = age\<rparr>,
          \<lparr>ck_name = ''vcbrain_csrf'', ck_value = csrf, ck_httponly = False, ck_secure = secure,
           ck_samesite = ''lax'', ck_path = ''/api/v1/auth'', ck_max_age = age\<rparr>])"

definition set_token_cookies :: "env \<Rightarrow> string \<Rightarrow> cookie list run" where
  "set_token_cookies E refresh =
     andThen (token_urlsafe E) (\<lambda>csrf. ret (token_cookies E refresh csrf))"

record AuthResponse =
  ar_tokens :: IssuedTokens
  ar_user :: "User option"
  ar_org :: "Org option"
  ar_cookies :: "cookie list"

definition auth_response ::
  "env \<Rightarrow> IssuedTokens \<Rightarrow> User option \<Rightarrow> Org option \<Rightarrow> AuthResponse run" where
  "auth_response E tokens u g =
     andThen (set_token_cookies E (it_refresh_token tokens)) (\<lambda>cookies.
     ret \<lparr>ar_tokens = tokens, ar_user = u, ar_org = g, ar_cookies = cookies\<rparr>)"

definition signup_endpoint ::
  "env \<Rightarrow> auth_env \<Rightarrow> SignupRequest \<Rightarrow> string option \<Rightarrow> string option \<Rightarrow> AuthResponse run" where
  "signup_endpoint E A body agent ip =
     andThen (signup E A body agent ip) (\<lambda>(u, g, tokens).
     andThen commit_run (\<lambda>_. auth_response E tokens (Some u) (Some g)))"

definition login_endpoint ::
  "env \<Rightarrow> auth_env \<Rightarrow> string \<Rightarrow> string \<Rightarrow> string option \<Rightarrow> string option \<Rightarrow> AuthResponse run" where
  "login_endpoint E A email pw agent ip =
     andThen (login E A email pw agent ip) (\<lambda>(u, tokens).
     andThen (query (\<lambda>d. get_row org_id (usr_org_id u) (orgs d))) (\<lambda>g.
     andThen commit_run (\<lambda>_. auth_response E tokens (Some u) g)))"

text \<open>\<open>body.refresh_token or cookie_token\<close>: the cookie is used when the body has no token or an empty
  one; the CSRF check is made only when the body has none.\<close>

definition or_else :: "string option \<Rightarrow> string option \<Rightarrow> string option" where
  "or_else a b = (if truthy a then a else b)"

definition csrf_ok :: "string option \<Rightarrow> string option \<Rightarrow> bool" where
  "csrf_ok csrf_cookie csrf_header \<longleftrightarrow>
     truthy csrf_cookie \<and> truthy csrf_header \<and> csrf_cookie = csrf_header"

definition refresh_endpoint ::
  "env \<Rightarrow> auth_env \<Rightarrow> string option \<Rightarrow> string option \<Rightarrow> string option \<Rightarrow> string option \<Rightarrow>
   string option \<Rightarrow> string option \<Rightarrow> AuthResponse run" where
  "refresh_endpoint E A body_token cookie_token csrf_cookie csrf_header agent ip =
     (let raw = or_else body_token cookie_token
      in andThen (check (truthy raw)
                   (UnauthenticatedError ''TOKEN_REVOKED'' ''Refresh token is required.'')) (\<lambda>_.
         andThen (check (body_token \<noteq> None \<or> csrf_ok csrf_cookie csrf_header)
                   (AppError ''FORBIDDEN'' ''CSRF token is missing or invalid.'' 403)) (\<lambda>_.
         andThen (rotate_refresh_token E A (the raw) agent ip) (\<lambda>(u, tokens).
         andThen commit_run (\<lambda>_. auth_response E tokens None None)))))"

text \<open>\<open>if principal.user_id is None: raise UnauthenticatedError()\<close>.\<close>

definition signed_in :: "Principal \<Rightarrow> (uuid \<Rightarrow> 'a run) \<Rightarrow> 'a run" where
  "signed_in pr f = (case pr_user_id pr of None \<Rightarrow> throw (App Unauthenticated) | Some u \<Rightarrow> f u)"

definition logout_endpoint :: "env \<Rightarrow> Principal \<Rightarrow> string option \<Rightarrow> bool \<Rightarrow> unit run" where
  "logout_endpoint E pr raw all_devices =
     signed_in pr (\<lambda>u. andThen (revoke_refresh E raw u all_devices) (\<lambda>_. commit_run))"

definition account_row :: "'a option \<Rightarrow> ('a \<Rightarrow> 'b run) \<Rightarrow> 'b run" where
  "account_row r f = (case r of None \<Rightarrow> throw (App Unauthenticated) | Some x \<Rightarrow> f x)"

definition me_endpoint :: "Principal \<Rightarrow> (User \<times> Org \<times> string list) run" where
  "me_endpoint pr =
     signed_in pr (\<lambda>i.
     andThen (query (\<lambda>d. get_row usr_id i (users d))) (\<lambda>u.
     andThen (query (\<lambda>d. get_row org_id (pr_org_id pr) (orgs d))) (\<lambda>g.
     account_row u (\<lambda>u. account_row g (\<lambda>g.
     ret (u, g, sort (map permission_value (ROLE_PERMISSIONS (usr_role u)))))))))"

text \<open>All live tokens of a user, with the reason.\<close>

definition revoke_all :: "env \<Rightarrow> uuid \<Rightarrow> string \<Rightarrow> unit run" where
  "revoke_all E i reason = change (revoke_where (\<lambda>t. rt_user_id t = i \<and> live t) (env_now E) reason)"

definition change_password :: "env \<Rightarrow> auth_env \<Rightarrow> User \<Rightarrow> string \<Rightarrow> string \<Rightarrow> unit run" where
  "change_password E A u pw reason =
     andThen (app_lift (validate_password pw (usr_email u))) (\<lambda>_.
     andThen (change (set_user (usr_id u) (\<lambda>u. u\<lparr>usr_password_hash := Some (ae_hash A pw)\<rparr>))) (\<lambda>_.
     revoke_all E (usr_id u) reason))"

definition update_me_endpoint ::
  "env \<Rightarrow> auth_env \<Rightarrow> Principal \<Rightarrow> string option \<Rightarrow> string option \<Rightarrow> string option \<Rightarrow> User option run" where
  "update_me_endpoint E A pr full_name pw current_pw =
     signed_in pr (\<lambda>i.
     andThen (query (\<lambda>d. get_row usr_id i (users d))) (\<lambda>u. account_row u (\<lambda>u.
     andThen (if truthy full_name
              then change (set_user i (\<lambda>u. u\<lparr>usr_full_name := the full_name\<rparr>)) else ret ()) (\<lambda>_.
     andThen (if truthy pw then
                andThen (check (verify_password A (usr_password_hash u)
                                  (case current_pw of None \<Rightarrow> [] | Some c \<Rightarrow> c))
                          (UnauthenticatedError ''UNAUTHENTICATED'' ''Current password is incorrect.'')) (\<lambda>_.
                change_password E A u (the pw) ''password_changed'')
              else ret ()) (\<lambda>_.
     andThen commit_run (\<lambda>_. query (\<lambda>d. get_row usr_id i (users d))))))))"

definition verify_email_endpoint :: "env \<Rightarrow> string \<Rightarrow> unit run" where
  "verify_email_endpoint E tok =
     andThen (consume_email_token E tok ''verify'') (\<lambda>u.
     andThen (change (set_user (usr_id u) (\<lambda>u. u\<lparr>usr_email_verified_at := Some (env_now E)\<rparr>))) (\<lambda>_.
     commit_run))"

definition forgot_password_endpoint :: "env \<Rightarrow> string \<Rightarrow> unit run" where
  "forgot_password_endpoint E email =
     andThen (query (\<lambda>d. first_row (\<lambda>u. usr_email u = casefold email) (users d))) (\<lambda>row.
     when_some row (\<lambda>u. andThen (create_email_token E u ''reset'') (\<lambda>_. commit_run)))"

definition reset_password_endpoint :: "env \<Rightarrow> auth_env \<Rightarrow> string \<Rightarrow> string \<Rightarrow> unit run" where
  "reset_password_endpoint E A tok pw =
     andThen (consume_email_token E tok ''reset'') (\<lambda>u.
     andThen (change_password E A u pw ''password_reset'') (\<lambda>_. commit_run))"

text \<open>The sessions of a user: the newest live token of each family.\<close>

fun newest_per_family :: "uuid list \<Rightarrow> RefreshToken list \<Rightarrow> RefreshToken list" where
  "newest_per_family seen [] = []"
| "newest_per_family seen (r # rs) =
     (if rt_family_id r \<in> set seen then newest_per_family seen rs
      else r # newest_per_family (rt_family_id r # seen) rs)"

definition sessions_endpoint :: "Principal \<Rightarrow> RefreshToken list run" where
  "sessions_endpoint pr =
     signed_in pr (\<lambda>i. query (\<lambda>d. newest_per_family []
       (sort_key (\<lambda>r. - rt_created_at r)
         (filter (\<lambda>r. rt_user_id r = i \<and> live r) (refresh_tokens d)))))"

definition delete_session_endpoint :: "env \<Rightarrow> Principal \<Rightarrow> uuid \<Rightarrow> unit run" where
  "delete_session_endpoint E pr family =
     signed_in pr (\<lambda>i.
     andThen (change (revoke_where (\<lambda>t. rt_user_id t = i \<and> rt_family_id t = family)
                (env_now E) ''session_revoked'')) (\<lambda>_. commit_run))"

section \<open>The requests on a fund\<close>

definition current_org :: "Principal \<Rightarrow> Org run" where
  "current_org pr =
     andThen (require READ pr) (\<lambda>_.
     andThen (query (\<lambda>d. get_row org_id (pr_org_id pr) (orgs d))) (found ''Organization''))"

definition update_org :: "Principal \<Rightarrow> string option \<Rightarrow> json option \<Rightarrow> Org option run" where
  "update_org pr name new_settings =
     andThen (require ORG_ADMIN pr) (\<lambda>_.
     andThen (query (\<lambda>d. get_row org_id (pr_org_id pr) (orgs d))) (\<lambda>g.
     andThen (found ''Organization'' g) (\<lambda>g.
     andThen (change (\<lambda>d. d\<lparr>orgs := upd_row org_id (org_id g) (\<lambda>g.
         g\<lparr>org_name := (case name of None \<Rightarrow> org_name g | Some n \<Rightarrow> n),
           org_settings := (case new_settings of None \<Rightarrow> org_settings g | Some v \<Rightarrow> v)\<rparr>) (orgs d)\<rparr>)) (\<lambda>_.
     andThen commit_run (\<lambda>_. query (\<lambda>d. get_row org_id (pr_org_id pr) (orgs d)))))))"

definition list_users :: "Principal \<Rightarrow> User list run" where
  "list_users pr =
     andThen (require READ pr) (\<lambda>_. query (\<lambda>d. filter (\<lambda>u. usr_org_id u = pr_org_id pr) (users d)))"

definition add_invite :: "OrgInvite \<Rightarrow> db \<Rightarrow> db" where
  "add_invite i d = d\<lparr>org_invites := org_invites d @ [i]\<rparr>"

definition create_invite :: "env \<Rightarrow> Principal \<Rightarrow> string \<Rightarrow> UserRole \<Rightarrow> (OrgInvite \<times> string) run" where
  "create_invite E pr email role =
     andThen (require ORG_ADMIN pr) (\<lambda>_.
     andThen (check (role \<notin> {OWNER, SERVICE})
               (ValidationError ''Invitations cannot grant owner or service roles.'')) (\<lambda>_.
     andThen (query (\<lambda>d. first_row (\<lambda>u. usr_email u = casefold email) (users d))) (\<lambda>taken.
     andThen (check (taken = None)
               (AppError ''CONFLICT'' ''A user with this email already exists.'' 409)) (\<lambda>_.
     andThen (token_urlsafe E) (\<lambda>raw.
     andThen (insert_new (\<lambda>i. \<lparr>inv_id = i, inv_org_id = pr_org_id pr, inv_email = casefold email,
                inv_role = role, inv_token_hash = hash_token E raw, inv_created_by = pr_user_id pr,
                inv_expires_at = env_now E + days 7, inv_accepted_at = None\<rparr>) add_invite) (\<lambda>i.
     andThen commit_run (\<lambda>_. ret (i, raw))))))))"

definition deactivate_user :: "Principal \<Rightarrow> uuid \<Rightarrow> unit run" where
  "deactivate_user pr i =
     andThen (require ORG_ADMIN pr) (\<lambda>_.
     andThen (check (Some i \<noteq> pr_user_id pr)
               (AppError ''UNPROCESSABLE'' ''Owners cannot deactivate themselves.'' 422)) (\<lambda>_.
     andThen (query (\<lambda>d. first_row (\<lambda>u. usr_id u = i \<and> usr_org_id u = pr_org_id pr) (users d))) (\<lambda>u.
     andThen (found ''User'' u) (\<lambda>u.
     andThen (change (set_user (usr_id u) (\<lambda>u. u\<lparr>usr_is_active := False\<rparr>))) (\<lambda>_. commit_run)))))"

section \<open>One live token per family\<close>

text \<open>The tokens are well formed: identifiers below the next one and distinct, and a family has at most
  one live token. \<open>no_live f\<close> says that a family has none.\<close>

definition tokens_ok :: "db \<Rightarrow> bool" where
  "tokens_ok d \<longleftrightarrow>
     distinct (map rt_id (refresh_tokens d))
     \<and> (\<forall>r \<in> set (refresh_tokens d). rt_id r < next_uuid d \<and> rt_family_id r < next_uuid d)
     \<and> (\<forall>f. length (filter (\<lambda>r. rt_family_id r = f \<and> live r) (refresh_tokens d)) \<le> 1)"

definition no_live :: "uuid \<Rightarrow> db \<Rightarrow> bool" where
  "no_live f d \<longleftrightarrow> filter (\<lambda>r. rt_family_id r = f \<and> live r) (refresh_tokens d) = []"

text \<open>A computation that keeps the tokens well formed, at every point where it may commit.\<close>

interpretation tok: db_order "\<lambda>d d'. tokens_ok d \<longrightarrow> tokens_ok d'"
  by unfold_locales auto

lemmas tok_intros = tok.keeps_andThen tok.keeps_change tok.keeps_insert_new tok.keeps_on_db
  tok.keeps_when_some tok.keeps_if

lemma tokens_ok_later:
  "tokens_ok d \<Longrightarrow> refresh_tokens d' = refresh_tokens d \<Longrightarrow> next_uuid d \<le> next_uuid d' \<Longrightarrow> tokens_ok d'"
  unfolding tokens_ok_def by (metis order_less_le_trans)

lemma revoke_simps [simp]:
  "rt_id (revoke t w r) = rt_id r" "rt_family_id (revoke t w r) = rt_family_id r"
  "rt_user_id (revoke t w r) = rt_user_id r" "rt_token_hash (revoke t w r) = rt_token_hash r"
  "\<not> live (revoke t w r)"
  by (simp_all add: revoke_def live_def)

lemma live_after_revoke:
  "filter (\<lambda>r. rt_family_id r = f \<and> live r) (upd_where P (revoke t w) rs)
     = filter (\<lambda>r. \<not> P r) (filter (\<lambda>r. rt_family_id r = f \<and> live r) rs)"
  by (induction rs) (auto simp: upd_where_def)

lemma tokens_ok_revoke:
  assumes "tokens_ok d" shows "tokens_ok (revoke_where P t w d)"
proof -
  have "length (filter (\<lambda>r. rt_family_id r = f \<and> live r) (refresh_tokens d)) \<le> 1" for f
    using assms by (simp add: tokens_ok_def)
  then have "length (filter (\<lambda>r. rt_family_id r = f \<and> live r) (upd_where P (revoke t w) (refresh_tokens d))) \<le> 1" for f
    unfolding live_after_revoke using length_filter_le order_trans by blast
  moreover have "map rt_id (upd_where P (revoke t w) (refresh_tokens d)) = map rt_id (refresh_tokens d)"
    by (rule map_pk_upd_where) simp
  ultimately show ?thesis using assms
    by (auto simp: tokens_ok_def revoke_where_def elim!: in_upd_whereE)
qed

lemma no_live_revoke:
  assumes "tokens_ok d" "r \<in> set (refresh_tokens d)" "live r"
  shows "no_live (rt_family_id r) (revoke_where (\<lambda>t. rt_id t = rt_id r) now w d)"
proof -
  let ?F = "filter (\<lambda>t. rt_family_id t = rt_family_id r \<and> live t) (refresh_tokens d)"
  have "r \<in> set ?F" "length ?F \<le> 1" using assms by (auto simp: tokens_ok_def)
  then have "?F = [r]" by (cases ?F) auto
  then show ?thesis
    by (simp add: no_live_def revoke_where_def live_after_revoke)
qed

lemma tokens_ok_add:
  assumes "tokens_ok d" "rt_id r = next_uuid d" "rt_family_id r \<le> next_uuid d"
    "no_live (rt_family_id r) d" "next_uuid d < next_uuid d'" "refresh_tokens d' = refresh_tokens d @ [r]"
  shows "tokens_ok d'"
  using assms by (fastforce simp: tokens_ok_def no_live_def)

text \<open>Issuing tokens: a new family is empty, an old one must have no live token.\<close>

definition issued :: "env \<Rightarrow> User \<Rightarrow> uuid option \<Rightarrow> uuid option \<Rightarrow> string option \<Rightarrow> string option \<Rightarrow> uuid \<Rightarrow> RefreshToken" where
  "issued E u family parent agent ip n =
     new_refresh E u (env_token E (Suc n)) (case family of Some f \<Rightarrow> f | None \<Rightarrow> n + 2) parent agent ip
       (case family of Some f \<Rightarrow> n + 2 | None \<Rightarrow> n + 3)"

definition issued_tokens :: "env \<Rightarrow> auth_env \<Rightarrow> User \<Rightarrow> uuid \<Rightarrow> IssuedTokens" where
  "issued_tokens E A u n =
     \<lparr>it_access_token = ae_encode A (access_payload E u n), it_refresh_token = env_token E (Suc n),
      it_expires_in = set_access_ttl_min (env_settings E) * 60\<rparr>"

lemma issue_tokens_run:
  "issue_tokens E A u family parent agent ip s =
     (let n = next_uuid (s_db s)
      in (Inr (issued_tokens E A u n),
          s\<lparr>s_db := add_refresh (issued E u family parent agent ip n)
              ((s_db s)\<lparr>next_uuid := (case family of Some f \<Rightarrow> n + 3 | None \<Rightarrow> n + 4)\<rparr>)\<rparr>))"
  by (simp add: issue_tokens_def build_access_token_def token_urlsafe_def run_simps new_uuid_def
      Let_def issued_def issued_tokens_def eval_nat_numeral split: option.split)

lemma andThen_issue:
  "andThen (issue_tokens E A u family parent agent ip) f s =
     (let n = next_uuid (s_db s)
      in f (issued_tokens E A u n)
          (s\<lparr>s_db := add_refresh (issued E u family parent agent ip n)
              ((s_db s)\<lparr>next_uuid := (case family of Some f \<Rightarrow> n + 3 | None \<Rightarrow> n + 4)\<rparr>)\<rparr>))"
  by (simp add: andThen_def issue_tokens_run Let_def)

lemma tok_issue: "tok.keeps (issue_tokens E A u None parent agent ip)"
proof -
  have "tokens_ok (add_refresh (issued E u None parent agent ip (next_uuid d)) (d\<lparr>next_uuid := next_uuid d + 4\<rparr>))"
    if ok: "tokens_ok d" for d
  proof (rule tokens_ok_add [of "d\<lparr>next_uuid := next_uuid d + 3\<rparr>" "issued E u None parent agent ip (next_uuid d)"])
    show "tokens_ok (d\<lparr>next_uuid := next_uuid d + 3\<rparr>)" by (rule tokens_ok_later [OF ok]) simp_all
    have "\<forall>r \<in> set (refresh_tokens d). rt_family_id r < next_uuid d" using ok by (simp add: tokens_ok_def)
    then show "no_live (rt_family_id (issued E u None parent agent ip (next_uuid d))) (d\<lparr>next_uuid := next_uuid d + 3\<rparr>)"
      by (force simp: no_live_def issued_def new_refresh_def filter_empty_conv)
  qed (simp_all add: issued_def new_refresh_def add_refresh_def)
  then show ?thesis by (simp add: tok.keeps_def issue_tokens_run Let_def)
qed

lemma tok_app_lift [simp]: "tok.keeps (app_lift r)"
  by (simp add: app_lift_def split: sum.split)

lemma tok_uuid [simp]: "tok.keeps (on_db new_uuid)" "tok.keeps (token_urlsafe E)"
  by (auto simp: token_urlsafe_def new_uuid_def intro!: tok.keeps_on_db elim: tokens_ok_later)

lemma tok_response [simp]: "tok.keeps (auth_response E t u g)"
  by (auto simp: auth_response_def set_token_cookies_def intro!: tok_intros)

lemma tok_rotate: "tok.keeps (rotate_refresh_token E A raw agent ip)"
proof -
  have ok: "tokens_ok (add_refresh (issued E u (Some (rt_family_id r)) (Some (rt_id r)) agent ip (next_uuid d))
      (revoke_where (\<lambda>t. rt_id t = rt_id r) now w d\<lparr>next_uuid := next_uuid d + 3\<rparr>))"
    if "tokens_ok d" "r \<in> set (refresh_tokens d)" "live r" for d r now w u
  proof (rule tokens_ok_add [of "revoke_where (\<lambda>t. rt_id t = rt_id r) now w d\<lparr>next_uuid := next_uuid d + 2\<rparr>"
        "issued E u (Some (rt_family_id r)) (Some (rt_id r)) agent ip (next_uuid d)"])
    show "tokens_ok (revoke_where (\<lambda>t. rt_id t = rt_id r) now w d\<lparr>next_uuid := next_uuid d + 2\<rparr>)"
      by (rule tokens_ok_later [OF tokens_ok_revoke [OF that(1)]]) (simp_all add: revoke_where_def)
    have "rt_family_id r < next_uuid d" using that by (simp add: tokens_ok_def)
    then show "rt_family_id (issued E u (Some (rt_family_id r)) (Some (rt_id r)) agent ip (next_uuid d))
        \<le> next_uuid (revoke_where (\<lambda>t. rt_id t = rt_id r) now w d\<lparr>next_uuid := next_uuid d + 2\<rparr>)"
      by (simp add: issued_def new_refresh_def)
    show "no_live (rt_family_id (issued E u (Some (rt_family_id r)) (Some (rt_id r)) agent ip (next_uuid d)))
        (revoke_where (\<lambda>t. rt_id t = rt_id r) now w d\<lparr>next_uuid := next_uuid d + 2\<rparr>)"
      using no_live_revoke [OF that, of now w] by (simp add: no_live_def issued_def new_refresh_def)
  qed (simp_all add: issued_def new_refresh_def add_refresh_def)
  have nu: "next_uuid (revoke_where P now w d) = next_uuid d" for P now w d by (simp add: revoke_where_def)
  have audit: "tokens_ok (add_audit a (revoke_where P now w d))" if "tokens_ok d" for a P now w d
    by (rule tokens_ok_later [OF tokens_ok_revoke [OF that, of P now w]]) (simp_all add: add_audit_def)
  have row: "r \<in> set (refresh_tokens d)" if "first_row P (refresh_tokens d) = Some r" for P r and d :: db
    using first_row_Some [OF that] by simp
  show ?thesis
    unfolding tok.keeps_def
    by (simp add: rotate_refresh_token_def run_simps andThen_issue Let_def nu ok tokens_ok_revoke
        audit row split: option.split)
qed

section \<open>What the requests do to the tokens\<close>

lemma tok_signup: "tok.keeps (signup E A body agent ip)"
  unfolding signup_def join_invite_def found_fund_def Let_def
  by (auto intro!: tok_intros tok_issue split: option.split prod.split elim!: tokens_ok_later
      simp: add_org_def add_user_def add_thesis_def set_invite_def)

lemma tok_login: "tok.keeps (login E A email pw agent ip)"
  unfolding login_def
  by (auto intro!: tok_intros tok_issue split: option.split elim!: tokens_ok_later simp: set_user_def)

lemma tok_revoke: "tok.keeps (change (revoke_where P now w))"
  by (rule tok.keeps_change) (simp add: tokens_ok_revoke)

lemma tok_consume: "tok.keeps (consume_email_token E raw purpose)"
  unfolding consume_email_token_def
  by (auto intro!: tok_intros split: option.split elim!: tokens_ok_later)

lemma tok_set_user: "tok.keeps (change (set_user i f))"
  by (auto intro!: tok.keeps_change elim!: tokens_ok_later simp: set_user_def)

lemma tok_password: "tok.keeps (change_password E A u pw reason)"
  unfolding change_password_def revoke_all_def
  by (auto intro!: tok.keeps_andThen tok_revoke tok_set_user)

lemma tok_requests:
  "tok.keeps (signup_endpoint E A body agent ip)"
  "tok.keeps (login_endpoint E A email pw agent ip)"
  "tok.keeps (refresh_endpoint E A b c csrf_cookie csrf_header agent ip)"
  "tok.keeps (logout_endpoint E pr raw all)"
  "tok.keeps (update_me_endpoint E A pr full_name npw current)"
  "tok.keeps (reset_password_endpoint E A tk pw)"
  "tok.keeps (delete_session_endpoint E pr family)"
  unfolding signup_endpoint_def login_endpoint_def refresh_endpoint_def logout_endpoint_def
    update_me_endpoint_def reset_password_endpoint_def delete_session_endpoint_def revoke_refresh_def
    signed_in_def account_row_def Let_def
  by (auto intro!: tok.keeps_andThen tok.keeps_when_some tok_signup tok_login tok_rotate tok_revoke
      tok_consume tok_set_user tok_password split: option.split prod.split)

text \<open>A history of the system, as far as the tokens see it: the requests of this file that write them,
  in any order and at any times, between steps that do not touch them.\<close>

inductive token_step :: "db \<Rightarrow> db \<Rightarrow> bool" where
  signup: "token_step d (fst (snd (request (signup_endpoint E A body agent ip) d)))"
| login: "token_step d (fst (snd (request (login_endpoint E A email pw agent ip) d)))"
| refresh: "token_step d (fst (snd (request (refresh_endpoint E A b c csrf_cookie csrf_header agent ip) d)))"
| logout: "token_step d (fst (snd (request (logout_endpoint E pr raw all) d)))"
| update_me: "token_step d (fst (snd (request (update_me_endpoint E A pr full_name npw current) d)))"
| reset: "token_step d (fst (snd (request (reset_password_endpoint E A tk pw) d)))"
| delete_session: "token_step d (fst (snd (request (delete_session_endpoint E pr family) d)))"
| other: "refresh_tokens d' = refresh_tokens d \<Longrightarrow> next_uuid d \<le> next_uuid d' \<Longrightarrow> token_step d d'"

inductive token_reachable :: "db \<Rightarrow> bool" where
  start: "token_reachable empty_db"
| step: "token_reachable d \<Longrightarrow> token_step d d' \<Longrightarrow> token_reachable d'"

lemmas tok_after = tok_requests [THEN tok.keeps_request, THEN mp]

lemma token_step_ok: "token_step d d' \<Longrightarrow> tokens_ok d \<Longrightarrow> tokens_ok d'"
  by (erule token_step.cases; hypsubst) (erule tok_after | erule (2) tokens_ok_later)+

lemma token_reachable_ok: "token_reachable d \<Longrightarrow> tokens_ok d"
proof (induction rule: token_reachable.induct)
  case start
  show ?case unfolding tokens_ok_def by (simp add: empty_db_def)
qed (rule token_step_ok)

text \<open>C17: a session has one live refresh token. After any sequence of sign-ups, logins, rotations,
  replays, logouts, password changes and resets, whatever happens elsewhere in the database, every
  token family has at most one token that is not revoked, and no two tokens share an identifier.\<close>

theorem one_live_token_per_family:
  assumes "token_reachable d"
  shows "length (filter (\<lambda>r. rt_family_id r = f \<and> live r) (refresh_tokens d)) \<le> 1
    \<and> distinct (map rt_id (refresh_tokens d))"
  using token_reachable_ok [OF assms] by (simp add: tokens_ok_def)

theorem one_live_token_per_family_witness:
  "length (filter (\<lambda>r. rt_family_id r = 4 \<and> live r) (refresh_tokens
     (fst (snd (request (login_endpoint demo_env demo_auth ''a@b.c'' ''pw'' None None)
       (empty_db\<lparr>users := [(new_user 1 ''a@b.c'' ''pw'' ''A'' OWNER 2)], next_uuid := 3\<rparr>)))))) \<le> 1"
proof -
  let ?d = "empty_db\<lparr>users := [(new_user 1 ''a@b.c'' ''pw'' ''A'' OWNER 2)], next_uuid := 3\<rparr>"
  have "token_reachable ?d"
    by (rule token_reachable.step [OF token_reachable.start], rule token_step.other)
       (simp_all add: empty_db_def)
  then show ?thesis
    using one_live_token_per_family [OF token_reachable.step [OF _ token_step.login]] by blast
qed

section \<open>A refresh token is used once\<close>

definition reuse_error :: exn where
  "reuse_error = App (UnauthenticatedError ''TOKEN_REVOKED'' ''Refresh token reuse was detected.'')"

definition token_row :: "env \<Rightarrow> string \<Rightarrow> db \<Rightarrow> RefreshToken option" where
  "token_row E raw d = first_row (\<lambda>r. rt_token_hash r = hash_token E raw) (refresh_tokens d)"

lemma rotate_reuse:
  assumes "token_row E raw (s_db s) = Some r" "\<not> live r"
  shows "rotate_refresh_token E A raw agent ip s =
    (Inl reuse_error, commit (s\<lparr>s_db := add_audit (reuse_audit r)
       (revoke_where (\<lambda>t. rt_family_id t = rt_family_id r \<and> live t) (env_now E) ''reuse_detected'' (s_db s))\<rparr>))"
  using assms by (simp add: rotate_refresh_token_def token_row_def run_simps reuse_error_def)

lemma rotate_Inr:
  assumes "rotate_refresh_token E A raw agent ip s = (Inr (u, tokens), s')"
  shows "\<exists>r. token_row E raw (s_db s) = Some r \<and> live r \<and> env_now E < rt_expires_at r
    \<and> get_row usr_id (rt_user_id r) (users (s_db s)) = Some u \<and> usr_is_active u
    \<and> tokens = issued_tokens E A u (next_uuid (s_db s))
    \<and> s' = s\<lparr>s_db := add_refresh (issued E u (Some (rt_family_id r)) (Some (rt_id r)) agent ip (next_uuid (s_db s)))
          (revoke_where (\<lambda>t. rt_id t = rt_id r) (env_now E) ''rotated'' (s_db s)\<lparr>next_uuid := next_uuid (s_db s) + 3\<rparr>)\<rparr>"
proof -
  have nu: "next_uuid (revoke_where P now w d) = next_uuid d" "users (revoke_where P now w d) = users d"
    for P now w d by (simp_all add: revoke_where_def)
  show ?thesis using assms
    by (auto simp: rotate_refresh_token_def token_row_def run_simps andThen_issue Let_def nu not_le
        split: option.splits if_splits)
qed

lemma refresh_run:
  "raw \<noteq> [] \<Longrightarrow> refresh_endpoint E A (Some raw) c cc ch agent ip s =
     andThen (rotate_refresh_token E A raw agent ip) (\<lambda>(u, tokens).
     andThen commit_run (\<lambda>_. auth_response E tokens None None)) s"
  by (simp add: refresh_endpoint_def or_else_def truthy_def andThen_check)

lemma refresh_Inl:
  assumes "raw \<noteq> []" "rotate_refresh_token E A raw agent ip (open_session d []) = (Inl e, s1)"
  shows "request (refresh_endpoint E A (Some raw) c cc ch agent ip) d = (Inl e, s_committed s1, s_queue s1)"
  by (rule request_run) (simp add: refresh_run assms andThen_stops)

lemma refresh_Inr:
  assumes "raw \<noteq> []" "rotate_refresh_token E A raw agent ip (open_session d []) = (Inr (u, tokens), s1)"
  shows "request (refresh_endpoint E A (Some raw) c cc ch agent ip) d =
    (Inr \<lparr>ar_tokens = tokens, ar_user = None, ar_org = None,
          ar_cookies = token_cookies E (it_refresh_token tokens) (env_token E (next_uuid (s_db s1)))\<rparr>,
     s_db s1, s_queue s1)"
proof -
  have "refresh_endpoint E A (Some raw) c cc ch agent ip (open_session d []) =
    (Inr \<lparr>ar_tokens = tokens, ar_user = None, ar_org = None,
          ar_cookies = token_cookies E (it_refresh_token tokens) (env_token E (next_uuid (s_db s1)))\<rparr>,
     commit s1\<lparr>s_db := snd (new_uuid (s_db s1))\<rparr>)"
    by (simp add: refresh_run assms andThen_goes andThen_commit auth_response_def set_token_cookies_def
        token_urlsafe_def run_simps)
  then show ?thesis using request_run by fastforce
qed

text \<open>C18: a refresh token works once. When a rotation succeeds, the presented token was live, in date and
  of an active user; it is revoked and exactly one token is added, its child in the same family, with
  the hash of the token in the answer. Presenting the old token again, at any time, is answered with
  the reuse error, and from then on the family has no live token: the stolen session and the
  legitimate one both end, and the audit log says so.\<close>

theorem refresh_token_used_once:
  assumes "raw \<noteq> []" "env_sha256 E' = env_sha256 E"
    and "request (refresh_endpoint E A (Some raw) c cc ch agent ip) d = (Inr resp, d1, q)"
  shows "\<exists>r new. token_row E raw d = Some r \<and> live r \<and> env_now E < rt_expires_at r
    \<and> refresh_tokens d1 = upd_where (\<lambda>t. rt_id t = rt_id r) (revoke (env_now E) ''rotated'') (refresh_tokens d) @ [new]
    \<and> live new \<and> rt_family_id new = rt_family_id r \<and> rt_parent_id new = Some (rt_id r)
    \<and> rt_user_id new = rt_user_id r
    \<and> rt_token_hash new = hash_token E (it_refresh_token (ar_tokens resp))
    \<and> (\<exists>d2. request (refresh_endpoint E' A' (Some raw) c' cc' ch' agent' ip') d1 = (Inl reuse_error, d2, [])
          \<and> no_live (rt_family_id r) d2 \<and> audit_log d2 = audit_log d1 @ [reuse_audit (revoke (env_now E) ''rotated'' r)])"
proof -
  let ?s = "open_session d []"
  obtain x s1 where run: "rotate_refresh_token E A raw agent ip ?s = (x, s1)" by fastforce
  then obtain u tokens where x: "x = Inr (u, tokens)"
    using assms(3) refresh_Inl [OF assms(1), of E A agent ip d] by (cases x) fastforce+
  have resp: "ar_tokens resp = tokens" "d1 = s_db s1"
    using assms(3) refresh_Inr [OF assms(1) run [unfolded x], of c cc ch] by auto
  from rotate_Inr [OF run [unfolded x]] obtain r where r: "token_row E raw d = Some r" "live r"
      "env_now E < rt_expires_at r" "get_row usr_id (rt_user_id r) (users d) = Some u"
      "tokens = issued_tokens E A u (next_uuid d)"
      "s1 = ?s\<lparr>s_db := add_refresh (issued E u (Some (rt_family_id r)) (Some (rt_id r)) agent ip (next_uuid d))
          (revoke_where (\<lambda>t. rt_id t = rt_id r) (env_now E) ''rotated'' d\<lparr>next_uuid := next_uuid d + 3\<rparr>)\<rparr>"
    by (auto simp: open_session_def)
  let ?new = "issued E u (Some (rt_family_id r)) (Some (rt_id r)) agent ip (next_uuid d)"
  let ?r = "revoke (env_now E) ''rotated'' r"
  have tok: "refresh_tokens d1 = upd_where (\<lambda>t. rt_id t = rt_id r) (revoke (env_now E) ''rotated'') (refresh_tokens d) @ [?new]"
    by (simp add: resp r(6) add_refresh_def revoke_where_def)
  have row: "token_row E' raw d1 = Some ?r"
    using r(1) by (simp add: token_row_def tok first_row_append first_row_upd hash_token_def assms(2))
  obtain s2 where again: "rotate_refresh_token E' A' raw agent' ip' (open_session d1 []) = (Inl reuse_error, s2)"
      "s2 = commit ((open_session d1 [])\<lparr>s_db := add_audit (reuse_audit ?r)
        (revoke_where (\<lambda>t. rt_family_id t = rt_family_id ?r \<and> live t) (env_now E') ''reuse_detected'' d1)\<rparr>)"
    using rotate_reuse [of E' raw "open_session d1 []" ?r A' agent' ip'] row by (simp add: open_session_def)
  have "no_live (rt_family_id r) (s_committed s2)"
    by (simp add: again(2) no_live_def add_audit_def revoke_where_def live_after_revoke)
  moreover have "audit_log (s_committed s2) = audit_log d1 @ [reuse_audit ?r]" "s_queue s2 = []"
    by (simp_all add: again(2) add_audit_def revoke_where_def open_session_def)
  moreover have "rt_user_id ?new = rt_user_id r" "rt_family_id ?new = rt_family_id r" "live ?new"
      "rt_parent_id ?new = Some (rt_id r)"
      "rt_token_hash ?new = hash_token E (it_refresh_token (ar_tokens resp))"
    using get_row_Some [OF r(4)] by (simp_all add: issued_def new_refresh_def live_def resp r(5) issued_tokens_def)
  ultimately show ?thesis
    using r(1,2,3) tok refresh_Inl [OF assms(1) again(1), of c' cc' ch'] by (intro exI conjI) auto
qed

definition demo_token :: RefreshToken where
  "demo_token = new_refresh demo_env (new_user 1 ''a@b.c'' ''pw'' ''A'' OWNER 2) ''raw'' 5 None None None 6"

definition demo_accounts :: db where
  "demo_accounts = empty_db\<lparr>users := [(new_user 1 ''a@b.c'' ''pw'' ''A'' OWNER 2)],
     refresh_tokens := [demo_token], next_uuid := 7\<rparr>"

theorem refresh_token_used_once_witness:
  "\<exists>resp d1 q d2. request (refresh_endpoint demo_env demo_auth (Some ''raw'') None None None None None) demo_accounts
       = (Inr resp, d1, q)
     \<and> request (refresh_endpoint demo_env demo_auth (Some ''raw'') None None None None None) d1 = (Inl reuse_error, d2, [])"
proof -
  have "\<exists>u t s. rotate_refresh_token demo_env demo_auth ''raw'' None None (open_session demo_accounts []) = (Inr (u, t), s)"
    by (simp add: rotate_refresh_token_def run_simps demo_accounts_def demo_token_def new_refresh_def
        open_session_def hash_token_def live_def first_row_def row_simps demo_env_def default_settings_def
        new_user_def revoke_where_def upd_where_def time_defs andThen_issue Let_def)
  then obtain resp d1 q where
    r: "request (refresh_endpoint demo_env demo_auth (Some ''raw'') None None None None None) demo_accounts = (Inr resp, d1, q)"
    using refresh_Inr [of "''raw''" demo_env demo_auth None None demo_accounts] by fastforce
  then show ?thesis
    using refresh_token_used_once [OF _ refl r, of demo_auth None None None None None] by fastforce
qed

section \<open>Failed logins\<close>

lemma login_Inl:
  "login E A email pw agent ip s = (Inl e, s1) \<Longrightarrow> s_committed s1 = s_committed s \<and> s_queue s1 = s_queue s"
  by (auto simp: login_def run_simps andThen_issue Let_def split: option.splits if_splits)

lemma failed_login_leaves_no_trace:
  "request (login_endpoint E A email pw agent ip) d = (Inl e, d', q) \<Longrightarrow> d' = d \<and> q = []"
proof -
  assume req: "request (login_endpoint E A email pw agent ip) d = (Inl e, d', q)"
  obtain x s1 where run: "login E A email pw agent ip (open_session d []) = (x, s1)" by fastforce
  show ?thesis
  proof (cases x)
    case (Inl e1)
    then have "login_endpoint E A email pw agent ip (open_session d []) = (Inl e1, s1)"
      using run by (simp add: login_endpoint_def andThen_stops)
    then show ?thesis
      using req login_Inl [OF run [unfolded Inl]] by (auto simp: request_def open_session_def)
  next
    case (Inr r)
    then have "login_endpoint E A email pw agent ip (open_session d []) \<noteq> (Inl e, s)" for s
      using run by (cases r) (simp add: login_endpoint_def andThen_goes run_simps auth_response_def
          set_token_cookies_def token_urlsafe_def)
    then show ?thesis using req by (auto simp: request_def split: prod.splits)
  qed
qed

text \<open>Login attempts one after the other, each at its time.\<close>

fun guesses :: "auth_env \<Rightarrow> string \<Rightarrow> (env \<times> string) list \<Rightarrow> db \<Rightarrow> (exn + AuthResponse) list \<times> db" where
  "guesses A email [] d = ([], d)"
| "guesses A email ((E, pw) # gs) d =
     (let (r, d', q) = request (login_endpoint E A email pw None None) d;
          (rs, d'') = guesses A email gs d'
      in (r # rs, d''))"

text \<open>A password can be guessed without end. The counter of failed logins and the lock are written
  and then lost: the login raises before anything commits, and the request's session is closed. So
  however many wrong passwords are tried, and whenever, each is answered with the same error, never
  with the lock, and the database is as before.\<close>

theorem lockout_never_happens:
  assumes "first_row (\<lambda>u. usr_email u = casefold email) (users d) = Some u" "usr_locked_until u = None"
    and "list_all (\<lambda>(E, pw). \<not> verify_password A (usr_password_hash u) pw) gs"
  shows "guesses A email gs d = (replicate (length gs) (Inl (App bad_credentials)), d)"
  using assms(3)
proof (induction gs)
  case (Cons g gs)
  obtain E pw where g: "g = (E, pw)" by fastforce
  let ?r = "request (login_endpoint E A email pw None None) d"
  have "fst ?r = Inl (App bad_credentials)"
    using assms(1,2) Cons.prems
    by (simp add: request_def login_endpoint_def login_def run_simps open_session_def g split_beta)
  then have "?r = (Inl (App bad_credentials), d, [])"
    using failed_login_leaves_no_trace [of E A email pw None None d] by (cases ?r) auto
  then show ?case using Cons by (simp add: g)
qed simp

definition deaf_auth :: auth_env where
  "deaf_auth = demo_auth\<lparr>ae_verify := (\<lambda>h pw. h = pw)\<rparr>"

theorem lockout_never_happens_witness:
  "fst (guesses deaf_auth ''a@b.c'' (replicate 6 (demo_env, ''x'')) demo_accounts)
     = replicate 6 (Inl (App bad_credentials))"
  using lockout_never_happens [of "''a@b.c''" demo_accounts "new_user 1 ''a@b.c'' ''pw'' ''A'' OWNER 2"
      deaf_auth "replicate 6 (demo_env, ''x'')"]
  by (simp add: demo_accounts_def first_row_def new_user_def casefold_def lower_char_def less_eq_char_def
      deaf_auth_def verify_password_def truthy_def list_all_iff)

section \<open>Leaving\<close>

lemma in_upd_where_hit:
  assumes "x \<in> set (upd_where P f rs)" "P x" shows "\<exists>r \<in> set rs. P r \<and> x = f r"
  using assms by (auto simp: upd_where_def)

lemma principal_user:
  assumes "get_current_principal E A credentials x_org d = Inr p" "pr_user_id p = Some i"
  shows "\<exists>u \<in> set (users d). usr_id u = i \<and> usr_is_active u"
proof -
  obtain tok where "user_login E A tok d = Inr p"
    using assms by (auto simp: get_current_principal_def service_login_def service_principal_def
        api_key_login_def api_key_principal_def split: option.splits if_splits)
  then obtain uid g u t where "first_row (\<lambda>u. usr_id u = uid \<and> usr_org_id u = g) (users d) = Some u"
      "usr_is_active u" "p = user_principal u t"
    by (auto simp: user_login_def split: sum.splits option.splits if_splits)
  then show ?thesis using assms(2) first_row_Some by (fastforce simp: user_principal_def)
qed

lemma deactivate_Inr:
  assumes "request (deactivate_user pr i) d = (Inr (), d', q)"
  shows "d' = set_user i (\<lambda>u. u\<lparr>usr_is_active := False\<rparr>) d"
  using assms first_row_Some
  by (fastforce simp: request_def deactivate_user_def run_simps open_session_def split: option.splits if_splits)

text \<open>C21: a deactivated user is out. Once the request succeeds, no bearer token authenticates as that
  user, no refresh token of the user can be rotated and no password logs the user in, although the
  user's tokens are not revoked.\<close>

theorem deactivated_user_is_out:
  assumes "request (deactivate_user pr i) d = (Inr (), d', q)"
  shows "(get_current_principal E A credentials x_org d' = Inr p \<longrightarrow> pr_user_id p \<noteq> Some i)
    \<and> (token_row E raw d' = Some r \<and> rt_user_id r = i
         \<longrightarrow> (\<exists>e. fst (rotate_refresh_token E A raw agent ip (open_session d' [])) = Inl e))
    \<and> (first_row (\<lambda>u. usr_email u = casefold email) (users d') = Some u \<and> usr_id u = i
         \<longrightarrow> (\<exists>e. fst (login E A email pw agent ip (open_session d' [])) = Inl e))"
proof (intro conjI impI)
  have users: "users d' = upd_where (\<lambda>u. usr_id u = i) (\<lambda>u. u\<lparr>usr_is_active := False\<rparr>) (users d)"
    by (subst deactivate_Inr [OF assms]) (simp add: set_user_def upd_row_def)
  have out: "\<not> usr_is_active v" if v: "v \<in> set (users d')" "usr_id v = i" for v
  proof -
    obtain w where "v = w\<lparr>usr_is_active := False\<rparr>"
      using in_upd_where_hit [OF v(1) [unfolded users] v(2)] by blast
    then show ?thesis by simp
  qed
  show "pr_user_id p \<noteq> Some i" if "get_current_principal E A credentials x_org d' = Inr p"
    using principal_user [OF that] out by blast
  show "\<exists>e. fst (rotate_refresh_token E A raw agent ip (open_session d' [])) = Inl e"
    if "token_row E raw d' = Some r \<and> rt_user_id r = i"
  proof (rule ccontr)
    assume "\<nexists>e. fst (rotate_refresh_token E A raw agent ip (open_session d' [])) = Inl e"
    then obtain v t s where "rotate_refresh_token E A raw agent ip (open_session d' []) = (Inr (v, t), s)"
      by (metis old.prod.exhaust old.sum.exhaust fst_conv)
    from rotate_Inr [OF this] that have "get_row usr_id i (users d') = Some v" "usr_is_active v"
      by (auto simp: open_session_def)
    then show False using out get_row_Some by fast
  qed
  show "\<exists>e. fst (login E A email pw agent ip (open_session d' [])) = Inl e"
    if "first_row (\<lambda>u. usr_email u = casefold email) (users d') = Some u \<and> usr_id u = i"
  proof -
    from that have "\<not> usr_is_active u" using out first_row_Some by fast
    with that show ?thesis by (simp add: login_def run_simps open_session_def split: option.split)
  qed
qed

definition demo_owner :: Principal where
  "demo_owner = \<lparr>pr_org_id = 1, pr_user_id = Some 9, pr_role = OWNER, pr_scopes = [],
     pr_token_jti = None, pr_kind = ''user''\<rparr>"

theorem deactivated_user_is_out_witness:
  "\<exists>d' q e. request (deactivate_user demo_owner 2) demo_accounts = (Inr (), d', q)
     \<and> fst (rotate_refresh_token demo_env demo_auth ''raw'' None None (open_session d' [])) = Inl e"
proof -
  obtain d' q where r: "request (deactivate_user demo_owner 2) demo_accounts = (Inr (), d', q)"
    by (simp add: request_def deactivate_user_def run_simps open_session_def demo_owner_def demo_accounts_def
        new_user_def has_permission_def all_permissions_def first_row_def)
  have "refresh_tokens d' = [demo_token]"
    by (subst deactivate_Inr [OF r]) (simp add: set_user_def demo_accounts_def)
  then have "token_row demo_env ''raw'' d' = Some demo_token" "rt_user_id demo_token = 2"
    by (simp_all add: token_row_def first_row_def demo_token_def new_refresh_def new_user_def hash_token_def)
  then show ?thesis
    using deactivated_user_is_out [OF r, of demo_env demo_auth None None demo_owner "''raw''" demo_token None None
        "[]" undefined "[]"] r by auto
qed

section \<open>Resetting a password\<close>

lemma consume_Inr:
  assumes "consume_email_token E raw purpose s = (Inr u, s')"
  shows "\<exists>t. t \<in> set (email_tokens (s_db s)) \<and> et_token_hash t = hash_token E raw
    \<and> s' = s\<lparr>s_db := (s_db s)\<lparr>email_tokens :=
          upd_row et_id (et_id t) (\<lambda>t. t\<lparr>et_used_at := Some (env_now E)\<rparr>) (email_tokens (s_db s))\<rparr>\<rparr>"
  using assms first_row_Some
  by (fastforce simp: consume_email_token_def run_simps split: option.splits if_splits)

lemma reset_Inr:
  assumes "request (reset_password_endpoint E A raw pw) d = (Inr (), d', q)"
  shows "\<exists>t (u :: User). t \<in> set (email_tokens d) \<and> et_token_hash t = hash_token E raw
    \<and> email_tokens d' = upd_row et_id (et_id t) (\<lambda>t. t\<lparr>et_used_at := Some (env_now E)\<rparr>) (email_tokens d)
    \<and> users d' = upd_row usr_id (usr_id u) (\<lambda>u. u\<lparr>usr_password_hash := Some (ae_hash A pw)\<rparr>) (users d)
    \<and> refresh_tokens d' = upd_where (\<lambda>t. rt_user_id t = usr_id u \<and> live t)
          (revoke (env_now E) ''password_reset'') (refresh_tokens d)
    \<and> validate_password pw (usr_email u) = Inr ()"
proof -
  obtain u s1 s2 where c: "consume_email_token E raw ''reset'' (open_session d []) = (Inr u, s1)"
    and r: "andThen (change_password E A u pw ''password_reset'') (\<lambda>_. commit_run) s1 = (Inr (), s2)"
      "d' = s_committed s2"
    using assms by (auto simp: request_def reset_password_endpoint_def andThen_Inr split: prod.splits)
  from consume_Inr [OF c] obtain t where t: "t \<in> set (email_tokens d)" "et_token_hash t = hash_token E raw"
      "s1 = (open_session d [])\<lparr>s_db := d\<lparr>email_tokens :=
          upd_row et_id (et_id t) (\<lambda>t. t\<lparr>et_used_at := Some (env_now E)\<rparr>) (email_tokens d)\<rparr>\<rparr>"
    by (auto simp: open_session_def)
  show ?thesis
    by (rule exI [of _ t], rule exI [of _ u])
      (use r t in \<open>auto simp: change_password_def app_lift_def revoke_all_def run_simps revoke_where_def set_user_def
        open_session_def split: sum.splits\<close>)
qed


definition demo_reset :: db where
  "demo_reset = demo_accounts\<lparr>email_tokens := [\<lparr>et_id = 6, et_user_id = 2, et_purpose = ''reset'',
     et_token_hash = hash_token demo_env ''link'', et_expires_at = 5, et_used_at = None\<rparr>]\<rparr>"


section \<open>The CSRF check\<close>

text \<open>An empty token in the body skips the CSRF check. With no token in the body, a request with the
  refresh cookie but without matching CSRF values is refused and changes nothing; the same request
  with an empty token in the body rotates the cookie's token, exactly as if the client had sent it.\<close>

theorem csrf_check_is_skipped:
  assumes "raw \<noteq> []" "\<not> csrf_ok cc ch"
  shows "request (refresh_endpoint E A None (Some raw) cc ch agent ip) d
      = (Inl (App (AppError ''FORBIDDEN'' ''CSRF token is missing or invalid.'' 403)), d, [])
    \<and> request (refresh_endpoint E A (Some []) (Some raw) cc ch agent ip) d
      = request (refresh_endpoint E A (Some raw) None None None agent ip) d"
  using assms by (simp add: request_def refresh_endpoint_def or_else_def truthy_def run_simps open_session_def)

theorem csrf_check_is_skipped_witness:
  "\<exists>e. fst (request (refresh_endpoint demo_env demo_auth None (Some ''raw'') None (Some ''x'') None None) demo_accounts) = Inl e"
  using csrf_check_is_skipped [of "''raw''" None "Some ''x''" demo_env demo_auth None None demo_accounts]
  by (simp add: csrf_ok_def truthy_def)

end
