(* ===== verification/Surface.thy ===== *)
theory Surface
  imports Tenants Entities Search Accounts
begin

text \<open>
  The routes of \<open>app/main.py\<close> that need a principal, all of them as one function: \<open>endpoint\<close> is a route with its
  parameters and body, \<open>endpoint_run\<close> runs its handler and tags the answer, \<open>needs\<close> is the permission that the
  route's dependency names, \<open>reading\<close> tells which handlers only read. The event stream of a job is in \<open>Jobs\<close>; the
  public routes are in \<open>Accounts\<close>, \<open>Applications\<close> and \<open>System\<close>.
\<close>

section \<open>The routes\<close>

datatype (plugins del: size) endpoint =
    OnRow uuid route
  | ListOpportunities list_filter "string option" nat | CreateOpportunity OpportunityCreate
  | ListTheses bool | CreateThesis ThesisCreate
  | SubmitApplication application_form "(string option \<times> string list) option" "string option" "string option"
  | ListApplications "ApplicationStatus option" nat
  | ListJobs "string option" "uuid option" "JobStatus option"
  | Founders founder_filter nat | FounderProfile uuid | FounderHistory uuid int | FounderExplain uuid
  | RescoreFounder uuid | FounderUplift uuid | MergeFounder uuid uuid
  | CompanyProfile uuid | Signals "uuid option" "uuid option" "SignalKind option" nat | Sources | TestSource string
  | SearchOpportunities string nat | SearchKb string "uuid option" "uuid option" nat bool | Suggest string
  | ChannelGraph string | FounderGraph uuid | ListOutreach "OutreachStatus option"
  | Harvest json | Usage int | AdminQueue | Merges | MergeAction uuid string | GdprExport uuid | GdprErase uuid
  | CurrentOrg | UpdateOrg "string option" "json option" | ListUsers | CreateInvite string UserRole | DeactivateUser uuid
  | Logout "string option" bool | Me | UpdateMe "string option" "string option" "string option" | Sessions
  | DeleteSession uuid

datatype (plugins del: size) response =
    Done | AnUuid uuid | AText string | AJobStart uuid bool
  | AnOpportunity OpportunityDetail | Timeline "(string \<times> datetime) list"
  | Scores "OpportunityScore list" "OpportunityScore list" | Claims "Claim list" | Evidences "Evidence list"
  | Trace "AgentStep list" | AMemo Memo | Citations "citation list" | AThesis Thesis | APreview ThesisPreview
  | Outreached OutreachStatus | AnApplication Application | Questions "string list" | AJob Job
  | Opportunities OpportunityList | Theses "Thesis list" | Submitted "uuid \<times> uuid \<times> uuid \<times> bool"
  | Applications "Application list" | Jobs "Job list" | FounderCards "FounderCard list"
  | Profile "Person \<times> FounderScore option" | Snapshots "FounderScoreSnapshot list" | Explanation score_explanation
  | Uplift "UpliftAction list" | ACompany Company | SignalRows "Signal list" | SourceRows "Source list"
  | Tested "bool \<times> SourceStatus" | Found "QueryPlan \<times> search_item list" | Hits "kb_hit list \<times> bool \<times> string list"
  | Suggestions "(suggestion_kind \<times> uuid \<times> string) list" | Graph "channel_node list \<times> suggestion list"
  | FounderNode "(uuid \<times> string) \<times> (uuid \<times> string \<times> rat) list" | Outreaches "Outreach list"
  | Figures usage_figures | Queue queue_counts | Uuids "uuid list" | Export person_export
  | AnOrg "Org option" | Users "User list" | Invited "OrgInvite \<times> string" | MyAccount "User \<times> Org \<times> string list"
  | AUser "User option" | SessionRows "RefreshToken list"

definition answering :: "('a \<Rightarrow> response) \<Rightarrow> 'a run \<Rightarrow> response run" where
  "answering f m = andThen m (\<lambda>x. ret (f x))"

text \<open>\<open>GET /admin/queue\<close>.\<close>

definition admin_queue :: "env \<Rightarrow> Principal \<Rightarrow> queue_counts run" where
  "admin_queue E pr = andThen (require ADMIN pr) (\<lambda>_. query (queue_summary E))"

text \<open>The parts of the world a handler is given.\<close>

record world =
  wd_env :: env
  wd_auth :: auth_env
  wd_resolve :: resolver
  wd_isofmt :: "datetime \<Rightarrow> string"
  wd_ilike :: "string \<Rightarrow> string \<Rightarrow> bool"

fun route_run :: "world \<Rightarrow> Principal \<Rightarrow> uuid \<Rightarrow> route \<Rightarrow> response run" where
  "route_run W pr i OpportunityGet = answering AnOpportunity (opportunity_detail (wd_env W) pr i)"
| "route_run W pr i (OpportunityPatch h u) = answering AnOpportunity (update_opportunity (wd_env W) pr i h u)"
| "route_run W pr i (OpportunityScreen force key) =
     answering (\<lambda>(j, r). AJobStart j r) (screen_opportunity (wd_env W) pr i force key)"
| "route_run W pr i (OpportunityDiligence focus key) =
     answering (\<lambda>(j, r). AJobStart j r) (diligence_opportunity (wd_env W) pr i focus key)"
| "route_run W pr i (OpportunityMemo again key) =
     answering (\<lambda>(j, r). AJobStart j r) (memo_opportunity (wd_env W) pr i again key)"
| "route_run W pr i (OpportunityDecide body key req) =
     answering AnOpportunity (decide_opportunity (wd_env W) pr i body key req)"
| "route_run W pr i (OpportunityArchive lazy) = answering AnOpportunity (archive_opportunity lazy (wd_env W) pr i)"
| "route_run W pr i OpportunityTimeline = answering Timeline (opportunity_timeline pr i)"
| "route_run W pr i (OpportunityScores history) =
     answering (\<lambda>(now, rows). Scores now rows) (opportunity_scores_endpoint pr i history)"
| "route_run W pr i (OpportunityClaims c st t) = answering Claims (opportunity_claims pr i c st t)"
| "route_run W pr i (OpportunityEvidence c) = answering Evidences (claim_evidence pr i c)"
| "route_run W pr i (OpportunityTrace j) = answering Trace (opportunity_trace pr i j)"
| "route_run W pr i (OpportunityMemoGet v) = answering AMemo (get_opportunity_memo pr i v)"
| "route_run W pr i ThesisGet = answering AThesis (get_thesis pr i)"
| "route_run W pr i (ThesisPatch h u) = answering AThesis (update_thesis pr i h u)"
| "route_run W pr i ThesisDelete = answering (\<lambda>_. Done) (delete_thesis (wd_env W) pr i)"
| "route_run W pr i ThesisDefault = answering AThesis (set_default pr i)"
| "route_run W pr i ThesisPreviewGet = answering APreview (preview_thesis pr i)"
| "route_run W pr i MemoGet = answering AMemo (get_memo pr i)"
| "route_run W pr i (MemoPatch h secs) = answering AMemo (patch_memo (wd_env W) pr i h secs)"
| "route_run W pr i (MemoRegenerate sec key) =
     answering (\<lambda>(j, r). AJobStart j r) (regenerate_section (wd_env W) pr i sec key)"
| "route_run W pr i (MemoExport fmt) = answering AnUuid (export_memo (wd_env W) pr i fmt)"
| "route_run W pr i MemoCitations = answering Citations (memo_citations pr i)"
| "route_run W pr i (OutreachDo a) = answering Outreached (outreach_handler (wd_env W) pr i a)"
| "route_run W pr i ApplicationGet = answering AnApplication (get_application pr i)"
| "route_run W pr i ApplicationInfo = answering Questions (request_application_info pr i)"
| "route_run W pr i ApplicationDelete = answering (\<lambda>_. Done) (delete_application (wd_env W) pr i)"
| "route_run W pr i JobGet = answering AJob (get_job pr i)"
| "route_run W pr i JobCancel = answering AText (cancel_job (wd_env W) pr i)"
| "route_run W pr i JobRetry = answering AnUuid (retry_job (wd_env W) pr i)"

fun endpoint_run :: "world \<Rightarrow> Principal \<Rightarrow> endpoint \<Rightarrow> response run" where
  "endpoint_run W pr (OnRow i r) = route_run W pr i r"
| "endpoint_run W pr (ListOpportunities flt cursor limit) =
     answering Opportunities (opportunity_list (wd_env W) (wd_isofmt W) pr flt cursor limit)"
| "endpoint_run W pr (CreateOpportunity body) = answering AnOpportunity (create_opportunity (wd_env W) pr body)"
| "endpoint_run W pr (ListTheses deleted) = answering Theses (list_theses pr deleted)"
| "endpoint_run W pr (CreateThesis body) = answering AThesis (create_thesis pr body)"
| "endpoint_run W pr (SubmitApplication form deck ip key) =
     answering Submitted (submit_application (wd_env W) (wd_resolve W) pr form deck ip key)"
| "endpoint_run W pr (ListApplications status limit) = answering Applications (list_applications pr status limit)"
| "endpoint_run W pr (ListJobs kind target status) = answering Jobs (list_jobs pr kind target status)"
| "endpoint_run W pr (Founders flt limit) = answering FounderCards (founders_endpoint pr flt limit)"
| "endpoint_run W pr (FounderProfile i) = answering Profile (founder_profile pr i)"
| "endpoint_run W pr (FounderHistory i n) = answering Snapshots (founder_history (wd_env W) pr i n)"
| "endpoint_run W pr (FounderExplain i) = answering Explanation (founder_score_explain (wd_env W) pr i)"
| "endpoint_run W pr (RescoreFounder i) = answering AnUuid (rescore_founder (wd_env W) pr i)"
| "endpoint_run W pr (FounderUplift i) = answering Uplift (uplift_plan pr i)"
| "endpoint_run W pr (MergeFounder i loser) = answering (\<lambda>(w, l). Uuids [w, l]) (merge_founder pr i loser)"
| "endpoint_run W pr (CompanyProfile i) = answering ACompany (company_profile pr i)"
| "endpoint_run W pr (Signals person company kind limit) =
     answering SignalRows (signals_endpoint pr person company kind limit)"
| "endpoint_run W pr Sources = answering SourceRows (sources_endpoint pr)"
| "endpoint_run W pr (TestSource key) = answering Tested (test_source pr key)"
| "endpoint_run W pr (SearchOpportunities q limit) = answering Found (opportunity_search (wd_env W) pr q limit)"
| "endpoint_run W pr (SearchKb q company person k web) = answering Hits (kb_search pr q company person k web)"
| "endpoint_run W pr (Suggest q) = answering Suggestions (suggest (wd_ilike W) pr q)"
| "endpoint_run W pr (ChannelGraph window) = answering Graph (channel_graph (wd_env W) pr)"
| "endpoint_run W pr (FounderGraph i) = answering FounderNode (founder_graph pr i)"
| "endpoint_run W pr (ListOutreach status) = answering Outreaches (list_outreach pr status)"
| "endpoint_run W pr (Harvest body) = answering AnUuid (harvest_request (wd_env W) pr body)"
| "endpoint_run W pr (Usage _) = answering Figures (usage pr)"
| "endpoint_run W pr AdminQueue = answering Queue (admin_queue (wd_env W) pr)"
| "endpoint_run W pr Merges = answering Uuids (merges pr)"
| "endpoint_run W pr (MergeAction i action) = answering (\<lambda>(i, a). AText a) (merge_action pr i action)"
| "endpoint_run W pr (GdprExport i) = answering Export (gdpr_export pr i)"
| "endpoint_run W pr (GdprErase i) = answering AnUuid (gdpr_erase pr i)"
| "endpoint_run W pr CurrentOrg = answering (\<lambda>g. AnOrg (Some g)) (current_org pr)"
| "endpoint_run W pr (UpdateOrg name new) = answering AnOrg (update_org pr name new)"
| "endpoint_run W pr ListUsers = answering Users (list_users pr)"
| "endpoint_run W pr (CreateInvite email role) = answering Invited (create_invite (wd_env W) pr email role)"
| "endpoint_run W pr (DeactivateUser i) = answering (\<lambda>_. Done) (deactivate_user pr i)"
| "endpoint_run W pr (Logout raw everywhere) = answering (\<lambda>_. Done) (logout_endpoint (wd_env W) pr raw everywhere)"
| "endpoint_run W pr Me = answering MyAccount (me_endpoint pr)"
| "endpoint_run W pr (UpdateMe name pw current) =
     answering AUser (update_me_endpoint (wd_env W) (wd_auth W) pr name pw current)"
| "endpoint_run W pr Sessions = answering SessionRows (sessions_endpoint pr)"
| "endpoint_run W pr (DeleteSession family) = answering (\<lambda>_. Done) (delete_session_endpoint (wd_env W) pr family)"

section \<open>Who may call what\<close>

text \<open>The permission of the dependency: \<open>ReadPrincipal\<close>, \<open>ScreenPrincipal\<close> and so on; none for \<open>CurrentPrincipal\<close>.\<close>

fun needs_row :: "route \<Rightarrow> Permission" where
  "needs_row (OpportunityPatch _ _) = SCREEN"
| "needs_row (OpportunityScreen _ _) = SCREEN"
| "needs_row (OpportunityDiligence _ _) = SCREEN"
| "needs_row (OpportunityMemo _ _) = SCREEN"
| "needs_row (OpportunityDecide _ _ _) = DECIDE"
| "needs_row (OpportunityArchive _) = SCREEN"
| "needs_row (ThesisPatch _ _) = THESIS_WRITE"
| "needs_row ThesisDelete = THESIS_WRITE"
| "needs_row ThesisDefault = THESIS_WRITE"
| "needs_row (MemoPatch _ _) = SCREEN"
| "needs_row (MemoRegenerate _ _) = SCREEN"
| "needs_row (MemoExport _) = SCREEN"
| "needs_row (OutreachDo _) = SCREEN"
| "needs_row ApplicationInfo = SCREEN"
| "needs_row ApplicationDelete = SCREEN"
| "needs_row JobCancel = SCREEN"
| "needs_row JobRetry = SCREEN"
| "needs_row _ = READ"

fun needs :: "endpoint \<Rightarrow> Permission option" where
  "needs (OnRow i r) = Some (needs_row r)"
| "needs (CreateOpportunity _) = Some SCREEN"
| "needs (CreateThesis _) = Some THESIS_WRITE"
| "needs (SubmitApplication _ _ _ _) = Some SCREEN"
| "needs (RescoreFounder _) = Some SCREEN"
| "needs (MergeFounder _ _) = Some ADMIN"
| "needs (TestSource _) = Some SCREEN"
| "needs (Harvest _) = Some ADMIN"
| "needs (Usage _) = Some ADMIN"
| "needs AdminQueue = Some ADMIN"
| "needs Merges = Some ADMIN"
| "needs (MergeAction _ _) = Some ADMIN"
| "needs (GdprExport _) = Some ADMIN"
| "needs (GdprErase _) = Some ADMIN"
| "needs (UpdateOrg _ _) = Some ORG_ADMIN"
| "needs (CreateInvite _ _) = Some ORG_ADMIN"
| "needs (DeactivateUser _) = Some ORG_ADMIN"
| "needs (Logout _ _) = None"
| "needs Me = None"
| "needs (UpdateMe _ _ _) = None"
| "needs Sessions = None"
| "needs (DeleteSession _) = None"
| "needs _ = Some READ"

text \<open>The routes whose handlers only read: every GET except the explanation of a founder's score, which computes
  and stores a score that is not there yet, and the POSTs that search, test a source or echo a merge.\<close>

fun reading :: "endpoint \<Rightarrow> bool" where
  "reading (FounderExplain _) = False"
| "reading Me = True"
| "reading Sessions = True"
| "reading (TestSource _) = True"
| "reading (Usage _) = True"
| "reading AdminQueue = True"
| "reading Merges = True"
| "reading (MergeAction _ _) = True"
| "reading (GdprExport _) = True"
| "reading e = (needs e = Some READ)"

text \<open>A request with its credentials: the dependency \<open>get_current_principal\<close>, then the handler.\<close>

definition http ::
  "world \<Rightarrow> (string \<times> string) option \<Rightarrow> uuid option \<Rightarrow> endpoint \<Rightarrow> db \<Rightarrow> (exn + response) \<times> db \<times> uuid list" where
  "http W credentials x_org_id e d =
     (case get_current_principal (wd_env W) (wd_auth W) credentials x_org_id d of
        Inl err \<Rightarrow> (Inl (App err), d, [])
      | Inr pr \<Rightarrow> request (endpoint_run W pr e) d)"

section \<open>The contract of the routes\<close>

text \<open>A set of routes is guarded when a call without the permission is refused before it does anything, and when
  the calls said to read do not write.\<close>

locale guarded_routes =
  fixes run :: "Principal \<Rightarrow> 'e \<Rightarrow> response run"
    and permission :: "'e \<Rightarrow> Permission option"
    and reader :: "'e \<Rightarrow> bool"
  assumes guard: "permission e = Some p \<Longrightarrow> \<not> has_permission pr p \<Longrightarrow> run pr e s = (Inl (App ForbiddenError), s)"
    and quiet_read: "reader e \<Longrightarrow> reads (run pr e)"
begin

lemma refused:
  "permission e = Some p \<Longrightarrow> \<not> has_permission pr p \<Longrightarrow> request (run pr e) d = (Inl (App ForbiddenError), d, [])"
  by (simp add: request_def guard open_session_def)

lemma read_keeps: "reader e \<Longrightarrow> \<exists>r. request (run pr e) d = (r, d, [])"
  using readsD [OF quiet_read [of e pr], of "open_session d []"]
  by (cases "run pr e (open_session d [])") (auto simp: request_def open_session_def)

lemma reader_keeps:
  assumes "\<And>p. has_permission pr p \<Longrightarrow> p = READ" and "reader e \<or> (\<exists>p. permission e = Some p \<and> p \<noteq> READ)"
  shows "\<exists>r. request (run pr e) d = (r, d, [])"
  using assms read_keeps refused by (metis (full_types))

end

lemma answering_require: "answering f (andThen (require p pr) g) s =
    (if has_permission pr p then answering f (g ()) s else (Inl (App ForbiddenError), s))"
  by (simp add: answering_def run_simps)

lemma reads_answering [intro]: "reads m \<Longrightarrow> reads (answering f m)"
  unfolding answering_def by (rule reads_andThen) auto

lemma reads_rows [intro, simp]:
  "reads (get_opportunity x i)" "reads (get_thesis_row x i)" "reads (get_memo_row x i)" "reads (get_person i)"
  unfolding get_opportunity_def get_thesis_row_def get_memo_row_def get_person_def by auto

lemma reads_case [intro]:
  "(\<And>y. reads (f y)) \<Longrightarrow> reads g \<Longrightarrow> reads (case x of None \<Rightarrow> g | Some y \<Rightarrow> f y)"
  "(\<And>a b. reads (h a b)) \<Longrightarrow> reads (case z of (a, b) \<Rightarrow> h a b)"
  "reads a' \<Longrightarrow> reads b' \<Longrightarrow> reads (if c then a' else b')"
  by (simp_all split: option.split prod.split)

lemma route_guard: "\<not> has_permission pr (needs_row r) \<Longrightarrow> route_run W pr i r s = (Inl (App ForbiddenError), s)"
proof (cases r)
  case (OutreachDo a)
  then show "\<not> has_permission pr (needs_row r) \<Longrightarrow> ?thesis"
    by (cases a) (simp_all add: by_id_defs answering_require answering_def run_simps)
qed (simp_all add: by_id_defs answering_require)

lemma route_reads: "needs_row r = READ \<Longrightarrow> reads (route_run W pr i r)"
  by (cases r) (auto simp: by_id_defs intro!: reads_answering reads_andThen)

lemmas collection_defs = opportunity_list_def create_opportunity_def list_theses_def create_thesis_def
  submit_application_def list_applications_def list_jobs_def founders_endpoint_def founder_profile_def
  founder_history_def founder_score_explain_def rescore_founder_def uplift_plan_def merge_founder_def
  company_profile_def signals_endpoint_def sources_endpoint_def test_source_def opportunity_search_def kb_search_def
  suggest_def channel_graph_def founder_graph_def list_outreach_def harvest_request_def usage_def admin_queue_def
  merges_def merge_action_def gdpr_export_def gdpr_erase_def current_org_def update_org_def list_users_def
  create_invite_def deactivate_user_def

lemma endpoint_guard: "needs e = Some p \<Longrightarrow> \<not> has_permission pr p \<Longrightarrow> endpoint_run W pr e s = (Inl (App ForbiddenError), s)"
  by (cases e) (auto simp: collection_defs answering_require route_guard)

lemma reads_signed_in [intro]: "(\<And>i. reads (f i)) \<Longrightarrow> reads (signed_in pr f)"
  by (auto simp: signed_in_def split: option.split)

lemma reads_account_row [intro]: "(\<And>y. reads (f y)) \<Longrightarrow> reads (account_row r f)"
  by (auto simp: account_row_def split: option.split)

lemma reads_list [intro, simp]: "reads (list_opportunities E isofmt x flt c n)"
  unfolding list_opportunities_def read_cursor_def by (intro reads_andThen reads_map_run) (auto split: option.split)

lemma reads_search [intro, simp]: "reads (search_opportunities E x q n)"
  unfolding search_opportunities_def Let_def by (intro reads_andThen reads_map_run) (auto intro!: reads_andThen)

lemma endpoint_reads: "reading e \<Longrightarrow> reads (endpoint_run W pr e)"
  by (cases e) (auto simp: collection_defs me_endpoint_def sessions_endpoint_def route_reads
      intro!: reads_answering reads_andThen reads_signed_in reads_account_row)

interpretation api: guarded_routes "endpoint_run W" needs reading for W
  by unfold_locales (auto intro: endpoint_guard endpoint_reads)

section \<open>Permissions\<close>

text \<open>C4: every route is guarded by the permission that its dependency names, before anything else. Whoever lacks
  the permission gets 403, whatever the route's row, body or key, and the database and the queue stay as they are;
  without valid credentials the answer is the error of the credentials.\<close>

theorem unpermitted_call_refused:
  assumes "case get_current_principal (wd_env W) (wd_auth W) credentials x_org_id d of
      Inl err \<Rightarrow> refusal = err
    | Inr pr \<Rightarrow> refusal = ForbiddenError \<and> (\<exists>p. needs e = Some p \<and> \<not> has_permission pr p)"
  shows "http W credentials x_org_id e d = (Inl (App refusal), d, [])"
  using assms by (auto simp: http_def api.refused split: sum.splits)

definition demo_world :: world where
  "demo_world =
     \<lparr>wd_env = demo_env, wd_auth = demo_auth, wd_resolve = (\<lambda>h n. None), wd_isofmt = (\<lambda>t. []),
      wd_ilike = (\<lambda>p s. False)\<rparr>"

definition viewer_db :: db where
  "viewer_db = demo_funds\<lparr>users := [new_user 1 ''viewer@fund.vc'' ''#secret'' ''Vera'' VIEWER 3]\<rparr>"

lemma viewer_principal:
  "get_current_principal (wd_env demo_world) (wd_auth demo_world) (Some (''Bearer'', ''jwt'')) None viewer_db
     = Inr \<lparr>pr_org_id = 1, pr_user_id = Some 3, pr_role = VIEWER, pr_scopes = [''read''], pr_token_jti = None,
             pr_kind = ''user''\<rparr>"
  by code_simp

theorem unpermitted_call_refused_witness:
  "http demo_world (Some (''Bearer'', ''jwt'')) None (GdprErase 7) viewer_db = (Inl (App ForbiddenError), viewer_db, [])"
  by (rule unpermitted_call_refused) (simp add: viewer_principal has_permission_def)

text \<open>C5: who may only read changes nothing. A caller whose permissions are at most \<open>READ\<close> leaves the database
  and the queue as they are on every route, except those that change the own account and the explanation of a
  founder's score. The read routes do so for every caller.\<close>

theorem reader_changes_nothing:
  assumes "reading e \<or> (\<exists>p. needs e = Some p \<and> p \<noteq> READ
      \<and> (\<forall>pr q. get_current_principal (wd_env W) (wd_auth W) credentials x_org_id d = Inr pr \<longrightarrow>
            has_permission pr q \<longrightarrow> q = READ))"
  shows "\<exists>answer. http W credentials x_org_id e d = (answer, d, [])"
proof (cases "get_current_principal (wd_env W) (wd_auth W) credentials x_org_id d")
  case (Inr pr)
  with assms api.reader_keeps [of pr e W d] api.read_keeps [of e W pr d] show ?thesis by (auto simp: http_def)
qed (simp add: http_def)

theorem reader_changes_nothing_witness:
  "\<exists>answer. http demo_world (Some (''Bearer'', ''jwt'')) None (OnRow 3 (OpportunityArchive True)) viewer_db
     = (answer, viewer_db, [])"
proof (rule reader_changes_nothing)
  have "q = READ" if "permission_value q = ''read''" for q using that by (cases q) simp_all
  then show "reading (OnRow 3 (OpportunityArchive True)) \<or> (\<exists>p. needs (OnRow 3 (OpportunityArchive True)) = Some p \<and> p \<noteq> READ
      \<and> (\<forall>pr q. get_current_principal (wd_env demo_world) (wd_auth demo_world) (Some (''Bearer'', ''jwt'')) None viewer_db = Inr pr \<longrightarrow>
            has_permission pr q \<longrightarrow> q = READ))"
    by (auto simp: viewer_principal has_permission_def)
qed

text \<open>The explanation of a score that is not there yet stores one, for a caller who may only read.\<close>

lemma explanation_writes:
  assumes "has_permission pr READ" "find_person i d \<noteq> None" "score_of_person i d = None"
  shows "founder_scores (fst (snd (request (endpoint_run W pr (FounderExplain i)) d))) \<noteq> founder_scores d"
  using assms
  by (auto simp: founder_score_explain_def answering_def request_def run_simps get_person_def open_session_def
      recompute_def recompute_founder_score_def score_of_person_def Let_def commit_def split: option.splits prod.splits)

end
