(* ===== verification/Dependence.thy ===== *)
theory Dependence
  imports Surface
begin

text \<open>
  What the answer of a computation that reads may depend on: it is \<open>blind\<close> to a change \<open>h\<close> of the database when it
  answers the same before and after it. \<open>Views\<close> takes for \<open>h\<close> the removal of what other funds own, \<open>Secrets\<close> the
  removal of what must not leave the service.
\<close>

section \<open>Computations that do not see a change\<close>

definition blind :: "(db \<Rightarrow> db) \<Rightarrow> 'a run \<Rightarrow> session \<Rightarrow> bool" where
  "blind h m s \<longleftrightarrow>
     fst (m (s\<lparr>s_db := h (s_db s), s_committed := h (s_committed s)\<rparr>)) = fst (m s)"

lemma blind_basic [simp]:
  "blind h (ret x) s" "blind h (throw e) s" "blind h (lift r) s" "blind h (found n y) s" "blind h (check c er) s"
  "blind h (require p pr) s"
  by (simp_all add: blind_def run_simps require_def split: option.split)

lemma blind_query: "q (h (s_db s)) = q (s_db s) \<Longrightarrow> blind h (query q) s"
  by (simp add: blind_def run_simps)

text \<open>What follows may use what was read.\<close>

lemma blind_andThen:
  assumes "reads m" "blind h m s" "\<And>x. fst (m s) = Inr x \<Longrightarrow> blind h (f x) s"
  shows "blind h (andThen m f) s"
proof -
  let ?t = "s\<lparr>s_db := h (s_db s), s_committed := h (s_committed s)\<rparr>"
  have m: "m s = (fst (m s), s)" "m ?t = (fst (m s), ?t)"
    using assms(1,2) by (auto simp: reads_def blind_def prod_eq_iff)
  show ?thesis
  proof (cases "fst (m s)")
    case (Inl e)
    then show ?thesis using m by (simp add: blind_def andThen_stops)
  next
    case (Inr x)
    then show ?thesis using m assms(3) [OF Inr] by (simp add: blind_def andThen_goes)
  qed
qed

lemma blind_map_run:
  "(\<And>x. reads (f x)) \<Longrightarrow> (\<And>x. x \<in> set xs \<Longrightarrow> blind h (f x) s) \<Longrightarrow> blind h (map_run f xs) s"
  by (induction xs) (auto intro!: blind_andThen)

lemma blind_answering: "blind h m s \<Longrightarrow> blind h (answering f m) s"
proof -
  have "fst (answering f m t) = map_sum id f (fst (m t))" for t
    by (simp add: answering_def andThen_def ret_def split: prod.split sum.split)
  then show "blind h m s \<Longrightarrow> ?thesis" by (simp add: blind_def)
qed

lemma blind_signed_in: "(\<And>i. pr_user_id pr = Some i \<Longrightarrow> blind h (f i) s) \<Longrightarrow> blind h (signed_in pr f) s"
  by (simp add: signed_in_def split: option.split)

lemma blind_account_row: "(\<And>x. r = Some x \<Longrightarrow> blind h (f x) s) \<Longrightarrow> blind h (account_row r f) s"
  by (simp add: account_row_def split: option.split)

lemma got_opportunity [simp]: "fst (get_opportunity x i s) = Inr p \<longleftrightarrow> find_opportunity x i (s_db s) = Some p"
  by (auto simp: get_opportunity_def run_simps split: option.splits)

lemma got_memo [simp]: "fst (get_memo_row x i s) = Inr m \<longleftrightarrow> find_memo x i (s_db s) = Some m"
  by (auto simp: get_memo_row_def run_simps split: option.splits)

end
