(* ===== verification/Views.thy ===== *)
theory Views
  imports Dependence
begin

text \<open>
  What an answer may depend on. \<open>view\<close> leaves of the database what belongs to the caller: the rows of the fund, what
  hangs on them, the caller's own account, and the tables that all funds share (people, companies,
  founder scores, sources, channels). The routes that read are computed from the view, but for two.
\<close>

section \<open>The view of a caller\<close>

text \<open>The opportunities whose scores, claims and memos the caller may see: those of the fund, and those its memos
  are about.\<close>

definition subject :: "uuid \<Rightarrow> db \<Rightarrow> uuid \<Rightarrow> bool" where
  "subject x d i \<longleftrightarrow>
     list_ex (\<lambda>p. op_id p = i \<and> op_org_id p = x) (opportunities d)
     \<or> list_ex (\<lambda>m. memo_opportunity_id m = i \<and> memo_org_id m = x) (memos d)"

definition own_claim :: "uuid \<Rightarrow> db \<Rightarrow> Claim \<Rightarrow> bool" where
  "own_claim x d c \<longleftrightarrow> (case cl_opportunity_id c of None \<Rightarrow> cl_org_id c = x | Some i \<Rightarrow> subject x d i)"

definition own_job :: "uuid \<Rightarrow> Job \<Rightarrow> bool" where
  "own_job x j \<longleftrightarrow> job_org_id j = Some x"

definition view :: "Principal \<Rightarrow> db \<Rightarrow> db" where
  "view pr d =
     (let x = pr_org_id pr
      in d\<lparr>orgs := filter (\<lambda>g. org_id g = x) (orgs d),
           users := filter (\<lambda>u. usr_org_id u = x \<or> Some (usr_id u) = pr_user_id pr) (users d),
           refresh_tokens := filter (\<lambda>t. Some (rt_user_id t) = pr_user_id pr) (refresh_tokens d),
           api_keys := [],
           audit_log := filter (\<lambda>a. al_org_id a = Some x) (audit_log d),
           signals := filter (\<lambda>s. sig_org_id s = Some x \<or> sig_org_id s = None) (signals d),
           theses := filter (\<lambda>t. th_org_id t = x) (theses d),
           documents := filter (\<lambda>f. doc_org_id f = Some x) (documents d),
           document_pages := [],
           applications := filter (\<lambda>a. app_org_id a = x) (applications d),
           opportunities := filter (\<lambda>p. op_org_id p = x) (opportunities d),
           opportunity_scores := filter (\<lambda>r. subject x d (os_opportunity_id r)) (opportunity_scores d),
           prescreen_results := [],
           claims := filter (own_claim x d) (claims d),
           evidence := filter (\<lambda>e. list_ex (\<lambda>c. own_claim x d c \<and> cl_id c = ev_claim_id e) (claims d)) (evidence d),
           memos := filter (\<lambda>m. memo_org_id m = x \<or> subject x d (memo_opportunity_id m)) (memos d),
           kb_chunks := filter (visible_chunk x) (kb_chunks d),
           jobs := filter (own_job x) (jobs d),
           agent_steps := filter (\<lambda>s. list_ex (\<lambda>j. own_job x j \<and> job_id j = st_job_id s) (jobs d)) (agent_steps d),
           llm_calls := [],
           outreach := filter (\<lambda>q. out_org_id q = x) (outreach d),
           email_tokens := [],
           org_invites := []\<rparr>)"

lemma view_rows [simp]:
  "orgs (view pr d) = filter (\<lambda>g. org_id g = pr_org_id pr) (orgs d)"
  "users (view pr d) = filter (\<lambda>u. usr_org_id u = pr_org_id pr \<or> Some (usr_id u) = pr_user_id pr) (users d)"
  "refresh_tokens (view pr d) = filter (\<lambda>t. Some (rt_user_id t) = pr_user_id pr) (refresh_tokens d)"
  "signals (view pr d) = filter (\<lambda>s. sig_org_id s = Some (pr_org_id pr) \<or> sig_org_id s = None) (signals d)"
  "theses (view pr d) = filter (\<lambda>t. th_org_id t = pr_org_id pr) (theses d)"
  "applications (view pr d) = filter (\<lambda>a. app_org_id a = pr_org_id pr) (applications d)"
  "opportunities (view pr d) = filter (\<lambda>p. op_org_id p = pr_org_id pr) (opportunities d)"
  "opportunity_scores (view pr d) = filter (\<lambda>r. subject (pr_org_id pr) d (os_opportunity_id r)) (opportunity_scores d)"
  "claims (view pr d) = filter (own_claim (pr_org_id pr) d) (claims d)"
  "evidence (view pr d) =
     filter (\<lambda>e. list_ex (\<lambda>c. own_claim (pr_org_id pr) d c \<and> cl_id c = ev_claim_id e) (claims d)) (evidence d)"
  "memos (view pr d) = filter (\<lambda>m. memo_org_id m = pr_org_id pr \<or> subject (pr_org_id pr) d (memo_opportunity_id m)) (memos d)"
  "kb_chunks (view pr d) = filter (visible_chunk (pr_org_id pr)) (kb_chunks d)"
  "jobs (view pr d) = filter (own_job (pr_org_id pr)) (jobs d)"
  "agent_steps (view pr d) =
     filter (\<lambda>s. list_ex (\<lambda>j. own_job (pr_org_id pr) j \<and> job_id j = st_job_id s) (jobs d)) (agent_steps d)"
  "outreach (view pr d) = filter (\<lambda>q. out_org_id q = pr_org_id pr) (outreach d)"
  "persons (view pr d) = persons d" "companies (view pr d) = companies d" "affiliations (view pr d) = affiliations d"
  "founder_scores (view pr d) = founder_scores d" "sources (view pr d) = sources d"
  "founder_score_snapshots (view pr d) = founder_score_snapshots d" "sourcing_channels (view pr d) = sourcing_channels d"
  by (simp_all add: view_def Let_def)

text \<open>Filtering twice.\<close>

lemma first_row_filter: "(\<And>r. r \<in> set rs \<Longrightarrow> P r \<Longrightarrow> Q r) \<Longrightarrow> first_row P (filter Q rs) = first_row P rs"
  unfolding first_row_def by (induction rs) auto

lemma get_row_filter: "(\<And>r. r \<in> set rs \<Longrightarrow> pk r = k \<Longrightarrow> Q r) \<Longrightarrow> get_row pk k (filter Q rs) = get_row pk k rs"
  unfolding get_row_def by (induction rs) auto

lemma filter_absorb: "(\<And>r. r \<in> set rs \<Longrightarrow> P r \<Longrightarrow> Q r) \<Longrightarrow> filter P (filter Q rs) = filter P rs"
  by (simp add: conj_commute) (auto intro: filter_cong)

lemma concat_filter:
  "(\<And>r. r \<in> set rs \<Longrightarrow> \<not> Q r \<Longrightarrow> f r = []) \<Longrightarrow> concat (map f (filter Q rs)) = concat (map f rs)"
  by (induction rs) auto

lemma subject_own: "p \<in> set (opportunities d) \<Longrightarrow> op_org_id p = x \<Longrightarrow> subject x d (op_id p)"
  by (auto simp: subject_def list_ex_iff)

lemma own_row_filter: "rows d' = filter (\<lambda>r. owner r = x) (rows d) \<Longrightarrow> own_row rows pk owner x i d' = own_row rows pk owner x i d"
  unfolding own_row_def by (auto intro!: first_row_filter)

lemma finds [simp]:
  "find_opportunity (pr_org_id pr) i (view pr d) = find_opportunity (pr_org_id pr) i d"
  "find_thesis (pr_org_id pr) i (view pr d) = find_thesis (pr_org_id pr) i d"
  "find_outreach (pr_org_id pr) i (view pr d) = find_outreach (pr_org_id pr) i d"
  "find_job (pr_org_id pr) i (view pr d) = find_job (pr_org_id pr) i d"
  "find_person i (view pr d) = find_person i d"
  unfolding find_opportunity_def find_thesis_def find_outreach_def find_job_def find_person_def
  by (auto intro!: own_row_filter first_row_filter simp: own_job_def)

lemma find_memo_view [simp]: "find_memo (pr_org_id pr) i (view pr d) = find_memo (pr_org_id pr) i d"
  unfolding find_memo_def own_row_def by (auto intro!: first_row_filter)

lemma found_subject: "find_opportunity x i d = Some p \<Longrightarrow> subject x d i \<and> op_id p = i \<and> op_org_id p = x"
  using opp_row.look_own [of x i d p] by (auto simp: subject_def list_ex_iff)

section \<open>Queries that the view answers\<close>

lemma own_scores:
  "subject (pr_org_id pr) d i \<Longrightarrow> filter (\<lambda>r. os_opportunity_id r = i) (opportunity_scores (view pr d))
     = filter (\<lambda>r. os_opportunity_id r = i) (opportunity_scores d)"
  by (simp only: view_rows) (rule filter_absorb, simp)

lemma own_claims:
  "subject (pr_org_id pr) d i \<Longrightarrow> (\<And>c. P c \<Longrightarrow> cl_opportunity_id c = Some i) \<Longrightarrow>
     filter P (claims (view pr d)) = filter P (claims d)"
  by (simp only: view_rows) (rule filter_absorb, simp add: own_claim_def)

lemma own_memos:
  "subject (pr_org_id pr) d i \<Longrightarrow> filter (\<lambda>m. memo_opportunity_id m = i) (memos (view pr d))
     = filter (\<lambda>m. memo_opportunity_id m = i) (memos d)"
  by (simp only: view_rows) (rule filter_absorb, simp)

lemma card_view:
  "subject (pr_org_id pr) d (op_id p) \<Longrightarrow> card_of E p c (view pr d) = card_of E p c d"
  by (simp add: card_of_def founders_def axes_def own_scores trust_summary_def own_claims
      del: view_rows(8,9) cong: if_cong)

lemma detail_view:
  "subject (pr_org_id pr) d (op_id p) \<Longrightarrow> detail_of shown p (view pr d) = detail_of shown p d"
  by (simp add: detail_of_def newest_memo_def own_memos own_claims del: view_rows)

lemma listing_view [simp]: "listing E (pr_org_id pr) flt (view pr d) = listing E (pr_org_id pr) flt d"
proof -
  have "selected E (pr_org_id pr) flt (view pr d) = selected E (pr_org_id pr) flt d"
    by (simp add: selected_def fun_eq_iff)
  then show ?thesis by (simp add: listing_def)
      (intro arg_cong [where f = "sort_key place"] filter_cong refl, auto simp: selected_def)
qed

lemma page_view [simp]: "page_rows E (pr_org_id pr) flt c n (view pr d) = page_rows E (pr_org_id pr) flt c n d"
  by (simp add: page_rows_def)

lemma page_own: "p \<in> set (page_rows E x flt c n d) \<Longrightarrow> subject x d (op_id p)"
  by (auto simp: page_rows_def listing_def selected_def dest!: in_set_takeD intro: subject_own)

lemma candidates_view [simp]: "candidates (pr_org_id pr) plan (view pr d) = candidates (pr_org_id pr) plan d"
  unfolding candidates_def by (simp cong: if_cong) (subst concat_filter, auto)

lemma ranking_view [simp]: "ranking (pr_org_id pr) plan (view pr d) = ranking (pr_org_id pr) plan d"
  by (simp add: ranking_def)

lemma ranking_own: "(score, p, m) \<in> set (ranking x plan d) \<Longrightarrow> subject x d (op_id p)"
  by (auto simp: ranking_def candidates_def rank_def Let_def dest!: in_set_takeD intro: subject_own split: if_splits)

lemma search_kb_view [simp]: "search_kb (pr_org_id pr) q c p k (view pr d) = search_kb (pr_org_id pr) q c p k d"
proof -
  have "filter (\<lambda>r. visible_chunk (pr_org_id pr) r \<and> P r) (filter (visible_chunk (pr_org_id pr)) (kb_chunks d))
      = filter (\<lambda>r. visible_chunk (pr_org_id pr) r \<and> P r) (kb_chunks d)" for P
    by (rule filter_absorb) simp
  then show ?thesis by (simp add: search_kb_def del: filter_filter)
qed

section \<open>Computations that see the view only\<close>

lemma blind_rows [simp]:
  "blind (view pr) (get_opportunity (pr_org_id pr) i) s" "blind (view pr) (get_thesis_row (pr_org_id pr) i) s"
  "blind (view pr) (get_memo_row (pr_org_id pr) i) s" "blind (view pr) (get_person i) s"
  unfolding get_opportunity_def get_thesis_row_def get_memo_row_def get_person_def
  by (auto intro!: blind_andThen blind_query)

lemma found_memo_subject: "find_memo x i d = Some m \<Longrightarrow> subject x d (memo_opportunity_id m)"
  using memo_row.look_own [of x i d m] by (auto simp: subject_def list_ex_iff)

lemma blind_card: "subject (pr_org_id pr) (s_db s) (op_id p) \<Longrightarrow> blind (view pr) (build_card E p) s"
  unfolding build_card_def by (auto intro!: blind_andThen blind_query simp: card_view)

lemma blind_detail: "subject (pr_org_id pr) (s_db s) (op_id p) \<Longrightarrow> blind (view pr) (build_detail E p) s"
  unfolding build_detail_def by (auto intro!: blind_andThen blind_query blind_card simp: detail_view)

lemma own_trace:
  "filter (\<lambda>st. list_ex (\<lambda>j. job_id j = st_job_id st \<and> job_target_id j = Some i \<and> job_org_id j = Some (pr_org_id pr)) (jobs (view pr d))
       \<and> P st) (agent_steps (view pr d))
   = filter (\<lambda>st. list_ex (\<lambda>j. job_id j = st_job_id st \<and> job_target_id j = Some i \<and> job_org_id j = Some (pr_org_id pr)) (jobs d)
       \<and> P st) (agent_steps d)"
  by (simp, rule filter_cong) (auto simp: list_ex_iff own_job_def)

lemma own_evidence:
  "c \<in> set (claims d) \<Longrightarrow> own_claim (pr_org_id pr) d c \<Longrightarrow>
    filter (\<lambda>e. ev_claim_id e = cl_id c) (evidence (view pr d)) = filter (\<lambda>e. ev_claim_id e = cl_id c) (evidence d)"
  by (simp only: view_rows) (rule filter_absorb, auto simp: list_ex_iff)

section \<open>The routes\<close>

lemma memo_versions_view [simp]: "memo_versions_of (pr_org_id pr) i (view pr d) = memo_versions_of (pr_org_id pr) i d"
  unfolding memo_versions_of_def by (simp only: view_rows) (rule filter_absorb, simp)

lemma select_memo_view [simp]: "select_memo v (pr_org_id pr) i (view pr d) = select_memo v (pr_org_id pr) i d"
  by (simp add: select_memo_def split: option.split)

lemma own_claim_row:
  "subject (pr_org_id pr) d i \<Longrightarrow> first_row (\<lambda>r. cl_id r = c \<and> cl_opportunity_id r = Some i) (claims (view pr d))
      = first_row (\<lambda>r. cl_id r = c \<and> cl_opportunity_id r = Some i) (claims d)"
  by (simp only: view_rows) (rule first_row_filter, simp add: own_claim_def)

lemma blind_opportunity_routes:
  "blind (view pr) (opportunity_detail E pr i) s" "blind (view pr) (opportunity_timeline pr i) s"
  "blind (view pr) (opportunity_scores_endpoint pr i h) s" "blind (view pr) (opportunity_claims pr i cat st t) s"
  "blind (view pr) (claim_evidence pr i c) s" "blind (view pr) (opportunity_trace pr i j) s" "blind (view pr) (get_opportunity_memo pr i v) s"
proof -
  show "blind (view pr) (opportunity_detail E pr i) s"
    unfolding opportunity_detail_def by (auto intro!: blind_andThen blind_detail dest!: found_subject)
  show "blind (view pr) (opportunity_timeline pr i) s"
    unfolding opportunity_timeline_def by (auto intro!: blind_andThen)
  show "blind (view pr) (opportunity_scores_endpoint pr i h) s"
    unfolding opportunity_scores_endpoint_def
    by (auto intro!: blind_andThen blind_query reads_andThen dest!: found_subject simp: score_rows_def own_scores simp del: view_rows)
  show "blind (view pr) (opportunity_claims pr i cat st t) s"
    unfolding opportunity_claims_def
    by (auto intro!: blind_andThen blind_query reads_andThen dest!: found_subject simp: own_claims simp del: view_rows)
  show "blind (view pr) (opportunity_trace pr i j) s"
    unfolding opportunity_trace_def
    by (auto intro!: blind_andThen blind_query reads_andThen simp: own_trace simp del: view_rows)
  show "blind (view pr) (get_opportunity_memo pr i v) s"
    unfolding get_opportunity_memo_def
    by (auto intro!: blind_andThen blind_query reads_andThen)
  show "blind (view pr) (claim_evidence pr i c) s"
    unfolding claim_evidence_def
    using own_evidence [of _ "s_db s" pr]
    by (auto intro!: blind_andThen blind_query reads_andThen dest!: found_subject first_row_Some
        simp: own_claim_row run_simps own_claim_def simp del: view_rows split: option.splits)
qed

lemma blind_citations: "blind (view pr) (memo_citations pr i) s"
proof -
  have "citation_of (view pr d) c = citation_of d c" if "c \<in> set (claims_of k d)" "subject (pr_org_id pr) d k" for d c k
  proof -
    have "c \<in> set (claims d)" "own_claim (pr_org_id pr) d c"
      using that by (auto simp: claims_of_def own_claim_def)
    then show ?thesis by (simp add: citation_of_def own_evidence del: view_rows)
  qed
  moreover have "claims_of k (view pr d) = claims_of k d" if "subject (pr_org_id pr) d k" for d k
    using that by (simp add: claims_of_def own_claims del: view_rows)
  ultimately show ?thesis
    unfolding memo_citations_def
    by (auto intro!: blind_andThen blind_query reads_andThen map_cong dest!: found_memo_subject)
qed

lemma blind_row: "needs_row r = READ \<Longrightarrow> blind (view pr) (route_run W pr i r) s"
proof (cases r)
  case ApplicationGet
  have "first_row (\<lambda>a. app_id a = i \<and> app_org_id a = pr_org_id pr \<and> app_deleted_at a = None) (applications (view pr d))
      = first_row (\<lambda>a. app_id a = i \<and> app_org_id a = pr_org_id pr \<and> app_deleted_at a = None) (applications d)" for d
    by (simp only: view_rows) (rule first_row_filter, simp)
  with ApplicationGet show ?thesis
    by (auto simp: get_application_def simp del: view_rows intro!: blind_answering blind_andThen blind_query reads_andThen)
qed (auto simp: get_thesis_def preview_thesis_def get_memo_def get_job_def conj_commute
    intro!: blind_answering blind_opportunity_routes blind_citations blind_andThen blind_query reads_andThen)

text \<open>The two routes that read over all funds: the counts of the queue, and the export of a person, which has the
  signals of every fund.\<close>

fun over_all_funds :: "endpoint \<Rightarrow> bool" where
  "over_all_funds AdminQueue = True"
| "over_all_funds (GdprExport _) = True"
| "over_all_funds _ = False"

lemma list_view:
  "filter (\<lambda>t. th_org_id t = pr_org_id pr \<and> P1 t) (theses (view pr d)) = filter (\<lambda>t. th_org_id t = pr_org_id pr \<and> P1 t) (theses d)"
  "filter (\<lambda>a. app_org_id a = pr_org_id pr \<and> P2 a) (applications (view pr d)) = filter (\<lambda>a. app_org_id a = pr_org_id pr \<and> P2 a) (applications d)"
  "filter (\<lambda>j. job_org_id j = Some (pr_org_id pr) \<and> P3 j) (jobs (view pr d)) = filter (\<lambda>j. job_org_id j = Some (pr_org_id pr) \<and> P3 j) (jobs d)"
  "filter (\<lambda>q. out_org_id q = pr_org_id pr \<and> P4 q) (outreach (view pr d)) = filter (\<lambda>q. out_org_id q = pr_org_id pr \<and> P4 q) (outreach d)"
  "filter (\<lambda>z. (sig_org_id z = Some (pr_org_id pr) \<or> sig_org_id z = None) \<and> P5 z) (signals (view pr d))
     = filter (\<lambda>z. (sig_org_id z = Some (pr_org_id pr) \<or> sig_org_id z = None) \<and> P5 z) (signals d)"
  "filter (\<lambda>p. op_org_id p = pr_org_id pr) (opportunities (view pr d)) = filter (\<lambda>p. op_org_id p = pr_org_id pr) (opportunities d)"
  "filter (\<lambda>u. usr_org_id u = pr_org_id pr) (users (view pr d)) = filter (\<lambda>u. usr_org_id u = pr_org_id pr) (users d)"
  by (simp_all only: view_rows, (rule filter_absorb, simp add: own_job_def)+)

lemma blind_list: "blind (view pr) (list_opportunities E isofmt (pr_org_id pr) flt c n) s"
  unfolding list_opportunities_def
proof (rule blind_andThen)
  show "reads (read_cursor E c)" "blind (view pr) (read_cursor E c) s"
    by (auto simp: read_cursor_def intro!: blind_andThen split: option.split)
next
  fix pos
  have cards: "blind (view pr) (map_run (build_card E) (take n (page_rows E (pr_org_id pr) flt pos n (s_db s)))) s"
    by (rule blind_map_run) (auto intro!: blind_card dest: in_set_takeD page_own)
  then show "blind (view pr) (andThen (query (page_rows E (pr_org_id pr) flt pos n)) (\<lambda>rs. andThen (map_run (build_card E) (take n rs))
      (\<lambda>cards. query (\<lambda>d.
       \<lparr>ol_items = cards, ol_next_cursor = next_cursor isofmt n rs,
        ol_total_estimate = length (filter (\<lambda>p. op_org_id p = pr_org_id pr) (opportunities d)),
        ol_stage = counter (map (\<lambda>p. stage_value (op_stage p)) (take n rs)),
        ol_origin = counter (map (\<lambda>p. origin_value (op_origin p)) (take n rs)),
        ol_decision = counter (map (\<lambda>p. case op_decision p of None \<Rightarrow> ''undecided'' | Some k \<Rightarrow> decision_value k)
                                 (take n rs))\<rparr>)))) s"
    by (auto intro!: blind_andThen blind_query reads_map_run simp: run_simps list_view simp del: view_rows)
qed

lemma blind_search: "blind (view pr) (search_opportunities E (pr_org_id pr) q n) s"
proof -
  have "blind (view pr) (map_run (\<lambda>(score, p, m). andThen (build_card E p) (\<lambda>shown.
             ret \<lparr>si_card = shown, si_score = py_round 3 score, si_matched = cm_matched m, si_unmatched = cm_unmatched m\<rparr>))
           (take n (ranking (pr_org_id pr) (interpret_query q) (s_db s)))) s"
    by (rule blind_map_run) (auto intro!: blind_andThen blind_card reads_andThen dest!: in_set_takeD dest: ranking_own)
  then show ?thesis
    unfolding search_opportunities_def Let_def
    by (auto intro!: blind_andThen blind_query reads_map_run reads_andThen simp: run_simps)
qed

lemma suggest_view:
  "concat (map (\<lambda>p. if op_company_id p = k \<and> op_org_id p = pr_org_id pr \<and> Q then [z] else []) (opportunities (view pr d)))
   = concat (map (\<lambda>p. if op_company_id p = k \<and> op_org_id p = pr_org_id pr \<and> Q then [z] else []) (opportunities d))"
  by (simp only: view_rows) (rule concat_filter, simp)

lemma blind_suggest: "blind (view pr) (suggest ilike pr q) s"
  unfolding suggest_def Let_def
  by (intro blind_andThen blind_query)
    (auto simp: suggest_view simp del: view_rows(7) intro!: arg_cong [where f = concat] map_cong)

lemma blind_company: "blind (view pr) (company_profile pr i) s"
proof -
  have "first_row (\<lambda>p. op_org_id p = pr_org_id pr \<and> op_company_id p = i) (opportunities (view pr d))
      = first_row (\<lambda>p. op_org_id p = pr_org_id pr \<and> op_company_id p = i) (opportunities d)" for d
    by (simp only: view_rows) (rule first_row_filter, simp)
  then show ?thesis
    unfolding company_profile_def by (auto intro!: blind_andThen blind_query reads_andThen simp del: view_rows(7))
qed

lemma blind_account: "blind (view pr) (me_endpoint pr) s" "blind (view pr) (sessions_endpoint pr) s"
proof -
  show "blind (view pr) (me_endpoint pr) s"
    unfolding me_endpoint_def
    by (auto intro!: blind_signed_in blind_andThen blind_query blind_account_row get_row_filter)
  have "filter (\<lambda>r. rt_user_id r = i \<and> live r) (refresh_tokens (view pr d)) = filter (\<lambda>r. rt_user_id r = i \<and> live r) (refresh_tokens d)"
    if "pr_user_id pr = Some i" for i d
    using that by (simp only: view_rows) (rule filter_absorb, simp)
  then show "blind (view pr) (sessions_endpoint pr) s"
    unfolding sessions_endpoint_def by (auto intro!: blind_signed_in blind_query simp del: view_rows)
qed

lemma score_view [simp]:
  "score_of_person i (view pr d) = score_of_person i d" "founder_rows f (view pr d) = founder_rows f d"
  "source_by_key k (view pr d) = source_by_key k d"
  by (simp_all add: score_of_person_def founder_rows_def source_by_key_def)

lemma blind_shared:
  "blind (view pr) (founders_endpoint pr f n) s" "blind (view pr) (founder_profile pr i) s" "blind (view pr) (founder_history E pr i k) s"
  "blind (view pr) (uplift_plan pr i) s" "blind (view pr) (sources_endpoint pr) s" "blind (view pr) (test_source pr key) s"
  "blind (view pr) (channel_graph E pr) s" "blind (view pr) (founder_graph pr i) s" "blind (view pr) (merges pr) s"
  "blind (view pr) (merge_action pr i action) s"
  unfolding founders_endpoint_def founder_profile_def founder_history_def uplift_plan_def sources_endpoint_def
    test_source_def channel_graph_def founder_graph_def merges_def merge_action_def
  by (auto intro!: blind_andThen blind_query reads_andThen)

lemma blind_of_the_fund:
  "blind (view pr) (list_theses pr deleted) s" "blind (view pr) (list_applications pr status n) s"
  "blind (view pr) (list_jobs pr kind target st) s" "blind (view pr) (list_outreach pr os) s"
  "blind (view pr) (signals_endpoint pr person company sk n) s" "blind (view pr) (usage pr) s" "blind (view pr) (list_users pr) s"
  "blind (view pr) (current_org pr) s" "blind (view pr) (kb_search pr q company person n web) s"
  "blind (view pr) (opportunity_search E pr q n) s" "blind (view pr) (opportunity_list E isofmt pr flt cursor n) s"
proof -
  show "blind (view pr) (current_org pr) s"
    unfolding current_org_def by (auto intro!: blind_andThen blind_query get_row_filter)
  show "blind (view pr) (usage pr) s" "blind (view pr) (list_users pr) s"
    unfolding usage_def list_users_def
    by (auto intro!: blind_andThen blind_query simp: list_view simp del: view_rows filter_filter)
  show "blind (view pr) (kb_search pr q company person n web) s" "blind (view pr) (opportunity_search E pr q n) s"
    "blind (view pr) (opportunity_list E isofmt pr flt cursor n) s"
    unfolding kb_search_def opportunity_search_def opportunity_list_def
    by (auto intro!: blind_andThen blind_query blind_search blind_list)
next
  show "blind (view pr) (list_theses pr deleted) s" "blind (view pr) (list_applications pr status n) s"
    "blind (view pr) (list_jobs pr kind target st) s" "blind (view pr) (list_outreach pr os) s"
    "blind (view pr) (signals_endpoint pr person company sk n) s"
    unfolding list_theses_def list_applications_def list_jobs_def list_outreach_def signals_endpoint_def
    by (intro blind_andThen blind_query reads_intros blind_basic; simp only: list_view)+
qed

lemma blind_call: "reading e \<Longrightarrow> \<not> over_all_funds e \<Longrightarrow> blind (view pr) (endpoint_run W pr e) s"
  by (cases e) (simp_all add: blind_answering blind_row blind_suggest blind_company blind_account blind_shared
      blind_of_the_fund)

section \<open>What a caller can learn\<close>

text \<open>C3: a route that only reads answers from what the caller's fund owns and from the shared tables. Whatever
  another fund has stored, its rows, its claims and its jobs, the answer or the refusal is the one computed from
  the view. The two exceptions are the counts of the queue and the export of a person.\<close>

theorem answers_from_own_view:
  assumes "reading e" "\<not> over_all_funds e"
  shows "fst (request (endpoint_run W pr e) d) = fst (request (endpoint_run W pr e) (view pr d))"
proof -
  have "fst (request m d') = fst (m (open_session d' []))" for d' and m :: "response run"
    by (simp add: request_def split: prod.split sum.split)
  with blind_call [OF assms, of pr W "open_session d []"] show ?thesis by (simp add: blind_def open_session_def)
qed

definition rival_jobs :: db where
  "rival_jobs = demo_funds\<lparr>jobs := [new_job (Some 1) ''score.founder'' ''person'' 7 None (JObj []) 0 11,
     new_job (Some 2) ''score.founder'' ''person'' 7 None (JObj []) 0 12]\<rparr>"

theorem answers_from_own_view_witness:
  "fst (request (endpoint_run demo_world (demo_pr VIEWER) (ListJobs None None None)) rival_jobs)
     = fst (request (endpoint_run demo_world (demo_pr VIEWER) (ListJobs None None None)) (view (demo_pr VIEWER) rival_jobs))
   \<and> map job_id (jobs rival_jobs) = [11, 12] \<and> map job_id (jobs (view (demo_pr VIEWER) rival_jobs)) = [11]"
  by (intro conjI answers_from_own_view)
    (simp_all add: has_permission_def rival_jobs_def new_job_def own_job_def demo_pr_def)

text \<open>The exceptions are real: the count of queued jobs has those of every fund, and the export of a person shows a
  signal of another fund.\<close>

lemma queue_counts_every_fund:
  assumes "has_permission pr ADMIN" "j \<in> set (jobs d)" "job_status j = QUEUED" "job_org_id j \<noteq> Some (pr_org_id pr)"
  shows "fst (request (endpoint_run W pr AdminQueue) d) \<noteq> fst (request (endpoint_run W pr AdminQueue) (view pr d))"
proof -
  let ?queued = "filter (\<lambda>j. job_status j = QUEUED) (jobs d)"
  have "length (filter (own_job (pr_org_id pr)) ?queued) < length ?queued"
    by (rule length_filter_less [of j]) (use assms in \<open>simp_all add: own_job_def\<close>)
  then have "count_status QUEUED (view pr d) < count_status QUEUED d"
    by (simp add: count_status_def conj_commute)
  with assms(1) show ?thesis
    by (simp add: admin_queue_def answering_def request_def run_simps open_session_def queue_summary_def Let_def)
qed

lemma export_shows_every_fund:
  assumes "has_permission pr ADMIN" "get_row per_id i (persons d) = Some p"
    and "s \<in> set (signals d)" "sig_person_id s = Some i" "sig_org_id s \<noteq> None" "sig_org_id s \<noteq> Some (pr_org_id pr)"
  shows "fst (request (endpoint_run W pr (GdprExport i)) d) \<noteq> fst (request (endpoint_run W pr (GdprExport i)) (view pr d))"
proof -
  let ?about = "filter (\<lambda>s. sig_person_id s = Some i) (signals d)"
  have "length (filter (\<lambda>s. sig_org_id s = Some (pr_org_id pr) \<or> sig_org_id s = None) ?about) < length ?about"
    by (rule length_filter_less [of s]) (use assms in simp_all)
  then have "length (filter (\<lambda>s. sig_person_id s = Some i) (signals (view pr d))) < length ?about"
    by (simp add: conj_commute)
  then have "map f ?about \<noteq> map f (filter (\<lambda>s. sig_person_id s = Some i) (signals (view pr d)))"
    for f :: "Signal \<Rightarrow> uuid \<times> SignalKind \<times> string option \<times> datetime"
    by (metis length_map less_irrefl)
  with assms(1,2) show ?thesis
    by (auto simp: gdpr_export_def answering_def request_def run_simps open_session_def simp del: view_rows(4))
qed

end
