(* ===== verification/Responses.thy ===== *)
theory Responses
  imports Surface
begin

text \<open>
  The response schemas of \<open>app/schemas\<close> and the dicts that the routers build: what of a row leaves the service, as
  JSON. \<open>respond\<close> is the body of an answer, \<open>success_status\<close> its status. How pydantic writes a time, a date or a
  \<open>Decimal\<close> is a parameter, and so are the stamps that the database keeps for a row (\<open>created_at\<close> and
  the like), the identifiers of steps, and the measured time of a search.
\<close>

section \<open>Values\<close>

record rendering =
  rd_time :: "datetime \<Rightarrow> string"
  rd_date :: "int \<Rightarrow> string"
  rd_decimal :: "rat \<Rightarrow> json"
  rd_stamp :: "string \<Rightarrow> uuid \<Rightarrow> json"
  rd_step :: "uuid \<Rightarrow> nat \<Rightarrow> (string \<times> json) list"
  rd_took_ms :: rat

fun org_plan_value :: "OrgPlan \<Rightarrow> string" where
  "org_plan_value DEMO = ''demo''"
| "org_plan_value STANDARD = ''standard''"

fun source_tier_value :: "SourceTier \<Rightarrow> string" where
  "source_tier_value PRIMARY = ''primary''"
| "source_tier_value VERIFIED_THIRD_PARTY = ''verified_third_party''"
| "source_tier_value AGGREGATOR = ''aggregator''"
| "source_tier_value SELF_REPORTED = ''self_reported''"
| "source_tier_value INFERRED = ''inferred''"

fun source_status_value :: "SourceStatus \<Rightarrow> string" where
  "source_status_value ACTIVE = ''active''"
| "source_status_value DEGRADED = ''degraded''"
| "source_status_value DISABLED = ''disabled''"
| "source_status_value NO_CREDENTIALS = ''no_credentials''"

fun trend_value :: "TrendKind \<Rightarrow> string" where
  "trend_value IMPROVING = ''improving''"
| "trend_value STABLE = ''stable''"
| "trend_value DECLINING = ''declining''"
| "trend_value INSUFFICIENT_DATA = ''insufficient_data''"

fun stance_value :: "MarketStance \<Rightarrow> string" where
  "stance_value BULLISH = ''bullish''"
| "stance_value NEUTRAL = ''neutral''"
| "stance_value BEAR = ''bear''"

fun outreach_status_value :: "OutreachStatus \<Rightarrow> string" where
  "outreach_status_value SUGGESTED = ''suggested''"
| "outreach_status_value APPROVED = ''approved''"
| "outreach_status_value SENT = ''sent''"
| "outreach_status_value REPLIED = ''replied''"
| "outreach_status_value APPLIED = ''applied''"
| "outreach_status_value DECLINED = ''declined''"
| "outreach_status_value BOUNCED = ''bounced''"

fun application_status_value :: "ApplicationStatus \<Rightarrow> string" where
  "application_status_value RECEIVED = ''received''"
| "application_status_value PARSING = ''parsing''"
| "application_status_value APP_SCREENING = ''screening''"
| "application_status_value NEEDS_INFO = ''needs_info''"
| "application_status_value IN_DILIGENCE = ''in_diligence''"
| "application_status_value APP_DECIDED = ''decided''"
| "application_status_value REJECTED_PRESCREEN = ''rejected_prescreen''"
| "application_status_value APP_ERROR = ''error''"

definition nullable :: "('a \<Rightarrow> json) \<Rightarrow> 'a option \<Rightarrow> json" where
  "nullable f x = (case x of None \<Rightarrow> JNull | Some y \<Rightarrow> f y)"

abbreviation "text_or_null \<equiv> nullable JStr"
abbreviation "uuid_or_null \<equiv> nullable JUuid"

definition jtexts :: "string list \<Rightarrow> json" where
  "jtexts xs = JList (map JStr xs)"

definition jint :: "int \<Rightarrow> json" where
  "jint n = JNum (of_int n)"

definition jcounts :: "(string \<times> nat) list \<Rightarrow> json" where
  "jcounts kvs = JObj (map (\<lambda>(k, n). (k, jint (int n))) kvs)"

definition jtime :: "rendering \<Rightarrow> datetime \<Rightarrow> json" where
  "jtime R t = JStr (rd_time R t)"

abbreviation "time_or_null R \<equiv> nullable (jtime R)"
abbreviation "decimal_or_null R \<equiv> nullable (rd_decimal R)"

text \<open>\<open>CursorPage(items=..., total_estimate=len(rows))\<close>: the cursor keeps its default.\<close>

definition cursor_page_out :: "json list \<Rightarrow> json" where
  "cursor_page_out items =
     JObj [(''items'', JList items), (''next_cursor'', JNull), (''total_estimate'', jint (int (length items)))]"

section \<open>Accounts\<close>

definition user_out :: "rendering \<Rightarrow> User \<Rightarrow> json" where
  "user_out R u =
     JObj [(''id'', JUuid (usr_id u)), (''org_id'', JUuid (usr_org_id u)), (''email'', JStr (usr_email u)),
           (''full_name'', JStr (usr_full_name u)), (''role'', JStr (role_value (usr_role u))),
           (''is_active'', JBool (usr_is_active u)), (''email_verified_at'', time_or_null R (usr_email_verified_at u)),
           (''created_at'', rd_stamp R ''created_at'' (usr_id u)), (''updated_at'', rd_stamp R ''updated_at'' (usr_id u))]"

definition org_out :: "rendering \<Rightarrow> Org \<Rightarrow> json" where
  "org_out R g =
     JObj [(''id'', JUuid (org_id g)), (''name'', JStr (org_name g)), (''slug'', JStr (org_slug g)),
           (''plan'', JStr (org_plan_value (org_plan g))), (''settings'', org_settings g),
           (''created_at'', rd_stamp R ''created_at'' (org_id g)), (''updated_at'', rd_stamp R ''updated_at'' (org_id g))]"

definition token_pair_fields :: "IssuedTokens \<Rightarrow> (string \<times> json) list" where
  "token_pair_fields t =
     [(''access_token'', JStr (it_access_token t)), (''refresh_token'', JStr (it_refresh_token t)),
      (''token_type'', JStr ''bearer''), (''expires_in'', jint (it_expires_in t))]"

text \<open>The answer of the sign-up and the log-in; that of the refresh is the pair alone.\<close>

definition auth_out :: "rendering \<Rightarrow> IssuedTokens \<Rightarrow> User \<Rightarrow> Org option \<Rightarrow> json" where
  "auth_out R t u g = JObj (token_pair_fields t @ [(''user'', user_out R u), (''org'', nullable (org_out R) g)])"

definition me_out :: "rendering \<Rightarrow> User \<Rightarrow> Org \<Rightarrow> string list \<Rightarrow> json" where
  "me_out R u g permissions =
     JObj [(''user'', user_out R u), (''org'', org_out R g), (''permissions'', jtexts permissions)]"

definition session_out :: "rendering \<Rightarrow> RefreshToken \<Rightarrow> json" where
  "session_out R t =
     JObj [(''family_id'', JUuid (rt_family_id t)), (''user_agent'', text_or_null (rt_user_agent t)),
           (''ip'', text_or_null (rt_ip t)), (''created_at'', jtime R (rt_created_at t)),
           (''expires_at'', jtime R (rt_expires_at t))]"

definition invite_out :: "rendering \<Rightarrow> OrgInvite \<Rightarrow> string \<Rightarrow> json" where
  "invite_out R i raw =
     JObj [(''id'', JUuid (inv_id i)), (''email'', JStr (inv_email i)), (''role'', JStr (role_value (inv_role i))),
           (''expires_at'', jtime R (inv_expires_at i)), (''invite_token'', JStr raw)]"

section \<open>Opportunities\<close>

definition company_summary_out :: "CompanySummary \<Rightarrow> json" where
  "company_summary_out c =
     JObj [(''id'', JUuid (cs_id c)), (''name'', JStr (cs_name c)), (''domain'', text_or_null (cs_domain c)),
           (''logo_url'', JNull), (''one_liner'', text_or_null (cs_one_liner c)), (''sectors'', jtexts (cs_sectors c)),
           (''hq_country'', text_or_null (cs_hq_country c)), (''hq_city'', text_or_null (cs_hq_city c))]"

definition founder_summary_out :: "FounderSummary \<Rightarrow> json" where
  "founder_summary_out f =
     JObj [(''person_id'', JUuid (fm_person_id f)), (''name'', JStr (fm_name f)),
           (''founder_score'', nullable jint (fm_founder_score f)),
           (''founder_score_ci'', nullable (\<lambda>(lo, hi). JList [jint lo, jint hi]) (fm_founder_score_ci f)),
           (''cold_start'', JBool (fm_cold_start f))]"

definition axis_score_out :: "rendering \<Rightarrow> OpportunityScore \<Rightarrow> json" where
  "axis_score_out R r =
     JObj [(''axis'', JStr (axis_value (os_axis r))), (''score'', rd_decimal R (os_score r)),
           (''confidence'', rd_decimal R (os_confidence r)), (''trend'', JStr (trend_value (os_trend r))),
           (''stance'', nullable (\<lambda>s. JStr (stance_value s)) (os_stance r)), (''rationale'', JStr (os_rationale r)),
           (''drivers'', JList (os_drivers r)), (''version'', jint (os_version r)),
           (''model_version'', JStr (os_model_version r)), (''computed_at'', rd_stamp R ''computed_at'' (os_id r))]"

definition sla_out :: "rendering \<Rightarrow> SLAOut \<Rightarrow> json" where
  "sla_out R s =
     JObj [(''deadline_at'', jtime R (sla_deadline_at s)), (''hours_remaining'', JNum (sla_hours_remaining s)),
           (''at_risk'', JBool (sla_at_risk s)), (''breached'', JBool (sla_breached s))]"

definition card_fields :: "rendering \<Rightarrow> OpportunityCard \<Rightarrow> (string \<times> json) list" where
  "card_fields R c =
     [(''id'', JUuid (cd_opp_id c)), (''company'', company_summary_out (cd_company c)),
      (''origin'', JStr (origin_value (cd_origin c))), (''stage'', JStr (stage_value (cd_stage c))),
      (''founders'', JList (map founder_summary_out (cd_founders c))),
      (''axes'', JObj (map (\<lambda>a. (axis_value a, nullable (axis_score_out R) (cd_axes c a))) [FOUNDER, MARKET, IDEA_VS_MARKET])),
      (''thesis_fit'', decimal_or_null R (cd_thesis_fit c)), (''trust_summary'', jcounts (cd_trust_summary c)),
      (''decision'', nullable (\<lambda>k. JStr (decision_value k)) (cd_decision c)), (''sla'', sla_out R (cd_sla c)),
      (''first_signal_at'', jtime R (cd_first_signal_at c)), (''updated_at'', jtime R (cd_updated_at c))]"

definition claim_line_out :: "claim_line \<Rightarrow> json" where
  "claim_line_out l =
     JObj [(''id'', JUuid (ln_id l)), (''category'', JStr (ln_category l)), (''text'', JStr (ln_text l)),
           (''status'', JStr (ln_status l)), (''trust_score'', JNum (ln_trust_score l))]"

definition memo_line_out :: "memo_line \<Rightarrow> json" where
  "memo_line_out m =
     JObj [(''id'', JUuid (mn_id m)), (''version'', jint (mn_version m)), (''status'', JStr (mn_status m)),
           (''recommendation'', text_or_null (mn_recommendation m))]"

definition detail_out :: "rendering \<Rightarrow> OpportunityDetail \<Rightarrow> json" where
  "detail_out R d =
     JObj (card_fields R (dt_card d) @
       [(''title'', text_or_null (dt_title d)), (''thesis_id'', uuid_or_null (dt_thesis_id d)),
        (''conviction'', decimal_or_null R (dt_conviction d)), (''priority_rank'', decimal_or_null R (dt_priority_rank d)),
        (''sourced_at'', jtime R (dt_sourced_at d)), (''screened_at'', time_or_null R (dt_screened_at d)),
        (''diligence_started_at'', time_or_null R (dt_diligence_started_at d)),
        (''memo_ready_at'', time_or_null R (dt_memo_ready_at d)), (''decided_at'', time_or_null R (dt_decided_at d)),
        (''decision_rationale'', text_or_null (dt_decision_rationale d)), (''assigned_to'', uuid_or_null (dt_assigned_to d)),
        (''version'', jint (dt_version d)), (''claims'', JList (map claim_line_out (dt_claims d))),
        (''memo'', nullable memo_line_out (dt_memo d))])"

definition list_out :: "rendering \<Rightarrow> OpportunityList \<Rightarrow> json" where
  "list_out R l =
     JObj [(''items'', JList (map (\<lambda>c. JObj (card_fields R c)) (ol_items l))),
           (''next_cursor'', text_or_null (ol_next_cursor l)), (''total_estimate'', jint (int (ol_total_estimate l))),
           (''facets'', JObj [(''stage'', jcounts (ol_stage l)), (''origin'', jcounts (ol_origin l)),
                            (''decision'', jcounts (ol_decision l))])]"

definition timeline_out :: "rendering \<Rightarrow> string \<times> datetime \<Rightarrow> json" where
  "timeline_out R = (\<lambda>(event, t). JObj [(''event'', JStr event), (''at'', jtime R t)])"

definition score_history_out :: "rendering \<Rightarrow> OpportunityScore list \<Rightarrow> OpportunityScore list \<Rightarrow> json" where
  "score_history_out R now rows =
     JObj [(''current'', JList (map (axis_score_out R) now)), (''history'', JList (map (axis_score_out R) rows))]"

definition claim_out :: "rendering \<Rightarrow> Claim \<Rightarrow> json" where
  "claim_out R c =
     JObj [(''id'', JUuid (cl_id c)), (''category'', JStr (category_value (cl_category c))),
           (''predicate'', JStr (cl_predicate c)), (''text'', JStr (cl_text c)),
           (''value_num'', decimal_or_null R (cl_value_num c)), (''value_unit'', text_or_null (cl_value_unit c)),
           (''value_text'', text_or_null (cl_value_text c)), (''status'', JStr (claim_status_value (cl_status c))),
           (''trust_score'', rd_decimal R (cl_trust_score c)), (''trust_inputs'', cl_trust_inputs c),
           (''contradiction_of'', uuid_or_null (cl_contradiction_of c)),
           (''verification_note'', text_or_null (cl_verification_note c)),
           (''created_at'', rd_stamp R ''created_at'' (cl_id c)), (''updated_at'', rd_stamp R ''updated_at'' (cl_id c))]"

definition evidence_out :: "rendering \<Rightarrow> Evidence \<Rightarrow> json" where
  "evidence_out R e =
     JObj [(''id'', JUuid (ev_id e)), (''claim_id'', JUuid (ev_claim_id e)), (''source_id'', JUuid (ev_source_id e)),
           (''locator'', ev_locator e), (''snippet'', JStr (ev_snippet e)), (''supports'', JBool (ev_supports e)),
           (''independence_group'', text_or_null (ev_independence_group e)),
           (''observed_at'', time_or_null R (ev_observed_at e)), (''retrieved_at'', rd_stamp R ''retrieved_at'' (ev_id e))]"

text \<open>The parameter gives the fields \<open>id\<close> and \<open>created_at\<close> of the step that the job and its number name.\<close>

definition agent_step_out :: "rendering \<Rightarrow> AgentStep \<Rightarrow> json" where
  "agent_step_out R s =
     JObj (rd_step R (st_job_id s) (st_seq s) @
       [(''job_id'', JUuid (st_job_id s)), (''seq'', jint (int (st_seq s))), (''agent'', JStr (st_agent s)),
        (''action'', JStr (st_action s)), (''status'', JStr (st_status s)), (''progress'', rd_decimal R (st_progress s)),
        (''message'', text_or_null (st_message s)), (''output_summary'', st_output_summary s),
        (''evidence_ids'', jtexts (st_evidence_ids s)), (''cost_usd'', rd_decimal R (st_cost_usd s)),
        (''duration_ms'', nullable jint (st_duration_ms s)), (''error'', text_or_null (st_error s))])"

section \<open>Memos, theses, applications, jobs\<close>

text \<open>A section has the fields of an edit once it was edited; \<open>str(None)\<close> names an editor without a user.\<close>

definition section_out :: "rendering \<Rightarrow> memo_section \<Rightarrow> json" where
  "section_out R s =
     JObj ([(''key'', JStr (sec_key s)), (''title'', JStr (sec_title s)), (''markdown'', JStr (sec_markdown s)),
            (''claim_ids'', JList (map JUuid (sec_claim_ids s))), (''gaps'', jtexts (sec_gaps s))]
       @ (case sec_edited_by s of None \<Rightarrow> []
          | Some who \<Rightarrow> [(''edited_by'', case who of None \<Rightarrow> JStr ''None'' | Some u \<Rightarrow> JUuid u)])
       @ (case sec_edited_at s of None \<Rightarrow> [] | Some t \<Rightarrow> [(''edited_at'', jtime R t)]))"

definition gap_out :: "memo_gap \<Rightarrow> json" where
  "gap_out g =
     JObj [(''field'', JStr (gap_field g)), (''reason'', JStr (gap_reason g)), (''how_to_resolve'', JStr (gap_how_to_resolve g))]"

definition memo_out :: "rendering \<Rightarrow> Memo \<Rightarrow> json" where
  "memo_out R m =
     JObj [(''id'', JUuid (memo_id m)), (''org_id'', JUuid (memo_org_id m)),
           (''opportunity_id'', JUuid (memo_opportunity_id m)), (''version'', jint (memo_version m)),
           (''status'', JStr (memo_status m)), (''sections'', JList (map (section_out R) (memo_sections m))),
           (''recommendation'', nullable (\<lambda>k. JStr (decision_value k)) (memo_recommendation m)),
           (''recommendation_rationale'', text_or_null (memo_recommendation_rationale m)),
           (''adversarial'', memo_adversarial m), (''gaps'', JList (map gap_out (memo_gaps m))),
           (''trust_summary'', jcounts (memo_trust_summary m)),
           (''word_count'', nullable (\<lambda>n. jint (int n)) (memo_word_count m)),
           (''generated_ms'', nullable jint (memo_generated_ms m)), (''cost_usd'', decimal_or_null R (memo_cost_usd m)),
           (''model_version'', text_or_null (memo_model_version m)),
           (''created_at'', rd_stamp R ''created_at'' (memo_id m)), (''updated_at'', rd_stamp R ''updated_at'' (memo_id m))]"

definition citation_out :: "citation \<Rightarrow> json" where
  "citation_out c =
     JObj [(''claim_id'', JUuid (ct_claim_id c)), (''text'', JStr (ct_text c)), (''trust_score'', JNum (ct_trust_score c)),
           (''status'', JStr (ct_status c)),
           (''evidence'', JList (map (\<lambda>l. JObj [(''id'', JUuid (el_id l)), (''locator'', el_locator l),
              (''snippet'', JStr (el_snippet l)), (''supports'', JBool (el_supports l))]) (ct_evidence c)))]"

definition thesis_out :: "rendering \<Rightarrow> Thesis \<Rightarrow> json" where
  "thesis_out R t =
     JObj [(''id'', JUuid (th_id t)), (''org_id'', JUuid (th_org_id t)), (''name'', JStr (th_name t)),
           (''is_default'', JBool (th_is_default t)), (''sectors'', jtexts (th_sectors t)),
           (''anti_sectors'', jtexts (th_anti_sectors t)), (''stages'', jtexts (th_stages t)), (''geos'', jtexts (th_geos t)),
           (''check_size_min'', decimal_or_null R (th_check_size_min t)),
           (''check_size_max'', decimal_or_null R (th_check_size_max t)), (''currency'', JStr (th_currency t)),
           (''ownership_target_pct'', decimal_or_null R (th_ownership_target_pct t)),
           (''risk_appetite'', rd_decimal R (th_risk_appetite t)),
           (''weights'', JObj (map (\<lambda>(k, w). (k, JNum w)) (th_weights t))), (''must_haves'', jtexts (th_must_haves t)),
           (''deal_breakers'', jtexts (th_deal_breakers t)), (''notes'', text_or_null (th_notes t)),
           (''version'', jint (th_version t)), (''deleted_at'', time_or_null R (th_deleted_at t)),
           (''created_at'', rd_stamp R ''created_at'' (th_id t)), (''updated_at'', rd_stamp R ''updated_at'' (th_id t))]"

definition preview_out :: "ThesisPreview \<Rightarrow> json" where
  "preview_out p =
     JObj [(''matched_count'', jint (int (tp_matched_count p))), (''sample'', JList []),
           (''excluded_by_gate'', jcounts (tp_excluded_by_gate p))]"

definition application_out :: "rendering \<Rightarrow> Application \<Rightarrow> json" where
  "application_out R a =
     JObj [(''id'', JUuid (app_id a)), (''org_id'', JUuid (app_org_id a)), (''company_name'', JStr (app_company_name a)),
           (''contact_email'', text_or_null (app_contact_email a)), (''contact_name'', text_or_null (app_contact_name a)),
           (''website'', text_or_null (app_website a)), (''status'', JStr (application_status_value (app_status a))),
           (''opportunity_id'', uuid_or_null (app_opportunity_id a)),
           (''source_channel'', text_or_null (app_source_channel a)), (''received_at'', jtime R (app_received_at a)),
           (''created_at'', rd_stamp R ''created_at'' (app_id a)), (''updated_at'', rd_stamp R ''updated_at'' (app_id a))]"

definition accepted_out :: "uuid \<times> uuid \<times> uuid \<Rightarrow> json" where
  "accepted_out = (\<lambda>(a, opp, j).
     JObj [(''application_id'', JUuid a), (''opportunity_id'', JUuid opp), (''job_id'', JUuid j),
           (''estimated_seconds'', jint 90)])"

text \<open>The answers of the public form.\<close>

definition public_accepted_out :: "uuid \<times> string \<Rightarrow> json" where
  "public_accepted_out = (\<lambda>(a, token). JObj [(''application_id'', JUuid a), (''tracking_token'', JStr token)])"

definition public_status_out :: "rendering \<Rightarrow> PublicApplicationStatus \<Rightarrow> json" where
  "public_status_out R p =
     JObj [(''status'', JStr (application_status_value (pa_status p))), (''stage'', text_or_null (pa_stage p)),
           (''submitted_at'', jtime R (pa_submitted_at p)), (''decided_at'', time_or_null R (pa_decided_at p)),
           (''hours_remaining'', JNum (pa_hours_remaining p)),
           (''message'', JStr ''Your application is being assessed against evidence, not network access.'')]"

definition job_out :: "rendering \<Rightarrow> Job \<Rightarrow> json" where
  "job_out R j =
     JObj [(''id'', JUuid (job_id j)), (''org_id'', uuid_or_null (job_org_id j)), (''kind'', JStr (job_kind j)),
           (''status'', JStr (job_status_value (job_status j))), (''target_type'', text_or_null (job_target_type j)),
           (''target_id'', uuid_or_null (job_target_id j)), (''progress'', rd_decimal R (job_progress j)),
           (''current_step'', text_or_null (job_current_step j)), (''result'', job_result j),
           (''error_code'', text_or_null (job_error_code j)), (''error_message'', text_or_null (job_error_message j)),
           (''attempts'', jint (job_attempts j)), (''max_attempts'', jint (job_max_attempts j)),
           (''started_at'', time_or_null R (job_started_at j)), (''finished_at'', time_or_null R (job_finished_at j)),
           (''created_at'', jtime R (job_created_at j)), (''updated_at'', rd_stamp R ''updated_at'' (job_id j))]"

definition job_accepted_out :: "uuid \<Rightarrow> json" where
  "job_accepted_out j = JObj [(''job_id'', JUuid j)]"

section \<open>Founders, companies, signals, sources\<close>

definition component_out :: "component_value \<Rightarrow> json" where
  "component_out v =
     JObj [(''value'', nullable JNum (cv_value v)), (''prior'', nullable JNum (cv_prior v)), (''weight'', JNum (cv_weight v)),
           (''evidence_sources'', jint (int (cv_evidence_sources v)))]"

definition score_out :: "rendering \<Rightarrow> FounderScore \<Rightarrow> json" where
  "score_out R s =
     JObj [(''score'', jint (fs_score s)), (''ci'', JList [jint (fs_ci_low s), jint (fs_ci_high s)]),
           (''confidence'', rd_decimal R (fs_confidence s)),
           (''components'', JObj (map (\<lambda>(k, v). (k, component_out v)) (fs_components s))),
           (''cold_start'', JBool (fs_cold_start s)), (''percentile'', decimal_or_null R (fs_percentile s)),
           (''trend_30d'', jint (fs_trend_30d s)), (''trend'', JStr (trend_value (fs_trend s))),
           (''version'', jint (fs_version s)), (''computed_at'', jtime R (fs_computed_at s))]"

definition founder_card_fields :: "rendering \<Rightarrow> FounderCard \<Rightarrow> (string \<times> json) list" where
  "founder_card_fields R c =
     [(''id'', JUuid (fc_id c)), (''display_name'', JStr (fc_display_name c)), (''headline'', text_or_null (fc_headline c)),
      (''country_code'', text_or_null (fc_country_code c)), (''city'', text_or_null (fc_city c)),
      (''skills'', jtexts (fc_skills c)), (''score'', nullable (score_out R) (fc_score c))]"

definition profile_out :: "rendering \<Rightarrow> Person \<Rightarrow> FounderScore option \<Rightarrow> json" where
  "profile_out R p sc =
     JObj (founder_card_fields R (founder_card p sc) @
       [(''bio'', text_or_null (per_bio p)), (''location_text'', text_or_null (per_location_text p)),
        (''links'', per_links p), (''education'', JList (per_education p)), (''employment'', JList (per_employment p)),
        (''signal_count'', jint (per_signal_count p)), (''source_count'', jint (per_source_count p)),
        (''is_stub'', JBool (per_is_stub p)), (''first_seen_at'', jtime R (per_first_seen_at p)),
        (''last_signal_at'', time_or_null R (per_last_signal_at p))])"

definition history_point_out :: "rendering \<Rightarrow> FounderScoreSnapshot \<Rightarrow> json" where
  "history_point_out R s =
     JObj [(''day'', JStr (rd_date R (fss_day s))), (''score'', jint (fss_score s)),
           (''confidence'', rd_decimal R (fss_confidence s))]"

definition explanation_out :: "score_explanation \<Rightarrow> json" where
  "explanation_out x =
     JObj [(''components'', JList (map (\<lambda>l. JObj [(''key'', JStr (cp_key l)), (''value'', nullable JNum (cp_value l)),
              (''weight'', JNum (cp_weight l)), (''contribution'', nullable JNum (cp_contribution l)),
              (''evidence'', JList []), (''reason'', text_or_null (cp_reason l))]) (ex_components x))),
           (''cohort'', JObj [(''key'', JStr ''generic''), (''n'', jint 0), (''mean'', jint (int (ex_cohort_mean x)))]),
           (''cold_start'', JBool (ex_cold_start x)), (''confidence'', JNum (ex_confidence x)),
           (''ci'', JList [jint (fst (ex_ci x)), jint (snd (ex_ci x))]), (''missing'', jtexts (ex_missing x))]"

definition uplift_out :: "UpliftAction list \<Rightarrow> json" where
  "uplift_out actions =
     JObj [(''actions'', JList (map (\<lambda>a. JObj [(''action'', JStr (ua_action a)),
        (''expected_delta'', jint (ua_expected_delta a)), (''why'', JStr (ua_why a))]) actions))]"

definition company_out :: "rendering \<Rightarrow> Company \<Rightarrow> json" where
  "company_out R c =
     JObj [(''id'', JUuid (co_id c)), (''name'', JStr (co_name c)), (''normalized_name'', JStr (co_normalized_name c)),
           (''legal_name'', text_or_null (co_legal_name c)), (''domain'', text_or_null (co_domain c)),
           (''one_liner'', text_or_null (co_one_liner c)), (''description'', text_or_null (co_description c)),
           (''sectors'', jtexts (co_sectors c)), (''stage'', text_or_null (co_stage c)),
           (''hq_country'', text_or_null (co_hq_country c)), (''hq_city'', text_or_null (co_hq_city c)),
           (''founded_on'', nullable (\<lambda>x. JStr (rd_date R x)) (co_founded_on c)),
           (''founded_precision'', text_or_null (co_founded_precision c)),
           (''employee_estimate'', nullable jint (co_employee_estimate c)), (''status'', JStr (co_status c)),
           (''links'', co_links c), (''created_at'', rd_stamp R ''created_at'' (co_id c)),
           (''updated_at'', rd_stamp R ''updated_at'' (co_id c))]"

definition signal_out :: "rendering \<Rightarrow> Signal \<Rightarrow> json" where
  "signal_out R s =
     JObj [(''id'', JUuid (sig_id s)), (''org_id'', uuid_or_null (sig_org_id s)), (''source_id'', JUuid (sig_source_id s)),
           (''kind'', JStr (signal_kind_value (sig_kind s))), (''external_id'', text_or_null (sig_external_id s)),
           (''url'', text_or_null (sig_url s)), (''title'', text_or_null (sig_title s)), (''body'', text_or_null (sig_body s)),
           (''payload'', sig_payload s), (''person_id'', uuid_or_null (sig_person_id s)),
           (''company_id'', uuid_or_null (sig_company_id s)), (''strength'', decimal_or_null R (sig_strength s)),
           (''observed_at'', jtime R (sig_observed_at s)), (''ingested_at'', rd_stamp R ''ingested_at'' (sig_id s))]"

definition source_out :: "rendering \<Rightarrow> Source \<Rightarrow> json" where
  "source_out R s =
     JObj [(''id'', JUuid (src_id s)), (''key'', JStr (src_key s)), (''display_name'', JStr (src_display_name s)),
           (''tier'', JStr (source_tier_value (src_tier s))), (''base_url'', text_or_null (src_base_url s)),
           (''status'', JStr (source_status_value (src_status s))), (''reliability'', rd_decimal R (src_reliability s)),
           (''rate_limit'', src_rate_limit s), (''requires_key'', JBool (src_requires_key s)),
           (''tos_note'', text_or_null (src_tos_note s)), (''last_ok_at'', time_or_null R (src_last_ok_at s)),
           (''last_error_at'', time_or_null R (src_last_error_at s)), (''last_error'', text_or_null (src_last_error s))]"

definition tested_out :: "bool \<Rightarrow> SourceStatus \<Rightarrow> json" where
  "tested_out configured status =
     JObj [(''ok'', JBool configured), (''latency_ms'', jint 0), (''sample'', JNull),
           (''status'', JStr (source_status_value status))]"

section \<open>Search\<close>

fun filter_value_out :: "filter_value \<Rightarrow> json" where
  "filter_value_out (FList xs) = jtexts xs"
| "filter_value_out (FStr s) = JStr s"
| "filter_value_out (FBool b) = JBool b"

definition search_out :: "rendering \<Rightarrow> QueryPlan \<Rightarrow> search_item list \<Rightarrow> json" where
  "search_out R plan items =
     JObj [(''interpreted'', JObj [(''filters'', JObj (map (\<lambda>(k, v). (k, filter_value_out v)) (qp_filters plan))),
              (''residual_semantic'', JStr (qp_residual plan)), (''unresolved'', jtexts (qp_unresolved plan)),
              (''confidence'', JNum (qp_confidence plan))]),
           (''items'', JList (map (\<lambda>i. JObj [(''opportunity'', JObj (card_fields R (si_card i))),
              (''match'', JObj [(''score'', JNum (si_score i)),
                 (''matched'', JList (map (\<lambda>(attribute, why). JObj [(''attribute'', JStr attribute), (''evidence_id'', JNull),
                    (''why'', JStr why)]) (si_matched i))),
                 (''unmatched'', jtexts (si_unmatched i))])]) items)),
           (''took_ms'', JNum (rd_took_ms R)), (''used_llm'', JBool False), (''degraded'', JBool False)]"

definition kb_hit_out :: "rendering \<Rightarrow> kb_hit \<Rightarrow> json" where
  "kb_hit_out R h =
     JObj [(''id'', JUuid (kh_id h)), (''content'', JStr (kh_content h)), (''source'', uuid_or_null (kh_source h)),
           (''url'', text_or_null (kh_url h)), (''observed_at'', time_or_null R (kh_observed_at h)),
           (''score'', JNum (kh_score h)),
           (''locator'', JObj [(''document_id'', uuid_or_null (kh_document_id h)),
                             (''page'', nullable (\<lambda>n. jint (int n)) (kh_page h))])]"

definition kb_out :: "rendering \<Rightarrow> kb_hit list \<Rightarrow> bool \<Rightarrow> string list \<Rightarrow> json" where
  "kb_out R hits degraded reasons =
     JObj [(''chunks'', JList (map (kb_hit_out R) hits)), (''used_web'', JBool False), (''cost_usd'', jint 0),
           (''degraded'', JBool degraded), (''degradation_reasons'', jtexts reasons)]"

fun suggestion_out :: "suggestion_kind \<times> uuid \<times> string \<Rightarrow> json" where
  "suggestion_out (SuggestCompany, i, label) =
     JObj [(''type'', JStr ''company''), (''id'', JUuid i), (''label'', JStr label)]"
| "suggestion_out (SuggestPerson, i, label) =
     JObj [(''type'', JStr ''person''), (''id'', JUuid i), (''label'', JStr label)]"

section \<open>Graphs, outreach, administration\<close>

definition channel_graph_out :: "channel_node list \<Rightarrow> suggestion list \<Rightarrow> string \<Rightarrow> json" where
  "channel_graph_out nodes suggested window =
     JObj [(''nodes'', JList (map (\<lambda>n. JObj [(''id'', JUuid (cn_id n)), (''label'', JStr (cn_label n)),
              (''kind'', JStr (cn_kind n)), (''quality'', JNum (cn_quality n)),
              (''ci'', JList [JNum (fst (cn_ci n)), JNum (snd (cn_ci n))]), (''discovered'', jint (cn_discovered n)),
              (''advanced'', jint (cn_advanced n))]) nodes)),
           (''edges'', JList []),
           (''suggested'', JList (map (\<lambda>g. JObj [(''channel_id'', JUuid (sg_channel_id g)), (''reason'', JStr (sg_reason g)),
              (''expected_yield'', JNum (sg_expected_yield g))]) suggested)),
           (''window'', JStr window)]"

definition founder_graph_out :: "uuid \<times> string \<Rightarrow> (uuid \<times> string \<times> rat) list \<Rightarrow> json" where
  "founder_graph_out person affs =
     JObj [(''nodes'', JList [JObj [(''id'', JUuid (fst person)), (''label'', JStr (snd person)), (''kind'', JStr ''person'')]]),
           (''edges'', JList (map (\<lambda>(company, role, weight). JObj [(''from'', JUuid (fst person)), (''to'', JUuid company),
              (''kind'', JStr role), (''weight'', JNum weight)]) affs))]"

definition outreach_out :: "Outreach \<Rightarrow> json" where
  "outreach_out r =
     JObj [(''id'', JUuid (out_id r)), (''person_id'', JUuid (out_person_id r)),
           (''opportunity_id'', uuid_or_null (out_opportunity_id r)), (''status'', JStr (outreach_status_value (out_status r))),
           (''subject'', JStr (out_subject r)), (''body'', JStr (out_body r)),
           (''cited_signal_ids'', JList (map JUuid (out_cited_signal_ids r)))]"

definition outreach_done_out :: "bool \<Rightarrow> uuid \<Rightarrow> outreach_action \<Rightarrow> OutreachStatus \<Rightarrow> json" where
  "outreach_done_out demo i action status =
     JObj ([(''id'', JUuid i), (''status'', JStr (outreach_status_value status))]
       @ (if action = Send then [(''delivery'', JStr (if demo then ''demo_noop'' else ''external_adapter''))] else []))"

definition usage_out :: "usage_figures \<Rightarrow> int \<Rightarrow> json" where
  "usage_out u n =
     JObj [(''by_day'', JList []), (''by_purpose'', JList []), (''per_opportunity_avg_usd'', jint 0),
           (''median_time_to_decision_h'', nullable JNum (us_median_time_to_decision_h u)),
           (''sla_breaches'', jint (int (us_sla_breaches u))), (''window_days'', jint n)]"

definition queue_out :: "queue_counts \<Rightarrow> json" where
  "queue_out q =
     JObj [(''queued'', jint (int (qs_queued q))), (''running'', jint (int (qs_running q))),
           (''failed_24h'', jint (int (qs_failed_24h q))), (''oldest_queued_s'', JNum (qs_oldest_queued_s q))]"

definition export_out :: "rendering \<Rightarrow> person_export \<Rightarrow> json" where
  "export_out R x =
     JObj [(''person'', JObj [(''id'', JUuid (pe_id x)), (''display_name'', JStr (pe_display_name x)),
              (''headline'', text_or_null (pe_headline x)), (''bio'', text_or_null (pe_bio x)), (''links'', pe_links x)]),
           (''signals'', JList (map (\<lambda>(i, kind, url, t). JObj [(''id'', JUuid i), (''kind'', JStr (signal_kind_value kind)),
              (''url'', text_or_null url), (''observed_at'', jtime R t)]) (pe_signals x)))]"

section \<open>Fixed reports\<close>

definition healthz :: json where
  "healthz = JObj [(''status'', JStr ''ok'')]"

definition version_out :: "string \<Rightarrow> string \<Rightarrow> string \<Rightarrow> json" where
  "version_out app_version git_sha built_at =
     JObj [(''version'', JStr app_version), (''git_sha'', JStr git_sha), (''built_at'', JStr built_at),
           (''model_versions'', JObj [(''founder'', JStr ''founder-v1''), (''axes'', JStr ''axes-deterministic-v1''),
              (''trust'', JStr ''trust-v1''), (''memo'', JStr ''memo-deterministic-v1'')])]"

definition privacy :: json where
  "privacy =
     JObj [(''purpose'', JStr ''Professional information is processed for investment assessment and decision support.''),
           (''sources'', jtexts [''founder submissions'', ''public professional APIs'', ''public company records'']),
           (''excluded'', jtexts [''special-category data'', ''home addresses'', ''personal phone numbers'']),
           (''human_review'', JStr ''The system recommends; a human makes final adverse decisions.'')]"

section \<open>The answer of a route\<close>

definition collection_out :: "('a \<Rightarrow> json) \<Rightarrow> 'a list \<Rightarrow> json" where
  "collection_out f rows = JList (map f rows)"

text \<open>What the handler returned, as the body; \<open>None\<close> for an answer without one.\<close>

primrec respond :: "world \<Rightarrow> rendering \<Rightarrow> endpoint \<Rightarrow> response \<Rightarrow> json option" where
  "respond W R e Done = None"
| "respond W R e (AnUuid j) =
     Some (case e of
             GdprErase i \<Rightarrow> JObj [(''person_id'', JUuid i), (''status'', JStr ''erased''), (''recoverable'', JBool False)]
           | _ \<Rightarrow> job_accepted_out j)"
| "respond W R e (AText status) =
     Some (JObj ((case e of MergeAction i action \<Rightarrow> [(''merge_id'', JUuid i)] | _ \<Rightarrow> []) @ [(''status'', JStr status)]))"
| "respond W R e (AJobStart j replayed) = Some (job_accepted_out j)"
| "respond W R e (AnOpportunity x) = Some (detail_out R x)"
| "respond W R e (Timeline xs) = Some (collection_out (timeline_out R) xs)"
| "respond W R e (Scores now rows) = Some (score_history_out R now rows)"
| "respond W R e (Claims xs) = Some (collection_out (claim_out R) xs)"
| "respond W R e (Evidences xs) = Some (collection_out (evidence_out R) xs)"
| "respond W R e (Trace xs) = Some (collection_out (agent_step_out R) xs)"
| "respond W R e (AMemo m) = Some (memo_out R m)"
| "respond W R e (Citations xs) = Some (collection_out citation_out xs)"
| "respond W R e (AThesis t) = Some (thesis_out R t)"
| "respond W R e (APreview p) = Some (preview_out p)"
| "respond W R e (Outreached st) =
     (case e of OnRow i r \<Rightarrow>
        (case r of OutreachDo action \<Rightarrow> Some (outreach_done_out (set_demo_mode (env_settings (wd_env W))) i action st)
         | _ \<Rightarrow> None)
      | _ \<Rightarrow> None)"
| "respond W R e (AnApplication a) = Some (application_out R a)"
| "respond W R e (Questions xs) = Some (JObj [(''questions'', jtexts xs)])"
| "respond W R e (AJob j) = Some (job_out R j)"
| "respond W R e (Opportunities l) = Some (list_out R l)"
| "respond W R e (Theses xs) = Some (collection_out (thesis_out R) xs)"
| "respond W R e (Submitted x) = Some (case x of (a, opp, j, replayed) \<Rightarrow> accepted_out (a, opp, j))"
| "respond W R e (Applications xs) = Some (cursor_page_out (map (application_out R) xs))"
| "respond W R e (Jobs xs) = Some (cursor_page_out (map (job_out R) xs))"
| "respond W R e (FounderCards xs) = Some (cursor_page_out (map (\<lambda>c. JObj (founder_card_fields R c)) xs))"
| "respond W R e (Profile x) = Some (profile_out R (fst x) (snd x))"
| "respond W R e (Snapshots xs) = Some (collection_out (history_point_out R) xs)"
| "respond W R e (Explanation x) = Some (explanation_out x)"
| "respond W R e (Uplift xs) = Some (uplift_out xs)"
| "respond W R e (ACompany c) = Some (company_out R c)"
| "respond W R e (SignalRows xs) = Some (cursor_page_out (map (signal_out R) xs))"
| "respond W R e (SourceRows xs) = Some (collection_out (source_out R) xs)"
| "respond W R e (Tested x) = Some (tested_out (fst x) (snd x))"
| "respond W R e (Found x) = Some (search_out R (fst x) (snd x))"
| "respond W R e (Hits x) = Some (case x of (hits, degraded, reasons) \<Rightarrow> kb_out R hits degraded reasons)"
| "respond W R e (Suggestions xs) = Some (collection_out suggestion_out xs)"
| "respond W R e (Graph x) =
     (case e of ChannelGraph window \<Rightarrow> Some (channel_graph_out (fst x) (snd x) window) | _ \<Rightarrow> None)"
| "respond W R e (FounderNode x) = Some (founder_graph_out (fst x) (snd x))"
| "respond W R e (Outreaches xs) = Some (collection_out outreach_out xs)"
| "respond W R e (Figures u) = (case e of Usage n \<Rightarrow> Some (usage_out u n) | _ \<Rightarrow> None)"
| "respond W R e (Queue q) = Some (queue_out q)"
| "respond W R e (Uuids xs) =
     Some (case e of
             MergeFounder i loser \<Rightarrow> JObj [(''winner_id'', JUuid i), (''loser_id'', JUuid loser), (''status'', JStr ''merged'')]
           | _ \<Rightarrow> collection_out JUuid xs)"
| "respond W R e (Export x) = Some (export_out R x)"
| "respond W R e (AnOrg g) = map_option (org_out R) g"
| "respond W R e (Users xs) = Some (collection_out (user_out R) xs)"
| "respond W R e (Invited x) = Some (invite_out R (fst x) (snd x))"
| "respond W R e (MyAccount x) = Some (case x of (u, g, permissions) \<Rightarrow> me_out R u g permissions)"
| "respond W R e (AUser u) = map_option (user_out R) u"
| "respond W R e (SessionRows xs) = Some (collection_out (session_out R) xs)"

section \<open>Status, headers, errors\<close>

text \<open>The \<open>status_code\<close> of the route's decorator; 200 without one.\<close>

fun route_status :: "route \<Rightarrow> nat" where
  "route_status (OpportunityScreen _ _) = 202"
| "route_status (OpportunityDiligence _ _) = 202"
| "route_status (OpportunityMemo _ _) = 202"
| "route_status (MemoRegenerate _ _) = 202"
| "route_status (MemoExport _) = 202"
| "route_status JobCancel = 202"
| "route_status JobRetry = 202"
| "route_status ThesisDelete = 204"
| "route_status ApplicationDelete = 204"
| "route_status _ = 200"

fun success_status :: "endpoint \<Rightarrow> nat" where
  "success_status (OnRow i r) = route_status r"
| "success_status (CreateOpportunity _) = 201"
| "success_status (CreateThesis _) = 201"
| "success_status (CreateInvite _ _) = 201"
| "success_status (SubmitApplication _ _ _ _) = 202"
| "success_status (RescoreFounder _) = 202"
| "success_status (Harvest _) = 202"
| "success_status (DeactivateUser _) = 204"
| "success_status (Logout _ _) = 204"
| "success_status (DeleteSession _) = 204"
| "success_status _ = 200"

definition error_out :: "error_body \<Rightarrow> json" where
  "error_out b =
     JObj [(''error'', JObj [(''code'', JStr (eb_code b)), (''message'', JStr (eb_message b)),
        (''field_errors'', JList (map (\<lambda>(field, code, message). JObj [(''field'', JStr field), (''code'', JStr code),
           (''message'', JStr message)]) (eb_field_errors b))),
        (''details'', JObj (map (\<lambda>(k, v). (k, JStr v)) (eb_details b))), (''retryable'', JBool (eb_retryable b)),
        (''retry_after_s'', nullable (\<lambda>n. jint (int n)) (eb_retry_after_s b)), (''request_id'', JStr (eb_request_id b)),
        (''docs'', JStr (eb_docs b))])]"

record api_answer =
  ans_status :: nat
  ans_headers :: "(string \<times> string) list"
  ans_body :: "json option"

text \<open>The handlers that took the job of an earlier request say so in a header.\<close>

definition replayed_answer :: "response \<Rightarrow> bool" where
  "replayed_answer x \<longleftrightarrow>
     (case x of AJobStart j replayed \<Rightarrow> replayed | Submitted (a, opp, j, replayed) \<Rightarrow> replayed | _ \<Rightarrow> False)"

text \<open>An error for which no handler is installed is the server's plain 500.\<close>

definition answer_of :: "world \<Rightarrow> rendering \<Rightarrow> string option \<Rightarrow> endpoint \<Rightarrow> exn + response \<Rightarrow> api_answer" where
  "answer_of W R request_id e r =
     (case r of
        Inr x \<Rightarrow> \<lparr>ans_status = success_status e,
                  ans_headers = (if replayed_answer x then [(''Idempotent-Replay'', ''true'')] else []),
                  ans_body = respond W R e x\<rparr>
      | Inl err \<Rightarrow>
          (case handled_error err of
             None \<Rightarrow> \<lparr>ans_status = 500, ans_headers = [], ans_body = None\<rparr>
           | Some er \<Rightarrow> (case handle_app_error request_id er of (st, body, headers) \<Rightarrow>
                          \<lparr>ans_status = st, ans_headers = headers, ans_body = Some (error_out body)\<rparr>)))"

text \<open>A concrete rendering, for examples: times and dates as numbers, and no stamps.\<close>

definition demo_rendering :: rendering where
  "demo_rendering =
     \<lparr>rd_time = (\<lambda>t. str_nat (nat t)), rd_date = (\<lambda>n. str_nat (nat n)), rd_decimal = JNum,
      rd_stamp = (\<lambda>column i. JNull), rd_step = (\<lambda>job n. [(''seq'', JNum (of_nat n))]), rd_took_ms = 1\<rparr>"

end
