(* ===== verification/Secrets.thy ===== *)
theory Secrets
  imports Responses Dependence
begin

text \<open>
  What never leaves the service: the hashes of passwords and tokens, the secrets of a second factor, the addresses of
  applicants, the places of documents, the audit log. \<open>redact\<close> removes them from the database; no answer of a route that
  reads tells the difference.
\<close>

section \<open>A database without its secrets\<close>

definition hide_user :: "User \<Rightarrow> User" where
  "hide_user u = u\<lparr>usr_password_hash := None, usr_last_login_at := None, usr_failed_logins := 0,
     usr_locked_until := None, usr_mfa_secret := None\<rparr>"

definition hide_token :: "RefreshToken \<Rightarrow> RefreshToken" where
  "hide_token t = t\<lparr>rt_id := 0, rt_token_hash := [], rt_parent_id := None\<rparr>"

definition hide_application :: "Application \<Rightarrow> Application" where
  "hide_application a =
     a\<lparr>app_deck_document_id := None, app_extra := JNull, app_submitted_ip := None, app_tracking_token_hash := None\<rparr>"

definition redact :: "db \<Rightarrow> db" where
  "redact d =
     d\<lparr>users := map hide_user (users d), refresh_tokens := map hide_token (refresh_tokens d), api_keys := [],
       audit_log := [], documents := [], document_pages := [], applications := map hide_application (applications d),
       llm_calls := [], email_tokens := [], org_invites := []\<rparr>"

lemma redact_rows [simp]:
  "users (redact d) = map hide_user (users d)" "refresh_tokens (redact d) = map hide_token (refresh_tokens d)"
  "applications (redact d) = map hide_application (applications d)"
  "orgs (redact d) = orgs d" "signals (redact d) = signals d" "theses (redact d) = theses d"
  "opportunities (redact d) = opportunities d" "opportunity_scores (redact d) = opportunity_scores d"
  "claims (redact d) = claims d" "evidence (redact d) = evidence d" "memos (redact d) = memos d"
  "kb_chunks (redact d) = kb_chunks d" "jobs (redact d) = jobs d" "agent_steps (redact d) = agent_steps d"
  "outreach (redact d) = outreach d" "persons (redact d) = persons d" "companies (redact d) = companies d"
  "affiliations (redact d) = affiliations d" "founder_scores (redact d) = founder_scores d"
  "sources (redact d) = sources d" "founder_score_snapshots (redact d) = founder_score_snapshots d"
  "sourcing_channels (redact d) = sourcing_channels d"
  by (simp_all add: redact_def)

lemma hidden [simp]:
  "usr_id (hide_user u) = usr_id u" "usr_org_id (hide_user u) = usr_org_id u" "usr_role (hide_user u) = usr_role u"
  "user_out R (hide_user u) = user_out R u"
  "rt_user_id (hide_token t) = rt_user_id t" "rt_revoked_at (hide_token t) = rt_revoked_at t"
  "rt_created_at (hide_token t) = rt_created_at t" "rt_family_id (hide_token t) = rt_family_id t"
  "session_out R (hide_token t) = session_out R t"
  "app_id (hide_application a) = app_id a" "app_org_id (hide_application a) = app_org_id a"
  "app_deleted_at (hide_application a) = app_deleted_at a" "app_status (hide_application a) = app_status a"
  "app_received_at (hide_application a) = app_received_at a" "application_out R (hide_application a) = application_out R a"
  by (simp_all add: hide_user_def hide_token_def hide_application_def user_out_def session_out_def application_out_def)

text \<open>Rows that are changed one by one.\<close>

lemma first_row_map: "first_row P (map h rows) = map_option h (first_row (\<lambda>r. P (h r)) rows)"
  unfolding first_row_def by (induction rows) auto

lemma get_row_map: "(\<And>r. pk (h r) = pk r) \<Longrightarrow> get_row pk k (map h rows) = map_option h (get_row pk k rows)"
  unfolding get_row_def by (induction rows) auto

section \<open>Queries that do not see the secrets\<close>

lemma redacted_rows [simp]:
  "find_opportunity x i (redact d) = find_opportunity x i d" "find_thesis x i (redact d) = find_thesis x i d"
  "find_memo x i (redact d) = find_memo x i d" "find_job x i (redact d) = find_job x i d"
  "find_person i (redact d) = find_person i d" "score_of_person i (redact d) = score_of_person i d"
  "founder_rows f (redact d) = founder_rows f d" "source_by_key k (redact d) = source_by_key k d"
  "memo_versions_of x i (redact d) = memo_versions_of x i d" "claims_of i (redact d) = claims_of i d"
  "citation_of (redact d) = citation_of d" "score_rows i (redact d) = score_rows i d"
  by (simp_all add: find_opportunity_def find_thesis_def find_memo_def find_job_def own_row_def find_person_def
      score_of_person_def founder_rows_def source_by_key_def memo_versions_of_def claims_of_def citation_of_def
      score_rows_def fun_eq_iff)

lemma redacted_cards [simp]:
  "card_of E p c (redact d) = card_of E p c d" "detail_of shown p (redact d) = detail_of shown p d"
  "select_memo v x i (redact d) = select_memo v x i d"
  "page_rows E x flt cur n (redact d) = page_rows E x flt cur n d"
  "ranking x plan (redact d) = ranking x plan d" "search_kb x q company person n (redact d) = search_kb x q company person n d"
  "queue_summary E (redact d) = queue_summary E d"
  by (simp_all add: card_of_def founders_def axes_def trust_summary_def detail_of_def newest_memo_def select_memo_def
      page_rows_def listing_def selected_def [abs_def] ranking_def candidates_def search_kb_def queue_summary_def
      count_status_def split: option.split cong: if_cong)

section \<open>What is shown\<close>

text \<open>The answer after rendering does not see the change.\<close>

definition shown :: "(db \<Rightarrow> db) \<Rightarrow> ('a \<Rightarrow> 'b) \<Rightarrow> 'a run \<Rightarrow> session \<Rightarrow> bool" where
  "shown h f m s \<longleftrightarrow>
     map_sum id f (fst (m (s\<lparr>s_db := h (s_db s), s_committed := h (s_committed s)\<rparr>))) = map_sum id f (fst (m s))"

lemma shown_blind: "blind h m s \<Longrightarrow> shown h f m s"
  by (simp add: blind_def shown_def)

lemma shown_query: "f (q (h (s_db s))) = f (q (s_db s)) \<Longrightarrow> shown h f (query q) s"
  by (simp add: shown_def run_simps)

lemma shown_andThen:
  assumes "reads m" "blind h m s" "\<And>x. fst (m s) = Inr x \<Longrightarrow> shown h f (g x) s"
  shows "shown h f (andThen m g) s"
proof -
  let ?t = "s\<lparr>s_db := h (s_db s), s_committed := h (s_committed s)\<rparr>"
  have m: "m s = (fst (m s), s)" "m ?t = (fst (m s), ?t)"
    using assms(1,2) by (auto simp: reads_def blind_def prod_eq_iff)
  show ?thesis
  proof (cases "fst (m s)")
    case (Inl e)
    then show ?thesis using m by (simp add: shown_def andThen_stops)
  next
    case (Inr x)
    then show ?thesis using m assms(3) [OF Inr] by (simp add: shown_def andThen_goes)
  qed
qed

lemma shown_answering: "shown h (\<lambda>x. f (C x)) m s \<Longrightarrow> shown h f (answering C m) s"
proof -
  have "map_sum id f (fst (answering C m t)) = map_sum id (\<lambda>x. f (C x)) (fst (m t))" for t
    by (simp add: answering_def andThen_def ret_def split: prod.split sum.split)
  then show "shown h (\<lambda>x. f (C x)) m s \<Longrightarrow> ?thesis" by (simp add: shown_def)
qed

section \<open>The routes\<close>

lemma blind_rows_redacted [simp]:
  "blind redact (get_opportunity x i) s" "blind redact (get_thesis_row x i) s"
  "blind redact (get_memo_row x i) s" "blind redact (get_person i) s"
  unfolding get_opportunity_def get_thesis_row_def get_memo_row_def get_person_def
  by (auto intro!: blind_andThen blind_query)

lemma blind_cards_redacted [simp]: "blind redact (build_card E p) s" "blind redact (build_detail E p) s"
  unfolding build_detail_def build_card_def by (auto intro!: blind_andThen blind_query reads_andThen)

lemma redacted_row: "needs_row r = READ \<Longrightarrow> r \<noteq> ApplicationGet \<Longrightarrow> blind redact (route_run W pr i r) s"
  by (cases r) (auto simp: by_id_defs intro!: blind_answering blind_andThen blind_query reads_andThen)

lemma redacted_lists:
  "blind redact (list_opportunities E isofmt x flt c n) s" "blind redact (search_opportunities E x q n) s"
proof -
  show "blind redact (list_opportunities E isofmt x flt c n) s"
    unfolding list_opportunities_def read_cursor_def
    by (intro blind_andThen blind_query blind_map_run)
      (auto intro!: blind_andThen blind_query reads_map_run split: option.split)
  show "blind redact (search_opportunities E x q n) s"
    unfolding search_opportunities_def Let_def
    by (intro blind_andThen blind_query blind_map_run)
      (auto intro!: blind_andThen blind_query reads_map_run reads_andThen)
qed

text \<open>The routes that show rows with secrets: the users, the sessions, the own account, the applications.\<close>

fun shows_account :: "endpoint \<Rightarrow> bool" where
  "shows_account (OnRow i r) = (r = ApplicationGet)"
| "shows_account (ListApplications _ _) = True"
| "shows_account ListUsers = True"
| "shows_account Me = True"
| "shows_account Sessions = True"
| "shows_account _ = False"

lemma redacted_endpoint: "reading e \<Longrightarrow> \<not> shows_account e \<Longrightarrow> blind redact (endpoint_run W pr e) s"
  by (cases e) (auto simp: collection_defs redacted_row redacted_lists
      intro!: blind_answering blind_andThen blind_query reads_andThen)

text \<open>What of an answer is shown.\<close>

abbreviation "visible W R e \<equiv> (\<lambda>x. (replayed_answer x, respond W R e x))"

lemma newest_map:
  "map (session_out R) (newest_per_family seen (map hide_token ts)) = map (session_out R) (newest_per_family seen ts)"
  by (induction ts arbitrary: seen) auto

lemma shown_account:
  assumes "reading e" "shows_account e"
  shows "shown redact (visible W R e) (endpoint_run W pr e) s"
proof (cases e)
  case (OnRow i r)
  have "map_option (application_out R) (first_row (\<lambda>a. app_id a = i \<and> app_org_id a = pr_org_id pr \<and> app_deleted_at a = None) (map hide_application rows))
      = map_option (application_out R) (first_row (\<lambda>a. app_id a = i \<and> app_org_id a = pr_org_id pr \<and> app_deleted_at a = None) rows)" for rows
    by (simp add: first_row_map option.map_comp o_def)
  from this [of "applications (s_db s)"] OnRow assms show ?thesis
    by (auto simp: get_application_def shown_def answering_def run_simps require_def replayed_answer_def split: option.splits)
next
  case (ListApplications status n)
  then show ?thesis
    by (auto simp: list_applications_def replayed_answer_def filter_map sort_key_map take_map o_def
        intro!: shown_answering shown_andThen shown_query)
next
  case ListUsers
  then show ?thesis
    by (auto simp: list_users_def replayed_answer_def filter_map collection_out_def o_def
        intro!: shown_answering shown_andThen shown_query)
next
  case Me
  then show ?thesis
    by (auto simp: me_endpoint_def shown_def answering_def run_simps signed_in_def account_row_def get_row_map me_out_def
        replayed_answer_def split: option.splits)
next
  case Sessions
  then show ?thesis
    by (auto simp: sessions_endpoint_def replayed_answer_def filter_map sort_key_map collection_out_def newest_map o_def live_def
        signed_in_def shown_blind intro!: shown_answering shown_query split: option.split)
qed (use assms in simp_all)

section \<open>No secret is shown\<close>

text \<open>C6: no answer of a route that reads contains a secret: status, headers and body are those that the database
  without its password and token hashes, second factors, addresses of applicants, keys and links would give.\<close>

theorem no_secret_is_shown:
  assumes "reading e"
  shows "answer_of W R request_id e (fst (request (endpoint_run W pr e) d))
     = answer_of W R request_id e (fst (request (endpoint_run W pr e) (redact d)))"
proof -
  have "shown redact (visible W R e) (endpoint_run W pr e) (open_session d [])"
    using redacted_endpoint [OF assms] shown_account [OF assms] shown_blind by blast
  moreover have "fst (request m d') = fst (m (open_session d' []))" for d' and m :: "response run"
    by (simp add: request_def split: prod.split sum.split)
  ultimately show ?thesis
    by (auto simp: shown_def open_session_def answer_of_def map_sum_def split: sum.splits)
qed

theorem no_secret_is_shown_witness:
  "answer_of demo_world demo_rendering None ListUsers (fst (request (endpoint_run demo_world (demo_pr VIEWER) ListUsers) viewer_db))
     = answer_of demo_world demo_rendering None ListUsers (fst (request (endpoint_run demo_world (demo_pr VIEWER) ListUsers) (redact viewer_db)))
   \<and> map usr_password_hash (users viewer_db) = [Some ''#secret''] \<and> map usr_password_hash (users (redact viewer_db)) = [None]"
  by (intro conjI no_secret_is_shown) (simp_all add: viewer_db_def new_user_def hide_user_def)

end
