(* ===== verification/Failures.thy ===== *)
theory Failures
  imports Responses
begin

text \<open>
  How a route that reads can fail: \<open>read_statuses\<close> lists the statuses of its answers. No input makes one fail with a
  server error.
\<close>

section \<open>Computations that fail with a given status only\<close>

definition fails_with :: "nat set \<Rightarrow> 'a run \<Rightarrow> bool" where
  "fails_with S m \<longleftrightarrow> (\<forall>s er. fst (m s) = Inl er \<longrightarrow> (\<exists>a. er = App a \<and> err_status a \<in> S))"

lemma fails_ret [intro, simp]: "fails_with S (ret x)" "fails_with S (query q)"
  by (simp_all add: fails_with_def run_simps)

lemma fails_throw [intro]: "err_status a \<in> S \<Longrightarrow> fails_with S (throw (App a))"
  by (simp add: fails_with_def run_simps)

lemma fails_require [intro]: "403 \<in> S \<Longrightarrow> fails_with S (require p pr)"
  by (simp add: fails_with_def require_def run_simps error_defs)

lemma fails_found [intro]: "404 \<in> S \<Longrightarrow> fails_with S (found n x)"
  by (simp add: fails_with_def run_simps error_defs split: option.split)

lemma fails_check [intro]: "err_status er \<in> S \<Longrightarrow> fails_with S (check c er)"
  by (simp add: fails_with_def run_simps)

lemma fails_andThen [intro]:
  assumes "fails_with S m" "\<And>x. fails_with S (f x)"
  shows "fails_with S (andThen m f)"
  unfolding fails_with_def
proof (intro allI impI)
  fix s er
  assume fail: "fst (andThen m f s) = Inl er"
  obtain r s1 where m: "m s = (r, s1)" by (cases "m s")
  show "\<exists>a. er = App a \<and> err_status a \<in> S"
  proof (cases r)
    case (Inl e0)
    then have "fst (m s) = Inl er" using fail m by (simp add: andThen_stops)
    then show ?thesis using assms(1) by (simp add: fails_with_def)
  next
    case (Inr x)
    then have "fst (f x s1) = Inl er" using fail m by (simp add: andThen_goes)
    then show ?thesis using assms(2) [of x] by (simp add: fails_with_def)
  qed
qed

lemma fails_map_run [intro]: "(\<And>x. fails_with S (f x)) \<Longrightarrow> fails_with S (map_run f xs)"
  by (induction xs) auto

lemma fails_answering [intro]: "fails_with S m \<Longrightarrow> fails_with S (answering f m)"
  unfolding answering_def by auto

lemma fails_signed_in [intro]: "401 \<in> S \<Longrightarrow> (\<And>i. fails_with S (f i)) \<Longrightarrow> fails_with S (signed_in pr f)"
  by (auto simp: signed_in_def error_defs split: option.split)

lemma fails_account_row [intro]: "401 \<in> S \<Longrightarrow> (\<And>x. fails_with S (f x)) \<Longrightarrow> fails_with S (account_row r f)"
  by (auto simp: account_row_def error_defs split: option.split)

lemma fails_rows [intro]:
  "404 \<in> S \<Longrightarrow> fails_with S (get_opportunity x i)" "404 \<in> S \<Longrightarrow> fails_with S (get_thesis_row x i)"
  "404 \<in> S \<Longrightarrow> fails_with S (get_memo_row x i)" "404 \<in> S \<Longrightarrow> fails_with S (get_person i)"
  "404 \<in> S \<Longrightarrow> fails_with S (build_card E p)" "404 \<in> S \<Longrightarrow> fails_with S (build_detail E p)"
  unfolding get_opportunity_def get_thesis_row_def get_memo_row_def get_person_def build_detail_def build_card_def
  by auto

section \<open>The routes\<close>

fun read_statuses :: "endpoint \<Rightarrow> nat set" where
  "read_statuses (OnRow _ (OpportunityMemoGet _)) = {200, 400, 403, 404}"
| "read_statuses (OnRow _ _) = {200, 403, 404}"
| "read_statuses (ListOpportunities _ _ _) = {200, 400, 403, 404}"
| "read_statuses (SearchOpportunities _ _) = {200, 403, 404}"
| "read_statuses (FounderProfile _) = {200, 403, 404}"
| "read_statuses (FounderHistory _ _) = {200, 403, 404}"
| "read_statuses (FounderUplift _) = {200, 403, 404}"
| "read_statuses (CompanyProfile _) = {200, 403, 404}"
| "read_statuses (TestSource _) = {200, 403, 404}"
| "read_statuses (FounderGraph _) = {200, 403, 404}"
| "read_statuses (GdprExport _) = {200, 403, 404}"
| "read_statuses CurrentOrg = {200, 403, 404}"
| "read_statuses (MergeAction _ _) = {200, 400, 403}"
| "read_statuses Me = {200, 401}"
| "read_statuses Sessions = {200, 401}"
| "read_statuses _ = {200, 403}"

text \<open>\<open>datetime.fromisoformat\<close> raises \<open>ValueError\<close> and nothing else.\<close>

definition iso_errors :: "env \<Rightarrow> bool" where
  "iso_errors E \<longleftrightarrow> (\<forall>t er. env_fromiso E t = Inl er \<longrightarrow> value_error er)"

lemma fails_cursor: "iso_errors E \<Longrightarrow> 400 \<in> S \<Longrightarrow> fails_with S (read_cursor E c)"
  unfolding read_cursor_def
  by (auto simp: fails_with_def run_simps parse_cursor_def decode_cursor_def iso_errors_def invalid_cursor_def
      error_defs Let_def split: option.splits sum.splits prod.splits if_splits)

lemma fails_version: "400 \<in> S \<Longrightarrow> fails_with S (andThen (query (select_memo v x i)) (\<lambda>r. andThen (lift r) f))"
  if "\<And>y. fails_with S (f y)"
proof -
  have "fails_with S (andThen (lift (select_memo v x i d)) f)" if "400 \<in> S" for d
    using that \<open>\<And>y. fails_with S (f y)\<close>
    by (auto simp: select_memo_def fails_with_def run_simps error_defs split: option.split)
  then show "400 \<in> S \<Longrightarrow> ?thesis" by (simp add: fails_with_def run_simps)
qed

lemma fails_row: "needs_row r = READ \<Longrightarrow> fails_with (read_statuses (OnRow i r)) (route_run W pr i r)"
  by (cases r) (auto simp: by_id_defs intro!: fails_answering fails_andThen fails_version fails_rows fails_require
      fails_found)

lemma fails_endpoint:
  assumes "reading e" "iso_errors (wd_env W)"
  shows "fails_with (read_statuses e) (endpoint_run W pr e)"
  using assms
  by (cases e) (auto simp: collection_defs me_endpoint_def sessions_endpoint_def fails_row list_opportunities_def
      search_opportunities_def Let_def error_defs
      intro!: fails_answering fails_andThen fails_cursor fails_map_run fails_rows fails_require fails_found fails_check
        fails_signed_in fails_account_row)

lemma read_status: "reading e \<Longrightarrow> success_status e = 200 \<and> 200 \<in> read_statuses e"
proof (cases e)
  case (OnRow i r)
  then show "reading e \<Longrightarrow> ?thesis" by (cases r) simp_all
qed simp_all

lemma credentials_status: "get_current_principal E A c x d = Inl er \<Longrightarrow> err_status er = 401"
  by (auto simp: get_current_principal_def service_login_def api_key_login_def user_login_def decode_access_token_def
      error_defs Let_def split: option.splits prod.splits if_splits sum.splits jwt_result.splits)



end
