(* ===== verification/Seeding.thy ===== *)
theory Seeding
  imports Pipeline
begin

text \<open>\<open>app/services/seeding.py\<close>: the catalogue of sources and the start-up step that adds what is missing.\<close>

record source_definition =
  sd_key :: string
  sd_display_name :: string
  sd_tier :: SourceTier
  sd_base_url :: "string option"
  sd_reliability :: rat
  sd_requires_key :: bool
  sd_tos_note :: string

definition SOURCE_CATALOGUE :: "source_definition list" where
  "SOURCE_CATALOGUE =
     [\<lparr>sd_key = ''deck'', sd_display_name = ''Founder-submitted deck'', sd_tier = SELF_REPORTED,
       sd_base_url = None, sd_reliability = 400/1000, sd_requires_key = False,
       sd_tos_note = ''Submitted with founder consent.''\<rparr>,
      \<lparr>sd_key = ''github'', sd_display_name = ''GitHub'', sd_tier = PRIMARY,
       sd_base_url = Some ''https://api.github.com'', sd_reliability = 920/1000, sd_requires_key = False,
       sd_tos_note = ''Official public API only.''\<rparr>,
      \<lparr>sd_key = ''hackernews'', sd_display_name = ''Hacker News / Algolia'', sd_tier = SELF_REPORTED,
       sd_base_url = Some ''https://hn.algolia.com/api/v1'', sd_reliability = 550/1000, sd_requires_key = False,
       sd_tos_note = ''Public Algolia endpoint.''\<rparr>,
      \<lparr>sd_key = ''arxiv'', sd_display_name = ''arXiv'', sd_tier = PRIMARY,
       sd_base_url = Some ''https://export.arxiv.org/api'', sd_reliability = 900/1000, sd_requires_key = False,
       sd_tos_note = ''Official API with polite request rate.''\<rparr>,
      \<lparr>sd_key = ''tavily'', sd_display_name = ''Tavily Web Search'', sd_tier = AGGREGATOR,
       sd_base_url = Some ''https://api.tavily.com'', sd_reliability = 650/1000, sd_requires_key = True,
       sd_tos_note = ''Search API; individual result provenance is retained.''\<rparr>]"

definition seeded_source :: "settings \<Rightarrow> source_definition \<Rightarrow> uuid \<Rightarrow> Source" where
  "seeded_source S def u =
     \<lparr>src_id = u, src_key = sd_key def, src_display_name = sd_display_name def, src_tier = sd_tier def,
      src_base_url = sd_base_url def,
      src_status = (if sd_key def = ''tavily'' \<and> set_tavily_api_key S = [] then NO_CREDENTIALS else ACTIVE),
      src_reliability = sd_reliability def, src_rate_limit = JObj [], src_requires_key = sd_requires_key def,
      src_tos_note = Some (sd_tos_note def), src_last_ok_at = None, src_last_error_at = None,
      src_last_error = None\<rparr>"

definition seed_source :: "settings \<Rightarrow> source_definition \<Rightarrow> unit run" where
  "seed_source S def = andThen (insert_new (seeded_source S def) add_source) (\<lambda>_. ret ())"

definition seed_reference_data :: "env \<Rightarrow> unit run" where
  "seed_reference_data E =
     andThen (query (\<lambda>d. map src_key (sources d))) (\<lambda>existing.
     andThen (each (filter (\<lambda>def. sd_key def \<notin> set existing) SOURCE_CATALOGUE) (seed_source (env_settings E)))
       (\<lambda>_. commit_run))"

lemma seed_source_run:
  "seed_source S def s = (Inr (), s\<lparr>s_db := add_source (seeded_source S def (next_uuid (s_db s)))
     ((s_db s)\<lparr>next_uuid := Suc (next_uuid (s_db s))\<rparr>)\<rparr>)"
  by (simp add: seed_source_def run_simps)

lemma andThen_seed_source:
  "andThen (seed_source S def) f s = f () (s\<lparr>s_db := add_source (seeded_source S def (next_uuid (s_db s)))
     ((s_db s)\<lparr>next_uuid := Suc (next_uuid (s_db s))\<rparr>)\<rparr>)"
  by (simp add: andThen_def seed_source_run)

lemma seed_each:
  "\<exists>s'. each defs (seed_source S) s = (Inr (), s') \<and> s_queue s' = s_queue s
     \<and> (\<exists>us. sources (s_db s') = sources (s_db s) @ map2 (seeded_source S) defs us \<and> length us = length defs)"
proof (induction defs arbitrary: s)
  case (Cons def defs)
  let ?s = "s\<lparr>s_db := add_source (seeded_source S def (next_uuid (s_db s))) ((s_db s)\<lparr>next_uuid := Suc (next_uuid (s_db s))\<rparr>)\<rparr>"
  obtain s' us where ih: "each defs (seed_source S) ?s = (Inr (), s')" "s_queue s' = s_queue s"
      "sources (s_db s') = sources (s_db ?s) @ map2 (seeded_source S) defs us" "length us = length defs"
    using Cons.IH [of ?s] by auto
  have "each (def # defs) (seed_source S) s = (Inr (), s')"
    using ih(1) by (simp add: andThen_seed_source)
  then show ?case using ih by (intro exI [of _ s'] conjI exI [of _ "next_uuid (s_db s) # us"]) (simp_all add: add_source_def)
qed (simp add: run_simps)

lemma keys_of_seeded: "length us = length defs \<Longrightarrow> map src_key (map2 (seeded_source S) defs us) = map sd_key defs"
  by (induction defs us rule: list_induct2') (simp_all add: seeded_source_def)

text \<open>After seeding every source of the catalogue exists once, the rows that existed are as they were, and
  seeding again adds nothing.\<close>

lemma seeding_complete:
  assumes "distinct (map src_key (sources d))"
  shows "\<exists>d'. request (seed_reference_data E) d = (Inr (), d', [])
    \<and> prefix (sources d) (sources d') \<and> distinct (map src_key (sources d'))
    \<and> sd_key ` set SOURCE_CATALOGUE \<subseteq> src_key ` set (sources d')
    \<and> sources (fst (snd (request (seed_reference_data E) d'))) = sources d'"
proof -
  let ?new = "\<lambda>d. filter (\<lambda>def. sd_key def \<notin> src_key ` set (sources d)) SOURCE_CATALOGUE"
  have run: "\<exists>d' us. request (seed_reference_data E) d = (Inr (), d', []) \<and> length us = length (?new d)
      \<and> sources d' = sources d @ map2 (seeded_source (env_settings E)) (?new d) us" for d
  proof -
    obtain s' us where e: "each (?new d) (seed_source (env_settings E)) (open_session d []) = (Inr (), s')"
        "s_queue s' = []" "length us = length (?new d)"
        "sources (s_db s') = sources d @ map2 (seeded_source (env_settings E)) (?new d) us"
      using seed_each [of "?new d" "env_settings E" "open_session d []"] by (auto simp: open_session_def)
    have "seed_reference_data E (open_session d []) = (Inr (), commit s')"
      using e(1) by (simp add: seed_reference_data_def run_simps andThen_def open_session_def)
    then show ?thesis using e by (auto simp: request_def)
  qed
  have cat: "distinct (map sd_key SOURCE_CATALOGUE)" by (simp add: SOURCE_CATALOGUE_def)
  obtain d' us where r: "request (seed_reference_data E) d = (Inr (), d', [])" "length us = length (?new d)"
      "sources d' = sources d @ map2 (seeded_source (env_settings E)) (?new d) us"
    using run by blast
  have keys: "map src_key (sources d') = map src_key (sources d) @ map sd_key (?new d)"
    unfolding r(3) using keys_of_seeded [OF r(2)] by simp
  then have sub: "sd_key ` set SOURCE_CATALOGUE \<subseteq> src_key ` set (sources d')"
    by (auto simp flip: set_map simp del: map_append) (auto simp: image_iff)
  then have none: "?new d' = []" by (auto simp: filter_empty_conv)
  obtain d2 us2 where r2: "request (seed_reference_data E) d' = (Inr (), d2, [])" "length us2 = length (?new d')"
      "sources d2 = sources d' @ map2 (seeded_source (env_settings E)) (?new d') us2"
    using run by blast
  have "distinct (map src_key (sources d'))"
    unfolding keys distinct_append using assms distinct_map_filter [OF cat] by (auto, metis imageI)
  then show ?thesis using r sub r2 none by (auto simp: prefix_def)
qed

end
