(* ===== verification/DemoFund.thy ===== *)
theory DemoFund
  imports Seeding Accounts
begin

text \<open>\<open>scripts/seed.py\<close>: the script that makes a demonstration fund with one opportunity, once.\<close>

section \<open>The rows\<close>

definition demo_partner :: "env \<Rightarrow> auth_env \<Rightarrow> uuid \<Rightarrow> uuid \<Rightarrow> User" where
  "demo_partner E A org u =
     (new_user org ''demo@vcbrain.dev'' (ae_hash A ''Demo-password-42!'') ''Demo Partner'' OWNER u)
       \<lparr>usr_email_verified_at := Some (env_now E)\<rparr>"

definition demo_thesis :: "uuid \<Rightarrow> uuid \<Rightarrow> Thesis" where
  "demo_thesis org u =
     (default_thesis org u)\<lparr>th_name := ''DACH pre-seed AI'', th_sectors := [''ai_infra'', ''devtools''],
        th_stages := [''pre_seed'', ''seed''], th_geos := [''DE'', ''DACH'', ''remote''], th_check_size_min := Some 50000,
        th_check_size_max := Some 150000, th_currency := ''USD'',
        th_must_haves := [''technical founder'', ''proof of work''], th_deal_breakers := [''services-only business'']\<rparr>"

definition demo_company :: "env \<Rightarrow> uuid \<Rightarrow> Company" where
  "demo_company E u =
     (new_company ''Nullpoint'' (Some ''nullpoint.example'') (JObj [])
        (Some ''Deterministic replay for distributed AI systems'') False (env_now E) u)
       \<lparr>co_description := Some ''Infrastructure that helps engineering teams reproduce production failures.'',
        co_sectors := [''devtools'', ''ai_infra''], co_stage := Some ''pre_seed'', co_hq_country := Some ''DE'',
        co_hq_city := Some ''Berlin''\<rparr>"

definition demo_founder :: "env \<Rightarrow> uuid \<Rightarrow> Person" where
  "demo_founder E u =
     (new_person ''Lea Marquez'' [] (JObj [(''github'', JStr ''https://github.com/example'')]) False (env_now E) u)
       \<lparr>per_headline := Some ''Distributed systems engineer'', per_country_code := Some ''DE'',
        per_city := Some ''Berlin'', per_skills := [''rust'', ''distributed_systems'', ''ai_infra''],
        per_signal_count := 4, per_source_count := 3\<rparr>"

definition demo_affiliation :: "uuid \<Rightarrow> uuid \<Rightarrow> uuid \<Rightarrow> Affiliation" where
  "demo_affiliation person company u =
     \<lparr>af_id = u, af_person_id = person, af_company_id = company, af_role = ''founder'', af_is_founder = True,
      af_started_on = None, af_ended_on = None, af_confidence = 950/1000\<rparr>"

definition demo_events :: "env \<Rightarrow> uuid \<Rightarrow> (uuid \<Rightarrow> FounderScoreEvent) list" where
  "demo_events E person =
     [new_event person ''execution'' 82 1 ''Shipped three public releases.'' None (env_now E - days 20),
      new_event person ''technical_depth'' 88 1 ''Maintains a technically deep systems project.'' None
        (env_now E - days 35),
      new_event person ''validation'' 70 1 ''Won a public infrastructure hackathon.'' None (env_now E - days 60)]"

definition demo_deal :: "env \<Rightarrow> uuid \<Rightarrow> Company \<Rightarrow> uuid \<Rightarrow> uuid \<Rightarrow> Opportunity" where
  "demo_deal E org company thesis u =
     (new_opportunity org company (Some thesis) OUTBOUND (env_now E - hours 5) (env_now E) 19 u)
       \<lparr>op_stage := DECISION, op_thesis_fit := Some 78, op_conviction := Some 81, op_priority_rank := Some 91,
        op_sourced_at := env_now E - hours 5, op_screened_at := Some (env_now E - hours 3),
        op_memo_ready_at := Some (env_now E - minutes 20)\<rparr>"

definition demo_axes :: "(AxisKind \<times> rat \<times> rat \<times> string) list" where
  "demo_axes =
     [(FOUNDER, 81, 710/1000, ''Founder has repeated primary proof of work.''),
      (MARKET, 64, 550/1000, ''Large market but dense competition.''),
      (IDEA_VS_MARKET, 147/2, 490/1000, ''Specific wedge with early pull.'')]"

definition demo_axis_row :: "uuid \<Rightarrow> AxisKind \<times> rat \<times> rat \<times> string \<Rightarrow> uuid \<Rightarrow> OpportunityScore" where
  "demo_axis_row opp x u =
     (case x of (axis, score, confidence, rationale) \<Rightarrow>
        \<lparr>os_id = u, os_opportunity_id = opp, os_axis = axis, os_score = score, os_confidence = confidence,
         os_trend = INSUFFICIENT_DATA, os_stance = None, os_rationale = rationale, os_drivers = [],
         os_model_version = ''seed-v1'', os_version = 1\<rparr>)"

definition demo_claim :: "uuid \<Rightarrow> uuid \<Rightarrow> uuid \<Rightarrow> uuid \<Rightarrow> Claim" where
  "demo_claim org opp company u =
     \<lparr>cl_id = u, cl_org_id = org, cl_opportunity_id = Some opp, cl_company_id = Some company, cl_person_id = None,
      cl_category = C_TRACTION, cl_predicate = ''customer_count'', cl_text = ''The company reports 12 design partners.'',
      cl_value_num = Some 12, cl_value_unit = Some ''count'', cl_value_text = None, cl_as_of = None,
      cl_status = CORROBORATED, cl_trust_score = 660/1000,
      cl_trust_inputs = JObj [(''seed'', JBool True), (''source_tier'', JStr ''primary'')], cl_contradiction_of = None,
      cl_verification_note = None, cl_extracted_by = Some ''seed-v1''\<rparr>"

definition demo_evidence :: "env \<Rightarrow> uuid \<Rightarrow> uuid \<Rightarrow> uuid \<Rightarrow> Evidence" where
  "demo_evidence E claim source u =
     \<lparr>ev_id = u, ev_claim_id = claim, ev_signal_id = None, ev_document_id = None, ev_source_id = source,
      ev_locator = JObj [(''type'', JStr ''api''), (''endpoint'', JStr ''github:example/nullpoint''), (''field'', JStr ''README'')],
      ev_snippet = ''Working with 12 design partners'', ev_supports = True,
      ev_independence_group = Some ''github:nullpoint'', ev_observed_at = Some (env_now E - days 2)\<rparr>"

definition demo_memo_row :: "uuid \<Rightarrow> uuid \<Rightarrow> Claim \<Rightarrow> uuid \<Rightarrow> Memo" where
  "demo_memo_row org opp claim u =
     (let rationale = ''Strong founder evidence; market diligence remains incomplete.'';
          draft = compose_memo [claim_data_of claim] WATCHLIST rationale
      in \<lparr>memo_id = u, memo_org_id = org, memo_opportunity_id = opp, memo_version = 1, memo_status = ''ready'',
          memo_sections = md_sections draft, memo_recommendation = Some WATCHLIST,
          memo_recommendation_rationale = Some rationale, memo_adversarial = JObj [], memo_gaps = md_gaps draft,
          memo_trust_summary = map (\<lambda>st. (claim_status_value st, if st = CORROBORATED then 1 else 0)) all_claim_status,
          memo_word_count = Some (md_word_count draft), memo_generated_ms = None, memo_cost_usd = Some 0,
          memo_model_version = Some ''seed-v1'', memo_created_by = None\<rparr>)"

section \<open>The script\<close>

text \<open>\<open>unique=True\<close> on \<open>users.email\<close> and the unique index on \<open>companies.domain\<close>, which the flush hits.\<close>

definition demo_rows_taken :: "db \<Rightarrow> bool" where
  "demo_rows_taken d \<longleftrightarrow>
     list_ex (\<lambda>u. usr_email u = ''demo@vcbrain.dev'') (users d)
     \<or> list_ex (\<lambda>c. co_domain c = Some ''nullpoint.example'' \<and> co_merged_into_id c = None) (companies d)"

definition demo_fund_rows :: "env \<Rightarrow> auth_env \<Rightarrow> Org \<Rightarrow> unit run" where
  "demo_fund_rows E A g =
     andThen (query demo_rows_taken) (\<lambda>taken.
     if taken then throw IntegrityError
     else andThen (insert_new (demo_partner E A (org_id g)) add_user) (\<lambda>_.
          andThen (insert_new (demo_thesis (org_id g)) add_thesis) (\<lambda>thesis.
          andThen (insert_new (demo_company E) add_company) (\<lambda>company.
          andThen (insert_new (demo_founder E) add_person) (\<lambda>founder.
          andThen (insert_new (demo_affiliation (per_id founder) (co_id company))
                     (\<lambda>a d. d\<lparr>affiliations := affiliations d @ [a]\<rparr>)) (\<lambda>_.
          andThen (each (demo_events E (per_id founder))
                     (\<lambda>mk. andThen (insert_new mk add_event) (\<lambda>_. ret ()))) (\<lambda>_.
          andThen (on_db (recompute_founder_score (env_libm E) (env_now E) (per_id founder))) (\<lambda>_.
          andThen (insert_new (demo_deal E (org_id g) company (th_id thesis)) add_opportunity) (\<lambda>opp.
          andThen (each demo_axes (\<lambda>x. andThen (insert_new (demo_axis_row (op_id opp) x) add_axis) (\<lambda>_. ret ()))) (\<lambda>_.
          andThen (query (source_by_key ''github'')) (\<lambda>github.
          case github of
            None \<Rightarrow> throw (PyExn ''AssertionError'' [])
          | Some source \<Rightarrow>
              andThen (insert_new (demo_claim (org_id g) (op_id opp) (co_id company)) add_claim) (\<lambda>claim.
              andThen (insert_new (demo_evidence E (cl_id claim) (src_id source)) add_evidence) (\<lambda>_.
              andThen (insert_new (demo_memo_row (org_id g) (op_id opp) claim) add_memo) (\<lambda>_.
              commit_run))))))))))))))"

definition seed :: "env \<Rightarrow> auth_env \<Rightarrow> unit run" where
  "seed E A =
     andThen (seed_reference_data E) (\<lambda>_.
     andThen (query (\<lambda>d. first_row (\<lambda>g. org_slug g = ''demo-fund'') (orgs d))) (\<lambda>existing.
     case existing of
       Some g \<Rightarrow> ret ()
     |       None \<Rightarrow> andThen (insert_new (new_org ''VC Brain Demo Fund'' ''demo-fund'') add_org) (demo_fund_rows E A)))"

section \<open>Run twice\<close>

text \<open>A computation that ends with a commit when it succeeds.\<close>

definition commits :: "'a run \<Rightarrow> bool" where
  "commits m \<longleftrightarrow> (\<forall>s x s'. m s = (Inr x, s') \<longrightarrow> s_committed s' = s_db s')"

lemma commits_intros [intro, simp]: "commits commit_run" "commits (throw e)"
  by (simp_all add: commits_def run_simps commit_def)

lemma commits_andThen [intro]: "(\<And>x. commits (f x)) \<Longrightarrow> commits (andThen m f)"
  by (auto simp: commits_def andThen_def split: prod.splits sum.splits)

lemma commits_cases [intro]:
  "commits m \<Longrightarrow> commits n \<Longrightarrow> commits (if c then m else n)"
  "commits m \<Longrightarrow> (\<And>y. commits (f y)) \<Longrightarrow> commits (case z of None \<Rightarrow> m | Some y \<Rightarrow> f y)"
  by (simp_all split: option.split)

lemma commits_rows: "commits (seed_reference_data E)" "commits (demo_fund_rows E A g)"
  unfolding seed_reference_data_def demo_fund_rows_def by (intro commits_andThen commits_cases commits_intros)+

text \<open>The script keeps the funds that exist, and after the catalogue also the sources.\<close>

definition funds_kept :: "db \<Rightarrow> db \<Rightarrow> bool" where
  "funds_kept d d' \<longleftrightarrow> prefix (orgs d) (orgs d') \<and> sources d' = sources d"

interpretation demo: db_order funds_kept
  by unfold_locales (auto simp: funds_kept_def intro: prefix_order.trans)

lemmas demo_intros = demo.keeps_andThen demo.keeps_change demo.keeps_insert_new demo.keeps_on_db demo.keeps_each
  demo.keeps_if

lemma rows_keep_funds: "demo.keeps (demo_fund_rows E A g)"
  unfolding demo_fund_rows_def
  by (auto intro!: demo_intros simp: funds_kept_def add_user_def add_thesis_def add_company_def add_person_def
      add_event_def add_opportunity_def add_axis_def add_claim_def add_evidence_def add_memo_def
      recompute_founder_score_def Let_def split: option.split prod.split)

lemma rows_make_fund:
  assumes "andThen (insert_new (new_org ''VC Brain Demo Fund'' ''demo-fund'') add_org) (demo_fund_rows E A) s = (Inr x, s')"
  shows "s_committed s' = s_db s' \<and> sources (s_db s') = sources (s_db s)
    \<and> (\<exists>g \<in> set (orgs (s_db s')). org_slug g = ''demo-fund'')"
proof -
  define g where "g = new_org ''VC Brain Demo Fund'' ''demo-fund'' (next_uuid (s_db s))"
  define s1 where "s1 = s\<lparr>s_db := add_org g ((s_db s)\<lparr>next_uuid := Suc (next_uuid (s_db s))\<rparr>)\<rparr>"
  have "demo_fund_rows E A g s1 = (Inr x, s')"
    using assms by (simp add: g_def s1_def run_simps)
  then have "funds_kept (s_db s1) (s_db s')" "s_committed s' = s_db s'"
    using demo.keepsD [OF rows_keep_funds] commits_rows(2) by (auto simp: commits_def)
  moreover have "g \<in> set (orgs (s_db s1))" "org_slug g = ''demo-fund''" "sources (s_db s1) = sources (s_db s)"
    by (simp_all add: s1_def add_org_def g_def new_org_def)
  ultimately show ?thesis by (auto simp: funds_kept_def prefix_def)
qed

lemma first_rowI: "r \<in> set rows \<Longrightarrow> P r \<Longrightarrow> first_row P rows \<noteq> None"
  by (auto simp: first_row_def find_None_iff)

text \<open>The script can be run again: once it has succeeded there is the demonstration fund, and a second run changes
  nothing.\<close>

lemma seed_again:
  assumes distinct: "distinct (map src_key (sources d))" and run: "request (seed E A) d = (Inr (), d', q)"
  shows "(\<exists>g \<in> set (orgs d'). org_slug g = ''demo-fund'') \<and> request (seed E A) d' = (Inr (), d', [])"
proof -
  obtain d1 where d1: "request (seed_reference_data E) d = (Inr (), d1, [])" "distinct (map src_key (sources d1))"
      "sd_key ` set SOURCE_CATALOGUE \<subseteq> src_key ` set (sources d1)"
    using seeding_complete [OF distinct, of E] by metis
  then obtain s1 where s1: "seed_reference_data E (open_session d []) = (Inr (), s1)" "s_committed s1 = d1"
    by (cases "seed_reference_data E (open_session d [])") (auto simp: request_def)
  then have db1: "s_db s1 = d1" using commits_rows(1) by (auto simp: commits_def)
  obtain s' where s': "seed E A (open_session d []) = (Inr (), s')" "s_committed s' = d'"
    using run by (cases "seed E A (open_session d [])") (auto simp: request_def)
  have fund: "(\<exists>g \<in> set (orgs d'). org_slug g = ''demo-fund'') \<and> sources d' = sources d1"
  proof (cases "first_row (\<lambda>g. org_slug g = ''demo-fund'') (orgs d1)")
    case (Some g)
    then have "s' = s1" using s'(1) s1(1) db1 by (simp add: seed_def andThen_goes run_simps)
    then show ?thesis using Some s1(2) s'(2) by (auto dest!: first_row_Some)
  next
    case None
    then have "andThen (insert_new (new_org ''VC Brain Demo Fund'' ''demo-fund'') add_org) (demo_fund_rows E A) s1 = (Inr (), s')"
      using s'(1) s1(1) db1 by (simp add: seed_def andThen_goes run_simps)
    from rows_make_fund [OF this] show ?thesis using s'(2) db1 by simp
  qed
  then have "filter (\<lambda>def. sd_key def \<notin> set (map src_key (sources d'))) SOURCE_CATALOGUE = []"
    using d1(3) by (auto simp: filter_empty_conv)
  then have "seed_reference_data E (open_session d' []) = (Inr (), open_session d' [])"
    by (simp add: seed_reference_data_def run_simps open_session_def commit_def)
  moreover have "first_row (\<lambda>g. org_slug g = ''demo-fund'') (orgs d') \<noteq> None"
    using fund first_rowI [of _ "orgs d'" "\<lambda>g. org_slug g = ''demo-fund''"] by blast
  ultimately show ?thesis
    using fund by (auto simp: request_def seed_def andThen_goes run_simps open_session_def)
qed

end
