(* ===== verification/Interleaving.thy ===== *)
theory Interleaving
  imports Opportunities
begin

text \<open>
  Requests that run at the same time. The server awaits the database in the middle of a handler, so
  another handler may run between two of its statements: its session reads what is committed at each
  of them (there is no row lock, no serializable isolation and no version column in the mapping),
  works on the rows as it loaded them, and writes at its commit. A handler is then a process that
  visits the database several times. This theory holds the processes, their runs alone and
  interleaved by a schedule, and the two facts that connect them with the requests of the other
  theories: a process that runs without interruption is its request, and a relation that every
  visit respects is respected by every schedule.
\<close>

section \<open>Processes\<close>

datatype 'a proc = Return "exn + 'a" | Do "db \<Rightarrow> 'a proc \<times> db \<times> uuid list"

text \<open>One visit to the database: what happens from an \<open>await\<close> to its result, in one transaction.\<close>

definition visit :: "'a run \<Rightarrow> 'a proc" where
  "visit m = Do (\<lambda>d. case request m d of (r, d', q) \<Rightarrow> (Return r, d', q))"

primrec thenDo :: "'a proc \<Rightarrow> ('a \<Rightarrow> 'b proc) \<Rightarrow> 'b proc" where
  "thenDo (Return r) = (\<lambda>g. case r of Inl e \<Rightarrow> Return (Inl e) | Inr x \<Rightarrow> g x)"
| "thenDo (Do f) = (\<lambda>g. Do (\<lambda>d. map_prod (\<lambda>k. k g) id (map_prod thenDo id (f d))))"

text \<open>A process that nothing interrupts.\<close>

primrec alone :: "'a proc \<Rightarrow> db \<Rightarrow> (exn + 'a) \<times> db \<times> uuid list" where
  "alone (Return r) = (\<lambda>d. (r, d, []))"
| "alone (Do f) = (\<lambda>d. case map_prod alone id (f d) of
      (k, d1, q) \<Rightarrow> (case k d1 of (r, d2, q2) \<Rightarrow> (r, d2, q @ q2)))"

text \<open>The processes that are running, the database and the jobs handed to the worker. The process \<open>i\<close>
  takes a turn; a schedule is the sequence of the turns.\<close>

type_synonym 'a pool = "'a proc list \<times> db \<times> uuid list"

fun turn :: "nat \<Rightarrow> 'a pool \<Rightarrow> 'a pool" where
  "turn i (ps, d, q) =
     (if i < length ps
      then (case ps ! i of
              Return r \<Rightarrow> (ps, d, q)
            | Do f \<Rightarrow> (case f d of (p, d', q') \<Rightarrow> (ps[i := p], d', q @ q')))
      else (ps, d, q))"

definition interleave :: "nat list \<Rightarrow> 'a proc list \<Rightarrow> db \<Rightarrow> 'a pool" where
  "interleave schedule ps d = fold turn schedule (ps, d, [])"

section \<open>A process alone is its request\<close>

lemma thenDo_visit:
  "thenDo (visit m) g = Do (\<lambda>d. case request m d of
     (Inl e, d', q) \<Rightarrow> (Return (Inl e), d', q) | (Inr x, d', q) \<Rightarrow> (g x, d', q))"
  by (auto simp: visit_def split: prod.split sum.split)

lemma alone_visit [simp]: "alone (visit m) d = request m d"
  by (simp add: visit_def split: prod.split)

lemma alone_thenDo:
  "alone (thenDo (visit m) g) d =
     (case request m d of
        (Inl e, d', q) \<Rightarrow> (Inl e, d', q)
      | (Inr x, d', q) \<Rightarrow> (case alone (g x) d' of (r, d2, q2) \<Rightarrow> (r, d2, q @ q2)))"
  by (simp add: thenDo_visit split: prod.split sum.split)

text \<open>A handler is a visit and the rest, when the visit leaves nothing uncommitted and starts no job.\<close>

definition settled :: "'a run \<Rightarrow> db \<Rightarrow> bool" where
  "settled m d \<longleftrightarrow> (\<forall>x s. m (open_session d []) = (Inr x, s) \<longrightarrow> s = open_session (s_db s) [])"

lemma reads_settled [simp]: "reads m \<Longrightarrow> settled m d"
  unfolding settled_def by (metis readsD open_session_def session.select_convs(1))

lemma settled_commits:
  "(\<And>x s. m (open_session d []) = (Inr x, s) \<Longrightarrow> s_committed s = s_db s \<and> s_queue s = []) \<Longrightarrow> settled m d"
  by (simp add: settled_def open_session_def)

lemma alone_visit_first:
  assumes "settled m d"
    and "\<And>x s. m (open_session d []) = (Inr x, s) \<Longrightarrow> alone (g x) (s_db s) = request (f x) (s_db s)"
  shows "alone (thenDo (visit m) g) d = request (andThen m f) d"
proof -
  obtain r s where m: "m (open_session d []) = (r, s)" by fastforce
  show ?thesis
  proof (cases r)
    case (Inl e)
    then show ?thesis using m by (simp add: alone_thenDo request_def andThen_def)
  next
    case (Inr x)
    then obtain d1 where s: "s = open_session d1 []" using m assms(1) unfolding settled_def by blast
    have "request m d = (Inr x, d1, [])" using m s Inr by (simp add: request_def open_session_def)
    moreover have "request (andThen m f) d = request (f x) d1" using m s Inr by (simp add: request_def andThen_def)
    ultimately show ?thesis
      using assms(2) m s Inr by (simp add: alone_thenDo open_session_def split: prod.split)
  qed
qed

text \<open>What a visit that reads leaves: the database it found.\<close>

lemma alone_read_first:
  assumes "reads m" and "\<And>x. fst (m (open_session d [])) = Inr x \<Longrightarrow> alone (g x) d = request (f x) d"
  shows "alone (thenDo (visit m) g) d = request (andThen m f) d"
proof (rule alone_visit_first)
  fix x s assume m: "m (open_session d []) = (Inr x, s)"
  from readsD [OF assms(1) m] have "s_db s = d" by (simp add: open_session_def)
  then show "alone (g x) (s_db s) = request (f x) (s_db s)" using assms(2) m by simp
qed (simp add: assms(1))

section \<open>Serial schedules\<close>

text \<open>A process that takes turns until it returns gives its request, whatever else is in the pool.\<close>

lemma turns_alone:
  assumes "i < length ps"
  shows "\<exists>n. fold turn (replicate n i) (ps, d, q) =
    (case alone (ps ! i) d of (r, d', q') \<Rightarrow> (ps[i := Return r], d', q @ q'))"
proof -
  have "\<exists>n. fold turn (replicate n i) (ps[i := p], d, q) =
    (case alone p d of (r, d', q') \<Rightarrow> (ps[i := Return r], d', q @ q'))" for p
  proof (induction p arbitrary: d q)
    case (Return r)
    show ?case by (rule exI [of _ 0]) simp
  next
    case (Do f)
    obtain p d1 q1 where f: "f d = (p, d1, q1)" by (cases "f d") auto
    have "p \<in> Basic_BNFs.fsts (f d)" by (simp add: f)
    from Do.IH [OF rangeI this, of d1 "q @ q1"] obtain n where
      "fold turn (replicate n i) (ps[i := p], d1, q @ q1) =
        (case alone p d1 of (r, d', q') \<Rightarrow> (ps[i := Return r], d', (q @ q1) @ q'))" by blast
    then show ?case using assms f by (intro exI [of _ "Suc n"]) (simp split: prod.split)
  qed
  from this [of "ps ! i"] show ?thesis by simp
qed

section \<open>What every schedule keeps\<close>

primrec every_visit :: "(db \<Rightarrow> db \<Rightarrow> bool) \<Rightarrow> 'a proc \<Rightarrow> bool" where
  "every_visit R (Return r) = True"
| "every_visit R (Do f) = (\<forall>d. case map_prod (every_visit R) id (f d) of (ok, d', q) \<Rightarrow> ok \<and> R d d')"

lemma every_visit_thenDo:
  "every_visit R p \<Longrightarrow> (\<And>x. every_visit R (g x)) \<Longrightarrow> every_visit R (thenDo p g)"
proof (induction p)
  case (Do f)
  have "case map_prod (every_visit R) id (map_prod (\<lambda>k. k g) id (map_prod thenDo id (f d))) of
      (ok, d', q) \<Rightarrow> ok \<and> R d d'" for d
  proof -
    obtain p d1 q1 where f: "f d = (p, d1, q1)" by (cases "f d") auto
    have "p \<in> Basic_BNFs.fsts (f d)" by (simp add: f)
    from Do.IH [OF rangeI this] have "every_visit R p \<Longrightarrow> every_visit R (thenDo p g)" using Do.prems(2) by blast
    moreover have "every_visit R p \<and> R d d1" using Do.prems(1) f by (auto dest: spec [of _ d])
    ultimately show ?thesis by (simp add: f)
  qed
  then show ?case by simp
qed (simp split: sum.split)

context db_order
begin

lemma every_visit_visit: "keeps m \<Longrightarrow> every_visit R (visit m)"
  by (auto simp: visit_def split: prod.split) (metis keeps_request fst_conv snd_conv)

lemma turn_keeps:
  assumes "list_all (every_visit R) ps" "turn i (ps, d, q) = (ps', d', q')"
  shows "R d d' \<and> list_all (every_visit R) ps'"
proof (cases "i < length ps")
  case True
  then have "every_visit R (ps ! i)" using assms(1) by (simp add: list_all_length)
  then show ?thesis using True assms order_refl
    by (cases "ps ! i")
      (auto simp: list_all_length nth_list_update split: prod.splits dest!: spec [of _ d])
qed (use assms order_refl in auto)

lemma schedule_keeps:
  assumes "list_all (every_visit R) ps" "interleave schedule ps d = (ps', d', q')"
  shows "R d d'"
proof -
  have "list_all (every_visit R) ps \<Longrightarrow> fold turn schedule (ps, d, q) = (ps', d', q') \<Longrightarrow> R d d'" for ps d q
  proof (induction schedule arbitrary: ps d q)
    case (Cons i rest)
    obtain ps1 d1 q1 where t: "turn i (ps, d, q) = (ps1, d1, q1)" using prod_cases3 by blast
    from turn_keeps [OF Cons.prems(1) t] show ?case
      using Cons.IH [of ps1 d1 q1] Cons.prems(2) t order_trans by (auto simp del: turn.simps)
  qed (simp add: order_refl)
  then show ?thesis using assms by (simp add: interleave_def)
qed

end

end
