(* ===== verification/Races.thy ===== *)
theory Races
  imports Tenants Accounts Interleaving
begin

text \<open>
  Four handlers as processes: the change of an opportunity, the decision about it, the start of a job
  and the rotation of a refresh token. Each reads what it decides on, then writes. Run alone, each is
  the handler of the other theories. Interleaved, no request reaches another fund, but the checks that the
  handlers make on what they read no longer bind what they write: two changes from one version, two
  decisions with one key, two jobs for one key and two rotations of one token all succeed.
\<close>

section \<open>Writing back a loaded row\<close>

text \<open>The session writes the columns that differ from what it loaded; the others keep what the row has by then.\<close>

definition column :: "'a \<Rightarrow> 'a \<Rightarrow> 'a \<Rightarrow> 'a" where
  "column loaded new now = (if new = loaded then now else new)"

definition written :: "Opportunity \<Rightarrow> Opportunity \<Rightarrow> Opportunity \<Rightarrow> Opportunity" where
  "written old new cur =
     cur\<lparr>op_stage := column (op_stage old) (op_stage new) (op_stage cur),
         op_title := column (op_title old) (op_title new) (op_title cur),
         op_assigned_to := column (op_assigned_to old) (op_assigned_to new) (op_assigned_to cur),
         op_decision := column (op_decision old) (op_decision new) (op_decision cur),
         op_decision_rationale := column (op_decision_rationale old) (op_decision_rationale new) (op_decision_rationale cur),
         op_decision_by := column (op_decision_by old) (op_decision_by new) (op_decision_by cur),
         op_decided_at := column (op_decided_at old) (op_decided_at new) (op_decided_at cur),
         op_version := column (op_version old) (op_version new) (op_version cur)\<rparr>"

lemma written_rest [simp]:
  "op_id (written old new cur) = op_id cur" "op_org_id (written old new cur) = op_org_id cur"
  "op_company_id (written old new cur) = op_company_id cur"
  "op_first_signal_at (written old new cur) = op_first_signal_at cur"
  "op_sla_deadline_at (written old new cur) = op_sla_deadline_at cur"
  by (simp_all add: written_def)

section \<open>The processes\<close>

text \<open>The change of an opportunity: load and check the version, write, read the answer.\<close>

definition load_fresh :: "Principal \<Rightarrow> uuid \<Rightarrow> string option \<Rightarrow> Opportunity run" where
  "load_fresh pr i if_match =
     andThen (require SCREEN pr) (\<lambda>_.
     andThen (get_opportunity (pr_org_id pr) i) (\<lambda>opp.
     andThen (check (fresh_version if_match (op_version opp)) (stale ''Opportunity'')) (\<lambda>_. ret opp)))"

definition patched :: "OpportunityUpdate \<Rightarrow> Opportunity \<Rightarrow> Opportunity" where
  "patched body opp = (set_fields body opp)\<lparr>op_version := op_version opp + 1\<rparr>"

definition write_patch :: "env \<Rightarrow> uuid \<Rightarrow> OpportunityUpdate \<Rightarrow> Opportunity \<Rightarrow> unit run" where
  "write_patch E i body opp =
     andThen (query (storable body)) (\<lambda>ok.
     if \<not> ok then throw IntegrityError
     else andThen (change (set_opportunity E i (written opp (patched body opp)))) (\<lambda>_. commit_run))"

definition answer :: "env \<Rightarrow> Opportunity \<Rightarrow> OpportunityDetail run" where
  "answer E opp = andThen (refreshed opp) (build_detail E)"

definition patch_proc ::
  "env \<Rightarrow> Principal \<Rightarrow> uuid \<Rightarrow> string option \<Rightarrow> OpportunityUpdate \<Rightarrow> OpportunityDetail proc" where
  "patch_proc E pr i if_match body =
     thenDo (visit (load_fresh pr i if_match)) (\<lambda>opp.
     thenDo (visit (write_patch E i body opp)) (\<lambda>_. visit (answer E opp)))"

text \<open>The decision: load the opportunity, look for an earlier decision with the key, count the evidence,
  write, read the answer.\<close>

definition load_decidable :: "Principal \<Rightarrow> uuid \<Rightarrow> string option \<Rightarrow> Opportunity run" where
  "load_decidable pr i key =
     andThen (require DECIDE pr) (\<lambda>_.
     andThen (check (truthy key) key_required) (\<lambda>_.
     andThen (get_opportunity (pr_org_id pr) i) (\<lambda>opp.
     andThen (check (op_stage opp \<noteq> ARCHIVED)
               (AppError ''UNPROCESSABLE'' ''Archived opportunities cannot be decided.'' 422)) (\<lambda>_. ret opp))))"

definition enough_evidence :: "uuid \<Rightarrow> DecisionRequest \<Rightarrow> unit run" where
  "enough_evidence i body =
     andThen (query (evidence_count i)) (\<lambda>n.
     check (\<not> (dr_decision body = PASS \<and> n = 0))
       (AppError ''COLD_START_INSUFFICIENT_EVIDENCE''
          ''A pass decision must cite evidence rather than missing data.'' 422))"

definition write_decision ::
  "env \<Rightarrow> Principal \<Rightarrow> uuid \<Rightarrow> DecisionRequest \<Rightarrow> string \<Rightarrow> string option \<Rightarrow> Opportunity \<Rightarrow> unit run" where
  "write_decision E pr i body key request_id opp =
     andThen (change (set_opportunity E i (written opp (decided E pr body opp)))) (\<lambda>_.
     andThen (change (\<lambda>d. d\<lparr>audit_log := audit_log d @ [decision_audit pr i (dr_decision body) key request_id]\<rparr>)) (\<lambda>_.
     andThen (query (\<lambda>d. first_row (\<lambda>a. app_opportunity_id a = Some i) (applications d))) (\<lambda>application.
     andThen (when_some application (\<lambda>a. change (set_application (app_id a) (\<lambda>a. a\<lparr>app_status := APP_DECIDED\<rparr>)))) (\<lambda>_.
     commit_run))))"

definition decide_proc ::
  "env \<Rightarrow> Principal \<Rightarrow> uuid \<Rightarrow> DecisionRequest \<Rightarrow> string option \<Rightarrow> string option \<Rightarrow> OpportunityDetail proc" where
  "decide_proc E pr i body key request_id =
     thenDo (visit (load_decidable pr i key)) (\<lambda>opp.
     thenDo (visit (query (\<lambda>d. first_row (decided_with (pr_org_id pr) i (the key)) (audit_log d)))) (\<lambda>existing_audit.
     if existing_audit \<noteq> None \<and> op_decision opp \<noteq> None then visit (build_detail E opp)
     else thenDo (visit (enough_evidence i body)) (\<lambda>_.
          thenDo (visit (write_decision E pr i body (the key) request_id opp)) (\<lambda>_. visit (answer E opp)))))"

text \<open>The start of a job: load the opportunity, find its application, look for the job of the key, add
  one, and hand it to the worker.\<close>

definition write_job :: "env \<Rightarrow> uuid \<Rightarrow> string \<Rightarrow> uuid \<Rightarrow> string \<Rightarrow> json \<Rightarrow> Job option \<Rightarrow> (Job \<times> bool) run" where
  "write_job E org kind i key inp existing =
     (case existing of
        Some j \<Rightarrow> andThen commit_run (\<lambda>_. ret (j, True))
      | None \<Rightarrow>
          andThen (insert_new (new_job (Some org) kind ''opportunity'' i (Some key) inp (env_now E)) add_job) (\<lambda>j.
          andThen commit_run (\<lambda>_. ret (j, False))))"

definition start_proc ::
  "env \<Rightarrow> uuid \<Rightarrow> string \<Rightarrow> uuid \<Rightarrow> json \<Rightarrow> string option \<Rightarrow> (uuid \<times> bool) proc" where
  "start_proc E org kind i inp key =
     thenDo (visit (andThen (check (truthy key) key_required) (\<lambda>_. get_opportunity org i))) (\<lambda>_.
     thenDo (visit (if kind = ''screen'' then query (newest_application i) else ret None)) (\<lambda>application.
     thenDo (visit (query (\<lambda>d. first_row (same_request E org kind i (the key)) (jobs d)))) (\<lambda>existing.
     thenDo (visit (write_job E org kind i (the key) (with_deck application inp) existing)) (\<lambda>(j, replayed).
     visit (andThen (if replayed then ret () else dispatch_job E (job_id j)) (\<lambda>_. ret (job_id j, replayed)))))))"

text \<open>The rotation of a refresh token that is in the body: load the token; load its user; write; answer.\<close>

definition unusable :: "string \<Rightarrow> app_error" where
  "unusable message = UnauthenticatedError ''TOKEN_REVOKED'' message"

definition load_token :: "env \<Rightarrow> string \<Rightarrow> RefreshToken run" where
  "load_token E raw =
     andThen (query (token_row E raw)) (\<lambda>row. case row of
        None \<Rightarrow> throw (App (unusable ''Refresh token is invalid.''))
      | Some r \<Rightarrow> ret r)"

definition load_user :: "uuid \<Rightarrow> User run" where
  "load_user i =
     andThen (query (\<lambda>d. get_row usr_id i (users d))) (\<lambda>user. case user of
        None \<Rightarrow> throw (App (unusable ''Account is unavailable.''))
      | Some u \<Rightarrow> andThen (check (usr_is_active u) (unusable ''Account is unavailable.'')) (\<lambda>_. ret u))"

definition end_family :: "env \<Rightarrow> RefreshToken \<Rightarrow> IssuedTokens run" where
  "end_family E r =
     andThen (change (revoke_where (\<lambda>t. rt_family_id t = rt_family_id r \<and> live t) (env_now E) ''reuse_detected'')) (\<lambda>_.
     andThen (change (add_audit (reuse_audit r))) (\<lambda>_.
     andThen commit_run (\<lambda>_. throw reuse_error)))"

definition write_rotation ::
  "env \<Rightarrow> auth_env \<Rightarrow> RefreshToken \<Rightarrow> string option \<Rightarrow> string option \<Rightarrow> User \<Rightarrow> IssuedTokens run" where
  "write_rotation E A r agent ip u =
     andThen (change (revoke_where (\<lambda>t. rt_id t = rt_id r) (env_now E) ''rotated'')) (\<lambda>_.
     andThen (issue_tokens E A u (Some (rt_family_id r)) (Some (rt_id r)) agent ip) (\<lambda>tokens.
     andThen commit_run (\<lambda>_. ret tokens)))"

definition refresh_proc ::
  "env \<Rightarrow> auth_env \<Rightarrow> string \<Rightarrow> string option \<Rightarrow> string option \<Rightarrow> AuthResponse proc" where
  "refresh_proc E A raw agent ip =
     thenDo (visit (load_token E raw)) (\<lambda>r.
     thenDo (if \<not> live r then visit (end_family E r)
             else if rt_expires_at r \<le> env_now E
             then Return (Inl (App (UnauthenticatedError ''TOKEN_EXPIRED'' ''Refresh token has expired.'')))
             else thenDo (visit (load_user (rt_user_id r))) (\<lambda>u. visit (write_rotation E A r agent ip u)))
     (\<lambda>tokens. visit (auth_response E tokens None None)))"

section \<open>A process alone is the handler\<close>

lemma set_opportunity_cong:
  "(\<And>p. p \<in> set (opportunities d) \<Longrightarrow> op_id p = i \<Longrightarrow> f p = g p) \<Longrightarrow> set_opportunity E i f d = set_opportunity E i g d"
  by (simp add: set_opportunity_def upd_row_def upd_where_def cong: map_cong)

lemma only_row:
  assumes "distinct (map op_id (opportunities d))" "find_opportunity org i d = Some opp"
    and "p \<in> set (opportunities d)" "op_id p = i"
  shows "p = opp"
proof -
  have "opp \<in> set (opportunities d)" "op_id opp = i"
    using first_row_Some [OF assms(2) [unfolded find_opportunity_def own_row_def]] by auto
  then have "get_row op_id i (opportunities d) = Some opp" using get_row_unique assms(1) by metis
  moreover have "get_row op_id i (opportunities d) = Some p" using get_row_unique assms(1,3,4) by metis
  ultimately show ?thesis by simp
qed

lemma written_unchanged: "written opp (patched u opp) opp = patched u opp" "written opp (decided E pr b opp) opp = decided E pr b opp"
  by (simp_all add: written_def patched_def set_fields_def decided_def column_def)

text \<open>Nobody wrote between the load and the write: the write is that of the handler.\<close>

lemma write_uninterrupted:
  assumes "distinct (map op_id (opportunities d))" "find_opportunity org i d = Some opp"
  shows "set_opportunity E i (written opp (patched u opp)) d
      = set_opportunity E i (\<lambda>p. (set_fields u p)\<lparr>op_version := op_version p + 1\<rparr>) d"
    and "set_opportunity E i (written opp (decided E pr b opp)) d = set_opportunity E i (decided E pr b) d"
  using only_row [OF assms] written_unchanged by (auto intro!: set_opportunity_cong simp: patched_def)

lemma reads_loads [simp]:
  "reads (get_opportunity org i)" "reads (load_fresh pr i h)" "reads (load_decidable pr i key)"
  "reads (enough_evidence i body)" "reads (answer E opp)" "reads (load_token E raw)" "reads (load_user k)"
  by (auto simp: get_opportunity_def load_fresh_def load_decidable_def enough_evidence_def answer_def
      load_token_def load_user_def split: option.split intro!: reads_andThen)

lemma load_fresh_Inr:
  "fst (load_fresh pr i h s) = Inr opp \<Longrightarrow> find_opportunity (pr_org_id pr) i (s_db s) = Some opp"
  by (auto simp: load_fresh_def run_simps get_opportunity_def split: if_splits option.splits)

lemma load_decidable_Inr:
  "fst (load_decidable pr i key s) = Inr opp \<Longrightarrow> find_opportunity (pr_org_id pr) i (s_db s) = Some opp"
  by (auto simp: load_decidable_def run_simps get_opportunity_def split: if_splits option.splits)

lemma regroup:
  "andThen (if c then m else n) f = (if c then andThen m f else andThen n f)"
  "andThen (throw e) f = throw e"
  by (auto simp: andThen_def throw_def)

lemma alone_patch:
  assumes "distinct (map op_id (opportunities d))"
  shows "alone (patch_proc E pr i h u) d = request (update_opportunity E pr i h u) d"
proof -
  define old where "old = andThen (query (storable u)) (\<lambda>ok.
     if \<not> ok then throw IntegrityError
     else andThen (change (set_opportunity E i (\<lambda>p. (set_fields u p)\<lparr>op_version := op_version p + 1\<rparr>))) (\<lambda>_. commit_run))"
  have whole: "update_opportunity E pr i h u = andThen (load_fresh pr i h) (\<lambda>opp. andThen old (\<lambda>_. answer E opp))"
    by (simp only: update_opportunity_def load_fresh_def old_def answer_def andThen_assoc_fun andThen_ret_fun regroup)
  have "alone (thenDo (visit (write_patch E i u opp)) (\<lambda>_. visit (answer E opp))) d = request (andThen old (\<lambda>_. answer E opp)) d"
    if "find_opportunity (pr_org_id pr) i d = Some opp" for opp
  proof -
    have w: "write_patch E i u opp (open_session d []) = old (open_session d [])"
      using write_uninterrupted(1) [OF assms that] by (simp add: write_patch_def old_def run_simps open_session_def)
    have "settled (write_patch E i u opp) d"
      by (rule settled_commits) (auto simp: write_patch_def run_simps commit_def open_session_def split: if_splits)
    then have "alone (thenDo (visit (write_patch E i u opp)) (\<lambda>_. visit (answer E opp))) d
        = request (andThen (write_patch E i u opp) (\<lambda>_. answer E opp)) d"
      by (rule alone_visit_first) simp
    also have "\<dots> = request (andThen old (\<lambda>_. answer E opp)) d" by (simp add: request_def andThen_def w)
    finally show ?thesis .
  qed
  then show ?thesis unfolding whole patch_proc_def
    by (intro alone_read_first) (auto dest!: load_fresh_Inr simp: open_session_def)
qed

lemma alone_decide:
  assumes "distinct (map op_id (opportunities d))"
  shows "alone (decide_proc E pr i b key rid) d = request (decide_opportunity E pr i b key rid) d"
proof -
  define old where "old = andThen (record_decision E pr i b (the key) rid) (\<lambda>_. commit_run)"
  have whole: "decide_opportunity E pr i b key rid = andThen (load_decidable pr i key) (\<lambda>opp.
      andThen (query (\<lambda>d. first_row (decided_with (pr_org_id pr) i (the key)) (audit_log d))) (\<lambda>existing_audit.
      if existing_audit \<noteq> None \<and> op_decision opp \<noteq> None then build_detail E opp
      else andThen (enough_evidence i b) (\<lambda>_. andThen old (\<lambda>_. answer E opp))))"
    by (simp only: decide_opportunity_def load_decidable_def enough_evidence_def old_def answer_def andThen_assoc_fun andThen_ret_fun regroup)
  have "alone (thenDo (visit (write_decision E pr i b (the key) rid opp)) (\<lambda>_. visit (answer E opp))) d
      = request (andThen old (\<lambda>_. answer E opp)) d"
    if "find_opportunity (pr_org_id pr) i d = Some opp" for opp
  proof -
    have w: "write_decision E pr i b (the key) rid opp (open_session d []) = old (open_session d [])"
      using write_uninterrupted(2) [OF assms that]
      by (simp add: write_decision_def old_def record_decision_def run_simps open_session_def)
    have "settled (write_decision E pr i b (the key) rid opp) d"
      by (rule settled_commits)
        (auto simp: write_decision_def run_simps commit_def open_session_def when_some_def split: option.splits)
    then have "alone (thenDo (visit (write_decision E pr i b (the key) rid opp)) (\<lambda>_. visit (answer E opp))) d
        = request (andThen (write_decision E pr i b (the key) rid opp) (\<lambda>_. answer E opp)) d"
      by (rule alone_visit_first) simp
    also have "\<dots> = request (andThen old (\<lambda>_. answer E opp)) d" by (simp add: request_def andThen_def w)
    finally show ?thesis .
  qed
  then have rest: "alone (if a \<noteq> None \<and> op_decision opp \<noteq> None then visit (build_detail E opp)
        else thenDo (visit (enough_evidence i b)) (\<lambda>_.
          thenDo (visit (write_decision E pr i b (the key) rid opp)) (\<lambda>_. visit (answer E opp)))) d
      = request (if a \<noteq> None \<and> op_decision opp \<noteq> None then build_detail E opp
        else andThen (enough_evidence i b) (\<lambda>_. andThen old (\<lambda>_. answer E opp))) d"
    if "find_opportunity (pr_org_id pr) i d = Some opp" for opp a
    using that by (auto intro!: alone_read_first)
  have "find_opportunity (pr_org_id pr) i d = Some opp" if "fst (load_decidable pr i key (open_session d [])) = Inr opp" for opp
    using load_decidable_Inr [OF that] by (simp add: open_session_def)
  then show ?thesis unfolding whole decide_proc_def by (intro alone_read_first reads_loads reads_intros rest)
qed

text \<open>Starting a job and rotating a token.\<close>

lemma alone_start: "alone (start_proc E org kind i inp key) d = request (start_opportunity_job E org kind i inp key) d"
proof -
  define old where "old app existing = andThen (case existing of Some j \<Rightarrow> ret (j, True)
      | None \<Rightarrow> andThen (insert_new (new_job (Some org) kind ''opportunity'' i (Some (the key)) (with_deck app inp) (env_now E)) add_job)
          (\<lambda>j. ret (j, False))) (\<lambda>jr. andThen commit_run (\<lambda>_. ret jr))" for app existing
  define hand where "hand = (\<lambda>(j :: Job, replayed). andThen (if replayed then ret () else dispatch_job E (job_id j)) (\<lambda>_. ret (job_id j, replayed)))"
  have whole: "start_opportunity_job E org kind i inp key =
    andThen (andThen (check (truthy key) key_required) (\<lambda>_. get_opportunity org i)) (\<lambda>_.
    andThen (if kind = ''screen'' then query (newest_application i) else ret None) (\<lambda>application.
    andThen (query (\<lambda>d. first_row (same_request E org kind i (the key)) (jobs d))) (\<lambda>existing.
    andThen (old application existing) hand)))"
    by (simp only: start_opportunity_job_def create_job_def old_def hand_def andThen_assoc_fun andThen_ret_fun split_def)
  have same: "write_job E org kind i (the key) (with_deck app inp) existing = old app existing" for app existing
    by (cases existing) (simp_all add: write_job_def old_def andThen_assoc_fun andThen_ret_fun)
  have "settled (old app existing) d" for app existing
    unfolding same [symmetric]
    by (rule settled_commits) (auto simp: write_job_def run_simps commit_def open_session_def split: option.splits)
  then have job: "alone (thenDo (visit (old app existing)) (\<lambda>jr. visit (hand jr))) d = request (andThen (old app existing) hand) d"
    for app existing by (rule alone_visit_first) simp
  have split: "start_proc E org kind i inp key =
    thenDo (visit (andThen (check (truthy key) key_required) (\<lambda>_. get_opportunity org i))) (\<lambda>_.
    thenDo (visit (if kind = ''screen'' then query (newest_application i) else ret None)) (\<lambda>application.
    thenDo (visit (query (\<lambda>d. first_row (same_request E org kind i (the key)) (jobs d)))) (\<lambda>existing.
    thenDo (visit (old application existing)) (\<lambda>jr. visit (hand jr)))))"
    by (simp only: start_proc_def same hand_def split_def)
  have loads: "reads (andThen (check (truthy key) key_required) (\<lambda>_. get_opportunity org i))"
    "reads (if kind = ''screen'' then query (newest_application i) else ret None)" by auto
  show ?thesis unfolding whole split
    by (rule alone_read_first [OF loads(1)], rule alone_read_first [OF loads(2)],
        rule alone_read_first [OF reads_intros(3)], rule job)
qed

lemma thenDo_assoc: "thenDo (thenDo p f) g = thenDo p (\<lambda>x. thenDo (f x) g)"
proof (induction p)
  case (Do h)
  have "map_prod (\<lambda>k. k g) id (map_prod thenDo id (map_prod (\<lambda>k. k f) id (map_prod thenDo id (h d))))
    = map_prod (\<lambda>k. k (\<lambda>x. thenDo (f x) g)) id (map_prod thenDo id (h d))" for d
  proof -
    obtain p d1 q1 where h: "h d = (p, d1, q1)" by (cases "h d") auto
    then have "p \<in> Basic_BNFs.fsts (h d)" by simp
    from Do.IH [OF rangeI this] show ?thesis by (simp add: h)
  qed
  then show ?case by simp
qed (simp split: sum.split)

lemma request_throw: "request (throw e) d = (Inl e, d, [])"
  by (simp add: request_def throw_def open_session_def)

lemma alone_refresh:
  assumes "raw \<noteq> []"
  shows "alone (refresh_proc E A raw agent ip) d = request (refresh_endpoint E A (Some raw) c cc ch agent ip) d"
proof -
  let ?expired = "App (UnauthenticatedError ''TOKEN_EXPIRED'' ''Refresh token has expired.'')"
  let ?respond = "\<lambda>tokens. auth_response E tokens None None"
  have whole: "request (refresh_endpoint E A (Some raw) c cc ch agent ip) d =
    request (andThen (load_token E raw) (\<lambda>r.
      if \<not> live r then andThen (end_family E r) ?respond
      else if rt_expires_at r \<le> env_now E then throw ?expired
      else andThen (load_user (rt_user_id r)) (\<lambda>u. andThen (write_rotation E A r agent ip u) ?respond))) d"
    by (simp add: request_def refresh_run [OF assms] rotate_refresh_token_def load_token_def load_user_def
        write_rotation_def end_family_def run_simps unusable_def reuse_error_def token_row_def open_session_def
        andThen_issue Let_def revoke_where_def commit_def
        split: option.split)
  have "alone (thenDo (visit (end_family E r)) (\<lambda>tokens. visit (?respond tokens))) d = request (andThen (end_family E r) ?respond) d" for r
    by (rule alone_visit_first) (auto simp: settled_def end_family_def run_simps)
  moreover have rotated: "alone (thenDo (visit (write_rotation E A r agent ip u)) (\<lambda>tokens. visit (?respond tokens))) d
      = request (andThen (write_rotation E A r agent ip u) ?respond) d" for r u
    by (rule alone_visit_first [OF settled_commits])
      (auto simp: write_rotation_def run_simps andThen_issue Let_def commit_def open_session_def)
  moreover have "alone (thenDo (visit (load_user k)) (\<lambda>u. thenDo (visit (write_rotation E A r agent ip u)) (\<lambda>tokens. visit (?respond tokens)))) d
      = request (andThen (load_user k) (\<lambda>u. andThen (write_rotation E A r agent ip u) ?respond)) d" for k r
    by (rule alone_read_first) (simp_all add: rotated)
  ultimately have "alone (thenDo (if \<not> live r then visit (end_family E r)
             else if rt_expires_at r \<le> env_now E then Return (Inl ?expired)
             else thenDo (visit (load_user (rt_user_id r))) (\<lambda>u. visit (write_rotation E A r agent ip u)))
           (\<lambda>tokens. visit (?respond tokens))) d
      = request (if \<not> live r then andThen (end_family E r) ?respond
          else if rt_expires_at r \<le> env_now E then throw ?expired
          else andThen (load_user (rt_user_id r)) (\<lambda>u. andThen (write_rotation E A r agent ip u) ?respond)) d" for r
    by (simp add: thenDo_assoc request_throw)
  then show ?thesis unfolding whole refresh_proc_def by (rule alone_read_first [OF reads_loads(6)])
qed

section \<open>Any of the requests\<close>

datatype call =
    Change uuid "string option" OpportunityUpdate
  | Decision uuid DecisionRequest "string option" "string option"
  | Start string uuid json "string option"
  | Rotation string "string option" "string option"

type_synonym caller = "env \<times> auth_env \<times> Principal \<times> call"

definition silent :: "'a proc \<Rightarrow> unit proc" where
  "silent p = thenDo p (\<lambda>_. Return (Inr ()))"

fun process :: "caller \<Rightarrow> unit proc" where
  "process (E, A, pr, Change i h u) = silent (patch_proc E pr i h u)"
| "process (E, A, pr, Decision i b key rid) = silent (decide_proc E pr i b key rid)"
| "process (E, A, pr, Start kind i inp key) =
     thenDo (visit (require SCREEN pr)) (\<lambda>_. silent (start_proc E (pr_org_id pr) kind i inp key))"
| "process (E, A, pr, Rotation raw agent ip) = silent (refresh_proc E A raw agent ip)"

fun handler :: "caller \<Rightarrow> unit run" where
  "handler (E, A, pr, Change i h u) = quiet (update_opportunity E pr i h u)"
| "handler (E, A, pr, Decision i b key rid) = quiet (decide_opportunity E pr i b key rid)"
| "handler (E, A, pr, Start kind i inp key) =
     andThen (require SCREEN pr) (\<lambda>_. quiet (start_opportunity_job E (pr_org_id pr) kind i inp key))"
| "handler (E, A, pr, Rotation raw agent ip) = quiet (refresh_endpoint E A (Some raw) None None None agent ip)"

text \<open>A rotation needs a token; an empty one in the body makes the server use the cookie.\<close>

fun well_formed :: "caller \<Rightarrow> bool" where
  "well_formed (E, A, pr, Rotation raw agent ip) \<longleftrightarrow> raw \<noteq> []"
| "well_formed (E, A, pr, c) \<longleftrightarrow> True"

lemma alone_silent:
  "alone (silent p) d = (case alone p d of (r, d', q) \<Rightarrow> (case r of Inl e \<Rightarrow> Inl e | Inr x \<Rightarrow> Inr (), d', q))"
  unfolding silent_def
proof (induction p arbitrary: d)
  case (Do f)
  obtain p d1 q1 where f: "f d = (p, d1, q1)" by (cases "f d") auto
  then have "p \<in> Basic_BNFs.fsts (f d)" by simp
  from Do.IH [OF rangeI this, of d1] show ?case by (simp add: f split: prod.split sum.split)
qed (simp split: sum.split)

lemma silent_request:
  "alone p d = request m d \<Longrightarrow> alone (silent p) d = request (quiet m) d"
  by (simp add: alone_silent quiet_request split: prod.split sum.split)

lemma process_alone:
  assumes "well_formed c" "distinct (map op_id (opportunities d))"
  shows "alone (process c) d = request (handler c) d"
proof (cases c rule: process.cases)
  case (1 E A pr i h u)
  then show ?thesis using silent_request [OF alone_patch [OF assms(2)]] by simp
next
  case (2 E A pr i b key rid)
  then show ?thesis using silent_request [OF alone_decide [OF assms(2)]] by simp
next
  case (3 E A pr kind i inp key)
  show ?thesis unfolding 3 process.simps handler.simps
    by (rule alone_read_first) (simp_all add: silent_request [OF alone_start])
next
  case (4 E A pr raw agent ip)
  then show ?thesis using silent_request [OF alone_refresh] assms(1) by simp
qed

section \<open>What the calls of a fund keep, however they are interleaved\<close>

fun fund_call :: "uuid \<Rightarrow> uuid list \<Rightarrow> caller \<Rightarrow> bool" where
  "fund_call x opps (E, A, pr, Change i h u) \<longleftrightarrow> pr_org_id pr = x \<and> i \<in> set opps"
| "fund_call x opps (E, A, pr, Decision i b key rid) \<longleftrightarrow> pr_org_id pr = x \<and> i \<in> set opps"
| "fund_call x opps (E, A, pr, c) \<longleftrightarrow> pr_org_id pr = x"

text \<open>A relation that the writes of the four handlers respect, for callers of the fund \<open>x\<close> and the
  opportunities \<open>opps\<close>, is respected by every visit of their processes.\<close>

locale fund_calls = db_order +
  fixes x :: uuid and opps :: "uuid list"
  assumes write_opportunity: "i \<in> set opps \<Longrightarrow>
      (\<And>p. op_id (f p) = op_id p \<and> op_first_signal_at (f p) = op_first_signal_at p
        \<and> op_sla_deadline_at (f p) = op_sla_deadline_at p \<and> op_org_id (f p) = op_org_id p
        \<and> op_company_id (f p) = op_company_id p) \<Longrightarrow> R d (set_opportunity E i f d)"
    and write_application: "i \<in> set opps \<Longrightarrow>
      first_row (\<lambda>a. app_opportunity_id a = Some i) (applications d) = Some a \<Longrightarrow>
      R d (set_application (app_id a) (\<lambda>a. a\<lparr>app_status := APP_DECIDED\<rparr>) d)"
    and write_audit: "R d1 (d1\<lparr>audit_log := audit_log d1 @ [entry]\<rparr>)"
    and write_queued: "job_org_id j = Some x \<Longrightarrow> job_id j = next_uuid d2 \<Longrightarrow> R d2 (add_job j (d2\<lparr>next_uuid := Suc (next_uuid d2)\<rparr>))"
    and write_tokens: "next_uuid d3 \<le> n \<Longrightarrow> R d3 (d3\<lparr>next_uuid := n, refresh_tokens := ts\<rparr>)"
begin

lemma keeps_reading: "reads m \<Longrightarrow> keeps m"
  by (simp add: keeps_def reads_def order_refl)

lemma visit_reading: "reads m \<Longrightarrow> every_visit R (visit m)"
  by (rule every_visit_visit [OF keeps_reading])

lemma keeps_revoke: "keeps (change (revoke_where P now why))"
proof (rule keeps_change)
  fix d show "R d (revoke_where P now why d)"
    using write_tokens [of d "next_uuid d" "upd_where P (revoke now why) (refresh_tokens d)"] by (simp add: revoke_where_def)
qed

lemma keeps_issue: "keeps (issue_tokens E A u (Some f) parent agent ip)"
proof -
  have "R d (add_refresh t (d\<lparr>next_uuid := next_uuid d + 3\<rparr>))" for d t
    using write_tokens [of d "next_uuid d + 3" "refresh_tokens d @ [t]"] by (simp add: add_refresh_def)
  then show ?thesis unfolding keeps_def by (simp add: issue_tokens_run Let_def)
qed

lemma keeps_audit: "keeps (change (add_audit a))" "keeps (change (\<lambda>d. d\<lparr>audit_log := audit_log d @ [a]\<rparr>))"
  by (auto intro!: keeps_change simp: add_audit_def write_audit)

lemma keeps_token_bytes: "keeps (token_urlsafe E)"
proof -
  have "R d (d\<lparr>next_uuid := Suc (next_uuid d)\<rparr>)" for d
    using write_tokens [of d "Suc (next_uuid d)" "refresh_tokens d"] by simp
  then show ?thesis by (auto simp: token_urlsafe_def new_uuid_def intro!: keeps_on_db)
qed

lemma keeps_writes:
  assumes "i \<in> set opps"
  shows "keeps (write_patch E i u opp)" "keeps (write_decision E pr i b key rid opp)"
proof -
  have w: "keeps (change (set_opportunity E i (written opp new)))" for new
    by (rule keeps_change, rule write_opportunity [OF assms]) simp
  show "keeps (write_patch E i u opp)" unfolding write_patch_def using w by auto
  have "keeps (andThen (query (\<lambda>d. first_row (\<lambda>a. app_opportunity_id a = Some i) (applications d)))
      (\<lambda>r. andThen (when_some r (\<lambda>a. change (set_application (app_id a) (\<lambda>a. a\<lparr>app_status := APP_DECIDED\<rparr>)))) (\<lambda>_. commit_run)))"
    unfolding keeps_def using write_application [OF assms]
    by (auto simp: run_simps when_some_def order_refl commit_def split: option.split)
  then show "keeps (write_decision E pr i b key rid opp)"
    unfolding write_decision_def
    by (rule keeps_andThen [OF w keeps_andThen [OF keeps_audit(2)]])
qed

lemma keeps_job: "keeps (write_job E x kind i key inp existing)"
proof -
  have "keeps (insert_new (new_job (Some x) kind ''opportunity'' i (Some key) inp (env_now E)) add_job)"
    by (rule keeps_insert_new, rule write_queued) (simp_all add: new_job_def)
  then show ?thesis unfolding write_job_def by (auto split: option.split)
qed

lemma keeps_dispatch: "keeps (dispatch_job E j)"
  by (simp add: dispatch_job_def)

lemma keeps_rotation: "keeps (end_family E r)" "keeps (write_rotation E A r agent ip u)" "keeps (auth_response E t us ox)"
  by (auto simp: end_family_def write_rotation_def auth_response_def set_token_cookies_def
      intro!: keeps_andThen keeps_revoke keeps_issue keeps_audit keeps_token_bytes)

lemma guards_silent: "every_visit R p \<Longrightarrow> every_visit R (silent p)"
  unfolding silent_def by (rule every_visit_thenDo) simp_all

lemma guards_patch: "i \<in> set opps \<Longrightarrow> every_visit R (patch_proc E pr i h u)"
  unfolding patch_proc_def
  by (intro every_visit_thenDo visit_reading every_visit_visit keeps_writes) simp_all

lemma guards_decide: "i \<in> set opps \<Longrightarrow> every_visit R (decide_proc E pr i b key rid)"
proof -
  assume i: "i \<in> set opps"
  have "every_visit R (if c then visit (build_detail E opp)
      else thenDo (visit (enough_evidence i b)) (\<lambda>_.
        thenDo (visit (write_decision E pr i b k rid opp)) (\<lambda>_. visit (answer E opp))))" for c opp k
    by (cases c) (auto intro!: every_visit_thenDo visit_reading every_visit_visit [OF keeps_writes(2)] i)
  then show ?thesis unfolding decide_proc_def by (intro every_visit_thenDo visit_reading) simp_all
qed

lemma guards_start: "every_visit R (start_proc E x kind i inp key)"
proof -
  have "every_visit R (case jr of (j, replayed) \<Rightarrow>
      visit (andThen (if replayed then ret () else dispatch_job E (job_id j)) (\<lambda>_. ret (job_id j, replayed))))" for jr :: "Job \<times> bool"
    by (cases jr) (auto intro!: every_visit_visit keeps_andThen keeps_dispatch)
  then show ?thesis unfolding start_proc_def
    by (intro every_visit_thenDo visit_reading every_visit_visit [OF keeps_job]) auto
qed

lemma guards_refresh: "every_visit R (refresh_proc E A raw agent ip)"
proof -
  have "every_visit R (if c then visit (end_family E r) else if c' then Return e
      else thenDo (visit (load_user k)) (\<lambda>u. visit (write_rotation E A r agent ip u)))" for c c' e r k
    by (auto intro!: every_visit_thenDo every_visit_visit keeps_rotation keeps_reading [OF reads_loads(7)])
  then show ?thesis unfolding refresh_proc_def
    by (intro every_visit_thenDo visit_reading every_visit_visit [OF keeps_rotation(3)]) simp_all
qed

lemma guards_process: "fund_call x opps c \<Longrightarrow> every_visit R (process c)"
proof (cases c rule: process.cases)
  case (3 E A pr kind i inp key)
  then show "fund_call x opps c \<Longrightarrow> every_visit R (process c)"
    using guards_start [of E kind i inp key] by (auto intro!: every_visit_thenDo visit_reading guards_silent)
qed (auto intro!: guards_silent guards_patch guards_decide guards_refresh)

lemma schedule_respects:
  assumes "list_all (fund_call x opps) cs" "interleave schedule (map process cs) d = (ps, d', q)"
  shows "R d d'"
  using assms by (intro schedule_keeps) (auto simp: list_all_iff guards_process)

end

section \<open>Any interleaving\<close>

text \<open>The opportunities \<open>opps\<close> are the fund's own, and stay so.\<close>

definition own_all_safe :: "uuid \<Rightarrow> uuid list \<Rightarrow> db \<Rightarrow> db \<Rightarrow> bool" where
  "own_all_safe x opps d d' \<longleftrightarrow>
     (list_all (\<lambda>i. own_id x i d) opps \<longrightarrow> list_all (\<lambda>i. own_id x i d') opps \<and> safe x d d')"

lemma own_change_kept:
  assumes "own_safe x i d d'" and "\<And>j. own_id x j d \<Longrightarrow> own_id x j d'" and "i \<in> set opps"
  shows "own_all_safe x opps d d'"
  using assms unfolding own_all_safe_def own_safe_def list_all_iff by blast

interpretation isolated: fund_calls "own_all_safe x opps" x opps for x opps
proof
  fix d show "own_all_safe x opps d d" using fund.order_refl by (simp add: own_all_safe_def)
next
  fix a b c assume "own_all_safe x opps a b" "own_all_safe x opps b c"
  then show "own_all_safe x opps a c" unfolding own_all_safe_def using fund.order_trans by blast
next
  fix i d E and f :: "Opportunity \<Rightarrow> Opportunity"
  assume i: "i \<in> set opps" and f: "\<And>p. op_id (f p) = op_id p \<and> op_first_signal_at (f p) = op_first_signal_at p
        \<and> op_sla_deadline_at (f p) = op_sla_deadline_at p \<and> op_org_id (f p) = op_org_id p
        \<and> op_company_id (f p) = op_company_id p"
  have "own_safe x i d (set_opportunity E i f d)"
    using own.keepsD [OF own_opportunity [OF f] change_run [where s = "open_session d []"]] by (simp add: open_session_def)
  then show "own_all_safe x opps d (set_opportunity E i f d)"
    by (rule own_change_kept [OF _ _ i]) (use f in \<open>simp add: own_id_def set_opportunity_def upd_row_def\<close>)
next
  fix i a and d :: db
  assume i: "i \<in> set opps" and a: "first_row (\<lambda>a. app_opportunity_id a = Some i) (applications d) = Some a"
  let ?d = "set_application (app_id a) (\<lambda>a. a\<lparr>app_status := APP_DECIDED\<rparr>) d"
  have "own_safe x i d ?d"
  proof -
    let ?mark = "\<lambda>a. a\<lparr>app_status := APP_DECIDED\<rparr>"
    have "andThen (query (\<lambda>d. first_row (\<lambda>a. app_opportunity_id a = Some i) (applications d)))
        (\<lambda>r. when_some r (\<lambda>a. change (set_application (app_id a) ?mark))) (open_session d [])
      = (Inr (), (open_session d [])\<lparr>s_db := ?d\<rparr>)"
      using a by (simp add: run_simps open_session_def when_some_def)
    from own.keepsD [OF own_decision_application this] show ?thesis by (simp add: open_session_def)
  qed
  then show "own_all_safe x opps d ?d"
    by (rule own_change_kept [OF _ _ i]) (simp add: own_id_def set_application_def upd_row_def)
next
  fix entry and d :: db show "own_all_safe x opps d (d\<lparr>audit_log := audit_log d @ [entry]\<rparr>)"
    by (simp add: own_all_safe_def own_id_def safe_defs)
next
  fix j :: Job and d :: db assume "job_org_id j = Some x"
  then show "own_all_safe x opps d (add_job j (d\<lparr>next_uuid := Suc (next_uuid d)\<rparr>))"
    by (auto simp: own_all_safe_def own_id_def safe_defs add_job_def list_all_iff)
next
  fix n ts and d :: db assume "next_uuid d \<le> n"
  then show "own_all_safe x opps d (d\<lparr>next_uuid := n, refresh_tokens := ts\<rparr>)"
    by (simp add: own_all_safe_def own_id_def safe_defs)
qed


definition retitle :: "string \<Rightarrow> OpportunityUpdate" where
  "retitle t = \<lparr>ou_assigned_to = None, ou_stage = None, ou_title = Some (Some t)\<rparr>"

definition two_editors :: "caller list" where
  "two_editors = [(demo_env, demo_auth, demo_pr PARTNER, Change 4 (Some ''1'') (retitle ''first'')),
     (demo_env, demo_auth, demo_pr PARTNER, Change 4 (Some ''1'') (retitle ''second''))]"


section \<open>Serial schedules\<close>

fun one_after_another :: "caller list \<Rightarrow> db \<Rightarrow> (exn + unit) list \<times> db \<times> uuid list" where
  "one_after_another [] d = ([], d, [])"
| "one_after_another (c # cs) d =
     (case request (handler c) d of (r, d1, q1) \<Rightarrow>
        (case one_after_another cs d1 of (rs, d2, q2) \<Rightarrow> (r # rs, d2, q1 @ q2)))"

definition same_opp_ids :: "db \<Rightarrow> db \<Rightarrow> bool" where
  "same_opp_ids d d' \<longleftrightarrow> map op_id (opportunities d') = map op_id (opportunities d)"

interpretation opp_ids: fund_calls same_opp_ids x opps for x opps
  by unfold_locales
    (auto simp: same_opp_ids_def set_opportunity_def upd_row_def set_application_def add_job_def)

lemma some_fund_call: "\<exists>x opps. fund_call x opps c"
proof (cases c rule: process.cases)
  case (1 E A pr i h u)
  then show ?thesis by (intro exI [of _ "pr_org_id pr"] exI [of _ "[i]"]) simp
next
  case (2 E A pr i b key rid)
  then show ?thesis by (intro exI [of _ "pr_org_id pr"] exI [of _ "[i]"]) simp
qed auto

lemma process_keeps_ids:
  assumes "alone (process c) d = (r, d', q)" shows "map op_id (opportunities d') = map op_id (opportunities d)"
proof -
  obtain x opps where c: "list_all (fund_call x opps) [c]" using some_fund_call [of c] by auto
  obtain n where "fold turn (replicate n 0) (map process [c], d, []) = ([Return r], d', q)"
    using turns_alone [of 0 "map process [c]" d "[]"] assms by auto
  then show ?thesis
    using opp_ids.schedule_respects [OF c] unfolding interleave_def same_opp_ids_def by blast
qed

lemma serial_prefix:
  assumes "list_all well_formed calls" "distinct (map op_id (opportunities d))"
  shows "\<exists>schedule. fold turn schedule (map Return done' @ map process calls, d, q) =
    (case one_after_another calls d of (rs, d', q') \<Rightarrow> (map Return (done' @ rs), d', q @ q'))"
  using assms
proof (induction calls arbitrary: done' d q)
  case Nil
  show ?case by (rule exI [of _ "[]"]) simp
next
  case (Cons c cs)
  obtain r d1 q1 where c: "request (handler c) d = (r, d1, q1)" using prod_cases3 by blast
  have al: "alone (process c) d = (r, d1, q1)" using process_alone Cons.prems c by simp
  let ?ps = "map Return done' @ map process (c # cs)"
  obtain n where n: "fold turn (replicate n (length done')) (?ps, d, q) = (?ps[length done' := Return r], d1, q @ q1)"
    using turns_alone [of "length done'" ?ps d q] al by (auto simp: nth_append)
  have ps: "?ps[length done' := Return r] = map Return (done' @ [r]) @ map process cs"
    by (simp add: list_update_append)
  have "distinct (map op_id (opportunities d1))" using process_keeps_ids [OF al] Cons.prems(2) by simp
  then obtain sch where "fold turn sch (map Return (done' @ [r]) @ map process cs, d1, q @ q1) =
      (case one_after_another cs d1 of (rs, d', q') \<Rightarrow> (map Return ((done' @ [r]) @ rs), d', (q @ q1) @ q'))"
    using Cons.IH [of d1 "done' @ [r]" "q @ q1"] Cons.prems(1) by auto
  then have "fold turn (replicate n (length done') @ sch) (?ps, d, q) =
      (case one_after_another (c # cs) d of (rs, d', q') \<Rightarrow> (map Return (done' @ rs), d', q @ q'))"
    using n ps c by (simp split: prod.split)
  then show ?case by blast
qed



section \<open>Requests that overlap\<close>

lemma turn_visit:
  assumes "i < length ps" "ps ! i = thenDo (visit m) g" "request m d = (Inr y, d', q')"
  shows "turn i (ps, d, q) = (ps[i := g y], d', q @ q')"
  using assms by (simp add: thenDo_visit)

lemma turn_last:
  assumes "i < length ps" "ps ! i = visit m" "request m d = (r, d', q')"
  shows "turn i (ps, d, q) = (ps[i := Return r], d', q @ q')"
  using assms by (simp add: visit_def)

lemma request_query: "request (query f) d = (Inr (f d), d, [])"
  by (simp add: request_def run_simps open_session_def)

lemma request_load_fresh:
  assumes "has_permission pr SCREEN" "find_opportunity (pr_org_id pr) i d = Some p" "fresh_version h (op_version p)"
  shows "request (load_fresh pr i h) d = (Inr p, d, [])"
  using assms by (simp add: request_def load_fresh_def run_simps get_opportunity_def open_session_def)

lemma request_write_patch:
  "storable u d \<Longrightarrow> request (write_patch E i u p) d = (Inr (), set_opportunity E i (written p (patched u p)) d, [])"
  by (simp add: request_def write_patch_def run_simps commit_def open_session_def)

lemma storable_set_opportunity [simp]: "storable u (set_opportunity E i f d) = storable u d"
  by (simp add: storable_def split: option.split)

text \<open>C16: a lost update. Two requests for a change that name the version they both read are refused
  one after the other, but not when they overlap: both load the opportunity before either writes, both
  pass the check of the version, both write. The second writes over the title, the stage and the
  assignment that it changes, and the version counts one change for the two.\<close>

theorem overlapping_changes_lose_one:
  assumes "has_permission pr SCREEN" "has_permission pr' SCREEN" "pr_org_id pr = x" "pr_org_id pr' = x"
    and "find_opportunity x i d = Some p"
    and "fresh_version h (op_version p)" "fresh_version h' (op_version p)" "storable u d" "storable v d"
  shows "\<exists>d' p'. interleave [0, 1, 0, 1] [patch_proc E pr i h u, patch_proc E' pr' i h' v] d
      = ([visit (answer E p), visit (answer E' p)], d', [])
    \<and> find_opportunity x i d' = Some p' \<and> op_version p' = op_version p + 1
    \<and> (\<forall>t. ou_title v = Some t \<and> t \<noteq> op_title p \<longrightarrow> op_title p' = t)
    \<and> (\<forall>st. ou_stage v = Some (Some st) \<and> st \<noteq> op_stage p \<longrightarrow> op_stage p' = st)
    \<and> (\<forall>who. ou_assigned_to v = Some who \<and> who \<noteq> op_assigned_to p \<longrightarrow> op_assigned_to p' = who)"
proof -
  let ?g = "\<lambda>p. thenDo (visit (write_patch E i u p)) (\<lambda>_. visit (answer E p))"
  let ?g' = "\<lambda>p. thenDo (visit (write_patch E' i v p)) (\<lambda>_. visit (answer E' p))"
  let ?d1 = "set_opportunity E i (written p (patched u p)) d"
  let ?d2 = "set_opportunity E' i (written p (patched v p)) ?d1"
  have load: "request (load_fresh pr i h) d = (Inr p, d, [])" "request (load_fresh pr' i h') d = (Inr p, d, [])"
    using assms by (simp_all add: request_load_fresh)
  have save: "request (write_patch E i u p) d = (Inr (), ?d1, [])" "request (write_patch E' i v p) ?d1 = (Inr (), ?d2, [])"
    using assms by (simp_all add: request_write_patch)
  have "turn 0 ([patch_proc E pr i h u, patch_proc E' pr' i h' v], d, []) = ([?g p, patch_proc E' pr' i h' v], d, [])"
    by (subst turn_visit [OF _ _ load(1)]) (simp_all add: patch_proc_def)
  moreover have "turn 1 ([?g p, patch_proc E' pr' i h' v], d, []) = ([?g p, ?g' p], d, [])"
    by (subst turn_visit [OF _ _ load(2)]) (simp_all add: patch_proc_def)
  moreover have "turn 0 ([?g p, ?g' p], d, []) = ([visit (answer E p), ?g' p], ?d1, [])"
    by (subst turn_visit [OF _ _ save(1)]) simp_all
  moreover have "turn 1 ([visit (answer E p), ?g' p], ?d1, []) = ([visit (answer E p), visit (answer E' p)], ?d2, [])"
    by (subst turn_visit [OF _ _ save(2)]) simp_all
  ultimately have "interleave [0, 1, 0, 1] [patch_proc E pr i h u, patch_proc E' pr' i h' v] d
      = ([visit (answer E p), visit (answer E' p)], ?d2, [])"
    unfolding interleave_def by (simp del: turn.simps)
  moreover have "find_opportunity x i ?d2 =
      Some ((written p (patched v p) ((written p (patched u p) p)\<lparr>op_updated_at := env_now E\<rparr>))\<lparr>op_updated_at := env_now E'\<rparr>)"
    using assms(5) by (simp add: find_set_opportunity)
  ultimately show ?thesis
    by (intro exI conjI) (auto simp: written_def patched_def column_def set_fields_def)
qed

theorem overlapping_changes_lose_one_witness:
  "\<exists>d' p'. snd (interleave [0, 1, 0, 1] [patch_proc demo_env (demo_pr PARTNER) 4 (Some ''1'') (retitle ''first''),
       patch_proc demo_env (demo_pr PARTNER) 4 (Some ''1'') (retitle ''second'')] demo_funds) = (d', [])
     \<and> find_opportunity 1 4 d' = Some p' \<and> op_title p' = Some ''second'' \<and> op_version p' = 2"
proof -
  have "has_permission (demo_pr PARTNER) SCREEN" by code_simp
  moreover have "find_opportunity 1 4 demo_funds = Some (demo_opportunity 4)"
    by (simp add: find_opportunity_def own_row_def first_row_def demo_funds_def demo_opportunity_def new_opportunity_def)
  moreover have "op_version (demo_opportunity 4) = 1" "op_title (demo_opportunity 4) \<noteq> Some ''second''"
    by (simp_all add: demo_opportunity_def new_opportunity_def new_company_def)
  moreover have "fresh_version (Some ''1'') 1" by code_simp
  moreover have "storable (retitle t) demo_funds" for t by (simp add: storable_def retitle_def)
  ultimately show ?thesis
    using overlapping_changes_lose_one [of "demo_pr PARTNER" "demo_pr PARTNER" 1 4 demo_funds "demo_opportunity 4" "Some ''1''" "Some ''1''"
        "retitle ''first''" "retitle ''second''" demo_env demo_env]
    by (fastforce simp: demo_pr_def retitle_def)
qed

text \<open>A write that comes late sets the version to one more than the version it loaded, whatever the version is by then.\<close>

lemma version_can_go_back:
  assumes "storable u d" "find_opportunity x i d = Some now" "op_version p + 1 < op_version now"
  shows "\<exists>p'. find_opportunity x i (fst (snd (request (write_patch E i u p) d))) = Some p'
    \<and> op_version p' = op_version p + 1 \<and> op_version p' < op_version now"
  using assms by (simp add: request_write_patch find_set_opportunity written_def patched_def column_def)

text \<open>Two decisions with one idempotency key are both recorded when they overlap; the second one stands.\<close>

lemma request_load_decidable:
  assumes "has_permission pr DECIDE" "truthy key" "find_opportunity (pr_org_id pr) i d = Some p" "op_stage p \<noteq> ARCHIVED"
  shows "request (load_decidable pr i key) d = (Inr p, d, [])"
  using assms by (simp add: request_def load_decidable_def run_simps get_opportunity_def open_session_def)

lemma request_enough:
  "(dr_decision b = PASS \<longrightarrow> 0 < evidence_count i d) \<Longrightarrow> request (enough_evidence i b) d = (Inr (), d, [])"
  by (simp add: request_def enough_evidence_def run_simps open_session_def)

definition decision_written ::
  "env \<Rightarrow> Principal \<Rightarrow> uuid \<Rightarrow> DecisionRequest \<Rightarrow> string \<Rightarrow> string option \<Rightarrow> Opportunity \<Rightarrow> db \<Rightarrow> db" where
  "decision_written E pr i b key rid p d =
     fst (snd (request (write_decision E pr i b key rid p) d))"

lemma request_write_decision:
  "request (write_decision E pr i b key rid p) d = (Inr (), decision_written E pr i b key rid p d, [])"
  by (simp add: decision_written_def request_def write_decision_def run_simps commit_def open_session_def when_some_def split: option.split)

lemma decision_written_tables:
  "opportunities (decision_written E pr i b key rid p d)
    = opportunities (set_opportunity E i (written p (decided E pr b p)) d)"
  "audit_log (decision_written E pr i b key rid p d) = audit_log d @ [decision_audit pr i (dr_decision b) key rid]"
  "evidence (decision_written E pr i b key rid p d) = evidence d" "claims (decision_written E pr i b key rid p d) = claims d"
  by (simp_all add: decision_written_def request_def write_decision_def run_simps commit_def open_session_def when_some_def split: option.split)

lemma overlapping_decisions_both_recorded:
  assumes "has_permission pr DECIDE" "has_permission pr' DECIDE" "pr_org_id pr = x" "pr_org_id pr' = x"
    and "find_opportunity x i d = Some p" "op_stage p \<noteq> ARCHIVED" "op_decision p = None" "key \<noteq> []"
    and "dr_decision b = PASS \<or> dr_decision b' = PASS \<longrightarrow> 0 < evidence_count i d"
  shows "\<exists>d' p'. interleave [0, 0, 0, 1, 1, 1, 0, 1]
        [decide_proc E pr i b (Some key) rid, decide_proc E' pr' i b' (Some key) rid'] d
      = ([visit (answer E p), visit (answer E' p)], d', [])
    \<and> audit_log d' = audit_log d @ [decision_audit pr i (dr_decision b) key rid, decision_audit pr' i (dr_decision b') key rid']
    \<and> find_opportunity x i d' = Some p' \<and> op_decision p' = Some (dr_decision b') \<and> op_version p' = op_version p + 1"
proof -
  let ?a = "\<lambda>pr. query (\<lambda>d. first_row (decided_with (pr_org_id pr) i (the (Some key))) (audit_log d))"
  let ?w = "\<lambda>E pr b rid p. thenDo (visit (write_decision E pr i b (the (Some key)) rid p)) (\<lambda>_. visit (answer E p))"
  let ?e = "\<lambda>E pr b rid p. thenDo (visit (enough_evidence i b)) (\<lambda>_. ?w E pr b rid p)"
  let ?k = "\<lambda>E pr b rid p. thenDo (visit (?a pr)) (\<lambda>existing_audit.
     if existing_audit \<noteq> None \<and> op_decision p \<noteq> None then visit (build_detail E p) else ?e E pr b rid p)"
  let ?d1 = "decision_written E pr i b key rid p d" and ?d2 = "decision_written E' pr' i b' key rid' p (decision_written E pr i b key rid p d)"
  have load: "request (load_decidable pr i (Some key)) d = (Inr p, d, [])" "request (load_decidable pr' i (Some key)) d = (Inr p, d, [])"
    using assms by (simp_all add: request_load_decidable truthy_def)
  have enough: "request (enough_evidence i b) d = (Inr (), d, [])" "request (enough_evidence i b') d = (Inr (), d, [])"
    using assms(9) by (simp_all add: request_enough)
  note save = request_write_decision
  have three: "fold turn [j, j, j] (ps, d, []) = (ps[j := ?w F qr c r p], d, [])"
    if "j < length ps" "ps ! j = decide_proc F qr i c (Some key) r"
      "request (load_decidable qr i (Some key)) d = (Inr p, d, [])" "request (enough_evidence i c) d = (Inr (), d, [])" for j F qr c r and ps :: "OpportunityDetail proc list"
  proof -
    have "turn j (ps, d, []) = (ps[j := ?k F qr c r p], d, [])"
      by (subst turn_visit [OF that(1) _ that(3)]) (simp_all add: that(2) decide_proc_def)
    moreover have "turn j (ps[j := ?k F qr c r p], d, []) = (ps[j := ?e F qr c r p], d, [])"
      using turn_visit [OF _ _ request_query [of "\<lambda>d. first_row (decided_with (pr_org_id qr) i (the (Some key))) (audit_log d)"],
        of j "ps[j := ?k F qr c r p]"] that(1) assms(7) by simp
    moreover have "turn j (ps[j := ?e F qr c r p], d, []) = (ps[j := ?w F qr c r p], d, [])"
      by (subst turn_visit [OF _ _ that(4)]) (use that(1) in auto)
    ultimately show ?thesis by (simp del: turn.simps)
  qed
  let ?p0 = "decide_proc E pr i b (Some key) rid" and ?p1 = "decide_proc E' pr' i b' (Some key) rid'"
  have "fold turn [0, 0, 0] ([?p0, ?p1], d, []) = ([?w E pr b rid p, ?p1], d, [])"
    using three [of 0 "[?p0, ?p1]"] load(1) enough(1) by simp
  moreover have "fold turn [1, 1, 1] ([?w E pr b rid p, ?p1], d, []) = ([?w E pr b rid p, ?w E' pr' b' rid' p], d, [])"
    using three [of 1 "[?w E pr b rid p, ?p1]"] load(2) enough(2) by simp
  moreover have "turn 0 ([?w E pr b rid p, ?w E' pr' b' rid' p], d, []) = ([visit (answer E p), ?w E' pr' b' rid' p], ?d1, [])"
    by (subst turn_visit [OF _ _ save]) simp_all
  moreover have "turn 1 ([visit (answer E p), ?w E' pr' b' rid' p], ?d1, []) = ([visit (answer E p), visit (answer E' p)], ?d2, [])"
    by (subst turn_visit [OF _ _ save]) simp_all
  moreover have "interleave [0, 0, 0, 1, 1, 1, 0, 1] [?p0, ?p1] d
      = turn 1 (turn 0 (fold turn [1, 1, 1] (fold turn [0, 0, 0] ([?p0, ?p1], d, []))))"
    by (simp add: interleave_def del: turn.simps)
  ultimately have run: "interleave [0, 0, 0, 1, 1, 1, 0, 1] [?p0, ?p1] d = ([visit (answer E p), visit (answer E' p)], ?d2, [])"
    by (simp del: turn.simps)
  have "find_opportunity x i (decision_written F qr i c key r p d0)
      = find_opportunity x i (set_opportunity F i (written p (decided F qr c p)) d0)" for F qr c r d0
    by (simp add: find_opportunity_def own_row_def decision_written_tables)
  then have "find_opportunity x i ?d2 =
      Some ((written p (decided E' pr' b' p) ((written p (decided E pr b p) p)\<lparr>op_updated_at := env_now E\<rparr>))\<lparr>op_updated_at := env_now E'\<rparr>)"
    using assms(5) by (simp add: find_set_opportunity)
  with run show ?thesis
    using assms(7) by (intro exI conjI) (auto simp: decision_written_tables written_def decided_def column_def)
qed

text \<open>Two requests to start a job with one key start two jobs when they overlap: each finds no job of the
  key, adds one and hands it to the worker.\<close>

definition fresh_job :: "env \<Rightarrow> uuid \<Rightarrow> string \<Rightarrow> uuid \<Rightarrow> string \<Rightarrow> json \<Rightarrow> db \<Rightarrow> Job" where
  "fresh_job E x kind i key inp d =
     new_job (Some x) kind ''opportunity'' i (Some key) inp (env_now E) (next_uuid d)"

lemma request_write_job:
  "request (write_job E x kind i key inp None) d =
     (Inr (fresh_job E x kind i key inp d, False),
      add_job (fresh_job E x kind i key inp d) (d\<lparr>next_uuid := Suc (next_uuid d)\<rparr>), [])"
  by (simp add: request_def write_job_def run_simps commit_def open_session_def fresh_job_def)

lemma overlapping_starts_make_two_jobs:
  assumes "find_opportunity x i d = Some p" "kind \<noteq> ''screen''" "key \<noteq> []" "env_redis_up E" "env_redis_up E'"
    and "first_row (same_request E x kind i key) (jobs d) = None"
    and "first_row (same_request E' x kind i key) (jobs d) = None"
  shows "\<exists>d' j j'. interleave [0, 0, 0, 1, 1, 1, 0, 1, 0, 1]
        [start_proc E x kind i inp (Some key), start_proc E' x kind i inp' (Some key)] d
      = ([Return (Inr (job_id j, False)), Return (Inr (job_id j', False))], d', [job_id j, job_id j'])
    \<and> jobs d' = jobs d @ [j, j'] \<and> job_id j \<noteq> job_id j' \<and> same_request E x kind i key j \<and> same_request E' x kind i key j'"
proof -
  let ?load = "andThen (check (truthy (Some key)) key_required) (\<lambda>_. get_opportunity x i)"
  let ?hand = "\<lambda>E j replayed. visit (andThen (if replayed then ret () else dispatch_job E (job_id j)) (\<lambda>_. ret (job_id j, replayed)))"
  let ?w = "\<lambda>E inp. thenDo (visit (write_job E x kind i key (with_deck None inp) None)) (\<lambda>(j, replayed). ?hand E j replayed)"
  let ?q = "\<lambda>E inp app. thenDo (visit (query (\<lambda>d. first_row (same_request E x kind i key) (jobs d)))) (\<lambda>existing.
      thenDo (visit (write_job E x kind i key (with_deck app inp) existing)) (\<lambda>(j, replayed). ?hand E j replayed))"
  let ?a = "\<lambda>E inp. thenDo (visit (ret None)) (\<lambda>app. ?q E inp app)"
  have load: "request ?load d = (Inr p, d, [])"
    using assms by (simp add: request_def run_simps get_opportunity_def open_session_def truthy_def)
  have none: "request (ret None) d = (Inr None, d, [])"
    by (simp add: request_def run_simps open_session_def)
  have three: "fold turn [j, j, j] (ps, d, []) = (ps[j := ?w F b], d, [])"
    if j: "j < length ps" "ps ! j = start_proc F x kind i b (Some key)"
      and none': "first_row (same_request F x kind i key) (jobs d) = None" for j F b and ps :: "(uuid \<times> bool) proc list"
  proof -
    have "turn j (ps, d, []) = (ps[j := ?a F b], d, [])"
      by (subst turn_visit [OF j(1) _ load]) (simp_all add: j(2) start_proc_def assms(2))
    moreover have "turn j (ps[j := ?a F b], d, []) = (ps[j := ?q F b None], d, [])"
      by (subst turn_visit [OF _ _ none]) (use j(1) in auto)
    moreover have "turn j (ps[j := ?q F b None], d, []) = (ps[j := ?w F b], d, [])"
      using turn_visit [OF _ _ request_query [of "\<lambda>d. first_row (same_request F x kind i key) (jobs d)"],
        of j "ps[j := ?q F b None]"] j(1) none' by simp
    ultimately show ?thesis by (simp del: turn.simps)
  qed
  let ?j = "fresh_job E x kind i key (with_deck None inp) d"
  let ?d1 = "add_job ?j (d\<lparr>next_uuid := Suc (next_uuid d)\<rparr>)"
  let ?j' = "fresh_job E' x kind i key (with_deck None inp') ?d1"
  let ?d2 = "add_job ?j' (?d1\<lparr>next_uuid := Suc (next_uuid ?d1)\<rparr>)"
  let ?p0 = "start_proc E x kind i inp (Some key)" and ?p1 = "start_proc E' x kind i inp' (Some key)"
  have hand: "request (andThen (dispatch_job F k) (\<lambda>_. ret (k, False))) e = (Inr (k, False), e, [k])" if "env_redis_up F" for F k e
    using that by (simp add: request_def dispatch_job_def run_simps open_session_def)
  have "fold turn [0, 0, 0] ([?p0, ?p1], d, []) = ([?w E inp, ?p1], d, [])"
    using three [of 0 "[?p0, ?p1]"] assms(6) by simp
  moreover have "fold turn [1, 1, 1] ([?w E inp, ?p1], d, []) = ([?w E inp, ?w E' inp'], d, [])"
    using three [of 1 "[?w E inp, ?p1]"] assms(7) by simp
  moreover have "turn 0 ([?w E inp, ?w E' inp'], d, []) = ([?hand E ?j False, ?w E' inp'], ?d1, [])"
    by (subst turn_visit [OF _ _ request_write_job, where g = "\<lambda>(j, replayed). ?hand E j replayed"]) simp_all
  moreover have "turn 1 ([?hand E ?j False, ?w E' inp'], ?d1, []) = ([?hand E ?j False, ?hand E' ?j' False], ?d2, [])"
    by (subst turn_visit [OF _ _ request_write_job, where g = "\<lambda>(j, replayed). ?hand E' j replayed"]) simp_all
  moreover have "turn 0 ([?hand E ?j False, ?hand E' ?j' False], ?d2, []) = ([Return (Inr (job_id ?j, False)), ?hand E' ?j' False], ?d2, [job_id ?j])"
    by (subst turn_last [OF _ _ hand [OF assms(4)]]) simp_all
  moreover have "turn 1 ([Return (Inr (job_id ?j, False)), ?hand E' ?j' False], ?d2, [job_id ?j])
      = ([Return (Inr (job_id ?j, False)), Return (Inr (job_id ?j', False))], ?d2, [job_id ?j, job_id ?j'])"
    by (subst turn_last [OF _ _ hand [OF assms(5)]]) simp_all
  moreover have "interleave [0, 0, 0, 1, 1, 1, 0, 1, 0, 1] [?p0, ?p1] d
      = turn 1 (turn 0 (turn 1 (turn 0 (fold turn [1, 1, 1] (fold turn [0, 0, 0] ([?p0, ?p1], d, []))))))"
    by (simp add: interleave_def del: turn.simps)
  ultimately have "interleave [0, 0, 0, 1, 1, 1, 0, 1, 0, 1] [?p0, ?p1] d
      = ([Return (Inr (job_id ?j, False)), Return (Inr (job_id ?j', False))], ?d2, [job_id ?j, job_id ?j'])"
    by (simp del: turn.simps)
  moreover have "jobs ?d2 = jobs d @ [?j, ?j']" "job_id ?j \<noteq> job_id ?j'"
    by (simp_all add: add_job_def fresh_job_def new_job_def)
  moreover have "same_request E x kind i key ?j" "same_request E' x kind i key ?j'"
    by (simp_all add: same_request_def fresh_job_def new_job_def time_defs)
  ultimately show ?thesis by blast
qed

text \<open>Rotations of one token.\<close>

definition rotation_db :: "env \<Rightarrow> RefreshToken \<Rightarrow> string option \<Rightarrow> string option \<Rightarrow> User \<Rightarrow> db \<Rightarrow> db" where
  "rotation_db E r agent ip u d =
     add_refresh (issued E u (Some (rt_family_id r)) (Some (rt_id r)) agent ip (next_uuid d))
       (revoke_where (\<lambda>t. rt_id t = rt_id r) (env_now E) ''rotated'' d\<lparr>next_uuid := next_uuid d + 3\<rparr>)"

lemma request_load_token: "token_row E raw d = Some r \<Longrightarrow> request (load_token E raw) d = (Inr r, d, [])"
  by (simp add: request_def load_token_def run_simps open_session_def)

lemma request_load_user:
  "get_row usr_id k (users d) = Some u \<Longrightarrow> usr_is_active u \<Longrightarrow> request (load_user k) d = (Inr u, d, [])"
  by (simp add: request_def load_user_def run_simps open_session_def)

lemma request_write_rotation:
  "request (write_rotation E A r agent ip u) d = (Inr (issued_tokens E A u (next_uuid d)), rotation_db E r agent ip u d, [])"
  by (simp add: request_def write_rotation_def run_simps andThen_issue Let_def commit_def open_session_def
      rotation_db_def revoke_where_def)

definition child :: "env \<Rightarrow> RefreshToken \<Rightarrow> string option \<Rightarrow> string option \<Rightarrow> User \<Rightarrow> db \<Rightarrow> RefreshToken" where
  "child E r agent ip u d = issued E u (Some (rt_family_id r)) (Some (rt_id r)) agent ip (next_uuid d)"

lemma rotation_db_tokens:
  "refresh_tokens (rotation_db E r agent ip u d)
    = upd_where (\<lambda>t. rt_id t = rt_id r) (revoke (env_now E) ''rotated'') (refresh_tokens d) @ [child E r agent ip u d]"
  "next_uuid (rotation_db E r agent ip u d) = next_uuid d + 3"
  by (simp_all add: rotation_db_def add_refresh_def revoke_where_def child_def)

lemma child_simps [simp]:
  "rt_id (child E r agent ip u d) = next_uuid d + 2" "rt_family_id (child E r agent ip u d) = rt_family_id r"
  "live (child E r agent ip u d)"
  by (simp_all add: child_def issued_def new_refresh_def live_def)

text \<open>C19: two rotations of one refresh token both succeed when they overlap, although one after the other
  the second is answered as a replay. Both load the token while it is live; each revokes it and adds a
  token of its own to the family, which then has two live tokens for two holders. The theft of a
  token goes unnoticed until the old token is presented again, which ends them both.\<close>

theorem overlapping_rotations_fork_the_family:
  assumes "tokens_ok d" "token_row E raw d = Some r" "env_sha256 E' = env_sha256 E" "env_sha256 E2 = env_sha256 E"
    and "live r" "env_now E < rt_expires_at r" "env_now E' < rt_expires_at r" "raw \<noteq> []"
    and "get_row usr_id (rt_user_id r) (users d) = Some u" "usr_is_active u"
  shows "\<exists>t t' d'. interleave [0, 0, 1, 1, 0, 1] [refresh_proc E A raw agent ip, refresh_proc E' A' raw agent' ip'] d
      = ([visit (auth_response E t None None), visit (auth_response E' t' None None)], d', [])
    \<and> length (filter (\<lambda>r'. rt_family_id r' = rt_family_id r \<and> live r') (refresh_tokens d')) = 2
    \<and> (\<exists>d2. request (refresh_endpoint E2 A2 (Some raw) c cc ch agent2 ip2) d' = (Inl reuse_error, d2, [])
         \<and> no_live (rt_family_id r) d2)"
proof -
  let ?reply = "\<lambda>E t. visit (auth_response E t None None)"
  let ?w = "\<lambda>E A agent ip. thenDo (visit (write_rotation E A r agent ip u)) (?reply E)"
  let ?l = "\<lambda>E A agent ip. thenDo (visit (load_user (rt_user_id r))) (\<lambda>u. thenDo (visit (write_rotation E A r agent ip u)) (?reply E))"
  let ?g = "\<lambda>E A agent ip r. thenDo (if \<not> live r then visit (end_family E r)
             else if rt_expires_at r \<le> env_now E
             then Return (Inl (App (UnauthenticatedError ''TOKEN_EXPIRED'' ''Refresh token has expired.'')))
             else thenDo (visit (load_user (rt_user_id r))) (\<lambda>u. visit (write_rotation E A r agent ip u))) (?reply E)"
  let ?d1 = "rotation_db E r agent ip u d"
  let ?d2 = "rotation_db E' r agent' ip' u ?d1"
  let ?t = "issued_tokens E A u (next_uuid d)" and ?t' = "issued_tokens E' A' u (next_uuid ?d1)"
  let ?p = "refresh_proc E A raw agent ip" and ?p' = "refresh_proc E' A' raw agent' ip'"
  have row': "token_row E' raw d = Some r" using assms(2,3) by (simp add: token_row_def hash_token_def)
  note user = request_load_user [OF assms(9,10)]
  have two: "fold turn [j, j] (ps, d, []) = (ps[j := ?w F B g k], d, [])"
    if j: "j < length ps" "ps ! j = refresh_proc F B raw g k" "token_row F raw d = Some r" "env_now F < rt_expires_at r"
    for j F B g k and ps :: "AuthResponse proc list"
  proof -
    have "turn j (ps, d, []) = (ps[j := ?l F B g k], d, [])"
      using turn_visit [OF j(1) _ request_load_token [OF j(3)], where g = "?g F B g k" and q = "[]"] assms(5) j(2,4)
      by (simp add: refresh_proc_def thenDo_assoc)
    moreover have "turn j (ps[j := ?l F B g k], d, []) = (ps[j := ?w F B g k], d, [])"
      using turn_visit [OF _ _ user, where g = "\<lambda>u. thenDo (visit (write_rotation F B r g k u)) (?reply F)"
        and i = j and ps = "ps[j := ?l F B g k]" and q = "[]"] j(1) by simp
    ultimately show ?thesis by (simp del: turn.simps)
  qed
  have "fold turn [0, 0] ([?p, ?p'], d, []) = ([?w E A agent ip, ?p'], d, [])"
    using two [of 0 "[?p, ?p']"] assms(2,6) by simp
  moreover have "fold turn [1, 1] ([?w E A agent ip, ?p'], d, []) = ([?w E A agent ip, ?w E' A' agent' ip'], d, [])"
    using two [of 1 "[?w E A agent ip, ?p']"] row' assms(7) by simp
  moreover have "turn 0 ([?w E A agent ip, ?w E' A' agent' ip'], d, []) = ([?reply E ?t, ?w E' A' agent' ip'], ?d1, [])"
    by (subst turn_visit [OF _ _ request_write_rotation, where g = "?reply E"]) simp_all
  moreover have "turn 1 ([?reply E ?t, ?w E' A' agent' ip'], ?d1, []) = ([?reply E ?t, ?reply E' ?t'], ?d2, [])"
    by (subst turn_visit [OF _ _ request_write_rotation, where g = "?reply E'"]) simp_all
  moreover have "interleave [0, 0, 1, 1, 0, 1] [?p, ?p'] d = turn 1 (turn 0 (fold turn [1, 1] (fold turn [0, 0] ([?p, ?p'], d, []))))"
    by (simp add: interleave_def del: turn.simps)
  ultimately have run: "interleave [0, 0, 1, 1, 0, 1] [?p, ?p'] d = ([?reply E ?t, ?reply E' ?t'], ?d2, [])"
    by (simp del: turn.simps)
  have r: "r \<in> set (refresh_tokens d)" using first_row_Some [OF assms(2) [unfolded token_row_def]] by simp
  then have id: "rt_id r < next_uuid d" using assms(1) by (auto simp: tokens_ok_def)
  have tok: "refresh_tokens ?d2 = upd_where (\<lambda>t. rt_id t = rt_id r) (revoke (env_now E') ''rotated'')
      (upd_where (\<lambda>t. rt_id t = rt_id r) (revoke (env_now E) ''rotated'') (refresh_tokens d))
      @ [child E r agent ip u d, child E' r agent' ip' u ?d1]"
    using id by (simp add: rotation_db_tokens upd_where_def)
  have "no_live (rt_family_id r) (revoke_where (\<lambda>t. rt_id t = rt_id r) (env_now E) ''rotated'' d)"
    using no_live_revoke [OF assms(1) r assms(5)] .
  then have "length (filter (\<lambda>r'. rt_family_id r' = rt_family_id r \<and> live r') (refresh_tokens ?d2)) = 2"
    by (simp add: tok live_after_revoke no_live_def revoke_where_def)
  moreover have "\<exists>r'. token_row E2 raw ?d2 = Some r' \<and> \<not> live r' \<and> rt_family_id r' = rt_family_id r"
    using assms(2) by (simp add: token_row_def tok first_row_append first_row_upd hash_token_def assms(4))
  moreover have "\<exists>d2. request (refresh_endpoint E2 A2 (Some raw) c cc ch agent2 ip2) ?d2 = (Inl reuse_error, d2, [])
      \<and> no_live (rt_family_id r) d2" if "token_row E2 raw ?d2 = Some r'" "\<not> live r'" "rt_family_id r' = rt_family_id r" for r'
  proof -
    have "rotate_refresh_token E2 A2 raw agent2 ip2 (open_session ?d2 []) = (Inl reuse_error,
        commit ((open_session ?d2 [])\<lparr>s_db := add_audit (reuse_audit r')
          (revoke_where (\<lambda>t. rt_family_id t = rt_family_id r' \<and> live t) (env_now E2) ''reuse_detected'' ?d2)\<rparr>))"
      using rotate_reuse [of E2 raw "open_session ?d2 []"] that by (simp add: open_session_def)
    from refresh_Inl [OF assms(8) this] show ?thesis
      by (simp add: commit_def open_session_def no_live_def add_audit_def revoke_where_def live_after_revoke that(3))
  qed
  ultimately show ?thesis using run by blast
qed

theorem overlapping_rotations_fork_the_family_witness:
  "\<exists>ps d'. interleave [0, 0, 1, 1, 0, 1] [refresh_proc demo_env demo_auth ''raw'' None None,
      refresh_proc demo_env demo_auth ''raw'' None None] demo_accounts = (ps, d', [])
    \<and> length (filter (\<lambda>r. rt_family_id r = 5 \<and> live r) (refresh_tokens d')) = 2"
proof -
  have t: "rt_family_id demo_token = 5" "live demo_token" "env_now demo_env < rt_expires_at demo_token" "rt_user_id demo_token = 2"
      "token_row demo_env ''raw'' demo_accounts = Some demo_token"
    by (simp_all add: demo_token_def new_refresh_def live_def demo_env_def time_defs default_settings_def new_user_def
        token_row_def demo_accounts_def hash_token_def first_row_def)
  moreover have "tokens_ok demo_accounts"
    by (simp add: tokens_ok_def demo_accounts_def demo_token_def new_refresh_def)
  moreover have "get_row usr_id 2 (users demo_accounts) = Some (new_user 1 ''a@b.c'' ''pw'' ''A'' OWNER 2)"
    by (simp add: demo_accounts_def row_simps new_user_def)
  moreover have "usr_is_active (new_user 1 ''a@b.c'' ''pw'' ''A'' OWNER 2)" by (simp add: new_user_def)
  ultimately show ?thesis
    using overlapping_rotations_fork_the_family [of demo_accounts demo_env "''raw''" demo_token demo_env demo_env
        "new_user 1 ''a@b.c'' ''pw'' ''A'' OWNER 2" demo_auth None None demo_auth None None] by fastforce
qed

end
