(* ===== verification/Reachable.thy ===== *)
theory Reachable
  imports Races Entities "HOL-Library.Multiset"
begin

text \<open>
  The identifiers of the rows. Every state that the requests and the worker can reach from the empty
  database has unique identifiers, and every application belongs to the fund of its opportunity: the
  condition under which the routes of a fund leave the others alone holds whenever a request arrives.
\<close>

section \<open>Well formed rows\<close>

definition opp_keys :: "db \<Rightarrow> (uuid \<times> uuid) list" where
  "opp_keys d = map (\<lambda>p. (op_id p, op_org_id p)) (opportunities d)"

definition app_links :: "db \<Rightarrow> (uuid option \<times> uuid) list" where
  "app_links d = map (\<lambda>a. (app_opportunity_id a, app_org_id a)) (applications d)"

definition rows_ok :: "db \<Rightarrow> bool" where
  "rows_ok d \<longleftrightarrow> ids_unique d \<and> list_all (\<lambda>(i, x). i < next_uuid d) (row_owners d)"

interpretation rows: db_order "\<lambda>d d'. rows_ok d \<longrightarrow> rows_ok d'"
  by unfold_locales auto

text \<open>The identifiers, the owners and the links stay as they are.\<close>

definition same_rows :: "db \<Rightarrow> db \<Rightarrow> bool" where
  "same_rows d d' \<longleftrightarrow> row_owners d' = row_owners d \<and> opp_keys d' = opp_keys d \<and> app_links d' = app_links d
     \<and> next_uuid d \<le> next_uuid d'"

interpretation same: db_order same_rows
  by unfold_locales (auto simp: same_rows_def)

lemma ids_unique_alt:
  "ids_unique d \<longleftrightarrow> distinct (map fst (row_owners d))
     \<and> (\<forall>i x. (Some i, x) \<in> set (app_links d) \<longrightarrow> (i, x) \<in> set (opp_keys d))"
proof -
  have "app_opportunity_id a = None
      \<or> list_ex (\<lambda>p. Some (op_id p) = app_opportunity_id a \<and> op_org_id p = app_org_id a) (opportunities d)
    \<longleftrightarrow> (\<forall>i. app_opportunity_id a = Some i \<longrightarrow> (i, app_org_id a) \<in> set (opp_keys d))" for a
    by (cases "app_opportunity_id a") (auto simp: list_ex_iff opp_keys_def)
  moreover have "(Some i, x) \<in> set (app_links d)
    \<longleftrightarrow> (\<exists>a \<in> set (applications d). app_opportunity_id a = Some i \<and> app_org_id a = x)" for i x
    by (force simp: app_links_def)
  ultimately show ?thesis unfolding ids_unique_def list_all_iff by simp blast
qed

lemma same_rows_ok: "same_rows d d' \<Longrightarrow> rows_ok d \<longrightarrow> rows_ok d'"
  by (fastforce simp: same_rows_def rows_ok_def ids_unique_alt list_all_iff)

lemma same_keep: "same.keeps m \<Longrightarrow> rows.keeps m"
  using same_rows_ok unfolding same.keeps_def rows.keeps_def by blast

lemma frame_same: "frame.keeps m \<Longrightarrow> same.keeps m"
proof -
  have "same_rows d d'" if "entities_only d d'" for d d'
    using that by (simp add: entities_only_def same_rows_def row_owners_def opp_keys_def app_links_def)
  then show "frame.keeps m \<Longrightarrow> same.keeps m" unfolding frame.keeps_def same.keeps_def by blast
qed

lemmas frame_rows = frame_same [THEN same_keep]

lemma reads_same: "reads m \<Longrightarrow> same.keeps m"
  by (simp add: same.keeps_def reads_def same.order_refl)

lemmas reads_rows = reads_same [THEN same_keep]
lemmas same_defs = same_rows_def row_owners_def opp_keys_def app_links_def upd_row_def

text \<open>A new row with the next identifier.\<close>

lemma rows_ok_new:
  assumes "rows_ok d" "mset (row_owners d') = add_mset (next_uuid d, owner) (mset (row_owners d))"
    and "next_uuid d' = Suc (next_uuid d)" "set (opp_keys d) \<subseteq> set (opp_keys d')"
    and "\<And>i x. (Some i, x) \<in> set (app_links d') \<Longrightarrow> (Some i, x) \<in> set (app_links d) \<or> (i, x) \<in> set (opp_keys d)"
  shows "rows_ok d'"
proof -
  have "mset (map fst (row_owners d')) = mset (next_uuid d # map fst (row_owners d))"
    using assms(2) by simp
  moreover have "next_uuid d \<notin> fst ` set (row_owners d)" using assms(1) by (auto simp: rows_ok_def list_all_iff)
  ultimately have "distinct (map fst (row_owners d'))"
    using assms(1) mset_eq_imp_distinct_iff by (fastforce simp: rows_ok_def ids_unique_def)
  moreover have "set (row_owners d') = insert (next_uuid d, owner) (set (row_owners d))"
    using assms(2) by (metis set_mset_add_mset_insert set_mset_mset)
  ultimately show ?thesis using assms
    by (fastforce simp: rows_ok_def ids_unique_alt list_all_iff)
qed

lemma rows_insert:
  "(\<And>u. op_id (mk u) = u) \<Longrightarrow> rows.keeps (insert_new mk add_opportunity)"
  "(\<And>u. th_id (mk' u) = u) \<Longrightarrow> rows.keeps (insert_new mk' add_thesis)"
  "(\<And>u. memo_id (mk'' u) = u) \<Longrightarrow> rows.keeps (insert_new mk'' add_memo)"
  "(\<And>u. job_id (mk3 u) = u) \<Longrightarrow> rows.keeps (insert_new mk3 add_job)"
  by (intro rows.keeps_insert_new impI, erule rows_ok_new,
      auto simp: row_owners_def opp_keys_def app_links_def add_opportunity_def add_thesis_def add_memo_def add_job_def)+

section \<open>The routes\<close>

lemma same_set [simp]:
  "(\<And>p. op_id (f p) = op_id p \<and> op_org_id (f p) = op_org_id p) \<Longrightarrow> same_rows d (set_opportunity E i f d)"
  "(\<And>t. th_id (g t) = th_id t \<and> th_org_id (g t) = th_org_id t) \<Longrightarrow> same_rows d (set_thesis i g d)"
  "(\<And>m. memo_id (h m) = memo_id m \<and> memo_org_id (h m) = memo_org_id m) \<Longrightarrow> same_rows d (set_memo i h d)"
  "(\<And>q. out_id (k q) = out_id q \<and> out_org_id (k q) = out_org_id q) \<Longrightarrow> same_rows d (set_outreach i k d)"
  "(\<And>a. app_id (l a) = app_id a \<and> app_org_id (l a) = app_org_id a \<and> app_opportunity_id (l a) = app_opportunity_id a)
    \<Longrightarrow> same_rows d (set_application i l d)"
  "(\<And>j. job_id (m j) = job_id j \<and> job_org_id (m j) = job_org_id j) \<Longrightarrow> same_rows d (set_job i m d)"
  "same_rows d (clear_default x d)"
  by (auto simp: same_defs set_opportunity_def set_thesis_def set_memo_def set_outreach_def set_application_def
      set_job_def clear_default_def)

lemma rows_change: "(\<And>d. same_rows d (f d)) \<Longrightarrow> rows.keeps (change f)"
  by (intro same_keep same.keeps_change)

lemma rows_audit: "rows.keeps (change (\<lambda>d. d\<lparr>audit_log := audit_log d @ [a]\<rparr>))"
  by (rule rows_change) (simp add: same_defs)

lemma rows_dispatch: "rows.keeps (dispatch_job E j)"
  by (simp add: dispatch_job_def)

lemma rows_create_job: "rows.keeps (create_job E x kind tt target key inp)"
  unfolding create_job_def by (auto intro!: rows.keeps_andThen rows_insert simp: new_job_def split: option.split)

lemma rows_retry_target: "rows.keeps (retry_target j)"
proof -
  have "same.keeps (retry_target j)"
    by (auto simp: retry_target_def new_uuid_def same_defs intro!: same.keeps_on_db split: option.split)
  then show ?thesis by (rule same_keep)
qed

lemma rows_record_decision: "rows.keeps (record_decision E pr i body key req)"
  unfolding record_decision_def
  by (auto intro!: rows.keeps_andThen rows.keeps_when_some rows_change rows_audit simp: decided_def)

lemma rows_looks [simp]:
  "rows.keeps (require p pr)" "rows.keeps (get_opportunity org k)" "rows.keeps (get_thesis_row org k)"
  "rows.keeps (get_memo_row org k)" "rows.keeps (get_outreach org k)" "rows.keeps (refreshed opp)"
  "rows.keeps (refreshed_thesis t)" "rows.keeps (refreshed_memo m)" "rows.keeps (build_detail E opp)"
  by (auto simp: get_opportunity_def get_thesis_row_def get_memo_row_def get_outreach_def refreshed_thesis_def
      refreshed_memo_def intro!: reads_rows)

lemmas rows_intros = rows.keeps_andThen rows.keeps_if rows_change rows_audit rows_dispatch rows_create_job
  rows_retry_target rows_record_decision rows_insert

lemma rows_serve: "rows.keeps (serve E pr i r)"
proof (cases r)
  case (OutreachDo a)
  then show ?thesis by (cases a) (auto simp: by_id_defs quiet_def intro!: rows_intros)
qed (auto simp: by_id_defs quiet_def set_fields_def set_thesis_fields_def export_job_def new_job_def
    split: prod.splits intro!: rows_intros)

section \<open>New rows\<close>

lemma rows_frame_insert:
  "rows.keeps (insert_new mk add_company)" "rows.keeps (insert_new mk' add_document)"
  "rows.keeps (insert_new mk2 add_user)" "rows.keeps (insert_new mk3 add_org)"
  by (intro same_keep same.keeps_insert_new,
      simp add: same_defs add_company_def add_document_def add_user_def add_org_def)+

lemma rows_uuid: "rows.keeps (on_db new_uuid)" "rows.keeps (token_urlsafe E)"
proof -
  have "same.keeps (on_db new_uuid)" by (intro same.keeps_on_db) (simp add: new_uuid_def same_defs)
  then show "rows.keeps (on_db new_uuid)" by (rule same_keep)
  have "same.keeps (token_urlsafe E)"
    unfolding token_urlsafe_def by (intro same.keeps_on_db) (simp add: new_uuid_def same_defs Let_def split_beta)
  then show "rows.keeps (token_urlsafe E)" by (rule same_keep)
qed

text \<open>An application belongs to an opportunity of its fund: the one found, or the one made for it.\<close>

lemma opp_keys_new: "opp_keys (add_opportunity p d) = opp_keys d @ [(op_id p, op_org_id p)]"
  by (simp add: opp_keys_def add_opportunity_def)

lemma application_opportunity_own:
  assumes "application_opportunity E x co s = (Inr opp, s')"
  shows "(op_id opp, x) \<in> set (opp_keys (s_db s')) \<and> s_committed s' = s_committed s \<and> (rows_ok (s_db s) \<longrightarrow> rows_ok (s_db s'))"
proof -
  have k: "rows.keeps (application_opportunity E x co)"
    by (auto simp: application_opportunity_def new_opportunity_def intro!: rows_intros split: option.split)
  have "(op_id opp, x) \<in> set (opp_keys (s_db s')) \<and> s_committed s' = s_committed s"
    using assms by (auto simp: application_opportunity_def run_simps live_opportunity_def opp_keys_new new_opportunity_def
        split: option.splits dest!: first_row_Some) (force simp: opp_keys_def)
  then show ?thesis using rows.keepsD [OF k assms] by simp
qed

lemma store_linked:
  assumes "store_application E x form doc opp ch ip key public s = (r, s')" "(op_id opp, x) \<in> set (opp_keys (s_db s))"
  shows "(rows_ok (s_db s) \<longrightarrow> rows_ok (s_db s')) \<and> s_committed s' = s_committed s"
proof -
  let ?d = "\<lambda>d. d\<lparr>next_uuid := Suc (next_uuid d)\<rparr>"
  have add: "rows_ok (add_application (new_application E x form doc (op_id opp) ch ip tok (next_uuid d)) (?d d))"
    if "rows_ok d" "(op_id opp, x) \<in> set (opp_keys d)" for d tok
    using that by (elim rows_ok_new)
      (auto simp: row_owners_def opp_keys_def app_links_def add_application_def new_application_def)
  have job: "rows_ok (add_job (new_job (Some x) k tt target key inp now (next_uuid d)) (?d d))" if "rows_ok d" for d k tt target inp now
    using that by (elim rows_ok_new) (auto simp: row_owners_def opp_keys_def app_links_def add_job_def new_job_def)
  have token: "rows_ok (?d d)" if "rows_ok d" for d
    using that same_rows_ok [of d "?d d"] by (simp add: same_defs)
  have keys: "opp_keys (?d d) = opp_keys d" for d by (simp add: opp_keys_def)
  have later: "rows_ok (add_application (new_application E x form doc (op_id opp) ch ip tok (Suc (next_uuid d)))
      (d\<lparr>next_uuid := Suc (Suc (next_uuid d))\<rparr>))"
    if "rows_ok d" "(op_id opp, x) \<in> set (opp_keys d)" for d tok
    using add [OF token [OF that(1)]] that(2) by (simp add: keys)
  show ?thesis
    using assms by (auto simp: store_application_def run_simps token_urlsafe_def new_uuid_def add later job split: if_splits)
qed

lemma rows_application: "rows.keeps (create_application E x form deck fn ch ip by key public)"
proof -
  have c: "rows.keeps (application_company E form)"
    by (auto simp: application_company_def intro!: rows.keeps_andThen rows_frame_insert split: option.split)
  have d: "rows.keeps (application_document E x co deck fn by)" for co
    by (auto simp: application_document_def Let_def app_lift_def intro!: rows.keeps_andThen rows_frame_insert split: option.split sum.split)
  have e: "rows.keeps (earlier_request x key)"
    by (rule reads_rows) (auto simp: earlier_request_def replay_def intro!: reads_andThen split: option.split)
  have a: "rows.keeps (andThen (application_opportunity E x co) (\<lambda>opp.
      andThen (ensure_application_founder E co n m w arts) (\<lambda>_. store_application E x form doc opp ch ip key public)))" for co doc n m w arts
    unfolding rows.keeps_def
  proof
    fix s
    let ?m = "andThen (application_opportunity E x co) (\<lambda>opp.
      andThen (ensure_application_founder E co n m w arts) (\<lambda>_. store_application E x form doc opp ch ip key public))"
    obtain r s1 where o: "application_opportunity E x co s = (r, s1)" by fastforce
    have k: "rows.keeps (application_opportunity E x co)"
      by (auto simp: application_opportunity_def new_opportunity_def intro!: rows_intros split: option.split)
    show "(rows_ok (s_db s) \<longrightarrow> rows_ok (s_db (snd (?m s)))) \<and> (s_committed (snd (?m s)) = s_committed s
        \<or> (rows_ok (s_db s) \<longrightarrow> rows_ok (s_committed (snd (?m s)))))"
    proof (cases r)
      case (Inl er)
      then show ?thesis using rows.keepsD [OF k o] by (simp add: andThen_def o)
    next
      case (Inr opp)
      note own = application_opportunity_own [OF o [unfolded Inr]]
      obtain r2 s2 where f: "ensure_application_founder E co n m w arts s1 = (r2, s2)" by fastforce
      note fr = frame.keepsD [OF frame_application_founder f] rows.keepsD [OF frame_rows [OF frame_application_founder] f]
      show ?thesis
      proof (cases r2)
        case (Inl er)
        then show ?thesis using own fr by (auto simp: andThen_def o Inr f)
      next
        case (Inr y)
        obtain r3 s3 where st: "store_application E x form doc opp ch ip key public s2 = (r3, s3)" by fastforce
        have "(op_id opp, x) \<in> set (opp_keys (s_db s2))"
          using own fr(1) by (simp add: entities_only_def opp_keys_def)
        from store_linked [OF st this] show ?thesis
          using own fr \<open>r = Inr opp\<close> by (auto simp: andThen_def o Inr f st)
      qed
    qed
  qed
  show ?thesis
    unfolding create_application_def
    by (auto intro!: rows.keeps_andThen c d e a split: option.split)
qed

lemma rows_manual: "rows.keeps (create_manual_opportunity E x c n orig th)"
  unfolding create_manual_opportunity_def named_company_def
  by (auto intro!: rows_intros rows_frame_insert simp: new_opportunity_def split: option.split)

lemma rows_thesis: "rows.keeps (create_thesis pr body)"
  unfolding create_thesis_def by (auto intro!: rows_intros simp: thesis_of_def)

lemma rows_serve_new: "rows.keeps (serve_new E pr c)"
  by (cases c)
    (auto simp: quiet_def create_opportunity_def harvest_request_def new_job_def submit_application_def
      intro!: rows_intros rows_manual rows_thesis rows_application reads_urls [THEN reads_rows])

lemma rows_public_apply: "rows.keeps (public_apply E resolve slug form deck ip)"
  unfolding public_apply_def
  by (auto intro!: rows.keeps_andThen rows_application rows_dispatch reads_urls [THEN reads_rows] split: option.split)

section \<open>The worker\<close>

lemma rows_outbound: "rows.keeps (outbound_opportunity E g c ch)"
  unfolding outbound_opportunity_def
  by (auto intro!: rows_intros rows.keeps_when_some simp: new_opportunity_def same_defs split: option.split)

lemma rows_resolve: "rows.keeps (resolve_outbound_signal E g src ch)"
  unfolding resolve_outbound_signal_def
  by (auto intro!: rows.keeps_andThen frame_rows [OF frame_resolve_entities] rows_outbound split: prod.split)

lemma rows_harvest_item: "rows.keeps (harvest_item E org src ch item)"
proof -
  have "rows.keeps (insert_new mk (\<lambda>g d. d\<lparr>signals := signals d @ [g]\<rparr>))" for mk
    by (intro same_keep same.keeps_insert_new) (simp add: same_defs)
  then show ?thesis unfolding harvest_item_def
    by (auto intro!: rows_intros rows_resolve simp: new_job_def same_defs bump_discovered_def)
qed

text \<open>The steps of an analysis that only the memo adds a row to.\<close>

lemmas same_intros = same.keeps_andThen same.keeps_change same.keeps_insert_new same.keeps_on_db
  same.keeps_when_some same.keeps_each same.keeps_map_run same.keeps_if

lemma same_steps:
  "same.keeps (add_step st)" "same.keeps ensure_deck_source" "same.keeps (create_claim E opp src doc item)"
  "same.keeps (document_text E doc)" "same.keeps (score_axes opp cs)" "same.keeps (prescreen i)"
  "same.keeps (degrade E e srcid)" "same.keeps (ensure_source key r)" "same.keeps (ensure_channel key label)"
  unfolding add_step_def ensure_deck_source_def create_claim_def document_text_def score_axes_def score_axis_def
    prescreen_def degrade_def ensure_source_def ensure_channel_def
  by (auto intro!: same_intros simp: same_defs add_source_def add_claim_def add_evidence_def store_pages_def
      set_document_def set_source_def add_axis_def split: option.split)

lemma same_named_row: "same.keeps (named_row k job get)"
  unfolding named_row_def by (auto intro!: same_intros split: option.split)

lemma same_need: "same.keeps (need m y)"
  by (simp add: need_def split: option.split)

lemma same_parse: "same.keeps (parse_and_extract E doc opp)"
  unfolding parse_and_extract_def by (auto intro!: same_intros same_steps)

lemma same_step: "same.keeps (step E j n a p m)"
  unfolding step_def by (auto intro!: same_intros same_steps)

lemma same_open_case: "same.keeps (open_case E job)"
  unfolding open_case_def by (auto intro!: same_intros same_named_row same_need)

lemma same_gather: "same.keeps (gather_claims E job opp)"
  unfolding gather_claims_def by (auto intro!: same_intros same_named_row same_parse split: option.split)

lemma same_fit: "same.keeps (fit_and_recommend E opp c cs scores)"
  unfolding fit_and_recommend_def by (auto intro!: same_intros split: prod.split)

lemmas rows_steps = same_steps [THEN same_keep] same_step [THEN same_keep] same_open_case [THEN same_keep]
  same_gather [THEN same_keep] same_fit [THEN same_keep]

lemma rows_write_memo: "rows.keeps (write_memo E opp app cs r)"
  unfolding write_memo_def by (auto intro!: rows_intros rows.keeps_when_some simp: new_memo_def Let_def)

lemma rows_analyse: "rows.keeps (analyse E job)"
  unfolding analyse_def
  by (auto intro!: rows.keeps_andThen rows_write_memo rows_steps split: prod.split)

lemma rows_harvest_key: "rows.keeps (harvest_key E job q limit key)"
  unfolding harvest_key_def
  by (auto intro!: rows.keeps_andThen rows.keeps_when_some rows.keeps_harvest_items rows_harvest_item rows_change
      rows_steps
      simp: same_defs set_source_def split: option.split sum.split prod.split exn.split)

lemma rows_harvest_loop: "rows.keeps (harvest_loop E job q limit n seq keys cs fs)"
  by (induction keys arbitrary: seq cs fs)
    (auto intro!: rows.keeps_andThen rows_harvest_key rows_steps rows_change simp: Let_def)

lemma rows_process_job: "rows.keeps (process_job E i)"
  unfolding process_job_def start_job_def run_started_def fail_job_def finish_job_def process_harvest_def Let_def
  by (auto intro!: rows.keeps_catch rows.keeps_andThen rows.keeps_when_some rows.keeps_each rows_change rows_dispatch rows_analyse
      rows_harvest_loop rows_steps simp: succeed_def finish_harvest_def split: option.split prod.split)

section \<open>Accounts, founders and overlapping requests\<close>

lemma rows_issue: "rows.keeps (issue_tokens E A u f parent agent ip)"
proof -
  have "same.keeps (issue_tokens E A u f parent agent ip)"
    unfolding same.keeps_def
    by (auto simp: issue_tokens_run Let_def same_defs add_refresh_def split: option.split)
  then show ?thesis by (rule same_keep)
qed

lemma rows_signup: "rows.keeps (signup_endpoint E A body agent ip)"
proof -
  have "rows.keeps (join_invite E tok email)" for tok email
    by (auto simp: join_invite_def intro!: rows.keeps_andThen split: option.split)
  moreover have "rows.keeps (found_fund name chosen)" for name chosen
    by (auto simp: found_fund_def Let_def intro!: rows.keeps_andThen rows_frame_insert)
  ultimately show ?thesis
    unfolding signup_endpoint_def signup_def auth_response_def set_token_cookies_def
    by (auto simp: Let_def app_lift_def default_thesis_def same_defs set_invite_def
        intro!: rows.keeps_andThen rows_frame_insert rows_insert rows_change rows_issue rows_uuid
        split: sum.split option.split prod.split)
qed

lemma rows_rescore: "rows.keeps (rescore_founder E pr i)"
proof -
  have "rows.keeps (recompute E i)" by (simp add: recompute_def frame_rows [OF frame_recompute])
  moreover have "reads (get_person i)" by (auto simp: get_person_def split: option.split intro!: reads_andThen)
  ultimately show ?thesis unfolding rescore_founder_def
    by (auto intro!: rows.keeps_andThen rows_insert simp: rescore_job_def new_job_def reads_rows)
qed

interpretation row_calls: fund_calls "\<lambda>d d'. rows_ok d \<longrightarrow> rows_ok d'" x opps for x opps
proof
  fix i E d and f :: "Opportunity \<Rightarrow> Opportunity"
  assume "\<And>p. op_id (f p) = op_id p \<and> op_first_signal_at (f p) = op_first_signal_at p
        \<and> op_sla_deadline_at (f p) = op_sla_deadline_at p \<and> op_org_id (f p) = op_org_id p
        \<and> op_company_id (f p) = op_company_id p"
  then show "rows_ok d \<longrightarrow> rows_ok (set_opportunity E i f d)" by (intro same_rows_ok same_set) simp
next
  fix d :: db and a show "rows_ok d \<longrightarrow> rows_ok (set_application (app_id a) (\<lambda>a. a\<lparr>app_status := APP_DECIDED\<rparr>) d)"
    by (intro same_rows_ok same_set) simp
next
  fix entry and d :: db show "rows_ok d \<longrightarrow> rows_ok (d\<lparr>audit_log := audit_log d @ [entry]\<rparr>)"
    by (intro same_rows_ok) (simp add: same_defs)
next
  fix x and j :: Job and d :: db
  assume "job_id j = next_uuid d"
  then show "rows_ok d \<longrightarrow> rows_ok (add_job j (d\<lparr>next_uuid := Suc (next_uuid d)\<rparr>))"
    by (intro impI, elim rows_ok_new) (auto simp: row_owners_def opp_keys_def app_links_def add_job_def)
next
  fix n ts and d :: db assume "next_uuid d \<le> n"
  then show "rows_ok d \<longrightarrow> rows_ok (d\<lparr>next_uuid := n, refresh_tokens := ts\<rparr>)"
    by (intro same_rows_ok) (simp add: same_defs)
qed

lemma rows_interleaved:
  assumes "interleave schedule (map process calls) d = (ps, d', q)" shows "rows_ok d \<longrightarrow> rows_ok d'"
proof -
  have "every_visit (\<lambda>d d'. rows_ok d \<longrightarrow> rows_ok d') (process c)" for c
    using some_fund_call [of c] row_calls.guards_process by blast
  then have "list_all (every_visit (\<lambda>d d'. rows_ok d \<longrightarrow> rows_ok d')) (map process calls)" by (simp add: list_all_iff)
  then show ?thesis by (rule rows.schedule_keeps) (rule assms)
qed

section \<open>The states the program reaches\<close>

text \<open>What happens to the database: a request to a route, a request for a new row, an application from
  the public form, a sign-up, a founder's new score, a job of the worker, any number of overlapping requests,
  and whatever leaves the six tables' identifiers, owners and links alone (accounts, people and companies).\<close>

inductive db_step :: "db \<Rightarrow> db \<Rightarrow> bool" where
  at_route: "db_step d (fst (snd (request (serve E pr i r) d)))"
| new_row: "db_step d (fst (snd (request (serve_new E pr c) d)))"
| public: "db_step d (fst (snd (request (public_apply E resolve slug form deck ip) d)))"
| sign_up: "db_step d (fst (snd (request (signup_endpoint E A body agent ip) d)))"
| rescore: "db_step d (fst (snd (request (rescore_founder E pr i) d)))"
| work: "db_step d (fst (snd (request (process_job E i) d)))"
| overlap: "db_step d (fst (snd (interleave schedule (map process calls) d)))"
| elsewhere: "same_rows d d' \<Longrightarrow> db_step d d'"

inductive db_reachable :: "db \<Rightarrow> bool" where
  start: "db_reachable empty_db"
| step: "db_reachable d \<Longrightarrow> db_step d d' \<Longrightarrow> db_reachable d'"

lemma db_step_ok: "db_step d d' \<Longrightarrow> rows_ok d \<longrightarrow> rows_ok d'"
proof (induction rule: db_step.induct)
  case (overlap d schedule calls)
  obtain ps d' q where "interleave schedule (map process calls) d = (ps, d', q)" using prod_cases3 by blast
  then show ?case using rows_interleaved by simp
qed (erule same_rows_ok | rule rows.keeps_request, rule rows_serve rows_serve_new rows_public_apply rows_signup
      rows_rescore rows_process_job)+

text \<open>C9: the rows are well formed in every state the program reaches. However many requests were served,
  one after another or overlapping, and whatever the worker did: no two rows of the opportunities,
  theses, memos, outreach, jobs and applications share an identifier, none is ahead of the generator, and
  an application belongs to the fund of its opportunity. So a request that then arrives
  leaves the other funds alone.\<close>

theorem reachable_rows_ok:
  assumes "db_reachable d"
  shows "rows_ok d \<and> safe (pr_org_id pr) d (fst (snd (request (serve E pr i r) d)))"
proof -
  have "rows_ok d" using assms
  proof induction
    case start
    show ?case by (simp add: rows_ok_def ids_unique_def row_owners_def empty_db_def)
  next
    case (step d d')
    then show ?case using db_step_ok by blast
  qed
  moreover from this have "ids_unique d" by (simp add: rows_ok_def)
  ultimately show ?thesis by (simp add: serve_stays)
qed

theorem reachable_rows_ok_witness:
  "rows_ok (fst (snd (request (serve_new demo_env (demo_pr PARTNER) (NewHarvest JNull)) empty_db)))"
proof -
  have "db_reachable (fst (snd (request (serve_new demo_env (demo_pr PARTNER) (NewHarvest JNull)) empty_db)))"
    by (rule db_reachable.step [OF db_reachable.start db_step.new_row])
  then show ?thesis using reachable_rows_ok by blast
qed

end
