(* ===== verification/Middleware.thy ===== *)
theory Middleware
  imports Runtime
begin

text \<open>
  \<open>app/middleware.py\<close>: the size check and the headers around every request, and the process-local rate
  limiter, a queue of the accepted times per client, method and path. Times are the floats that
  \<open>time.monotonic()\<close> returns; the lock makes a decision one step. \<open>app_dispatch\<close> is the
  two layers in the order in which \<open>create_app\<close> adds them. The metrics and the log line are left out.
\<close>

section \<open>The request context\<close>

record http_request =
  rq_method :: string
  rq_path :: string
  rq_client :: "string option"
  rq_request_id :: "string option"
  rq_content_length :: "string option"
  rq_content_type :: "string option"

record http_response =
  rs_status :: nat
  rs_headers :: "(string \<times> string) list"

definition set_header :: "string \<Rightarrow> string \<Rightarrow> http_response \<Rightarrow> http_response" where
  "set_header k v r = r\<lparr>rs_headers := filter (\<lambda>h. fst h \<noteq> k) (rs_headers r) @ [(k, v)]\<rparr>"

definition body_limit :: "settings \<Rightarrow> http_request \<Rightarrow> int" where
  "body_limit S rq =
     (if contains ''multipart/form-data'' (case rq_content_type rq of None \<Rightarrow> [] | Some t \<Rightarrow> t)
      then int (set_max_upload_mb S) * 1024 * 1024 else 1024 * 1024)"

definition content_length :: "http_request \<Rightarrow> exn + int" where
  "content_length rq =
     (let t = (case rq_content_length rq of None \<Rightarrow> ''0'' | Some t \<Rightarrow> t)
      in if t = [] then Inr 0
         else case py_int t of None \<Rightarrow> Inl (PyExn ''ValueError'' ''invalid literal for int()'') | Some n \<Rightarrow> Inr n)"

text \<open>\<open>X-Request-Id\<close> or a fresh identifier.\<close>

definition request_id_of :: "string \<Rightarrow> http_request \<Rightarrow> string" where
  "request_id_of fresh rq = (if truthy (rq_request_id rq) then the (rq_request_id rq) else fresh)"

definition security_headers :: "settings \<Rightarrow> string \<Rightarrow> (string \<times> string) list" where
  "security_headers S rid =
     [(''X-Request-Id'', rid), (''X-Content-Type-Options'', ''nosniff''), (''X-Frame-Options'', ''DENY''),
      (''Referrer-Policy'', ''no-referrer''),
      (''Permissions-Policy'', ''camera=(), microphone=(), geolocation=()'')]
     @ (if set_env S = ''prod'' then [(''Strict-Transport-Security'', ''max-age=31536000; includeSubDomains'')] else [])"

definition request_context ::
  "settings \<Rightarrow> string \<Rightarrow> http_request \<Rightarrow> (http_request \<Rightarrow> exn + http_response) \<Rightarrow> exn + http_response" where
  "request_context S fresh rq call_next =
     (let rid = request_id_of fresh rq
      in case content_length rq of
           Inl e \<Rightarrow> Inl e
         | Inr n \<Rightarrow>
             if body_limit S rq < n then Inr \<lparr>rs_status = 413, rs_headers = [(''X-Request-Id'', rid)]\<rparr>
             else case call_next rq of
                    Inl e \<Rightarrow> Inl e
                  | Inr r \<Rightarrow> Inr (fold (\<lambda>(k, v). set_header k v) (security_headers S rid) r))"

section \<open>The rate limiter\<close>

definition ends_with :: "string \<Rightarrow> string \<Rightarrow> bool" where
  "ends_with sfx s \<longleftrightarrow> starts_with (rev sfx) (rev s)"

text \<open>The limit and its window in seconds.\<close>

definition rule :: "http_request \<Rightarrow> nat \<times> nat" where
  "rule rq =
     (let path = rq_path rq
      in if ends_with ''/healthz'' path \<or> ends_with ''/readyz'' path \<or> ends_with ''/metrics'' path then (600, 60)
         else if contains ''/auth/login'' path \<or> contains ''/auth/password/'' path then (10, 900)
         else if contains ''/public/apply'' path \<and> rq_method rq = ''POST'' then (5, 3600)
         else if contains ''/search/'' path then (60, 60)
         else if rq_method rq \<in> {''POST'', ''PUT'', ''PATCH'', ''DELETE''} then (60, 60)
         else (300, 60))"

definition effective_limit :: "settings \<Rightarrow> http_request \<Rightarrow> nat" where
  "effective_limit S rq = (if set_env S \<in> {''dev'', ''test'', ''demo''} then fst (rule rq) * 10 else fst (rule rq))"

definition bucket_key :: "http_request \<Rightarrow> string" where
  "bucket_key rq =
     (case rq_client rq of None \<Rightarrow> ''unknown'' | Some h \<Rightarrow> h) @ '':'' @ rq_method rq @ '':'' @ rq_path rq"

type_synonym buckets = "string \<Rightarrow> rat list"

text \<open>\<open>while bucket and bucket[0] <= now - window: bucket.popleft()\<close>.\<close>

fun evict :: "rat \<Rightarrow> rat list \<Rightarrow> rat list" where
  "evict horizon [] = []"
| "evict horizon (t # ts) = (if t \<le> horizon then evict horizon ts else t # ts)"

datatype verdict =
    Accept nat \<comment> \<open>the requests that remain\<close>
  | Limited int \<comment> \<open>the seconds to wait\<close>

definition decide_rate :: "nat \<Rightarrow> nat \<Rightarrow> rat \<Rightarrow> rat list \<Rightarrow> verdict \<times> rat list" where
  "decide_rate limit window now bucket =
     (let b = evict (fsub now (of_nat window)) bucket
      in if limit \<le> length b
         then (Limited (max 1 (round_half_even (fsub (of_nat window) (fsub now (hd b))))), b)
         else (Accept (limit - length (b @ [now])), b @ [now]))"

definition rate_limited :: "int \<Rightarrow> app_error" where
  "rate_limited retry_after =
     (AppError ''RATE_LIMITED'' ''Rate limit exceeded.'' 429)\<lparr>err_retryable := True, err_retry_after_s := Some (nat retry_after)\<rparr>"

definition rate_step :: "settings \<Rightarrow> http_request \<Rightarrow> rat \<Rightarrow> buckets \<Rightarrow> verdict \<times> buckets" where
  "rate_step S rq now events =
     (let (v, b) = decide_rate (effective_limit S rq) (snd (rule rq)) now (events (bucket_key rq))
      in (v, events(bucket_key rq := b)))"

definition rate_dispatch ::
  "settings \<Rightarrow> string \<Rightarrow> http_request \<Rightarrow> rat \<Rightarrow> (http_request \<Rightarrow> exn + http_response) \<Rightarrow> buckets \<Rightarrow>
     (exn + http_response) \<times> buckets" where
  "rate_dispatch S rid rq now call_next events =
     (let (v, events') = rate_step S rq now events; limit = str_nat (effective_limit S rq)
      in (case v of
            Limited retry \<Rightarrow>
              Inr \<lparr>rs_status = 429,
                   rs_headers = [(''Retry-After'', str_nat (nat retry)), (''X-RateLimit-Limit'', limit),
                     (''X-RateLimit-Remaining'', ''0''), (''X-RateLimit-Reset'', str_nat (nat retry)),
                     (''X-Request-Id'', rid)]\<rparr>
          | Accept remaining \<Rightarrow>
              (case call_next rq of
                 Inl e \<Rightarrow> Inl e
               | Inr r \<Rightarrow> Inr (set_header ''X-RateLimit-Reset'' (str_nat (snd (rule rq)))
                            (set_header ''X-RateLimit-Remaining'' (str_nat remaining)
                              (set_header ''X-RateLimit-Limit'' limit r)))),
          events'))"

section \<open>The two layers together\<close>

text \<open>\<open>create_app\<close> adds the request context first and the limiter second, and the layer that is added last is
  entered first: the limiter decides before the request has an identifier, so it draws one of its own.\<close>

definition app_dispatch ::
  "settings \<Rightarrow> string \<Rightarrow> string \<Rightarrow> http_request \<Rightarrow> rat \<Rightarrow> (http_request \<Rightarrow> exn + http_response) \<Rightarrow> buckets \<Rightarrow>
     (exn + http_response) \<times> buckets" where
  "app_dispatch S fresh limiter_id rq now endpoint =
     rate_dispatch S limiter_id rq now (\<lambda>r. request_context S fresh r endpoint)"

definition header :: "string \<Rightarrow> http_response \<Rightarrow> string option" where
  "header k r = map_of (rs_headers r) k"

lemma header_set [simp]: "header k (set_header k' v r) = (if k = k' then Some v else header k r)"
proof -
  have "map_of (filter (\<lambda>h. fst h \<noteq> k') xs) k = (if k = k' then None else map_of xs k)" for xs :: "(string \<times> string) list"
    by (induction xs) auto
  then show ?thesis by (simp add: header_def set_header_def map_add_def split: option.split)
qed

lemma status_set [simp]: "rs_status (set_header k v r) = rs_status r"
  by (simp add: set_header_def)

lemma status_fold [simp]: "rs_status (fold (\<lambda>(k, v). set_header k v) kvs r) = rs_status r"
  by (induction kvs arbitrary: r) auto

lemma header_fold:
  "distinct (map fst kvs) \<Longrightarrow>
   header k (fold (\<lambda>(k, v). set_header k v) kvs r) = (case map_of kvs k of Some v \<Rightarrow> Some v | None \<Rightarrow> header k r)"
proof (induction kvs arbitrary: r)
  case (Cons x kvs)
  have "map_of kvs (fst x) = None" using Cons.prems by (simp add: map_of_eq_None_iff)
  then show ?case using Cons by (cases x) (auto split: option.split)
qed simp

lemma security_headers_distinct: "distinct (map fst (security_headers S rid))"
  by (simp add: security_headers_def)

text \<open>A request that is let through and has an acceptable length is answered with the status of its handler,
  with its own identifier and with the headers of both layers.\<close>

lemma accepted_answer:
  assumes "rate_step S rq now events = (Accept n, events')"
    and "content_length rq = Inr len" "len \<le> body_limit S rq" "endpoint rq = Inr r"
  shows "\<exists>r'. app_dispatch S fresh limiter_id rq now endpoint events = (Inr r', events') \<and> rs_status r' = rs_status r
    \<and> header ''X-Request-Id'' r' = Some (request_id_of fresh rq)
    \<and> header ''X-Content-Type-Options'' r' = Some ''nosniff'' \<and> header ''X-Frame-Options'' r' = Some ''DENY''
    \<and> (set_env S = ''prod'' \<longrightarrow> header ''Strict-Transport-Security'' r' \<noteq> None)
    \<and> header ''X-RateLimit-Remaining'' r' = Some (str_nat n)"
  using assms
  by (auto simp: app_dispatch_def rate_dispatch_def request_context_def Let_def
      header_fold [OF security_headers_distinct] security_headers_def [of S])

text \<open>A request that is not let through never reaches the request context: its answer is the same whatever
  identifier the client sent, and it has none of the security headers.\<close>

lemma limited_answer:
  assumes "rate_step S rq now events = (Limited wait, events')"
  shows "\<exists>r'. app_dispatch S fresh limiter_id rq now endpoint events = (Inr r', events') \<and> rs_status r' = 429
    \<and> header ''X-Request-Id'' r' = Some limiter_id \<and> header ''X-Content-Type-Options'' r' = None
    \<and> header ''X-Frame-Options'' r' = None \<and> header ''Strict-Transport-Security'' r' = None
    \<and> header ''Retry-After'' r' = Some (str_nat (nat wait))"
  using assms by (simp add: app_dispatch_def rate_dispatch_def header_def)

text \<open>A request with too large a body costs a place in the window all the same, and its handler is not called.\<close>

lemma oversized_answer:
  assumes "rate_step S rq now events = (Accept n, events')" "content_length rq = Inr len" "body_limit S rq < len"
  shows "\<exists>r'. app_dispatch S fresh limiter_id rq now endpoint events = (Inr r', events') \<and> rs_status r' = 413
    \<and> header ''X-Request-Id'' r' = Some (request_id_of fresh rq) \<and> header ''X-RateLimit-Remaining'' r' = Some (str_nat n)"
  using assms by (simp add: app_dispatch_def rate_dispatch_def request_context_def) (simp add: header_def)

section \<open>The limit holds\<close>

lemma evict_filter: "sorted b \<Longrightarrow> evict h b = filter (\<lambda>t. h < t) b"
proof (induction b)
  case (Cons t ts)
  moreover have "filter (\<lambda>x. h < x) ts = ts" if "\<not> t \<le> h" using that Cons.prems by (auto simp: filter_id_conv)
  ultimately show ?case by (cases "t \<le> h") auto
qed simp

lemma horizon_mono: "now \<le> later \<Longrightarrow> fsub now w \<le> fsub later w"
  by (simp add: fsub_def fl_mono)

text \<open>One client that hits one path at some times: the times at which it is let through, and its bucket
  afterwards.\<close>

fun admitted :: "settings \<Rightarrow> http_request \<Rightarrow> buckets \<Rightarrow> rat list \<Rightarrow> rat list" where
  "admitted S rq events [] = []"
| "admitted S rq events (now # later) =
     (let (v, events') = rate_step S rq now events
      in (case v of Accept n \<Rightarrow> [now] | Limited r \<Rightarrow> []) @ admitted S rq events' later)"

fun after_requests :: "settings \<Rightarrow> http_request \<Rightarrow> buckets \<Rightarrow> rat list \<Rightarrow> buckets" where
  "after_requests S rq events [] = events"
| "after_requests S rq events (now # later) = after_requests S rq (snd (rate_step S rq now events)) later"

text \<open>The window that ends now.\<close>

definition recent :: "http_request \<Rightarrow> rat \<Rightarrow> rat list \<Rightarrow> rat list" where
  "recent rq now ts = filter (\<lambda>t. fsub now (of_nat (snd (rule rq))) < t) ts"

definition bucket :: "http_request \<Rightarrow> buckets \<Rightarrow> rat list" where
  "bucket rq events = events (bucket_key rq)"

lemma rate_step_eq:
  assumes "sorted (bucket rq events)"
  shows "rate_step S rq now events =
    (let b = recent rq now (bucket rq events); limit = effective_limit S rq
     in if limit \<le> length b
        then (Limited (max 1 (round_half_even (fsub (of_nat (snd (rule rq))) (fsub now (hd b))))), events(bucket_key rq := b))
        else (Accept (limit - length (b @ [now])), events(bucket_key rq := b @ [now])))"
  using assms by (simp add: rate_step_def decide_rate_def evict_filter recent_def bucket_def Let_def)

lemma recent_sorted: "sorted b \<Longrightarrow> sorted (recent rq now b)"
  by (simp add: recent_def sorted_wrt_filter)

lemma recent_recent: "now \<le> u \<Longrightarrow> recent rq u (recent rq now b) = recent rq u b"
  using horizon_mono [of now u "of_nat (snd (rule rq))"] by (auto simp: recent_def intro!: filter_cong)

lemma recent_append: "recent rq u (a @ b) = recent rq u a @ recent rq u b"
  by (simp add: recent_def)

lemma bucket_after_step:
  assumes "sorted (bucket rq events)"
  shows "bucket rq (snd (rate_step S rq now events)) =
    recent rq now (bucket rq events)
      @ (if length (recent rq now (bucket rq events)) < effective_limit S rq then [now] else [])"
    and "(case fst (rate_step S rq now events) of Accept n \<Rightarrow> [now] | Limited r \<Rightarrow> []) =
      (if length (recent rq now (bucket rq events)) < effective_limit S rq then [now] else [])"
  by (simp_all add: rate_step_eq [OF assms] Let_def, simp_all add: bucket_def)

lemma admitted_in_bucket:
  assumes "sorted (bucket rq events @ ts)" "\<forall>t \<in> set ts. t \<le> u"
  shows "recent rq u (bucket rq events @ admitted S rq events ts) = recent rq u (bucket rq (after_requests S rq events ts))
    \<and> sorted (bucket rq (after_requests S rq events ts))
    \<and> (length (bucket rq events) \<le> effective_limit S rq \<longrightarrow>
       length (bucket rq (after_requests S rq events ts)) \<le> effective_limit S rq)"
  using assms
proof (induction ts arbitrary: events)
  case (Cons now later)
  let ?b = "bucket rq events" and ?ev = "snd (rate_step S rq now events)"
  let ?x = "if length (recent rq now ?b) < effective_limit S rq then [now] else []"
  have so: "sorted ?b" "\<forall>t \<in> set ?b. t \<le> now" "sorted later" "\<forall>t \<in> set later. now \<le> t" "\<forall>t \<in> set ?b. \<forall>v \<in> set later. t \<le> v"
    using Cons.prems(1) by (auto simp: sorted_append)
  note b' = bucket_after_step [OF so(1), where S = S and now = now]
  have "sorted (bucket rq ?ev @ later)"
    unfolding b'(1) using so recent_sorted [OF so(1)] by (auto simp: sorted_append recent_def)
  from Cons.IH [OF this] Cons.prems(2)
  have ih: "recent rq u (bucket rq ?ev @ admitted S rq ?ev later) = recent rq u (bucket rq (after_requests S rq ?ev later))"
    "sorted (bucket rq (after_requests S rq ?ev later))"
    "length (bucket rq ?ev) \<le> effective_limit S rq \<longrightarrow> length (bucket rq (after_requests S rq ?ev later)) \<le> effective_limit S rq"
    by simp_all
  have adm: "admitted S rq events (now # later) = ?x @ admitted S rq ?ev later"
    using b'(2) by (simp add: split_beta)
  have "now \<le> u" using Cons.prems(2) by simp
  then have "recent rq u (?b @ ?x) = recent rq u (bucket rq ?ev)"
    unfolding b'(1) recent_append [of rq u _ ?x] by (simp add: recent_append recent_recent)
  then have "recent rq u (?b @ admitted S rq events (now # later)) = recent rq u (bucket rq (after_requests S rq ?ev later))"
    unfolding adm append_assoc [symmetric] using ih(1) by (simp only: recent_append)
  moreover have "length (bucket rq ?ev) \<le> effective_limit S rq" if "length ?b \<le> effective_limit S rq"
  proof -
    have "length (recent rq now ?b) \<le> effective_limit S rq"
      unfolding recent_def by (rule le_trans [OF length_filter_le that])
    then show ?thesis unfolding b'(1) by auto
  qed
  ultimately show ?case using ih by simp
qed (simp add: sorted_append)

lemma admitted_snoc:
  "admitted S rq events (ts @ [now]) = admitted S rq events ts
     @ (case fst (rate_step S rq now (after_requests S rq events ts)) of Accept n \<Rightarrow> [now] | Limited r \<Rightarrow> [])"
  by (induction ts arbitrary: events) (simp_all add: split_beta)

text \<open>C35: the limiter is a sliding window. A request is let through exactly when fewer than the limit of
  the requests that were let through lie in the window that ends with it, for requests at any
  times of a clock that does not run backwards; so no window holds more than the limit. The queue,
  which only keeps what it has not evicted, decides the same as the whole history would.\<close>

theorem rate_limiter_is_sliding_window:
  assumes "sorted (ts @ [now])" "bucket rq events = []"
  shows "admitted S rq events (ts @ [now]) = admitted S rq events ts
      @ (if length (recent rq now (admitted S rq events ts)) < effective_limit S rq then [now] else [])
    \<and> length (recent rq now (admitted S rq events (ts @ [now]))) \<le> effective_limit S rq"
proof -
  have "sorted (bucket rq events @ ts)" "\<forall>t \<in> set ts. t \<le> now" using assms by (auto simp: sorted_append)
  note inv = admitted_in_bucket [OF this, of S]
  let ?b = "bucket rq (after_requests S rq events ts)"
  have eq: "recent rq now (admitted S rq events ts) = recent rq now ?b" using inv assms(2) by simp
  have snoc: "admitted S rq events (ts @ [now]) = admitted S rq events ts
      @ (if length (recent rq now (admitted S rq events ts)) < effective_limit S rq then [now] else [])"
    using inv bucket_after_step(2) [where rq = rq and events = "after_requests S rq events ts" and S = S and now = now] by (simp add: admitted_snoc eq)
  moreover have "length (recent rq now ?b) \<le> effective_limit S rq"
    unfolding recent_def by (rule le_trans [OF length_filter_le]) (use inv assms(2) in simp)
  ultimately show ?thesis by (simp add: recent_append eq) (auto simp: recent_def)
qed

definition demo_login :: http_request where
  "demo_login =
     \<lparr>rq_method = ''POST'', rq_path = ''/auth/login'', rq_client = None, rq_request_id = None,
      rq_content_length = None, rq_content_type = None\<rparr>"

theorem rate_limiter_is_sliding_window_witness:
  "length (recent demo_login 3 (admitted default_settings demo_login (\<lambda>_. []) ([1, 2] @ [3])))
     \<le> effective_limit default_settings demo_login"
  by (rule conjunct2 [OF rate_limiter_is_sliding_window]) (simp_all add: bucket_def)

end
