(* ===== verification/Gateway.thy ===== *)
theory Gateway
  imports Cursors
begin

text \<open>
  \<open>app/services/llm/gateway.py\<close>: a completion is asked of the configured providers in turn, each with up to
  three requests, until one gives an answer that the schema accepts. The network (\<open>httpx\<close>), the
  schema (\<open>pydantic\<close>) and the clock are parameters; an exception is named by its class.
\<close>

section \<open>The parts outside the repository\<close>

record provider =
  pv_name :: string
  pv_base_url :: string
  pv_api_key :: string
  pv_model :: string

text \<open>\<open>gw_post\<close> is the reply to a request (URL, authorization, body, and its number in the sequence of
  requests): an exception, of the transport or of \<open>raise_for_status\<close>, or the decoded body.\<close>

record gateway =
  gw_openai_api_key :: string
  gw_openai_base_url :: string
  gw_openai_model_fast :: string
  gw_nvidia_nim_api_key :: string
  gw_nvidia_nim_base_url :: string
  gw_nvidia_model_reasoning :: string
  gw_has_session :: bool
  gw_post :: "string \<Rightarrow> string \<Rightarrow> json \<Rightarrow> nat \<Rightarrow> exn + json"
  gw_latency :: "provider \<Rightarrow> int"

datatype Purpose = EXTRACT | AXIS | MEMO | SEARCH | VALIDATE

fun purpose_value :: "Purpose \<Rightarrow> string" where
  "purpose_value EXTRACT = ''extract''"
| "purpose_value AXIS = ''axis''"
| "purpose_value MEMO = ''memo''"
| "purpose_value SEARCH = ''search''"
| "purpose_value VALIDATE = ''validate''"

record 'p LLMResult =
  lr_content :: json
  lr_parsed :: "'p option"
  lr_provider :: string
  lr_model :: string

text \<open>What is asked: the messages and the schema, as its name, its JSON schema and
  \<open>schema.model_validate(json.loads(content))\<close>.\<close>

record 'p call_context =
  cc_org :: "uuid option"
  cc_job :: "uuid option"
  cc_purpose :: Purpose
  cc_messages :: "(string \<times> string) list list"
  cc_schema :: "(string \<times> json \<times> (string \<Rightarrow> exn + 'p)) option"
  cc_max_tokens :: nat

text \<open>The classes below \<open>httpx.TimeoutException\<close>, \<open>httpx.NetworkError\<close>, \<open>httpx.HTTPError\<close>, and
  those that the loop over the providers handles.\<close>

definition timeout_classes :: "string list" where
  "timeout_classes =
     [''TimeoutException'', ''ConnectTimeout'', ''ReadTimeout'', ''WriteTimeout'', ''PoolTimeout'',
      ''NetworkError'', ''ConnectError'', ''ReadError'', ''WriteError'', ''CloseError'']"

definition http_classes :: "string list" where
  "http_classes =
     timeout_classes @
     [''HTTPError'', ''HTTPStatusError'', ''RequestError'', ''TransportError'', ''ProtocolError'',
      ''LocalProtocolError'', ''RemoteProtocolError'', ''ProxyError'', ''UnsupportedProtocol'',
      ''DecodingError'', ''TooManyRedirects'']"

definition value_classes :: "string list" where
  "value_classes =
     [''KeyError'', ''ValueError'', ''ValidationError'', ''JSONDecodeError'', ''UnicodeError'', ''UnicodeDecodeError'',
      ''UnicodeEncodeError'']"

fun class_name :: "exn \<Rightarrow> string" where
  "class_name (App e) = ''AppError''"
| "class_name IntegrityError = ''IntegrityError''"
| "class_name (PyExn c m) = c"

definition retried :: "exn \<Rightarrow> bool" where
  "retried e \<longleftrightarrow> class_name e \<in> set timeout_classes"

definition caught :: "exn \<Rightarrow> bool" where
  "caught e \<longleftrightarrow> class_name e \<in> set (http_classes @ value_classes)"

section \<open>A request\<close>

text \<open>\<open>@retry(stop_after_attempt(n))\<close>: the reply of the last request and the number of requests.\<close>

fun with_retry :: "nat \<Rightarrow> (nat \<Rightarrow> exn + 'a) \<Rightarrow> nat \<Rightarrow> (exn + 'a) \<times> nat" where
  "with_retry n f k =
     (case f k of
        Inl e \<Rightarrow> (case n of Suc (Suc m) \<Rightarrow> if retried e then with_retry (Suc m) f (Suc k) else (Inl e, Suc k)
                  | _ \<Rightarrow> (Inl e, Suc k))
      | Inr x \<Rightarrow> (Inr x, Suc k))"

declare with_retry.simps [simp del]

definition request_body :: "'p call_context \<Rightarrow> string \<Rightarrow> json" where
  "request_body c model =
     JObj ([(''model'', JStr model),
            (''messages'', JList (map (\<lambda>m. JObj (map (\<lambda>(k, v). (k, JStr v)) m)) (cc_messages c))),
            (''temperature'', JNum 0), (''max_tokens'', JNum (of_nat (cc_max_tokens c)))]
       @ (case cc_schema c of None \<Rightarrow> []
          | Some (name, schema, validate) \<Rightarrow>
              [(''response_format'', JObj [(''type'', JStr ''json_schema''),
                 (''json_schema'', JObj [(''name'', JStr name), (''strict'', JBool True), (''schema'', schema)])])]))"

definition openai_compatible :: "gateway \<Rightarrow> 'p call_context \<Rightarrow> provider \<Rightarrow> exn + json" where
  "openai_compatible G c p =
     fst (with_retry 3 (gw_post G (rstrip (CHR ''/'') (pv_base_url p) @ ''/chat/completions'')
       (''Bearer '' @ pv_api_key p) (request_body c (pv_model p))) 0)"

text \<open>\<open>payload[key]\<close> and \<open>payload[0]\<close>.\<close>

fun item :: "string \<Rightarrow> json \<Rightarrow> exn + json" where
  "item k (JObj kvs) = (case map_of kvs k of None \<Rightarrow> Inl (PyExn ''KeyError'' k) | Some v \<Rightarrow> Inr v)"
| "item k j = Inl (PyExn ''TypeError'' [])"

fun first_item :: "json \<Rightarrow> exn + json" where
  "first_item (JList []) = Inl (PyExn ''IndexError'' ''list index out of range'')"
| "first_item (JList (x # xs)) = Inr x"
| "first_item (JObj kvs) = Inl (PyExn ''KeyError'' ''0'')"
| "first_item (JStr []) = Inl (PyExn ''IndexError'' ''string index out of range'')"
| "first_item (JStr (c # cs)) = Inr (JStr [c])"
| "first_item j = Inl (PyExn ''TypeError'' [])"

definition bind_sum :: "'e + 'a \<Rightarrow> ('a \<Rightarrow> 'e + 'b) \<Rightarrow> 'e + 'b" where
  "bind_sum r f = (case r of Inl e \<Rightarrow> Inl e | Inr x \<Rightarrow> f x)"

definition content_of :: "json \<Rightarrow> exn + json" where
  "content_of payload =
     bind_sum (item ''choices'' payload) (\<lambda>cs.
     bind_sum (first_item cs) (\<lambda>c. bind_sum (item ''message'' c) (item ''content'')))"

definition parsed_of :: "'p call_context \<Rightarrow> json \<Rightarrow> exn + 'p option" where
  "parsed_of c content =
     (case cc_schema c of
        None \<Rightarrow> Inr None
      | Some (name, schema, validate) \<Rightarrow>
          (case content of
             JStr s \<Rightarrow> bind_sum (validate s) (\<lambda>x. Inr (Some x))
           | _ \<Rightarrow> Inl (PyExn ''TypeError'' ''the JSON object must be str, bytes or bytearray'')))"

text \<open>\<open>int(usage.get(key) or 0)\<close>.\<close>

fun py_int_of :: "json \<Rightarrow> exn + int" where
  "py_int_of (JNum q) = Inr (if q < 0 then - \<lfloor>- q\<rfloor> else \<lfloor>q\<rfloor>)"
| "py_int_of (JBool b) = Inr (if b then 1 else 0)"
| "py_int_of (JStr s) = (case py_int s of None \<Rightarrow> Inl (PyExn ''ValueError'' s) | Some n \<Rightarrow> Inr n)"
| "py_int_of (JUuid u) = Inl (PyExn ''ValueError'' [])"
| "py_int_of j = Inl (PyExn ''TypeError'' [])"

definition tokens :: "string \<Rightarrow> json option \<Rightarrow> exn + int" where
  "tokens k u =
     (case u of
        None \<Rightarrow> Inr 0
      | Some (JObj kvs) \<Rightarrow> (case map_of kvs k of None \<Rightarrow> Inr 0 | Some v \<Rightarrow> if jtruthy v then py_int_of v else Inr 0)
      | Some j \<Rightarrow> if jtruthy j then Inl (PyExn ''AttributeError'' ''get'') else Inr 0)"

section \<open>Providers in turn\<close>

definition call_row ::
  "gateway \<Rightarrow> 'p call_context \<Rightarrow> provider \<Rightarrow> string \<Rightarrow> int \<Rightarrow> int \<Rightarrow> string option \<Rightarrow> LLMCall" where
  "call_row G c p status prompt completion err =
     \<lparr>llm_org_id = cc_org c, llm_job_id = cc_job c, llm_provider = pv_name p, llm_model = pv_model p,
      llm_purpose = purpose_value (cc_purpose c), llm_status = status, llm_prompt_tokens = prompt,
      llm_completion_tokens = completion, llm_cost_usd = 0, llm_latency_ms = gw_latency G p,
      llm_cached = False, llm_error = err\<rparr>"

definition record_call ::
  "gateway \<Rightarrow> 'p call_context \<Rightarrow> provider \<Rightarrow> string \<Rightarrow> json option \<Rightarrow> string option \<Rightarrow> unit run" where
  "record_call G c p status u err =
     (if \<not> gw_has_session G then ret ()
      else andThen (lift (tokens ''prompt_tokens'' u)) (\<lambda>m.
           andThen (lift (tokens ''completion_tokens'' u)) (\<lambda>n.
           change (\<lambda>d. d\<lparr>llm_calls := llm_calls d @ [call_row G c p status m n err]\<rparr>))))"

text \<open>The body of the \<open>try\<close>.\<close>

definition ask :: "gateway \<Rightarrow> 'p call_context \<Rightarrow> provider \<Rightarrow> 'p LLMResult run" where
  "ask G c p =
     andThen (lift (openai_compatible G c p)) (\<lambda>payload.
     andThen (lift (content_of payload)) (\<lambda>content.
     andThen (lift (parsed_of c content)) (\<lambda>parsed.
     andThen (record_call G c p ''ok'' (jget ''usage'' payload) None) (\<lambda>_.
     ret \<lparr>lr_content = content, lr_parsed = parsed, lr_provider = pv_name p, lr_model = pv_model p\<rparr>))))"

definition failure_note :: "provider \<Rightarrow> exn \<Rightarrow> string" where
  "failure_note p e = pv_name p @ '': '' @ class_name e"

definition all_failed :: "string list \<Rightarrow> app_error" where
  "all_failed msgs =
     (AppError ''UPSTREAM_ERROR'' ''Every configured LLM provider failed.'' 502)
       \<lparr>err_details := map (\<lambda>m. (''providers'', m)) msgs, err_retryable := True\<rparr>"

definition no_provider :: app_error where
  "no_provider =
     AppError ''SOURCE_UNAVAILABLE'' ''No LLM provider is configured; deterministic analysis remains available.'' 503"

fun ask_in_turn :: "gateway \<Rightarrow> 'p call_context \<Rightarrow> string list \<Rightarrow> provider list \<Rightarrow> 'p LLMResult run" where
  "ask_in_turn G c msgs [] s = (Inl (App (all_failed msgs)), s)"
| "ask_in_turn G c msgs (p # ps) s =
     (case ask G c p s of
        (Inr r, s') \<Rightarrow> (Inr r, s')
      | (Inl e, s') \<Rightarrow>
          if caught e
          then andThen (record_call G c p ''failed'' None (Some (class_name e)))
                 (\<lambda>_. ask_in_turn G c (msgs @ [failure_note p e]) ps) s'
          else (Inl e, s'))"

definition providers :: "gateway \<Rightarrow> provider list" where
  "providers G =
     (if gw_openai_api_key G = [] then []
      else [\<lparr>pv_name = ''openai'', pv_base_url = gw_openai_base_url G, pv_api_key = gw_openai_api_key G,
             pv_model = gw_openai_model_fast G\<rparr>])
     @ (if gw_nvidia_nim_api_key G = [] then []
        else [\<lparr>pv_name = ''nvidia_nim'', pv_base_url = gw_nvidia_nim_base_url G,
               pv_api_key = gw_nvidia_nim_api_key G, pv_model = gw_nvidia_model_reasoning G\<rparr>])"

definition complete :: "gateway \<Rightarrow> 'p call_context \<Rightarrow> 'p LLMResult run" where
  "complete G c =
     (if providers G = [] then throw (App no_provider) else ask_in_turn G c [] (providers G))"

section \<open>What a completion does\<close>

text \<open>At most \<open>n\<close> requests; every one but the last failed with a timeout or a network error.\<close>

lemma with_retry_spec:
  "\<exists>m \<le> n. with_retry (Suc n) f k = (f (k + m), Suc (k + m))
     \<and> (\<forall>j < m. \<exists>e. f (k + j) = Inl e \<and> retried e)
     \<and> (m < n \<longrightarrow> (\<forall>e. f (k + m) = Inl e \<longrightarrow> \<not> retried e))"
proof (induction n arbitrary: k)
  case 0
  then show ?case by (auto simp: with_retry.simps split: sum.split)
next
  case (Suc n)
  show ?case
  proof (cases "\<exists>e. f k = Inl e \<and> retried e")
    case True
    from Suc [of "Suc k"] obtain m where m: "m \<le> n" "with_retry (Suc n) f (Suc k) = (f (Suc k + m), Suc (Suc k + m))"
      "\<forall>j < m. \<exists>e. f (Suc k + j) = Inl e \<and> retried e" "m < n \<longrightarrow> (\<forall>e. f (Suc k + m) = Inl e \<longrightarrow> \<not> retried e)" by blast
    have "\<exists>e. f (k + j) = Inl e \<and> retried e" if "j < Suc m" for j
      using that True m(3) by (cases j) auto
    then show ?thesis using True m by (intro exI [of _ "Suc m"]) (auto simp: with_retry.simps [of "Suc (Suc n)"])
  next
    case False
    then show ?thesis
      by (intro exI [of _ 0]) (auto simp: with_retry.simps [of "Suc (Suc n)"] split: sum.split)
  qed
qed

text \<open>What a provider gives, apart from the rows: a result with its token counts, or an exception.\<close>

definition reply :: "gateway \<Rightarrow> 'p call_context \<Rightarrow> provider \<Rightarrow> exn + 'p LLMResult \<times> int \<times> int" where
  "reply G c p =
     bind_sum (openai_compatible G c p) (\<lambda>payload.
     bind_sum (content_of payload) (\<lambda>content.
     bind_sum (parsed_of c content) (\<lambda>parsed.
     let r = \<lparr>lr_content = content, lr_parsed = parsed, lr_provider = pv_name p, lr_model = pv_model p\<rparr>
     in if \<not> gw_has_session G then Inr (r, 0, 0)
        else bind_sum (tokens ''prompt_tokens'' (jget ''usage'' payload)) (\<lambda>m.
             bind_sum (tokens ''completion_tokens'' (jget ''usage'' payload)) (\<lambda>n. Inr (r, m, n))))))"

definition noted :: "gateway \<Rightarrow> LLMCall list \<Rightarrow> session \<Rightarrow> session" where
  "noted G rows s = (if gw_has_session G then s\<lparr>s_db := (s_db s)\<lparr>llm_calls := llm_calls (s_db s) @ rows\<rparr>\<rparr> else s)"

lemma noted_noted [simp]: "noted G qs (noted G rs s) = noted G (rs @ qs) s"
  by (simp add: noted_def)

lemma noted_Nil [simp]: "noted G [] s = s"
  by (simp add: noted_def)

lemma record_failed: "record_call G c p st None err s = (Inr (), noted G [call_row G c p st 0 0 err] s)"
  by (simp add: record_call_def run_simps noted_def tokens_def)

lemma ask_run: "ask G c p s =
  (case reply G c p of Inl e \<Rightarrow> (Inl e, s) | Inr (r, m, n) \<Rightarrow> (Inr r, noted G [call_row G c p ''ok'' m n None] s))"
  by (simp add: ask_def reply_def bind_sum_def record_call_def run_simps noted_def Let_def split: sum.split)

text \<open>The reference: the first provider that answers, and a row for each one asked.\<close>

definition answered :: "gateway \<Rightarrow> 'p call_context \<Rightarrow> provider \<Rightarrow> bool" where
  "answered G c p = (case reply G c p of Inl e \<Rightarrow> False | Inr r \<Rightarrow> True)"

definition failed_row :: "gateway \<Rightarrow> 'p call_context \<Rightarrow> provider \<Rightarrow> LLMCall" where
  "failed_row G c p = (case reply G c p of Inl e \<Rightarrow> call_row G c p ''failed'' 0 0 (Some (class_name e))
     | Inr (r, m, n) \<Rightarrow> call_row G c p ''ok'' m n None)"

definition failed_note :: "gateway \<Rightarrow> 'p call_context \<Rightarrow> provider \<Rightarrow> string" where
  "failed_note G c p = (case reply G c p of Inl e \<Rightarrow> failure_note p e | Inr r \<Rightarrow> [])"

definition asked :: "gateway \<Rightarrow> 'p call_context \<Rightarrow> provider list \<Rightarrow> provider list" where
  "asked G c ps = takeWhile (\<lambda>p. \<not> answered G c p) ps @ take 1 (dropWhile (\<lambda>p. \<not> answered G c p) ps)"

definition first_answer :: "gateway \<Rightarrow> 'p call_context \<Rightarrow> string list \<Rightarrow> provider list \<Rightarrow> exn + 'p LLMResult" where
  "first_answer G c msgs ps =
     (case List.map_filter (\<lambda>p. case reply G c p of Inl e \<Rightarrow> None | Inr x \<Rightarrow> Some (fst x)) ps of
        r # rs \<Rightarrow> Inr r
      | [] \<Rightarrow> Inl (App (all_failed (msgs @ map (failed_note G c) ps))))"

lemma reply_Inl:
  "reply G c p = Inl e \<Longrightarrow> \<not> answered G c p \<and> failed_note G c p = failure_note p e
     \<and> failed_row G c p = call_row G c p ''failed'' 0 0 (Some (class_name e))"
  by (simp add: answered_def failed_note_def failed_row_def)

lemma reply_Inr:
  "reply G c p = Inr (r, m, n) \<Longrightarrow> answered G c p \<and> failed_row G c p = call_row G c p ''ok'' m n None"
  by (simp add: answered_def failed_row_def)

lemma ask_in_turn_run:
  assumes "\<And>p e. p \<in> set ps \<Longrightarrow> reply G c p = Inl e \<Longrightarrow> caught e"
  shows "ask_in_turn G c msgs ps s = (first_answer G c msgs ps, noted G (map (failed_row G c) (asked G c ps)) s)"
  using assms
proof (induction ps arbitrary: msgs s)
  case (Cons p ps)
  show ?case
  proof (cases "reply G c p")
    case (Inl e)
    then have "caught e" using Cons.prems [of p e] by simp
    moreover have "ask_in_turn G c m ps t = (first_answer G c m ps, noted G (map (failed_row G c) (asked G c ps)) t)" for m t
      by (rule Cons.IH) (use Cons.prems in auto)
    ultimately show ?thesis
      using Inl reply_Inl [OF Inl] by (simp add: ask_run andThen_goes [OF record_failed] first_answer_def asked_def map_filter_simps split: list.split)
  next
    case (Inr x)
    obtain r m n where "x = (r, m, n)" by (cases x) auto
    then show ?thesis using Inr reply_Inr [of G c p r m n] by (simp add: ask_run first_answer_def asked_def map_filter_simps)
  qed
qed (simp add: first_answer_def asked_def map_filter_simps)


definition demo_gateway :: gateway where
  "demo_gateway =
     \<lparr>gw_openai_api_key = ''k1'', gw_openai_base_url = ''u1'', gw_openai_model_fast = ''m1'',
      gw_nvidia_nim_api_key = ''k2'', gw_nvidia_nim_base_url = ''u2'', gw_nvidia_model_reasoning = ''m2'',
      gw_has_session = True,
      gw_post = (\<lambda>url auth body k. if auth = ''Bearer k1'' then Inl (PyExn ''ReadTimeout'' [])
        else Inr (JObj [(''choices'', JList [JObj [(''message'', JObj [(''content'', JStr ''hello'')])]])])),
      gw_latency = (\<lambda>p. 5)\<rparr>"

definition demo_call :: "string call_context" where
  "demo_call = \<lparr>cc_org = None, cc_job = None, cc_purpose = MEMO, cc_messages = [[(''role'', ''user'')]],
     cc_schema = None, cc_max_tokens = 1\<rparr>"


text \<open>A reply without choices ends the completion with an exception that is not handled, although the
  second provider would have answered.\<close>

lemma empty_choices_stop_failover:
  assumes "providers G = p # ps" "openai_compatible G c p = Inr (JObj [(''choices'', JList [])])"
  shows "complete G c s = (Inl (PyExn ''IndexError'' ''list index out of range''), s)"
proof -
  have "reply G c p = Inl (PyExn ''IndexError'' ''list index out of range'')"
    using assms(2) by (simp add: reply_def bind_sum_def content_of_def)
  moreover have "\<not> caught (PyExn ''IndexError'' ''list index out of range'')" by code_simp
  ultimately show ?thesis using assms(1) by (simp add: complete_def ask_run)
qed

end
