(* ===== verification/System.thy ===== *)
theory System
  imports Pipeline Gateway
begin

text \<open>
  The edges of the system: the checks of the settings (\<open>app/config.py\<close>), the worker's tasks and their schedule
  (\<open>app/workers\<close>) and the readiness report (\<open>app/routers/health.py\<close>).
\<close>

section \<open>Settings\<close>

record secrets =
  sc_env :: string
  sc_secret_key :: string
  sc_frontend_origins :: string
  sc_allow_scrape_domains :: string

text \<open>\<open>validate_production_secrets\<close>; the key is ASCII, so its bytes are its characters.\<close>

definition validate_production_secrets :: "secrets \<Rightarrow> exn + secrets" where
  "validate_production_secrets S =
     (if sc_env S = ''prod'' \<and> length (sc_secret_key S) < 32
      then Inl (PyExn ''ValueError'' ''SECRET_KEY must contain at least 32 bytes in production'')
      else if sc_env S = ''prod'' \<and> prefix ''development-'' (sc_secret_key S)
      then Inl (PyExn ''ValueError'' ''Development SECRET_KEY cannot be used in production'')
      else Inr S)"

definition cors_origins :: "secrets \<Rightarrow> string list" where
  "cors_origins S = map strip (filter (\<lambda>x. strip x \<noteq> []) (split_acc (\<lambda>c. c = CHR '','') [] (sc_frontend_origins S)))"

definition scrape_domain_allowlist :: "secrets \<Rightarrow> string list" where
  "scrape_domain_allowlist S =
     remdups (map (\<lambda>x. casefold (strip x)) (filter (\<lambda>x. x \<noteq> []) (split_acc (\<lambda>c. c = CHR '','') [] (sc_allow_scrape_domains S))))"

section \<open>The worker\<close>

text \<open>A task of the worker or of the scheduler, run in a session of its own. A job's identifier arrives as
  text; \<open>parse_uuid\<close> is \<open>uuid.UUID\<close>.\<close>

datatype task = RunJob json | Reaper | SourceHealth

fun run_task :: "env \<Rightarrow> task \<Rightarrow> unit run" where
  "run_task E (RunJob i) = andThen (lift (parse_uuid i)) (process_job E)"
| "run_task E Reaper = andThen (reap_stale_jobs E) (\<lambda>_. ret ())"
| "run_task E SourceHealth = ret ()"

text \<open>The second and the minute at which the scheduler starts a task.\<close>

fun scheduled :: "nat \<Rightarrow> nat \<Rightarrow> task \<Rightarrow> bool" where
  "scheduled minute second Reaper = (second = 0)"
| "scheduled minute second SourceHealth = (minute mod 5 = 0 \<and> second = 0)"
| "scheduled minute second (RunJob i) = False"

section \<open>Readiness\<close>

record readiness =
  rd_db :: bool
  rd_redis :: bool
  rd_s3 :: bool
  rd_status :: string
  rd_db_error :: "string option"
  rd_redis_error :: "string option"

text \<open>The probes: \<open>SELECT 1\<close>, the reply to a ping and the object store, each of which may raise. The answer
  has its status code.\<close>

definition probe :: "exn + bool \<Rightarrow> bool \<times> string option" where
  "probe r = (case r of Inl e \<Rightarrow> (False, Some (class_name e)) | Inr b \<Rightarrow> (b, None))"

definition readyz :: "exn + unit \<Rightarrow> exn + bool \<Rightarrow> exn + bool \<Rightarrow> exn + readiness \<times> nat" where
  "readyz database redis s3 =
     (let (db_up, db_err) = probe (case database of Inl e \<Rightarrow> Inl e | Inr _ \<Rightarrow> Inr True);
          (redis_up, redis_err) = probe redis
      in case s3 of
           Inl e \<Rightarrow> Inl e
         | Inr s3_up \<Rightarrow>
             let up = db_up \<and> redis_up \<and> s3_up
             in Inr (\<lparr>rd_db = db_up, rd_redis = redis_up, rd_s3 = s3_up,
                      rd_status = (if up then ''ok'' else ''degraded''), rd_db_error = db_err,
                      rd_redis_error = redis_err\<rparr>, if up then 200 else 503))"

section \<open>What holds at the edges\<close>

lemma production_secret_is_long:
  "validate_production_secrets S = Inr T \<Longrightarrow> sc_env S = ''prod'' \<Longrightarrow>
     T = S \<and> 32 \<le> length (sc_secret_key S) \<and> \<not> prefix ''development-'' (sc_secret_key S)"
  by (auto simp: validate_production_secrets_def split: if_splits)

lemma ready_iff_all_up:
  "readyz database redis s3 = Inr (r, 200) \<longleftrightarrow>
     (\<exists>u. database = Inr u) \<and> redis = Inr True \<and> s3 = Inr True
     \<and> r = \<lparr>rd_db = True, rd_redis = True, rd_s3 = True, rd_status = ''ok'', rd_db_error = None, rd_redis_error = None\<rparr>"
  by (auto simp: readyz_def probe_def Let_def split: sum.splits prod.splits if_splits)

lemma tasks_keep_history: "history_kept d (fst (snd (request (run_task E t) d)))"
proof (rule hist.keeps_request, cases t)
  case (RunJob i)
  then show "hist.keeps (run_task E t)" by (auto intro!: hist_intros keeps_process_job)
next
  case Reaper
  then show "hist.keeps (run_task E t)"
    by (auto simp: reap_stale_jobs_def history_kept_def intro!: hist_intros)
qed simp

end
