(* ===== verification/Storage.thy ===== *)
theory Storage
  imports Documents
begin

text \<open>
  \<open>app/services/object_store.py\<close> with \<open>storage_backend == "local"\<close>: the path an object has below the store's
  top_dir, the guard against paths outside it, and the files, as the paths (lists of names) with their bytes. No
  link stands below the top_dir, so \<open>resolve\<close> only removes \<open>.\<close> and \<open>..\<close>; a directory is there when a file is.
\<close>

type_synonym path = "string list"
type_synonym files = "(path \<times> string) list"

section \<open>Paths\<close>

text \<open>\<open>base / s\<close>: an absolute \<open>s\<close> replaces the base.\<close>

definition path_parts :: "string \<Rightarrow> path" where
  "path_parts s = split_acc (\<lambda>c. c = CHR ''/'') [] s"

definition joined :: "path \<Rightarrow> string \<Rightarrow> path" where
  "joined base s = (if starts_with ''/'' s then path_parts s else base @ path_parts s)"

text \<open>\<open>resolve()\<close>; the accumulator is reversed.\<close>

fun resolved :: "path \<Rightarrow> path \<Rightarrow> path" where
  "resolved acc [] = rev acc"
| "resolved acc (p # ps) =
     (if p = ''.'' then resolved acc ps else if p = ''..'' then resolved (tl acc) ps else resolved (p # acc) ps)"

text \<open>\<open>root in target.parents\<close>.\<close>

definition below :: "path \<Rightarrow> path \<Rightarrow> bool" where
  "below top_dir target \<longleftrightarrow> length top_dir < length target \<and> take (length top_dir) target = top_dir"

definition object_path :: "path \<Rightarrow> string \<Rightarrow> string \<Rightarrow> exn + path" where
  "object_path top_dir bucket key =
     (let target = resolved [] (joined (joined top_dir bucket) key)
      in if below top_dir target then Inr target else Inl (PyExn ''RuntimeError'' ''unsafe object path''))"

section \<open>Writing and reading\<close>

text \<open>\<open>mkdir\<close> fails where a file stands on the way, \<open>write_bytes\<close> where a directory has the name.\<close>

definition in_the_way :: "path \<Rightarrow> files \<Rightarrow> bool" where
  "in_the_way t fs \<longleftrightarrow>
     list_ex (\<lambda>(p, _). p \<noteq> t \<and> (take (length p) t = p \<or> take (length t) p = t)) fs"

definition object_key :: "string \<Rightarrow> string \<Rightarrow> string \<Rightarrow> string" where
  "object_key digest name sfx = take 2 digest @ ''/'' @ name @ sfx"

definition local_put ::
  "path \<Rightarrow> (string \<Rightarrow> string) \<Rightarrow> string \<Rightarrow> string \<Rightarrow> string \<Rightarrow> string \<Rightarrow> files \<Rightarrow> exn + (string \<times> string) \<times> files" where
  "local_put top_dir sha256 name data bucket sfx fs =
     (let digest = sha256 data; key = object_key digest name sfx
      in case object_path top_dir bucket key of
           Inl e \<Rightarrow> Inl e
         | Inr t \<Rightarrow> if in_the_way t fs then Inl (PyExn ''OSError'' [])
                    else Inr ((key, digest), (t, data) # filter (\<lambda>f. fst f \<noteq> t) fs))"

definition local_get :: "path \<Rightarrow> string \<Rightarrow> string \<Rightarrow> files \<Rightarrow> exn + string" where
  "local_get top_dir bucket key fs =
     (case object_path top_dir bucket key of
        Inl e \<Rightarrow> Inl e
      | Inr t \<Rightarrow> (case map_of fs t of Some data \<Rightarrow> Inr data
                  | None \<Rightarrow> Inl (PyExn ''OSError'' [])))"

section \<open>Nothing outside the root\<close>

lemma resolved_plain: "\<forall>p \<in> set ps. p \<noteq> ''.'' \<and> p \<noteq> ''..'' \<Longrightarrow> resolved acc ps = rev acc @ ps"
  by (induction ps arbitrary: acc) auto

lemma set_tlD: "x \<in> set (tl xs) \<Longrightarrow> x \<in> set xs"
  by (cases xs) auto

lemma resolved_no_dots:
  "\<forall>p \<in> set acc. p \<noteq> ''.'' \<and> p \<noteq> ''..'' \<Longrightarrow> p \<in> set (resolved acc ps) \<Longrightarrow> p \<noteq> ''.'' \<and> p \<noteq> ''..''"
  by (induction acc ps rule: resolved.induct) (auto split: if_splits dest: set_tlD)

lemma below_iff: "below top_dir t \<longleftrightarrow> (\<exists>rest. rest \<noteq> [] \<and> t = top_dir @ rest)"
proof
  assume "below top_dir t"
  then show "\<exists>rest. rest \<noteq> [] \<and> t = top_dir @ rest"
    using append_take_drop_id [of "length top_dir" t] by (intro exI [of _ "drop (length top_dir) t"]) (auto simp: below_def)
qed (auto simp: below_def)

text \<open>A path that is used lies strictly below the root and steps nowhere upwards, whatever the bucket and the
  key are.\<close>

lemma object_path_safe:
  assumes "object_path top_dir bucket key = Inr t"
  shows "\<exists>rest. rest \<noteq> [] \<and> t = top_dir @ rest \<and> ''..'' \<notin> set rest"
proof -
  have t: "t = resolved [] (joined (joined top_dir bucket) key)" "below top_dir t"
    using assms by (auto simp: object_path_def Let_def split: if_splits)
  moreover have "''..'' \<notin> set t"
    using resolved_no_dots [of "[]" "''..''"] by (auto simp: t(1))
  ultimately show ?thesis by (auto simp: below_iff)
qed

text \<open>A write changes one file, below the root.\<close>

lemma local_put_stays_below:
  assumes "local_put top_dir sha name data bucket sfx fs = Inr (r, fs')" and "\<not> below top_dir p"
  shows "map_of fs' p = map_of fs p"
proof -
  obtain t where t: "object_path top_dir bucket (object_key (sha data) name sfx) = Inr t" "fs' = (t, data) # filter (\<lambda>f. fst f \<noteq> t) fs"
    using assms(1) by (auto simp: local_put_def Let_def split: sum.splits if_splits)
  have "below top_dir t" using object_path_safe [OF t(1)] by (auto simp: below_iff)
  then have "p \<noteq> t" using assms(2) by auto
  then have "map_of (filter (\<lambda>f. fst f \<noteq> t) fs) p = map_of fs p" by (induction fs) auto
  then show ?thesis using \<open>p \<noteq> t\<close> by (simp add: t(2))
qed

section \<open>What is stored is read back\<close>

text \<open>A name without a separator, which no key part is confused with.\<close>

definition plain :: "string \<Rightarrow> bool" where
  "plain s \<longleftrightarrow> s \<noteq> [] \<and> CHR ''/'' \<notin> set s \<and> s \<noteq> ''.'' \<and> s \<noteq> ''..''"

lemma split_acc_plain:
  "CHR ''/'' \<notin> set s \<Longrightarrow> split_acc (\<lambda>c. c = CHR ''/'') acc (s @ CHR ''/'' # rest) =
     (if acc = [] \<and> s = [] then [] else [rev acc @ s]) @ split_acc (\<lambda>c. c = CHR ''/'') [] rest"
  by (induction s arbitrary: acc) auto

lemma split_acc_last:
  "CHR ''/'' \<notin> set s \<Longrightarrow> split_acc (\<lambda>c. c = CHR ''/'') acc s = (if acc = [] \<and> s = [] then [] else [rev acc @ s])"
  by (induction s arbitrary: acc) auto

lemma plain_parts: "plain s \<Longrightarrow> path_parts s = [s] \<and> \<not> starts_with ''/'' s"
  by (cases s) (auto simp: plain_def path_parts_def split_acc_last)

lemma object_path_put:
  assumes "plain bucket" "plain (take 2 digest)" "plain (name @ sfx)" "\<forall>p \<in> set top_dir. p \<noteq> ''.'' \<and> p \<noteq> ''..''"
  shows "object_path top_dir bucket (object_key digest name sfx) = Inr (top_dir @ [bucket, take 2 digest, name @ sfx])"
proof -
  have "path_parts (object_key digest name sfx) = [take 2 digest, name @ sfx]"
    using assms(2,3) by (simp add: object_key_def path_parts_def plain_def split_acc_plain split_acc_last)
  moreover have "\<not> starts_with ''/'' (object_key digest name sfx)"
    using assms(2) by (cases "take 2 digest") (auto simp: object_key_def plain_def)
  moreover have "resolved [] (top_dir @ [bucket, take 2 digest, name @ sfx]) = top_dir @ [bucket, take 2 digest, name @ sfx]"
    using assms by (subst resolved_plain) (auto simp: plain_def)
  ultimately show ?thesis using plain_parts [OF assms(1)] by (simp add: object_path_def joined_def below_def)
qed

text \<open>The object that was put under a key is what the key gets, and no other object is lost.\<close>

lemma local_put_get:
  assumes "local_put top_dir sha name data bucket sfx fs = Inr ((key, digest), fs')"
  shows "local_get top_dir bucket key fs' = Inr data
    \<and> (\<forall>b k d. local_get top_dir b k fs = Inr d \<longrightarrow> object_path top_dir b k \<noteq> object_path top_dir bucket key \<longrightarrow> local_get top_dir b k fs' = Inr d)"
proof -
  obtain t where t: "object_path top_dir bucket key = Inr t" "fs' = (t, data) # filter (\<lambda>f. fst f \<noteq> t) fs"
    using assms by (auto simp: local_put_def Let_def split: sum.splits if_splits)
  have "map_of (filter (\<lambda>f. fst f \<noteq> t) fs) u = map_of fs u" if "u \<noteq> t" for u
    using that by (induction fs) auto
  then show ?thesis by (auto simp: local_get_def t split: sum.splits option.splits)
qed

text \<open>A put succeeds for the names the code makes (two digits of the digest, a fresh hexadecimal name, a suffix)
  where no file is in the way.\<close>

lemma local_put_succeeds:
  assumes "plain bucket" "plain (take 2 (sha data))" "plain (name @ sfx)" "\<forall>p \<in> set top_dir. p \<noteq> ''.'' \<and> p \<noteq> ''..''"
    and "\<not> in_the_way (top_dir @ [bucket, take 2 (sha data), name @ sfx]) fs"
  shows "\<exists>fs'. local_put top_dir sha name data bucket sfx fs = Inr ((object_key (sha data) name sfx, sha data), fs')"
  using assms by (simp add: local_put_def object_path_put Let_def)

text \<open>The guard keeps the root and not the bucket: a key may name an object of another bucket.\<close>

lemma guard_crosses_buckets:
  "object_path [''data''] ''decks'' ''../exports/x'' = Inr [''data'', ''exports'', ''x'']
    \<and> object_path [''data''] ''decks'' ''../../etc/passwd'' = Inl (PyExn ''RuntimeError'' ''unsafe object path'')"
  by (simp add: object_path_def joined_def path_parts_def below_def)

end
