(* ===== verification/Feeds.thy ===== *)
theory Feeds
  imports Connectors Gateway
begin

text \<open>
  The \<open>harvest\<close> methods of \<open>app/services/connectors/\<close>: the requests the four connectors make, \<open>get_json\<close> with its
  retries, and arXiv's Atom feed turned into the dicts that \<open>normalize\<close> reads. The replies of the network and the
  XML parser are parameters; a reply carries the exception of \<open>raise_for_status\<close> too.
\<close>

section \<open>The network\<close>

text \<open>An element: its tag, its attributes, its text and its children.\<close>

datatype xml = Element (xml_tag: string) (xml_attrib: "(string \<times> string) list") (xml_text: "string option") (xml_children: "xml list")

type_synonym params = "(string \<times> json) list"
type_synonym headers = "(string \<times> string) list"

text \<open>\<open>web_get\<close> is the reply to the \<open>n\<close>-th request of a call.\<close>

record web =
  web_get :: "string \<Rightarrow> params \<Rightarrow> headers \<Rightarrow> nat \<Rightarrow> exn + json"
  web_get_text :: "string \<Rightarrow> params \<Rightarrow> exn + string"
  web_post :: "string \<Rightarrow> json \<Rightarrow> exn + json"
  web_xml :: "string \<Rightarrow> exn + xml"
  web_github_token :: string

definition get_json :: "web \<Rightarrow> string \<Rightarrow> params \<Rightarrow> headers \<Rightarrow> exn + json" where
  "get_json W url ps hs = fst (with_retry 3 (web_get W url ps hs) 0)"

text \<open>\<open>payload.get(key, [])\<close> as the loop over it reads it: a string gives its characters, an object its keys.\<close>

fun results_of :: "string \<Rightarrow> json \<Rightarrow> exn + json list" where
  "results_of k (JObj kvs) =
     (case map_of kvs k of
        None \<Rightarrow> Inr []
      | Some (JList xs) \<Rightarrow> Inr xs
      | Some (JStr s) \<Rightarrow> Inr (map (\<lambda>c. JStr [c]) s)
      | Some (JObj inner) \<Rightarrow> Inr (map (\<lambda>kv. JStr (fst kv)) inner)
      | Some other \<Rightarrow> Inl (PyExn ''TypeError'' []))"
| "results_of k other = Inl (PyExn ''AttributeError'' [])"

section \<open>The Atom feed\<close>

definition atom :: "string \<Rightarrow> string" where
  "atom name = ''{http://www.w3.org/2005/Atom}'' @ name"

definition findall :: "string \<Rightarrow> xml \<Rightarrow> xml list" where
  "findall tag e = filter (\<lambda>c. xml_tag c = tag) (xml_children e)"

text \<open>The text of the first child with the tag: empty when it has none.\<close>

definition findtext :: "string \<Rightarrow> xml \<Rightarrow> string option" where
  "findtext tag e = (case findall tag e of [] \<Rightarrow> None | c # cs \<Rightarrow> Some (or_empty (xml_text c)))"

definition arxiv_row :: "xml \<Rightarrow> json" where
  "arxiv_row entry =
     (let identifier = findtext (atom ''id'') entry
      in JObj [(''id'', opt_str identifier), (''url'', opt_str identifier),
           (''title'', JStr (strip (or_empty (findtext (atom ''title'') entry)))),
           (''summary'', JStr (strip (or_empty (findtext (atom ''summary'') entry)))),
           (''published'', opt_str (findtext (atom ''published'') entry)),
           (''authors'', JList (map (\<lambda>n. opt_str (findtext (atom ''name'') n)) (findall (atom ''author'') entry))),
           (''categories'', JList (map (\<lambda>n. opt_str (map_of (xml_attrib n) ''term'')) (findall (atom ''category'') entry)))])"

definition arxiv_rows :: "xml \<Rightarrow> json list" where
  "arxiv_rows feed = map arxiv_row (findall (atom ''entry'') feed)"

section \<open>The requests\<close>

definition github_fetch :: "web \<Rightarrow> string \<Rightarrow> int \<Rightarrow> exn + json list" where
  "github_fetch W q limit =
     bind_sum
       (get_json W ''https://api.github.com/search/repositories''
         [(''q'', JStr q), (''sort'', JStr ''updated''), (''per_page'', JNum (of_int (min limit 100)))]
         ((''Accept'', ''application/vnd.github+json'')
           # (if web_github_token W = [] then [] else [(''Authorization'', ''Bearer '' @ web_github_token W)])))
       (results_of ''items'')"

definition hackernews_fetch :: "web \<Rightarrow> string \<Rightarrow> int \<Rightarrow> exn + json list" where
  "hackernews_fetch W q limit =
     bind_sum
       (get_json W ''https://hn.algolia.com/api/v1/search_by_date''
         [(''query'', JStr q), (''tags'', JStr ''story''), (''hitsPerPage'', JNum (of_int (min limit 100)))] [])
       (results_of ''hits'')"

definition arxiv_fetch :: "web \<Rightarrow> string \<Rightarrow> int \<Rightarrow> exn + json list" where
  "arxiv_fetch W q limit =
     bind_sum
       (web_get_text W ''https://export.arxiv.org/api/query''
         [(''search_query'', JStr (''all:'' @ q)), (''start'', JNum 0), (''max_results'', JNum (of_int (min limit 100)))])
       (\<lambda>body. bind_sum (web_xml W body) (\<lambda>feed. Inr (arxiv_rows feed)))"

definition tavily_fetch :: "web \<Rightarrow> settings \<Rightarrow> string \<Rightarrow> int \<Rightarrow> exn + json list" where
  "tavily_fetch W S q limit =
     (if \<not> connector_enabled S ''tavily'' then Inr []
      else bind_sum
        (web_post W ''https://api.tavily.com/search''
          (JObj [(''api_key'', JStr (set_tavily_api_key S)), (''query'', JStr q), (''search_depth'', JStr ''advanced''),
             (''max_results'', JNum (of_int (min limit 20)))]))
        (results_of ''results''))"

definition web_fetch :: "web \<Rightarrow> settings \<Rightarrow> string \<Rightarrow> string \<Rightarrow> int \<Rightarrow> exn + json list" where
  "web_fetch W S key q limit =
     (if key = ''github'' then github_fetch W q limit else if key = ''hackernews'' then hackernews_fetch W q limit
      else if key = ''arxiv'' then arxiv_fetch W q limit else tavily_fetch W S q limit)"

text \<open>The environment whose connectors talk to this network.\<close>

definition online :: "web \<Rightarrow> env \<Rightarrow> env" where
  "online W E = E\<lparr>env_fetch := web_fetch W (env_settings E)\<rparr>"

section \<open>What the requests give\<close>

text \<open>\<open>get_json\<close> asks at most three times. It gives the first reply that is not a timeout or a network error, or
  the third reply; a bad status is not asked again.\<close>

lemma get_json_attempts:
  "\<exists>m \<le> 2. get_json W url ps hs = web_get W url ps hs m
     \<and> (\<forall>j < m. \<exists>e. web_get W url ps hs j = Inl e \<and> retried e)
     \<and> (m < 2 \<longrightarrow> (\<forall>e. web_get W url ps hs m = Inl e \<longrightarrow> \<not> retried e))"
  using with_retry_spec [of 2 "web_get W url ps hs" 0] by (auto simp: get_json_def numeral_3_eq_3 numeral_2_eq_2)

lemma online_simps [simp]:
  "env_now (online W E) = env_now E" "env_settings (online W E) = env_settings E" "observed (online W E) = observed E"
  "env_fetch (online W E) = web_fetch W (env_settings E)"
  by (auto simp: online_def observed_def fun_eq_iff split: option.split)

lemma normalize_offline: "connector_normalize key (online W E) = connector_normalize key E"
  unfolding connector_normalize_def fun_eq_iff
  by (simp only: github_normalize_def hackernews_normalize_def arxiv_normalize_def tavily_normalize_def online_simps
      split: if_splits) simp

text \<open>A harvest over the network: the request is made once more with the limit already cut, which does not change
  it, and a connector without its key makes none.\<close>

lemma harvest_online:
  assumes "key \<in> set connector_keys"
  shows "connector_harvest (online W E) key q limit =
    (if connector_enabled (env_settings E) key
     then bind_sum (web_fetch W (env_settings E) key q limit) (normalize_all (connector_normalize key E)) else Inr [])"
proof -
  have "web_fetch W S key q (connector_limit key limit) = web_fetch W S key q limit" for S
    using assms by (auto simp: connector_keys_def web_fetch_def connector_limit_def github_fetch_def hackernews_fetch_def
        arxiv_fetch_def tavily_fetch_def min.assoc)
  then show ?thesis
    by (simp add: connector_harvest_def normalize_offline bind_sum_def split: sum.split)
qed

lemma normalize_all_length: "normalize_all f rs = Inr ns \<Longrightarrow> length ns = length rs"
  by (induction rs arbitrary: ns) (auto split: sum.splits)

lemma normalize_all_nth:
  "normalize_all f rs = Inr ns \<Longrightarrow> i < length rs \<Longrightarrow> f (rs ! i) = Inr (ns ! i)"
  by (induction rs arbitrary: ns i) (auto split: sum.splits simp: nth_Cons' less_Suc_eq_0_disj)

lemma jget_row [simp]:
  "jget ''id'' (arxiv_row e) = Some (opt_str (findtext (atom ''id'') e))"
  "jget ''url'' (arxiv_row e) = Some (opt_str (findtext (atom ''id'') e))"
  "jget ''title'' (arxiv_row e) = Some (JStr (strip (or_empty (findtext (atom ''title'') e))))"
  "jget ''authors'' (arxiv_row e) =
     Some (JList (map (\<lambda>n. opt_str (findtext (atom ''name'') n)) (findall (atom ''author'') e)))"
  by (simp_all add: arxiv_row_def Let_def)

text \<open>One signal for each entry of the feed, in its order: its identifier is its URL, its title has no white space
  around it, and each author is an identity of it. An author without a name has the name \<open>None\<close>.\<close>

lemma arxiv_signals:
  assumes "normalize_all (arxiv_normalize E) (arxiv_rows feed) = Inr ns" and "i < length (findall (atom ''entry'') feed)"
  shows "length ns = length (findall (atom ''entry'') feed)
    \<and> (let e = findall (atom ''entry'') feed ! i
       in ns_external_id (ns ! i) = findtext (atom ''id'') e \<and> ns_url (ns ! i) = findtext (atom ''id'') e
        \<and> ns_title (ns ! i) = Some (strip (or_empty (findtext (atom ''title'') e)))
        \<and> map ih_value (ns_identities (ns ! i)) =
            map (\<lambda>n. case findtext (atom ''name'') n of None \<Rightarrow> ''None'' | Some s \<Rightarrow> s) (findall (atom ''author'') e))"
proof -
  let ?e = "findall (atom ''entry'') feed ! i"
  have "arxiv_normalize E (arxiv_row ?e) = Inr (ns ! i)"
    using normalize_all_nth [OF assms(1), of i] assms(2) by (simp add: arxiv_rows_def)
  moreover have "json_text (opt_str s) = s" for s by (cases s) (simp_all add: opt_str_def)
  moreover have "json_str (opt_str s) = (case s of None \<Rightarrow> ''None'' | Some t \<Rightarrow> t)" for s
    by (cases s) (simp_all add: opt_str_def)
  ultimately show ?thesis
    using normalize_all_length [OF assms(1)]
    by (auto simp: arxiv_normalize_def stamp_Inr text_at_def jget_or_def arxiv_rows_def)
qed

end
