(* ===== verification/Requests.thy ===== *)
theory Requests
  imports Accounts Search Gateway
begin

text \<open>
  The request bodies of \<open>app/schemas/auth.py\<close>, \<open>admin.py\<close>, \<open>org.py\<close>, \<open>search.py\<close> and \<open>memo.py\<close>: what a body has to
  satisfy before its handler runs, the values the handler gets (text without white space around it, as
  \<open>str_strip_whitespace\<close> asks), and the answer to a body that fails. The types of the fields are
  checked by pydantic and are the types of the records; the check of an e-mail address is a parameter.
\<close>

section \<open>What is wrong with a body\<close>

text \<open>Where, the kind of the error and its message.\<close>

type_synonym issue = "string list \<times> string \<times> string"
type_synonym 'a checked = "issue list + 'a"

definition accept :: "'a \<Rightarrow> 'a checked" where "accept = Inr"

text \<open>All fields are checked, and the issues of all are reported.\<close>

fun both :: "'a checked \<Rightarrow> 'b checked \<Rightarrow> ('a \<times> 'b) checked" where
  "both (Inl xs) (Inl ys) = Inl (xs @ ys)"
| "both (Inl xs) (Inr b) = Inl xs"
| "both (Inr a) (Inl ys) = Inl ys"
| "both (Inr a) (Inr b) = Inr (a, b)"

fun optional :: "('a \<Rightarrow> 'b checked) \<Rightarrow> 'a option \<Rightarrow> 'b option checked" where
  "optional f None = Inr None"
| "optional f (Some x) = (case f x of Inl is \<Rightarrow> Inl is | Inr y \<Rightarrow> Inr (Some y))"

definition characters :: "nat \<Rightarrow> string" where
  "characters n = str_nat n @ (if n = 1 then '' character'' else '' characters'')"

text \<open>\<open>Field(min_length=lo, max_length=hi)\<close>.\<close>

definition text_field :: "string \<Rightarrow> nat \<Rightarrow> nat \<Rightarrow> string \<Rightarrow> string checked" where
  "text_field name lo hi s =
     (let t = strip s
      in if length t < lo
         then Inl [([''body'', name], ''string_too_short'', ''String should have at least '' @ characters lo)]
         else if hi < length t
         then Inl [([''body'', name], ''string_too_long'', ''String should have at most '' @ characters hi)]
         else Inr t)"

definition int_field :: "string \<Rightarrow> int \<Rightarrow> int \<Rightarrow> int \<Rightarrow> int checked" where
  "int_field name lo hi n =
     (if n < lo then Inl [([''body'', name], ''greater_than_equal'', ''Input should be greater than or equal to '' @ int_str lo)]
      else if hi < n then Inl [([''body'', name], ''less_than_equal'', ''Input should be less than or equal to '' @ int_str hi)]
      else Inr n)"

definition quoted :: "string \<Rightarrow> string" where
  "quoted s = [CHR 0x27] @ s @ [CHR 0x27]"

definition one_of :: "string \<Rightarrow> string list \<Rightarrow> string \<Rightarrow> string checked" where
  "one_of name values s =
     (if strip s \<in> set values then Inr (strip s)
      else Inl [([''body'', name], ''string_pattern_mismatch'', ''String should match pattern '' @ quoted (''^('' @ join ''|'' values @ '')$''))])"

type_synonym email_check = "string \<Rightarrow> string + string" \<comment> \<open>what is wrong, or the normalised address\<close>

definition email_field :: "email_check \<Rightarrow> string \<Rightarrow> string checked" where
  "email_field parse s =
     (case parse (strip s) of
        Inl reason \<Rightarrow> Inl [([''body'', ''email''], ''value_error'', ''value is not a valid email address: '' @ reason)]
      | Inr m \<Rightarrow> Inr m)"

text \<open>\<open>handle_validation\<close>: one entry for each issue, named by its path below the body.\<close>

definition field_of :: "string list \<Rightarrow> string" where
  "field_of loc =
     (let path = join ''.'' (filter (\<lambda>p. p \<notin> {''body'', ''query''}) loc) in if path = [] then ''request'' else path)"

definition handle_validation :: "issue list \<Rightarrow> app_error" where
  "handle_validation issues =
     (AppError ''VALIDATION_ERROR'' ''The request is invalid.'' 400)
       \<lparr>err_fields := map (\<lambda>(loc, kind, msg). (field_of loc, kind, msg)) issues\<rparr>"

definition validated :: "'a checked \<Rightarrow> ('a \<Rightarrow> 'b run) \<Rightarrow> 'b run" where
  "validated r f = (case r of Inl issues \<Rightarrow> throw (App (handle_validation issues)) | Inr b \<Rightarrow> f b)"

section \<open>Accounts\<close>

text \<open>\<open>SignupRequest\<close>. \<open>password_not_email\<close> sees the address only when the address is valid.\<close>

definition password_not_email :: "string \<Rightarrow> string \<Rightarrow> string checked" where
  "password_not_email email pw =
     (let local = casefold (before (CHR ''@'') email)
      in if local \<noteq> [] \<and> 4 \<le> length local \<and> contains local (casefold pw)
         then Inl [([''body'', ''password''], ''value_error'', ''Value error, password must not contain the email local-part'')]
         else Inr pw)"

definition check_signup :: "email_check \<Rightarrow> SignupRequest \<Rightarrow> SignupRequest checked" where
  "check_signup parse b =
     (let email = email_field parse (su_email b);
          pw = bind_sum (text_field ''password'' 12 128 (su_password b))
                 (password_not_email (case email of Inl is \<Rightarrow> [] | Inr m \<Rightarrow> m))
      in bind_sum
           (both email (both pw (both (text_field ''full_name'' 2 200 (su_full_name b))
              (optional (text_field ''org_name'' 2 200) (su_org_name b)))))
           (\<lambda>(m, p, n, g). Inr \<lparr>su_email = m, su_password = p, su_full_name = n, su_org_name = g,
              su_invite_token = map_option strip (su_invite_token b)\<rparr>))"

text \<open>\<open>LoginRequest\<close>: the code is checked for its form; nothing reads it afterwards.\<close>

definition mfa_field :: "string \<Rightarrow> string checked" where
  "mfa_field s =
     (if length (strip s) = 6 \<and> list_all is_digit (strip s) then Inr (strip s)
      else Inl [([''body'', ''mfa_code''], ''string_pattern_mismatch'', ''String should match pattern '' @ quoted (''^'' @ [CHR 0x5C] @ ''d{6}$''))])"

definition check_login :: "email_check \<Rightarrow> string \<times> string \<times> string option \<Rightarrow> (string \<times> string) checked" where
  "check_login parse = (\<lambda>(email, pw, mfa).
     bind_sum (both (email_field parse email) (both (text_field ''password'' 1 128 pw) (optional mfa_field mfa)))
       (\<lambda>(m, p, _). Inr (m, p)))"

definition check_token :: "string \<Rightarrow> string checked" where
  "check_token = text_field ''token'' 16 256"

definition check_reset :: "string \<times> string \<Rightarrow> (string \<times> string) checked" where
  "check_reset = (\<lambda>(tok, pw). both (check_token tok) (text_field ''password'' 12 128 pw))"

text \<open>\<open>MeUpdateRequest\<close>, whose model validator runs when every field is right.\<close>

definition check_me_update ::
  "string option \<times> string option \<times> string option \<Rightarrow> (string option \<times> string option \<times> string option) checked" where
  "check_me_update = (\<lambda>(name, pw, current).
     bind_sum (both (optional (text_field ''full_name'' 2 200) name) (optional (text_field ''password'' 12 128) pw))
       (\<lambda>(n, p). if truthy p \<and> \<not> truthy (map_option strip current)
                 then Inl [([''body''], ''value_error'', ''Value error, current_password is required when changing password'')]
                 else Inr (n, p, map_option strip current)))"

text \<open>The requests as the client sends them.\<close>

definition signup_request ::
  "email_check \<Rightarrow> env \<Rightarrow> auth_env \<Rightarrow> SignupRequest \<Rightarrow> string option \<Rightarrow> string option \<Rightarrow> AuthResponse run" where
  "signup_request parse E A b agent ip = validated (check_signup parse b) (\<lambda>b. signup_endpoint E A b agent ip)"

definition login_request ::
  "email_check \<Rightarrow> env \<Rightarrow> auth_env \<Rightarrow> string \<times> string \<times> string option \<Rightarrow> string option \<Rightarrow> string option \<Rightarrow> AuthResponse run" where
  "login_request parse E A b agent ip = validated (check_login parse b) (\<lambda>(m, p). login_endpoint E A m p agent ip)"

definition reset_password_request :: "env \<Rightarrow> auth_env \<Rightarrow> string \<times> string \<Rightarrow> unit run" where
  "reset_password_request E A b = validated (check_reset b) (\<lambda>(tok, pw). reset_password_endpoint E A tok pw)"

definition update_me_request ::
  "env \<Rightarrow> auth_env \<Rightarrow> Principal \<Rightarrow> string option \<times> string option \<times> string option \<Rightarrow> User option run" where
  "update_me_request E A pr b = validated (check_me_update b) (\<lambda>(n, p, c). update_me_endpoint E A pr n p c)"

section \<open>The other bodies\<close>

datatype channels = Channel string | Channels "string list"

record HarvestRequest =
  hr_channels :: channels
  hr_limit :: int
  hr_query :: string

definition default_harvest :: HarvestRequest where
  "default_harvest = \<lparr>hr_channels = Channel ''auto'', hr_limit = 25, hr_query = ''AI startup''\<rparr>"

fun strip_channels :: "channels \<Rightarrow> channels" where
  "strip_channels (Channel s) = Channel (strip s)"
| "strip_channels (Channels ss) = Channels (map strip ss)"

definition check_harvest :: "HarvestRequest \<Rightarrow> HarvestRequest checked" where
  "check_harvest b =
     bind_sum (both (int_field ''limit'' 1 100 (hr_limit b)) (text_field ''query'' 2 200 (hr_query b)))
       (\<lambda>(n, q). Inr \<lparr>hr_channels = strip_channels (hr_channels b), hr_limit = n, hr_query = q\<rparr>)"

text \<open>\<open>body.model_dump()\<close>.\<close>

fun channels_json :: "channels \<Rightarrow> json" where
  "channels_json (Channel s) = JStr s"
| "channels_json (Channels ss) = JList (map JStr ss)"

definition harvest_dump :: "HarvestRequest \<Rightarrow> json" where
  "harvest_dump b =
     JObj [(''channels'', channels_json (hr_channels b)), (''limit'', JNum (of_int (hr_limit b))), (''query'', JStr (hr_query b))]"

definition harvest_endpoint :: "env \<Rightarrow> Principal \<Rightarrow> HarvestRequest \<Rightarrow> uuid run" where
  "harvest_endpoint E pr b =
     andThen (require ADMIN pr) (\<lambda>_. validated (check_harvest b) (\<lambda>b. harvest_request E pr (harvest_dump b)))"

definition check_reject :: "string \<Rightarrow> string checked" where
  "check_reject = text_field ''reason'' 3 1000"

definition check_org_update :: "string option \<Rightarrow> string option checked" where
  "check_org_update = optional (text_field ''name'' 2 200)"

definition check_invite :: "email_check \<Rightarrow> string \<times> UserRole \<Rightarrow> (string \<times> UserRole) checked" where
  "check_invite parse = (\<lambda>(email, role). bind_sum (email_field parse email) (\<lambda>m. Inr (m, role)))"

text \<open>\<open>OpportunitySearchRequest\<close>: of the four fields the handler reads the query and the limit.\<close>

definition check_search :: "string \<times> string \<times> int \<Rightarrow> (string \<times> int) checked" where
  "check_search = (\<lambda>(q, mode, limit).
     bind_sum (both (text_field ''q'' 2 1000 q)
                (both (one_of ''mode'' [''hybrid'', ''keyword'', ''semantic''] mode) (int_field ''limit'' 1 100 limit)))
       (\<lambda>(q, _, n). Inr (q, n)))"

definition check_kb_search :: "string \<times> int \<Rightarrow> (string \<times> int) checked" where
  "check_kb_search = (\<lambda>(q, k). both (text_field ''q'' 2 1000 q) (int_field ''k'' 1 50 k))"

definition check_export :: "string \<Rightarrow> string checked" where
  "check_export = one_of ''format'' [''pdf'', ''md'', ''docx'']"

definition search_request :: "env \<Rightarrow> Principal \<Rightarrow> string \<times> string \<times> int \<Rightarrow> (QueryPlan \<times> search_item list) run" where
  "search_request E pr b =
     andThen (require READ pr) (\<lambda>_. validated (check_search b) (\<lambda>(q, n). opportunity_search E pr q (nat n)))"

section \<open>What a checked body is\<close>

lemma both_Inr: "both r s = Inr (a, b) \<longleftrightarrow> r = Inr a \<and> s = Inr b"
  by (cases r; cases s) auto

lemma optional_Inr:
  "optional f x = Inr y \<longleftrightarrow> (case x of None \<Rightarrow> y = None | Some v \<Rightarrow> (\<exists>w. f v = Inr w \<and> y = Some w))"
  by (cases x) (auto split: sum.splits)

lemma bind_sum_Inr: "bind_sum r f = Inr y \<longleftrightarrow> (\<exists>x. r = Inr x \<and> f x = Inr y)"
  by (cases r) (auto simp: bind_sum_def)

lemma text_field_Inr: "text_field name lo hi s = Inr t \<longleftrightarrow> t = strip s \<and> lo \<le> length t \<and> length t \<le> hi"
  by (auto simp: text_field_def Let_def)

lemma int_field_Inr: "int_field name lo hi n = Inr m \<longleftrightarrow> m = n \<and> lo \<le> n \<and> n \<le> hi"
  by (auto simp: int_field_def)

lemma email_field_Inr: "email_field parse s = Inr m \<longleftrightarrow> parse (strip s) = Inr m"
  by (auto simp: email_field_def split: sum.splits)

lemma mfa_field_Inr: "mfa_field s = Inr t \<longleftrightarrow> t = strip s \<and> length t = 6 \<and> list_all is_digit t"
  by (auto simp: mfa_field_def)

lemmas checked_simps = both_Inr optional_Inr bind_sum_Inr text_field_Inr int_field_Inr email_field_Inr mfa_field_Inr

lemma strip_by_idem: "strip_by P (strip_by P s) = strip_by P s"
proof -
  let ?t = "dropWhile P s" and ?u = "rev (dropWhile P (rev (dropWhile P s)))"
  have t: "?t = ?u @ rev (takeWhile P (rev ?t))"
    by (metis rev_append rev_rev_ident takeWhile_dropWhile_id)
  have "dropWhile P ?u = ?u"
  proof (cases ?u)
    case (Cons c cs)
    then have "?t = c # cs @ rev (takeWhile P (rev ?t))" using t by (metis append_Cons)
    then have "\<not> P c" by (metis dropWhile_eq_Cons_conv)
    then show ?thesis by (simp add: Cons)
  qed (simp only: dropWhile.simps)
  then show ?thesis by (simp only: strip_by_def rev_rev_ident dropWhile_idem)
qed

lemma strip_idem [simp]: "strip (strip s) = strip s"
  by (simp add: strip_def strip_by_idem)

text \<open>A body that fails is answered with 400 and an entry for each issue, each naming a field, and changes
  nothing.\<close>

lemma refused_body:
  assumes "r = Inl issues"
  shows "validated r f s = (Inl (App (handle_validation issues)), s)
    \<and> err_status (handle_validation issues) = 400
    \<and> length (err_fields (handle_validation issues)) = length issues
    \<and> (\<forall>e \<in> set (err_fields (handle_validation issues)). fst e \<noteq> [])"
  using assms
  by (auto simp: validated_def throw_def handle_validation_def AppError_def field_of_def Let_def split: if_split_asm)

text \<open>The issues of two parts are reported together.\<close>

lemma both_issues:
  "both r s = Inl issues \<longleftrightarrow>
    (\<exists>xs ys. issues = xs @ ys \<and> (r = Inl xs \<or> (\<exists>a. r = Inr a) \<and> xs = []) \<and> (s = Inl ys \<or> (\<exists>b. s = Inr b) \<and> ys = [])
      \<and> \<not> ((\<exists>a. r = Inr a) \<and> (\<exists>b. s = Inr b)))"
  by (cases r; cases s) auto

lemma local_part_before: "local_part m = casefold (before (CHR ''@'') m)"
  by (simp add: local_part_def before_def)

lemma before_casefold: "before (CHR ''@'') (casefold m) = casefold (before (CHR ''@'') m)"
proof -
  have "lower_char c = CHR ''@'' \<longleftrightarrow> c = CHR ''@''" for c
  proof
    assume eq: "lower_char c = CHR ''@''"
    show "c = CHR ''@''"
    proof (cases "CHR ''A'' \<le> c \<and> c \<le> CHR ''Z''")
      case True
      then have c: "65 \<le> (of_char c :: nat)" "(of_char c :: nat) \<le> 90" by (simp_all add: less_eq_char_def)
      have "(of_char (lower_char c) :: nat) = of_char c + 32"
        using True c by (simp add: lower_char_def)
      then show ?thesis using eq c by simp
    qed (use eq in \<open>auto simp: lower_char_def\<close>)
  qed (simp add: lower_char_def less_eq_char_def)
  then show ?thesis by (induction m) (simp_all add: before_def casefold_def)
qed

lemma password_not_email_Inr:
  "password_not_email m pw = Inr q \<longleftrightarrow> q = pw \<and> \<not> (4 \<le> length (local_part m) \<and> contains (local_part m) (casefold pw))"
  by (cases "local_part m") (auto simp: password_not_email_def local_part_before Let_def)

lemma check_signup_Inr:
  "check_signup parse b = Inr b' \<longleftrightarrow>
    (\<exists>m n g. email_field parse (su_email b) = Inr m \<and> text_field ''password'' 12 128 (su_password b) = Inr (su_password b')
       \<and> password_not_email m (su_password b') = Inr (su_password b') \<and> text_field ''full_name'' 2 200 (su_full_name b) = Inr n
       \<and> optional (text_field ''org_name'' 2 200) (su_org_name b) = Inr g
       \<and> b' = \<lparr>su_email = m, su_password = su_password b', su_full_name = n, su_org_name = g,
                su_invite_token = map_option strip (su_invite_token b)\<rparr>)"
  by (cases "email_field parse (su_email b)")
    (auto simp: check_signup_def Let_def both_Inr bind_sum_Inr password_not_email_Inr)

text \<open>The schema and the service agree on a password: of the three rules of \<open>validate_password\<close> the schema has
  two, and only a common password can still be refused.\<close>

lemma signup_schema_agrees:
  assumes "check_signup parse b = Inr b'"
  shows "validate_password (su_password b') (casefold (su_email b')) =
    (if casefold (su_password b') \<in> set COMMON_PASSWORDS
     then Inl (ValidationError ''Choose a less common password.'') else Inr ())"
proof -
  obtain m where "su_email b' = m" "12 \<le> length (su_password b')"
    "\<not> (4 \<le> length (local_part m) \<and> contains (local_part m) (casefold (su_password b')))"
    using assms unfolding check_signup_Inr text_field_Inr password_not_email_Inr by (metis SignupRequest.select_convs(1))
  moreover have "local_part (casefold m) = local_part m" for m
    by (simp add: local_part_before before_casefold)
  ultimately show ?thesis by (auto simp: validate_password_def)
qed

text \<open>Checking a body once more changes nothing, when the e-mail check accepts what it normalised.\<close>

lemma text_field_again: "text_field name lo hi s = Inr t \<Longrightarrow> text_field name lo hi t = Inr t"
  by (auto simp: text_field_Inr)

lemma optional_again: "optional (text_field name lo hi) x = Inr y \<Longrightarrow> optional (text_field name lo hi) y = Inr y"
  by (auto simp: optional_Inr intro: text_field_again split: option.splits)

lemma check_signup_normal:
  assumes "check_signup parse b = Inr b'" and "\<And>s m. parse s = Inr m \<Longrightarrow> parse (strip m) = Inr m"
  shows "check_signup parse b' = Inr b'"
proof -
  obtain m n g where f: "email_field parse (su_email b) = Inr m" "text_field ''password'' 12 128 (su_password b) = Inr (su_password b')"
    "password_not_email m (su_password b') = Inr (su_password b')" "text_field ''full_name'' 2 200 (su_full_name b) = Inr n"
    "optional (text_field ''org_name'' 2 200) (su_org_name b) = Inr g"
    and b': "b' = \<lparr>su_email = m, su_password = su_password b', su_full_name = n, su_org_name = g,
                su_invite_token = map_option strip (su_invite_token b)\<rparr>"
    using assms(1) unfolding check_signup_Inr by blast
  have "map_option strip (map_option strip t) = map_option strip t" for t by (cases t) simp_all
  then have "su_email b' = m" "su_full_name b' = n" "su_org_name b' = g"
    "map_option strip (su_invite_token b') = map_option strip (su_invite_token b)"
    by (subst b', simp)+
  moreover have "email_field parse m = Inr m" using f(1) assms(2) by (simp add: email_field_Inr)
  ultimately show ?thesis
    using f(3) b' unfolding check_signup_Inr
    by (intro exI conjI) (simp_all add: text_field_again [OF f(2)] text_field_again [OF f(4)] optional_again [OF f(5)])
qed

text \<open>A change of the password needs the current one, which is then verified.\<close>

lemma me_update_needs_current:
  assumes "check_me_update b = Inr (n, p, c)" "truthy p"
  shows "truthy c \<and> 12 \<le> length (the p) \<and> length (the p) \<le> 128"
  using assms
  by (auto simp: check_me_update_def checked_simps truthy_def split: prod.splits option.splits if_splits)

text \<open>What the worker reads of a harvest job is what the client asked for: between 1 and 100 records of a query
  that is not empty, from known connectors only.\<close>

lemma harvest_read_back:
  assumes "check_harvest b = Inr b'"
  shows "min 100 (input_int ''limit'' 25 (harvest_dump b')) = hr_limit b'
    \<and> 1 \<le> hr_limit b' \<and> hr_limit b' \<le> 100
    \<and> map_option json_str (jget_truthy ''query'' (harvest_dump b')) = Some (hr_query b')
    \<and> (\<exists>ks. requested_keys (jget_or (JStr ''auto'') ''channels'' (harvest_dump b')) = Inr ks \<and> set ks \<subseteq> set connector_keys)"
proof -
  have b': "1 \<le> hr_limit b'" "hr_limit b' \<le> 100" "hr_query b' \<noteq> []"
    using assms by (auto simp: check_harvest_def checked_simps)
  then show ?thesis
    by (cases "hr_channels b'") (auto simp: harvest_dump_def jget_or_def jget_truthy_def input_int_def trunc_def)
qed

lemma search_bounds:
  "check_search b = Inr (q, n) \<Longrightarrow> 1 \<le> n \<and> n \<le> 100 \<and> 2 \<le> length q \<and> strip q = q"
  by (auto simp: check_search_def checked_simps split: prod.splits)

end
